(* ===== verification/Prelude.thy ===== *)
theory Prelude
  imports Main "HOL-Library.Word" "HOL-Library.Signed_Division" "HOL-Library.Monad_Syntax"
    "HOL-Library.Sublist"
begin

text \<open>
  Shared ground of the development: Go errors and the wrap chain that \<open>errors.Is\<close>
  follows, the world that stateful code threads through its calls, the machine integers,
  the collections of simplification rules, and generic list lemmas.

  Stateful Go code is a function of a world that returns \<open>Some (result, world')\<close>, or
  \<open>None\<close> when the code panics (nil dereference, index out of range, failed type
  assertion). A Go \<open>error\<close> is an ordinary value.
\<close>

section \<open>Collections\<close>

named_theorems world_simps \<open>effects of the primitive calls on the event log\<close>
named_theorems go_defs \<open>small definitions of the Go standard library layer\<close>

section \<open>Go errors\<close>

text \<open>
  The two sentinels of \<open>pkg/util/errors.go\<close>; the errors of the Kubernetes client, of
  which the code distinguishes NotFound only; a fresh \<open>fmt.Errorf\<close> whose arguments are
  formatted with \<open>%v\<close> or \<open>%s\<close> (the cause is lost); \<open>fmt.Errorf\<close> with \<open>%w\<close>
  (the cause is kept); \<open>errors.Join\<close>; an error of the operating system or of a remote service.
\<close>

datatype go_error =
    ErrClusterNotReady
  | ErrGenerateSourceInterface
  | ErrNotFound string
  | ErrNotExist string
  | ErrExternal string
  | Errorf string
  | Wrapf string go_error
  | Joined "go_error list"

fun Error :: "go_error \<Rightarrow> string" where
  "Error ErrClusterNotReady = ''source cluster not ready yet''"
| "Error ErrGenerateSourceInterface = ''failed to generate source interface''"
| "Error (ErrNotFound s) = s"
| "Error (ErrNotExist s) = s"
| "Error (ErrExternal s) = s"
| "Error (Errorf s) = s"
| "Error (Wrapf s e) = s @ Error e"
| "Error (Joined []) = []"
| "Error (Joined [e]) = Error e"
| "Error (Joined (e # es)) = Error e @ [CHR 0x0A] @ Error (Joined es)"

text \<open>\<open>errors.Is\<close> for a sentinel: the error itself, its wrapped cause, or a joined one.\<close>

fun errors_Is :: "go_error \<Rightarrow> go_error \<Rightarrow> bool" where
  "errors_Is (Wrapf s e) t \<longleftrightarrow> Wrapf s e = t \<or> errors_Is e t"
| "errors_Is (Joined es) t \<longleftrightarrow> Joined es = t \<or> (\<exists>e \<in> set es. errors_Is e t)"
| "errors_Is e t \<longleftrightarrow> e = t"

text \<open>\<open>errors.Is\<close> on a possibly nil error.\<close>

definition errors_Is_opt :: "go_error option \<Rightarrow> go_error \<Rightarrow> bool" where
  "errors_Is_opt e t \<longleftrightarrow> (case e of None \<Rightarrow> False | Some e' \<Rightarrow> errors_Is e' t)"

lemma errors_Is_opt_simps [simp]:
  "errors_Is_opt None t = False"
  "errors_Is_opt (Some e) t = errors_Is e t"
  by (simp_all add: errors_Is_opt_def)

text \<open>\<open>apierrors.IsNotFound\<close> unwraps as \<open>errors.As\<close> does.\<close>

fun apierrors_IsNotFound :: "go_error \<Rightarrow> bool" where
  "apierrors_IsNotFound (ErrNotFound s) = True"
| "apierrors_IsNotFound (Wrapf s e) = apierrors_IsNotFound e"
| "apierrors_IsNotFound (Joined es) = (\<exists>e \<in> set es. apierrors_IsNotFound e)"
| "apierrors_IsNotFound e = False"

text \<open>\<open>os.IsNotExist\<close> looks at the error itself only; it does not unwrap.\<close>

fun os_IsNotExist :: "go_error \<Rightarrow> bool" where
  "os_IsNotExist (ErrNotExist s) = True"
| "os_IsNotExist e = False"

section \<open>The world\<close>

text \<open>
  \<open>ext\<close> is the state of everything outside the program (API server, source cluster, file
  system, clock): its type is a parameter of the model and the calls into it are arguments
  of the definitions. \<open>log\<close> records, oldest first, the calls that change that state.
\<close>

record ('x, 'ev) world =
  ext :: 'x
  log :: "'ev list"

text \<open>A call that only reads; a call that is recorded with its result; one without a result.\<close>

definition query :: "('x \<Rightarrow> 'a \<times> 'x) \<Rightarrow> ('x, 'ev) world \<Rightarrow> 'a \<times> ('x, 'ev) world" where
  "query f w = (let (r, x) = f (ext w) in (r, w\<lparr>ext := x\<rparr>))"

definition effect ::
  "('a \<Rightarrow> 'ev) \<Rightarrow> ('x \<Rightarrow> 'a \<times> 'x) \<Rightarrow> ('x, 'ev) world \<Rightarrow> 'a \<times> ('x, 'ev) world" where
  "effect ev f w = (let (r, x) = f (ext w) in (r, w\<lparr>ext := x, log := log w @ [ev r]\<rparr>))"

definition notify :: "'ev \<Rightarrow> ('x \<Rightarrow> 'x) \<Rightarrow> ('x, 'ev) world \<Rightarrow> ('x, 'ev) world" where
  "notify ev f w = w\<lparr>ext := f (ext w), log := log w @ [ev]\<rparr>"

lemma query_log [world_simps]: "query f w = (r, w') \<Longrightarrow> log w' = log w"
  by (auto simp: query_def split: prod.splits)

lemma effect_log [world_simps]: "effect ev f w = (r, w') \<Longrightarrow> log w' = log w @ [ev r]"
  by (auto simp: effect_def split: prod.splits)

lemma notify_log [simp, world_simps]: "log (notify ev f w) = log w @ [ev]"
  by (simp add: notify_def)

lemma snd_query_log [simp]: "log (snd (query f w)) = log w"
  by (auto simp: query_def split: prod.splits)

lemma snd_effect_log [simp]: "log (snd (effect ev f w)) = log w @ [ev (fst (effect ev f w))]"
  by (auto simp: effect_def split: prod.splits)

text \<open>
  \<open>emits P w m\<close>: if the computation \<open>m\<close>, started in \<open>w\<close>, does not panic, it only
  appends events satisfying \<open>P\<close> to the log. The rules below let a proof follow the
  structure of the code.
\<close>

definition emits :: "('ev \<Rightarrow> bool) \<Rightarrow> ('x, 'ev) world \<Rightarrow> ('a \<times> ('x, 'ev) world) option \<Rightarrow> bool"
  where
  "emits P w m \<longleftrightarrow> (\<forall>r w'. m = Some (r, w') \<longrightarrow> (\<exists>es. log w' = log w @ es \<and> list_all P es))"

lemma emits_None [simp]: "emits P w None"
  by (simp add: emits_def)

lemma emits_Some: "log w' = log w \<Longrightarrow> emits P w (Some (r, w'))"
  by (simp add: emits_def)

lemma emits_Some_append: "log w' = log w @ es \<Longrightarrow> list_all P es \<Longrightarrow> emits P w (Some (r, w'))"
  by (simp add: emits_def)

lemma emits_log_cong: "emits P w m \<Longrightarrow> log w = log v \<Longrightarrow> emits P v m"
  by (simp add: emits_def)

lemma emits_mono: "emits P w m \<Longrightarrow> (\<And>e. P e \<Longrightarrow> Q e) \<Longrightarrow> emits Q w m"
  by (fastforce simp: emits_def list_all_iff)

lemma emits_bind:
  assumes "emits P w m"
    and "\<And>r w'. m = Some (r, w') \<Longrightarrow> emits P w' (f (r, w'))"
  shows "emits P w (Option.bind m f)"
proof (unfold emits_def, intro allI impI)
  fix r w'
  assume "Option.bind m f = Some (r, w')"
  then obtain a v where m: "m = Some (a, v)" and f: "f (a, v) = Some (r, w')"
    by (cases m) auto
  obtain es1 where "log v = log w @ es1" "list_all P es1"
    using assms(1) m by (auto simp: emits_def)
  moreover obtain es2 where "log w' = log v @ es2" "list_all P es2"
    using assms(2) [OF m] f by (auto simp: emits_def)
  ultimately show "\<exists>es. log w' = log w @ es \<and> list_all P es"
    by auto
qed

lemma emits_query:
  "(\<And>r w'. query g w = (r, w') \<Longrightarrow> emits P w' (f r w')) \<Longrightarrow>
   emits P w (case query g w of (r, w') \<Rightarrow> f r w')"
  by (cases "query g w") (auto dest: query_log intro: emits_log_cong)

lemma emits_step:
  assumes "log v = log w @ [ev]" "P ev" "emits P v m"
  shows "emits P w m"
  using assms unfolding emits_def by fastforce

lemma emits_effect:
  "(\<And>r. P (ev r)) \<Longrightarrow> (\<And>r w'. effect ev g w = (r, w') \<Longrightarrow> emits P w' (f r w')) \<Longrightarrow>
   emits P w (case effect ev g w of (r, w') \<Rightarrow> f r w')"
  by (cases "effect ev g w") (auto dest: effect_log intro: emits_step)

text \<open>A call followed by a case analysis on its result, on its error, or on both.\<close>

lemma emits_bind_sum:
  assumes "emits P w m"
    and "\<And>e v. m = Some (Inl e, v) \<Longrightarrow> emits P v (f e v)"
    and "\<And>a v. m = Some (Inr a, v) \<Longrightarrow> emits P v (g a v)"
  shows "emits P w (Option.bind m (\<lambda>(r, w). case r of Inl e \<Rightarrow> f e w | Inr a \<Rightarrow> g a w))"
  by (rule emits_bind [OF assms(1)]) (auto intro: assms(2,3) split: sum.splits)

lemma emits_bind_err:
  assumes "emits P w m"
    and "\<And>e v. m = Some (Some e, v) \<Longrightarrow> emits P v (f e v)"
    and "\<And>v. m = Some (None, v) \<Longrightarrow> emits P v (g v)"
  shows "emits P w (Option.bind m (\<lambda>(r, w). case r of Some e \<Rightarrow> f e w | None \<Rightarrow> g w))"
  by (rule emits_bind [OF assms(1)]) (auto intro: assms(2,3) split: option.splits)

lemma emits_bind_err_state:
  assumes "emits P w m"
    and "\<And>e vm v. m = Some ((Some e, vm), v) \<Longrightarrow> emits P v (f e vm v)"
    and "\<And>vm v. m = Some ((None, vm), v) \<Longrightarrow> emits P v (g vm v)"
  shows "emits P w (Option.bind m (\<lambda>((r, vm), w). case r of Some e \<Rightarrow> f e vm w | None \<Rightarrow> g vm w))"
  by (rule emits_bind [OF assms(1)]) (auto intro: assms(2,3) split: option.splits)

lemma emits_bind_state:
  assumes "emits P w m" and "\<And>r vm v. m = Some ((r, vm), v) \<Longrightarrow> emits P v (f r vm v)"
  shows "emits P w (Option.bind m (\<lambda>((r, vm), w). f r vm w))"
  by (rule emits_bind [OF assms(1)]) (auto intro: assms(2))

text \<open>The same for functions that cannot panic.\<close>

definition emits_fst :: "('ev \<Rightarrow> bool) \<Rightarrow> ('x, 'ev) world \<Rightarrow> 'a \<times> ('x, 'ev) world \<Rightarrow> bool" where
  "emits_fst P w r \<longleftrightarrow> (\<exists>es. log (snd r) = log w @ es \<and> list_all P es)"

lemma emits_fst_same: "log w' = log w \<Longrightarrow> emits_fst P w (r, w')"
  by (simp add: emits_fst_def)

lemma emits_fst_step:
  "log v = log w @ [ev] \<Longrightarrow> P ev \<Longrightarrow> emits_fst P v r \<Longrightarrow> emits_fst P w r"
  unfolding emits_fst_def by fastforce

lemma emits_fst_cong: "emits_fst P v r \<Longrightarrow> log v = log w \<Longrightarrow> emits_fst P w r"
  by (simp add: emits_fst_def)

lemma emits_fst_Some: "emits_fst P w r \<Longrightarrow> emits P w (Some r)"
  by (auto simp: emits_fst_def emits_def)

lemma emits_after:
  assumes "emits_fst P w (r, v)" "emits P v m"
  shows "emits P w m"
  using assms unfolding emits_def emits_fst_def by fastforce

lemma emits_fst_trans:
  "emits_fst P w (x, v) \<Longrightarrow> emits_fst P v r \<Longrightarrow> emits_fst P w r"
  unfolding emits_fst_def by fastforce

lemma emits_fst_eq: "emits_fst P w (x, v) \<longleftrightarrow> emits_fst P w (y, v)"
  by (simp add: emits_fst_def)

lemma emitsD:
  "emits P w m \<Longrightarrow> m = Some (r, w') \<Longrightarrow> \<exists>es. log w' = log w @ es \<and> list_all P es"
  by (simp add: emits_def)

section \<open>Machine integers\<close>

type_synonym int64 = "64 word"
type_synonym int32 = "32 word"
type_synonym uint32 = "32 word"

text \<open>Go's signed division truncates towards zero.\<close>

definition int64_div :: "int64 \<Rightarrow> int64 \<Rightarrow> int64" where
  "int64_div a b = word_of_int (sint a sdiv sint b)"

lemma sint64_of_int: "- (2 ^ 63) \<le> i \<Longrightarrow> i < 2 ^ 63 \<Longrightarrow> sint (word_of_int i :: int64) = i"
  by (simp add: sint_sbintrunc' signed_take_bit_int_eq_self)

lemma sint32_of_int: "- (2 ^ 31) \<le> i \<Longrightarrow> i < 2 ^ 31 \<Longrightarrow> sint (word_of_int i :: int32) = i"
  by (simp add: sint_sbintrunc' signed_take_bit_int_eq_self)

lemma sint64_range: "- (2 ^ 63) \<le> sint (w :: int64)" "sint (w :: int64) < 2 ^ 63"
  using sint_greater_eq [of w] sint_lt [of w] by simp_all

section \<open>Lists\<close>

lemma list_all2_map_update:
  "i < length xs \<Longrightarrow> f (xs ! i) = f y \<Longrightarrow> map f (xs[i := y]) = map f xs"
  by (metis list_update_id map_update)

lemma filter_eq_Nil_iff: "filter P xs = [] \<longleftrightarrow> (\<forall>x \<in> set xs. \<not> P x)"
  by (simp add: filter_empty_conv)

lemma distinct_map_filterI: "distinct (map f xs) \<Longrightarrow> distinct (map f (filter P xs))"
  by (induction xs) auto

text \<open>Writing back at the index of the element at hand.\<close>

lemma write_back:
  assumes "drop i xs = d # ds"
  shows "i < length xs" "xs ! i = d" "drop (Suc i) xs = ds" "drop (Suc i) (xs[i := d']) = ds"
    "take (Suc i) (xs[i := d']) = take i xs @ [d']" "take (Suc i) xs = take i xs @ [d]"
proof -
  show i: "i < length xs"
    using assms by (metis drop_all list.distinct(1) not_less)
  show d: "xs ! i = d"
    using assms i by (metis hd_drop_conv_nth list.sel(1))
  show ds: "drop (Suc i) xs = ds"
    using assms by (metis drop_Suc list.sel(3) tl_drop)
  show "drop (Suc i) (xs[i := d']) = ds"
    using ds by simp
  show "take (Suc i) (xs[i := d']) = take i xs @ [d']"
    using i by (simp add: take_Suc_conv_app_nth)
  show "take (Suc i) xs = take i xs @ [d]"
    using i d by (simp add: take_Suc_conv_app_nth)
qed

end
