(* ===== verification/GoStd.thy ===== *)
theory GoStd
  imports Prelude
begin

text \<open>
  The part of Go's standard library the program computes with: \<open>strings\<close>, \<open>strconv\<close>,
  \<open>path/filepath\<close> and the \<open>%d\<close> and \<open>%q\<close> verbs of \<open>fmt\<close>. A Go string is its
  list of bytes; case mapping and white space are those of ASCII.
\<close>

section \<open>Characters\<close>

definition char_code :: "char \<Rightarrow> nat" where
  "char_code c = of_char c"

definition is_digit :: "char \<Rightarrow> bool" where
  "is_digit c \<longleftrightarrow> 48 \<le> char_code c \<and> char_code c \<le> 57"

definition digit_val :: "char \<Rightarrow> nat" where
  "digit_val c = char_code c - 48"

definition digit_char :: "nat \<Rightarrow> char" where
  "digit_char d = char_of (48 + d)"

definition lower_char :: "char \<Rightarrow> char" where
  "lower_char c = (let n = char_code c in if 65 \<le> n \<and> n \<le> 90 then char_of (n + 32) else c)"

definition is_space :: "char \<Rightarrow> bool" where
  "is_space c \<longleftrightarrow> (let n = char_code c in n = 32 \<or> (9 \<le> n \<and> n \<le> 13))"

lemma char_code_of [simp]: "n < 256 \<Longrightarrow> char_code (char_of n) = n"
  by (simp add: char_code_def)

lemma char_code_less: "char_code c < 256"
  by (simp add: char_code_def)

lemma char_of_code [simp]: "char_of (char_code c) = c"
  by (simp add: char_code_def)

lemma char_code_inject: "char_code c = char_code d \<longleftrightarrow> c = d"
  by (simp add: char_code_def)

lemma is_digit_char [simp]: "d < 10 \<Longrightarrow> is_digit (digit_char d)"
  by (simp add: is_digit_def digit_char_def)

lemma digit_val_char [simp]: "d < 10 \<Longrightarrow> digit_val (digit_char d) = d"
  by (simp add: digit_val_def digit_char_def)

lemma lower_lower_char [simp]: "lower_char (lower_char c) = lower_char c"
  by (auto simp: lower_char_def Let_def)

section \<open>strings\<close>

definition strings_ToLower :: "string \<Rightarrow> string" where
  "strings_ToLower s = map lower_char s"

definition strings_EqualFold :: "string \<Rightarrow> string \<Rightarrow> bool" where
  "strings_EqualFold s t \<longleftrightarrow> strings_ToLower s = strings_ToLower t"

definition strings_HasPrefix :: "string \<Rightarrow> string \<Rightarrow> bool" where
  "strings_HasPrefix s p \<longleftrightarrow> take (length p) s = p"

definition strings_HasSuffix :: "string \<Rightarrow> string \<Rightarrow> bool" where
  "strings_HasSuffix s p \<longleftrightarrow> length p \<le> length s \<and> drop (length s - length p) s = p"

definition strings_TrimSuffix :: "string \<Rightarrow> string \<Rightarrow> string" where
  "strings_TrimSuffix s p = (if strings_HasSuffix s p then take (length s - length p) s else s)"

fun strings_Contains :: "string \<Rightarrow> string \<Rightarrow> bool" where
  "strings_Contains [] sub = (sub = [])"
| "strings_Contains (c # cs) sub = (strings_HasPrefix (c # cs) sub \<or> strings_Contains cs sub)"

text \<open>\<open>strings.Split\<close> by a one-byte separator; the result is never empty.\<close>

fun strings_Split :: "string \<Rightarrow> char \<Rightarrow> string list" where
  "strings_Split [] sep = [[]]"
| "strings_Split (c # cs) sep =
     (if c = sep then [] # strings_Split cs sep
      else (case strings_Split cs sep of [] \<Rightarrow> [[c]] | x # xs \<Rightarrow> (c # x) # xs))"

fun strings_Join :: "string list \<Rightarrow> string \<Rightarrow> string" where
  "strings_Join [] sep = []"
| "strings_Join [x] sep = x"
| "strings_Join (x # y # xs) sep = x @ sep @ strings_Join (y # xs) sep"

text \<open>\<open>strings.Fields\<close>: the maximal runs of bytes that are not white space.\<close>

fun fields_from :: "string \<Rightarrow> string \<Rightarrow> string list" where
  "fields_from cur [] = (if cur = [] then [] else [cur])"
| "fields_from cur (c # cs) =
     (if is_space c then (if cur = [] then fields_from [] cs else cur # fields_from [] cs)
      else fields_from (cur @ [c]) cs)"

definition strings_Fields :: "string \<Rightarrow> string list" where
  "strings_Fields s = fields_from [] s"

definition strings_TrimSpace :: "string \<Rightarrow> string" where
  "strings_TrimSpace s = rev (dropWhile is_space (rev (dropWhile is_space s)))"

text \<open>What follows the last separator, the whole string when there is none: the value of
  \<open>s[strings.LastIndex(s, sep)+1:]\<close>.\<close>

definition after_last :: "char \<Rightarrow> string \<Rightarrow> string" where
  "after_last sep s = rev (takeWhile (\<lambda>c. c \<noteq> sep) (rev s))"

lemma length_ToLower [simp]: "length (strings_ToLower s) = length s"
  by (simp add: strings_ToLower_def)

lemma ToLower_idem [simp]: "strings_ToLower (strings_ToLower s) = strings_ToLower s"
  by (simp add: strings_ToLower_def comp_def)

lemma ToLower_append [simp]: "strings_ToLower (s @ t) = strings_ToLower s @ strings_ToLower t"
  by (simp add: strings_ToLower_def)

lemma EqualFold_refl [simp]: "strings_EqualFold s s"
  by (simp add: strings_EqualFold_def)

lemma HasPrefix_iff: "strings_HasPrefix s p \<longleftrightarrow> (\<exists>t. s = p @ t)"
  by (auto simp: strings_HasPrefix_def) (metis append_take_drop_id)

lemma HasPrefix_append [simp]: "strings_HasPrefix (p @ t) p"
  by (auto simp: HasPrefix_iff)

lemma HasSuffix_iff: "strings_HasSuffix s p \<longleftrightarrow> (\<exists>t. s = t @ p)"
  by (auto simp: strings_HasSuffix_def) (metis append_take_drop_id)

lemma HasSuffix_append [simp]: "strings_HasSuffix (t @ p) p"
  by (auto simp: HasSuffix_iff)

lemma TrimSuffix_append [simp]: "strings_TrimSuffix (t @ p) p = t"
  by (simp add: strings_TrimSuffix_def)

lemma Contains_iff: "strings_Contains s sub \<longleftrightarrow> (\<exists>u v. s = u @ sub @ v)"
proof (induction s)
  case Nil
  then show ?case by simp
next
  case (Cons c cs)
  show ?case
  proof
    assume "strings_Contains (c # cs) sub"
    then consider v where "c # cs = sub @ v" | u v where "cs = u @ sub @ v"
      using Cons.IH by (auto simp: HasPrefix_iff)
    then show "\<exists>u v. c # cs = u @ sub @ v"
    proof cases
      case 1
      then show ?thesis by (metis append_Nil)
    next
      case (2 u v)
      then show ?thesis by (metis append_Cons)
    qed
  next
    assume "\<exists>u v. c # cs = u @ sub @ v"
    then obtain u v where uv: "c # cs = u @ sub @ v" by blast
    show "strings_Contains (c # cs) sub"
    proof (cases u)
      case Nil
      with uv have "strings_HasPrefix (c # cs) sub" by simp
      then show ?thesis by simp
    next
      case (Cons a u')
      with uv have "cs = u' @ sub @ v" by simp
      with Cons.IH show ?thesis by auto
    qed
  qed
qed

lemma Split_not_Nil [simp]: "strings_Split s sep \<noteq> []"
  by (cases s) (auto split: list.splits)

lemma Split_no_sep: "sep \<notin> set s \<Longrightarrow> strings_Split s sep = [s]"
  by (induction s) auto

lemma Split_append_sep:
  "sep \<notin> set s \<Longrightarrow> strings_Split (s @ sep # t) sep = s # strings_Split t sep"
  by (induction s) auto

lemma Split_parts_no_sep: "x \<in> set (strings_Split s sep) \<Longrightarrow> sep \<notin> set x"
  by (induction s arbitrary: x) (auto split: if_splits list.splits)

lemma Join_Cons_char [simp]:
  "strings_Join ((c # x) # xs) sep = c # strings_Join (x # xs) sep"
  by (cases xs) simp_all

lemma Join_Nil_Cons: "xs \<noteq> [] \<Longrightarrow> strings_Join ([] # xs) sep = sep @ strings_Join xs sep"
  by (cases xs) simp_all

lemma Join_Split: "strings_Join (strings_Split s sep) [sep] = s"
  by (induction s) (auto simp: Join_Nil_Cons split: list.splits)

lemma after_last_no_sep: "sep \<notin> set (after_last sep s)"
  by (auto simp: after_last_def dest: set_takeWhileD)

lemma after_last_append: "sep \<notin> set t \<Longrightarrow> after_last sep (s @ sep # t) = t"
  by (simp add: after_last_def takeWhile_append)

lemma after_last_id: "sep \<notin> set t \<Longrightarrow> after_last sep t = t"
  by (induction t rule: rev_induct) (auto simp: after_last_def)

section \<open>strconv\<close>

text \<open>
  The value returned with an error: 0 for a syntax error, the nearest bound for a range
  error. Digits are read left to right and the first problem decides.
\<close>

datatype num_result = NumOk int | NumSyntax | NumRange int

fun num_value :: "num_result \<Rightarrow> int" where
  "num_value (NumOk i) = i"
| "num_value NumSyntax = 0"
| "num_value (NumRange i) = i"

fun num_ok :: "num_result \<Rightarrow> bool" where
  "num_ok (NumOk i) = True"
| "num_ok r = False"

fun parse_digits :: "nat \<Rightarrow> nat \<Rightarrow> string \<Rightarrow> num_result" where
  "parse_digits mx acc [] = NumOk (int acc)"
| "parse_digits mx acc (c # cs) =
     (if \<not> is_digit c then NumSyntax
      else if mx < acc * 10 + digit_val c then NumRange (int mx)
      else parse_digits mx (acc * 10 + digit_val c) cs)"

definition strconv_ParseUint :: "string \<Rightarrow> nat \<Rightarrow> num_result" where
  "strconv_ParseUint s bits = (if s = [] then NumSyntax else parse_digits (2 ^ bits - 1) 0 s)"

definition strconv_ParseInt :: "string \<Rightarrow> nat \<Rightarrow> num_result" where
  "strconv_ParseInt s bits =
     (let neg = (s \<noteq> [] \<and> hd s = CHR ''-'');
          body = (if s \<noteq> [] \<and> (hd s = CHR ''-'' \<or> hd s = CHR ''+'') then tl s else s);
          cutoff = (2::int) ^ (bits - 1);
          r = strconv_ParseUint body bits
      in case r of
           NumSyntax \<Rightarrow> NumSyntax
         | _ \<Rightarrow> let un = num_value r in
             if \<not> neg \<and> cutoff \<le> un then NumRange (cutoff - 1)
             else if neg \<and> cutoff < un then NumRange (- cutoff)
             else NumOk (if neg then - un else un))"

definition strconv_ParseBool :: "string \<Rightarrow> bool option" where
  "strconv_ParseBool s =
     (if s \<in> {''1'', ''t'', ''T'', ''TRUE'', ''true'', ''True''} then Some True
      else if s \<in> {''0'', ''f'', ''F'', ''FALSE'', ''false'', ''False''} then Some False
      else None)"

text \<open>The value half of \<open>x, _ = strconv.ParseBool(s)\<close>.\<close>

definition parse_bool_value :: "string \<Rightarrow> bool" where
  "parse_bool_value s = (strconv_ParseBool s = Some True)"

section \<open>fmt\<close>

fun show_nat :: "nat \<Rightarrow> string" where
  "show_nat n = (if n < 10 then [digit_char n] else show_nat (n div 10) @ [digit_char (n mod 10)])"

declare show_nat.simps [simp del]

definition show_int :: "int \<Rightarrow> string" where
  "show_int i = (if i < 0 then CHR ''-'' # show_nat (nat (- i)) else show_nat (nat i))"

text \<open>The format \<open>'%s'\<close>.\<close>

definition single_quoted :: "string \<Rightarrow> string" where
  "single_quoted s = [CHR 0x27] @ s @ [CHR 0x27]"

text \<open>\<open>%q\<close> on a string of ASCII bytes.\<close>

definition hex_char :: "nat \<Rightarrow> char" where
  "hex_char d = (if d < 10 then digit_char d else char_of (87 + d))"

definition quote_char :: "char \<Rightarrow> string" where
  "quote_char c =
     (let n = char_code c in
      if n = 34 \<or> n = 92 then [CHR 0x5C, c]
      else if n = 7 then [CHR 0x5C, CHR ''a'']
      else if n = 8 then [CHR 0x5C, CHR ''b'']
      else if n = 9 then [CHR 0x5C, CHR ''t'']
      else if n = 10 then [CHR 0x5C, CHR ''n'']
      else if n = 11 then [CHR 0x5C, CHR ''v'']
      else if n = 12 then [CHR 0x5C, CHR ''f'']
      else if n = 13 then [CHR 0x5C, CHR ''r'']
      else if n < 32 \<or> n = 127 then [CHR 0x5C, CHR ''x'', hex_char (n div 16), hex_char (n mod 16)]
      else [c])"

definition go_quote :: "string \<Rightarrow> string" where
  "go_quote s = CHR 0x22 # concat (map quote_char s) @ [CHR 0x22]"

section \<open>Numbers: printing then parsing\<close>

fun digits_value :: "nat \<Rightarrow> string \<Rightarrow> nat" where
  "digits_value acc [] = acc"
| "digits_value acc (c # cs) = digits_value (acc * 10 + digit_val c) cs"

lemma digits_value_append:
  "digits_value acc (s @ [c]) = digits_value acc s * 10 + digit_val c"
  by (induction s arbitrary: acc) auto

lemma digits_value_mono: "acc \<le> digits_value acc s"
proof (induction s arbitrary: acc)
  case (Cons c cs)
  have "acc \<le> acc * 10 + digit_val c" by simp
  also have "\<dots> \<le> digits_value (acc * 10 + digit_val c) cs" by (rule Cons.IH)
  finally show ?case by simp
qed simp

lemma parse_digits_ok:
  "\<forall>c \<in> set s. is_digit c \<Longrightarrow> digits_value acc s \<le> mx \<Longrightarrow>
   parse_digits mx acc s = NumOk (int (digits_value acc s))"
proof (induction s arbitrary: acc)
  case Nil
  then show ?case by simp
next
  case (Cons c cs)
  then have "acc * 10 + digit_val c \<le> mx"
    using digits_value_mono [of "acc * 10 + digit_val c" cs] by simp
  with Cons show ?case by simp
qed

lemma show_nat_digits: "c \<in> set (show_nat n) \<Longrightarrow> is_digit c"
proof (induction n rule: show_nat.induct)
  case (1 n)
  then show ?case
    by (subst (asm) (2) show_nat.simps) (auto split: if_splits)
qed

lemma digits_value_show_nat: "digits_value 0 (show_nat n) = n"
proof (induction n rule: show_nat.induct)
  case (1 n)
  then show ?case
    by (subst show_nat.simps) (auto simp: digits_value_append)
qed

lemma show_nat_not_Nil [simp]: "show_nat n \<noteq> []"
  by (subst show_nat.simps) simp

lemma show_nat_hd_digit: "is_digit (hd (show_nat n))"
  using show_nat_digits [of "hd (show_nat n)" n] by simp

lemma not_digit_sign: "\<not> is_digit (CHR ''-'')" "\<not> is_digit (CHR ''+'')" "\<not> is_digit (CHR '':'')"
  "\<not> is_digit (CHR ''/'')"
  by (simp_all add: is_digit_def char_code_def)

lemma ParseUint_show_nat: "n < 2 ^ bits \<Longrightarrow> strconv_ParseUint (show_nat n) bits = NumOk (int n)"
  using parse_digits_ok [of "show_nat n" 0 "2 ^ bits - 1"] show_nat_digits [of _ n]
  by (simp add: strconv_ParseUint_def digits_value_show_nat)

lemma ParseInt_show_nat:
  assumes "n < 2 ^ (bits - 1)" "0 < bits"
  shows "strconv_ParseInt (show_nat n) bits = NumOk (int n)"
proof -
  have "hd (show_nat n) \<noteq> CHR ''-''" "hd (show_nat n) \<noteq> CHR ''+''"
    using show_nat_hd_digit [of n] not_digit_sign by metis+
  moreover have "n < 2 ^ bits"
    using assms by (meson less_le_trans one_le_numeral power_increasing diff_le_self)
  moreover have "int n < 2 ^ (bits - 1)"
    using assms(1) by (metis of_nat_less_iff of_nat_numeral of_nat_power)
  ultimately show ?thesis
    by (simp add: strconv_ParseInt_def ParseUint_show_nat)
qed

text \<open>The code equations of the number functions compute with binary integers.\<close>

fun parse_digits_int :: "int \<Rightarrow> int \<Rightarrow> string \<Rightarrow> num_result" where
  "parse_digits_int mx acc [] = NumOk acc"
| "parse_digits_int mx acc (c # cs) =
     (if \<not> is_digit c then NumSyntax
      else if mx < acc * 10 + int (digit_val c) then NumRange mx
      else parse_digits_int mx (acc * 10 + int (digit_val c)) cs)"

lemma parse_digits_int: "parse_digits mx acc s = parse_digits_int (int mx) (int acc) s"
proof (induction s arbitrary: acc)
  case (Cons c cs)
  have "int mx < int acc * 10 + int (digit_val c) \<longleftrightarrow> mx < acc * 10 + digit_val c" by linarith
  then show ?case using Cons.IH by simp
qed simp

lemma strconv_ParseUint_code [code]:
  "strconv_ParseUint s bits =
     (if s = [] then NumSyntax else parse_digits_int (2 ^ bits - 1) 0 s)"
  by (simp add: strconv_ParseUint_def parse_digits_int of_nat_diff)

fun show_binary :: "int \<Rightarrow> string" where
  "show_binary i =
     (if i < 10 then [digit_char (nat i)]
      else show_binary (i div 10) @ [digit_char (nat (i mod 10))])"

declare show_binary.simps [simp del]

lemma show_binary: "0 \<le> i \<Longrightarrow> show_binary i = show_nat (nat i)"
proof (induction i rule: show_binary.induct)
  case (1 i)
  show ?case
    using 1 by (subst show_binary.simps, subst show_nat.simps)
      (simp add: nat_less_iff nat_div_distrib nat_mod_distrib)
qed

lemma show_int_code [code]:
  "show_int i = (if i < 0 then CHR ''-'' # show_binary (- i) else show_binary i)"
  by (simp add: show_int_def show_binary)

lemma show_nat_inject [simp]: "show_nat m = show_nat n \<longleftrightarrow> m = n"
  by (metis digits_value_show_nat)

section \<open>path/filepath\<close>

definition filepath_Base :: "string \<Rightarrow> string" where
  "filepath_Base path =
     (if path = [] then ''.''
      else let stripped = rev (dropWhile (\<lambda>c. c = CHR ''/'') (rev path));
               base = after_last (CHR ''/'') stripped
           in if base = [] then ''/'' else base)"

text \<open>\<open>filepath.Ext\<close>: from the last dot of the last path element, dot included.\<close>

definition filepath_Ext :: "string \<Rightarrow> string" where
  "filepath_Ext path =
     (let base = after_last (CHR ''/'') path in
      if CHR ''.'' \<in> set base then CHR ''.'' # after_last (CHR ''.'') base else [])"

text \<open>
  \<open>filepath.Clean\<close>: empty elements and \<open>.\<close> are dropped, \<open>..\<close> removes the element before
  it, and is dropped at the root. The stack holds the kept elements, last first.
\<close>

fun clean_elems :: "bool \<Rightarrow> string list \<Rightarrow> string list \<Rightarrow> string list" where
  "clean_elems rooted st [] = rev st"
| "clean_elems rooted st (x # xs) =
     (if x = [] \<or> x = ''.'' then clean_elems rooted st xs
      else if x = ''..'' then
        (case st of
           [] \<Rightarrow> clean_elems rooted (if rooted then [] else [''..'']) xs
         | y # ys \<Rightarrow> clean_elems rooted (if y = ''..'' then ''..'' # st else ys) xs)
      else clean_elems rooted (x # st) xs)"

definition filepath_Clean :: "string \<Rightarrow> string" where
  "filepath_Clean path =
     (let rooted = strings_HasPrefix path ''/'';
          body = strings_Join (clean_elems rooted [] (strings_Split path (CHR ''/''))) ''/''
      in if rooted then CHR ''/'' # body else if body = [] then ''.'' else body)"

definition filepath_Join :: "string list \<Rightarrow> string" where
  "filepath_Join elems =
     (case dropWhile (\<lambda>e. e = []) elems of
        [] \<Rightarrow> []
      | es \<Rightarrow> filepath_Clean (strings_Join es ''/''))"

text \<open>\<open>filepath.Dir\<close>: everything up to the last separator, cleaned.\<close>

definition filepath_Dir :: "string \<Rightarrow> string" where
  "filepath_Dir path =
     filepath_Clean (take (length path - length (after_last (CHR ''/'') path)) path)"

end
