(* ===== verification/ApiTypes.thy ===== *)
theory ApiTypes
  imports GoStd
begin

text \<open>
  The custom resources of \<open>pkg/apis\<close> and the objects of the cluster API the controllers
  read and write, as records with the fields the program uses. Go maps are partial
  functions, optional pointers are options, \<open>DeletionTimestamp\<close> is a timestamp option.
\<close>

section \<open>Object metadata\<close>

record OwnerReference =
  owner_APIVersion :: string
  owner_Kind :: string
  owner_Name :: string
  owner_UID :: string

record ObjectMeta =
  Name :: string
  GenerateName :: string
  Namespace :: string
  UID :: string
  ResourceVersion :: string
  DeletionTimestamp :: "string option"
  Labels :: "string \<rightharpoonup> string"
  Annotations :: "string \<rightharpoonup> string"
  OwnerReferences :: "OwnerReference list"

definition empty_meta :: ObjectMeta where
  "empty_meta = \<lparr>Name = [], GenerateName = [], Namespace = [], UID = [], ResourceVersion = [],
     DeletionTimestamp = None, Labels = Map.empty, Annotations = Map.empty, OwnerReferences = []\<rparr>"

record ObjectReference =
  ref_APIVersion :: string
  ref_Kind :: string
  ref_Namespace :: string
  ref_Name :: string

record SecretRef =
  secretref_Namespace :: string
  secretref_Name :: string

record Secret =
  secret_Name :: string
  Data :: "string \<rightharpoonup> string"

text \<open>\<open>types.NamespacedName.String\<close>.\<close>

definition NamespacedName :: "ObjectMeta \<Rightarrow> string" where
  "NamespacedName m = Namespace m @ ''/'' @ Name m"

section \<open>Conditions\<close>

datatype ConditionStatus = ConditionTrue | ConditionFalse | ConditionUnknown

text \<open>The condition types the program declares (\<open>common.go\<close>, \<open>virtualmachines.go\<close>), and
  any other type an object may carry.\<close>

datatype Cond =
    ClusterReadyCondition
  | ClusterErrorCondition
  | VirtualMachineShutdownGuest
  | VirtualMachinePoweringOff
  | VirtualMachinePoweredOff
  | VirtualMachineExported
  | VirtualMachineImageSubmitted
  | VirtualMachineImageReady
  | VirtualMachineImageFailed
  | VirtualMachineExportFailed
  | CondOther string

text \<open>The string behind each constant.\<close>

fun Cond_string :: "Cond \<Rightarrow> string" where
  "Cond_string ClusterReadyCondition = ''ClusterReady''"
| "Cond_string ClusterErrorCondition = ''ClusterError''"
| "Cond_string VirtualMachineShutdownGuest = ''VMShutdownGuest''"
| "Cond_string VirtualMachinePoweringOff = ''VMPoweringOff''"
| "Cond_string VirtualMachinePoweredOff = ''VMPoweredOff''"
| "Cond_string VirtualMachineExported = ''VMExported''"
| "Cond_string VirtualMachineImageSubmitted = ''VirtualMachineImageSubmitted''"
| "Cond_string VirtualMachineImageReady = ''VirtualMachineImageReady''"
| "Cond_string VirtualMachineImageFailed = ''VirtualMachineImageFailed''"
| "Cond_string VirtualMachineExportFailed = ''VMExportFailed''"
| "Cond_string (CondOther s) = s"

record Condition =
  cond_Type :: Cond
  cond_Status :: ConditionStatus
  LastUpdateTime :: string
  LastTransitionTime :: string
  Reason :: string
  Message :: string

section \<open>VirtualMachineImport\<close>

text \<open>KubeVirt's bus types; the unset one is Go's empty string.\<close>

datatype DiskBus =
  DiskBusUnset | DiskBusSATA | DiskBusSCSI | DiskBusVirtio | DiskBusUSB | DiskBusOther string

definition NetworkInterfaceModelE1000 :: string where "NetworkInterfaceModelE1000 = ''e1000''"
definition NetworkInterfaceModelE1000e :: string where "NetworkInterfaceModelE1000e = ''e1000e''"
definition NetworkInterfaceModelPcnet :: string where "NetworkInterfaceModelPcnet = ''pcnet''"
definition NetworkInterfaceModelRtl8139 :: string where "NetworkInterfaceModelRtl8139 = ''rtl8139''"
definition NetworkInterfaceModelVirtio :: string where "NetworkInterfaceModelVirtio = ''virtio''"

record DiskInfo =
  DiskName :: string
  DiskSize :: int64
  DiskLocalPath :: string
  DiskRoute :: string
  DiskImage :: string
  DiskConditions :: "Condition list"
  BusType :: DiskBus

record NetworkMapping =
  SourceNetwork :: string
  DestinationNetwork :: string
  NetworkInterfaceModel :: "string option"

datatype ImportStatus =
    StatusUnset
  | SourceReady
  | DisksExported
  | DiskImagesSubmitted
  | DiskImagesReady
  | DiskImagesFailed
  | VirtualMachineCreated
  | VirtualMachineRunning
  | VirtualMachineImportValid
  | VirtualMachineImportInvalid
  | VirtualMachineMigrationFailed
  | StatusOther string

record VirtualMachineImportSpec =
  SourceCluster :: ObjectReference
  VirtualMachineName :: string
  Folder :: string
  Mapping :: "NetworkMapping list"
  DefaultNetworkInterfaceModel :: "string option"
  StorageClassName :: string
  DefaultDiskBusType :: "DiskBus option"
  ForcePowerOff :: "bool option"
  GracefulShutdownTimeoutSeconds :: int32
  SkipPreflight :: "bool option"

record VirtualMachineImportStatus =
  Status :: ImportStatus
  DiskImportStatus :: "DiskInfo list"
  ImportConditions :: "Condition list"
  NewVirtualMachine :: string
  ImportedVirtualMachineName :: string

record VirtualMachineImport =
  vm_Kind :: string
  vm_APIVersion :: string
  vm_Meta :: ObjectMeta
  vm_Spec :: VirtualMachineImportSpec
  vm_Status :: VirtualMachineImportStatus

abbreviation vm_Name :: "VirtualMachineImport \<Rightarrow> string" where
  "vm_Name vm \<equiv> Name (vm_Meta vm)"

abbreviation vm_Namespace :: "VirtualMachineImport \<Rightarrow> string" where
  "vm_Namespace vm \<equiv> Namespace (vm_Meta vm)"

abbreviation status_of :: "VirtualMachineImport \<Rightarrow> ImportStatus" where
  "status_of vm \<equiv> Status (vm_Status vm)"

abbreviation disks_of :: "VirtualMachineImport \<Rightarrow> DiskInfo list" where
  "disks_of vm \<equiv> DiskImportStatus (vm_Status vm)"

abbreviation conds_of :: "VirtualMachineImport \<Rightarrow> Condition list" where
  "conds_of vm \<equiv> ImportConditions (vm_Status vm)"

abbreviation imported_name :: "VirtualMachineImport \<Rightarrow> string" where
  "imported_name vm \<equiv> ImportedVirtualMachineName (vm_Status vm)"

text \<open>The assignments \<open>vm.Status.F = x\<close> of the Go code.\<close>

definition set_Status :: "ImportStatus \<Rightarrow> VirtualMachineImport \<Rightarrow> VirtualMachineImport" where
  "set_Status s vm = vm\<lparr>vm_Status := (vm_Status vm)\<lparr>Status := s\<rparr>\<rparr>"

definition set_Disks :: "DiskInfo list \<Rightarrow> VirtualMachineImport \<Rightarrow> VirtualMachineImport" where
  "set_Disks ds vm = vm\<lparr>vm_Status := (vm_Status vm)\<lparr>DiskImportStatus := ds\<rparr>\<rparr>"

definition set_Conds :: "Condition list \<Rightarrow> VirtualMachineImport \<Rightarrow> VirtualMachineImport" where
  "set_Conds cs vm = vm\<lparr>vm_Status := (vm_Status vm)\<lparr>ImportConditions := cs\<rparr>\<rparr>"

definition set_ImportedName :: "string \<Rightarrow> VirtualMachineImport \<Rightarrow> VirtualMachineImport" where
  "set_ImportedName n vm = vm\<lparr>vm_Status := (vm_Status vm)\<lparr>ImportedVirtualMachineName := n\<rparr>\<rparr>"

lemma set_Status_sel [simp]:
  "status_of (set_Status s vm) = s" "disks_of (set_Status s vm) = disks_of vm"
  "conds_of (set_Status s vm) = conds_of vm" "imported_name (set_Status s vm) = imported_name vm"
  "vm_Spec (set_Status s vm) = vm_Spec vm" "vm_Meta (set_Status s vm) = vm_Meta vm"
  "vm_Kind (set_Status s vm) = vm_Kind vm" "vm_APIVersion (set_Status s vm) = vm_APIVersion vm"
  by (simp_all add: set_Status_def)

lemma set_Disks_sel [simp]:
  "status_of (set_Disks ds vm) = status_of vm" "disks_of (set_Disks ds vm) = ds"
  "conds_of (set_Disks ds vm) = conds_of vm" "imported_name (set_Disks ds vm) = imported_name vm"
  "vm_Spec (set_Disks ds vm) = vm_Spec vm" "vm_Meta (set_Disks ds vm) = vm_Meta vm"
  "vm_Kind (set_Disks ds vm) = vm_Kind vm" "vm_APIVersion (set_Disks ds vm) = vm_APIVersion vm"
  by (simp_all add: set_Disks_def)

lemma set_Conds_sel [simp]:
  "status_of (set_Conds cs vm) = status_of vm" "disks_of (set_Conds cs vm) = disks_of vm"
  "conds_of (set_Conds cs vm) = cs" "imported_name (set_Conds cs vm) = imported_name vm"
  "vm_Spec (set_Conds cs vm) = vm_Spec vm" "vm_Meta (set_Conds cs vm) = vm_Meta vm"
  "vm_Kind (set_Conds cs vm) = vm_Kind vm" "vm_APIVersion (set_Conds cs vm) = vm_APIVersion vm"
  by (simp_all add: set_Conds_def)

lemma set_ImportedName_sel [simp]:
  "status_of (set_ImportedName n vm) = status_of vm" "disks_of (set_ImportedName n vm) = disks_of vm"
  "conds_of (set_ImportedName n vm) = conds_of vm" "imported_name (set_ImportedName n vm) = n"
  "vm_Spec (set_ImportedName n vm) = vm_Spec vm" "vm_Meta (set_ImportedName n vm) = vm_Meta vm"
  "vm_Kind (set_ImportedName n vm) = vm_Kind vm"
  "vm_APIVersion (set_ImportedName n vm) = vm_APIVersion vm"
  by (simp_all add: set_ImportedName_def)

lemma set_Disks_id [simp]: "set_Disks (disks_of vm) vm = vm"
  by (simp add: set_Disks_def)

lemma set_Disks_twice [simp]: "set_Disks ds (set_Disks ds' vm) = set_Disks ds vm"
  by (simp add: set_Disks_def)

lemma set_Conds_twice [simp]: "set_Conds cs (set_Conds cs' vm) = set_Conds cs vm"
  by (simp add: set_Conds_def)

lemma set_Status_twice [simp]: "set_Status s (set_Status s' vm) = set_Status s vm"
  by (simp add: set_Status_def)

section \<open>Methods of VirtualMachineImport\<close>

definition DefaultGracefulShutdownTimeoutSeconds :: int32 where
  "DefaultGracefulShutdownTimeoutSeconds = 60"

definition ptr_Deref :: "'a option \<Rightarrow> 'a \<Rightarrow> 'a" where
  "ptr_Deref p d = (case p of None \<Rightarrow> d | Some v \<Rightarrow> v)"

lemma ptr_Deref_simps [simp]: "ptr_Deref None d = d" "ptr_Deref (Some v) d = v"
  by (simp_all add: ptr_Deref_def)

definition GetDefaultDiskBusType :: "VirtualMachineImport \<Rightarrow> DiskBus" where
  "GetDefaultDiskBusType vm = ptr_Deref (DefaultDiskBusType (vm_Spec vm)) DiskBusVirtio"

definition GetDefaultNetworkInterfaceModel :: "VirtualMachineImport \<Rightarrow> string" where
  "GetDefaultNetworkInterfaceModel vm =
     ptr_Deref (DefaultNetworkInterfaceModel (vm_Spec vm)) NetworkInterfaceModelVirtio"

definition GetForcePowerOff :: "VirtualMachineImport \<Rightarrow> bool" where
  "GetForcePowerOff vm = ptr_Deref (ForcePowerOff (vm_Spec vm)) False"

definition GetGracefulShutdownTimeoutSeconds :: "VirtualMachineImport \<Rightarrow> int32" where
  "GetGracefulShutdownTimeoutSeconds vm =
     (let timeout = GracefulShutdownTimeoutSeconds (vm_Spec vm)
      in if sint timeout \<le> 0 then DefaultGracefulShutdownTimeoutSeconds else timeout)"

definition SkipPreflightChecks :: "VirtualMachineImport \<Rightarrow> bool" where
  "SkipPreflightChecks vm = ptr_Deref (SkipPreflight (vm_Spec vm)) False"

definition GetNetworkInterfaceModel :: "NetworkMapping \<Rightarrow> string" where
  "GetNetworkInterfaceModel nm = ptr_Deref (NetworkInterfaceModel nm) NetworkInterfaceModelVirtio"

lemma graceful_timeout_pos: "0 < sint (GetGracefulShutdownTimeoutSeconds vm)"
  by (simp add: GetGracefulShutdownTimeoutSeconds_def DefaultGracefulShutdownTimeoutSeconds_def Let_def)

section \<open>Source resources\<close>

datatype ClusterStatusT = ClusterReady | ClusterNotReady | ClusterStatusOther string

record SourceStatus =
  source_Status :: ClusterStatusT
  source_Conditions :: "Condition list"

record VmwareSource =
  vmware_Kind :: string
  vmware_APIVersion :: string
  vmware_Meta :: ObjectMeta
  vmware_Endpoint :: string
  vmware_Datacenter :: string
  vmware_Credentials :: SecretRef
  vmware_Status :: SourceStatus

record OvaSourceOptions =
  HttpTimeoutSeconds :: "int64 option"

record OvaSource =
  ova_Kind :: string
  ova_APIVersion :: string
  ova_Meta :: ObjectMeta
  ova_Url :: string
  ova_Options :: OvaSourceOptions
  ova_Credentials :: "SecretRef option"
  ova_Status :: SourceStatus

record OpenstackSourceOptions =
  UploadImageRetryCount :: int64
  UploadImageRetryDelay :: int64

record OpenstackSource =
  openstack_Kind :: string
  openstack_APIVersion :: string
  openstack_Meta :: ObjectMeta
  openstack_Endpoint :: string
  openstack_Region :: string
  openstack_Credentials :: SecretRef
  openstack_Options :: OpenstackSourceOptions
  openstack_Status :: SourceStatus

section \<open>Harvester, KubeVirt and core objects\<close>

datatype ImageCondType = ImageImported | ImageCondOther string

record ImageCondition =
  imgcond_Type :: ImageCondType
  imgcond_Status :: ConditionStatus
  imgcond_Reason :: string

datatype VMIBackend = VMIBackendUnset | VMIBackendBackingImage | VMIBackendCDI

record VirtualMachineImage =
  img_Meta :: ObjectMeta
  DisplayName :: string
  URL :: string
  SourceType :: string
  Backend :: VMIBackend
  TargetStorageClassName :: string
  img_Conditions :: "ImageCondition list"
  img_Size :: int64
  img_StorageClassName :: string

record PersistentVolumeClaim =
  pvc_Meta :: ObjectMeta
  AccessModes :: "string list"
  StorageRequest :: string
  pvc_StorageClassName :: string
  VolumeMode :: string

record StorageClass =
  sc_Name :: string
  Provisioner :: string
  Parameters :: "string \<rightharpoonup> string"

end
