(* ===== verification/Sources.thy ===== *)
theory Sources
  imports ApiTypes
begin

text \<open>
  The source resources as the controllers see them: the interface \<open>SourceInterface\<close> of
  \<open>common.go\<close> and its implementations in \<open>vmware.go\<close>, \<open>ova.go\<close> and \<open>openstack.go\<close>.
  The locale states what callers rely on; it is interpreted on each implementation and on the
  interface value that \<open>generateSource\<close> returns.
\<close>

section \<open>Constants\<close>

definition KindVmwareSource :: string where "KindVmwareSource = ''vmwaresource''"
definition KindOvaSource :: string where "KindOvaSource = ''ovasource''"
definition KindOpenstackSource :: string where "KindOpenstackSource = ''openstacksource''"

definition OpenstackDefaultRetryCount :: int64 where "OpenstackDefaultRetryCount = 30"
definition OpenstackDefaultRetryDelay :: int64 where "OpenstackDefaultRetryDelay = 10"
definition DefaultHttpTimeoutSeconds :: int64 where "DefaultHttpTimeoutSeconds = 600"

text \<open>Nanoseconds in a second, as \<open>time.Second\<close>.\<close>

definition time_Second :: int64 where "time_Second = 1000000000"

text \<open>The dynamic type of the \<open>interface{}\<close> that \<open>GetOptions\<close> returns.\<close>

datatype SourceOptions =
    NoOptions
  | OvaOptions OvaSourceOptions
  | OpenstackOptions OpenstackSourceOptions

section \<open>VmwareSource\<close>

definition VmwareSource_NamespacedName :: "VmwareSource \<Rightarrow> string" where
  "VmwareSource_NamespacedName s = NamespacedName (vmware_Meta s)"

definition VmwareSource_ClusterStatus :: "VmwareSource \<Rightarrow> ClusterStatusT" where
  "VmwareSource_ClusterStatus s = source_Status (vmware_Status s)"

definition VmwareSource_HasSecret :: "VmwareSource \<Rightarrow> bool" where
  "VmwareSource_HasSecret s = True"

definition VmwareSource_SecretReference :: "VmwareSource \<Rightarrow> SecretRef option" where
  "VmwareSource_SecretReference s = Some (vmware_Credentials s)"

definition VmwareSource_GetKind :: "VmwareSource \<Rightarrow> string" where
  "VmwareSource_GetKind s = KindVmwareSource"

definition VmwareSource_GetConnectionInfo :: "VmwareSource \<Rightarrow> string \<times> string" where
  "VmwareSource_GetConnectionInfo s = (vmware_Endpoint s, vmware_Datacenter s)"

definition VmwareSource_GetOptions :: "VmwareSource \<Rightarrow> SourceOptions" where
  "VmwareSource_GetOptions s = NoOptions"

section \<open>OvaSource\<close>

definition OvaSource_NamespacedName :: "OvaSource \<Rightarrow> string" where
  "OvaSource_NamespacedName s = NamespacedName (ova_Meta s)"

definition OvaSource_ClusterStatus :: "OvaSource \<Rightarrow> ClusterStatusT" where
  "OvaSource_ClusterStatus s = source_Status (ova_Status s)"

definition OvaSource_SecretReference :: "OvaSource \<Rightarrow> SecretRef option" where
  "OvaSource_SecretReference s = ova_Credentials s"

definition OvaSource_HasSecret :: "OvaSource \<Rightarrow> bool" where
  "OvaSource_HasSecret s \<longleftrightarrow> OvaSource_SecretReference s \<noteq> None"

definition OvaSource_GetKind :: "OvaSource \<Rightarrow> string" where
  "OvaSource_GetKind s = KindOvaSource"

definition OvaSource_GetConnectionInfo :: "OvaSource \<Rightarrow> string \<times> string" where
  "OvaSource_GetConnectionInfo s = (ova_Url s, [])"

definition OvaSource_GetOptions :: "OvaSource \<Rightarrow> SourceOptions" where
  "OvaSource_GetOptions s = OvaOptions (ova_Options s)"

text \<open>\<open>GetHttpTimeout\<close>, in nanoseconds; the product is one of 64-bit integers.\<close>

definition GetHttpTimeout :: "OvaSourceOptions \<Rightarrow> int64" where
  "GetHttpTimeout so = ptr_Deref (HttpTimeoutSeconds so) DefaultHttpTimeoutSeconds * time_Second"

section \<open>OpenstackSource\<close>

definition OpenstackSource_NamespacedName :: "OpenstackSource \<Rightarrow> string" where
  "OpenstackSource_NamespacedName s = NamespacedName (openstack_Meta s)"

definition OpenstackSource_ClusterStatus :: "OpenstackSource \<Rightarrow> ClusterStatusT" where
  "OpenstackSource_ClusterStatus s = source_Status (openstack_Status s)"

definition OpenstackSource_HasSecret :: "OpenstackSource \<Rightarrow> bool" where
  "OpenstackSource_HasSecret s = True"

definition OpenstackSource_SecretReference :: "OpenstackSource \<Rightarrow> SecretRef option" where
  "OpenstackSource_SecretReference s = Some (openstack_Credentials s)"

definition OpenstackSource_GetKind :: "OpenstackSource \<Rightarrow> string" where
  "OpenstackSource_GetKind s = KindOpenstackSource"

definition OpenstackSource_GetConnectionInfo :: "OpenstackSource \<Rightarrow> string \<times> string" where
  "OpenstackSource_GetConnectionInfo s = (openstack_Endpoint s, openstack_Region s)"

text \<open>\<open>GetOptions\<close>: values that are not positive are replaced by the defaults.\<close>

definition sanitize_options :: "OpenstackSourceOptions \<Rightarrow> OpenstackSourceOptions" where
  "sanitize_options options0 =
     (let options1 = (if sint (UploadImageRetryCount options0) \<le> 0
                      then options0\<lparr>UploadImageRetryCount := OpenstackDefaultRetryCount\<rparr>
                      else options0)
      in if sint (UploadImageRetryDelay options1) \<le> 0
         then options1\<lparr>UploadImageRetryDelay := OpenstackDefaultRetryDelay\<rparr>
         else options1)"

definition OpenstackSource_GetOptions :: "OpenstackSource \<Rightarrow> SourceOptions" where
  "OpenstackSource_GetOptions s = OpenstackOptions (sanitize_options (openstack_Options s))"

section \<open>The interface value\<close>

datatype SourceInterface =
    VmwareSrc VmwareSource
  | OvaSrc OvaSource
  | OpenstackSrc OpenstackSource

fun ClusterStatus :: "SourceInterface \<Rightarrow> ClusterStatusT" where
  "ClusterStatus (VmwareSrc s) = VmwareSource_ClusterStatus s"
| "ClusterStatus (OvaSrc s) = OvaSource_ClusterStatus s"
| "ClusterStatus (OpenstackSrc s) = OpenstackSource_ClusterStatus s"

fun HasSecret :: "SourceInterface \<Rightarrow> bool" where
  "HasSecret (VmwareSrc s) = VmwareSource_HasSecret s"
| "HasSecret (OvaSrc s) = OvaSource_HasSecret s"
| "HasSecret (OpenstackSrc s) = OpenstackSource_HasSecret s"

fun SecretReference :: "SourceInterface \<Rightarrow> SecretRef option" where
  "SecretReference (VmwareSrc s) = VmwareSource_SecretReference s"
| "SecretReference (OvaSrc s) = OvaSource_SecretReference s"
| "SecretReference (OpenstackSrc s) = OpenstackSource_SecretReference s"

fun GetKind :: "SourceInterface \<Rightarrow> string" where
  "GetKind (VmwareSrc s) = VmwareSource_GetKind s"
| "GetKind (OvaSrc s) = OvaSource_GetKind s"
| "GetKind (OpenstackSrc s) = OpenstackSource_GetKind s"

fun GetConnectionInfo :: "SourceInterface \<Rightarrow> string \<times> string" where
  "GetConnectionInfo (VmwareSrc s) = VmwareSource_GetConnectionInfo s"
| "GetConnectionInfo (OvaSrc s) = OvaSource_GetConnectionInfo s"
| "GetConnectionInfo (OpenstackSrc s) = OpenstackSource_GetConnectionInfo s"

fun GetOptions :: "SourceInterface \<Rightarrow> SourceOptions" where
  "GetOptions (VmwareSrc s) = VmwareSource_GetOptions s"
| "GetOptions (OvaSrc s) = OvaSource_GetOptions s"
| "GetOptions (OpenstackSrc s) = OpenstackSource_GetOptions s"

lemmas source_defs =
  VmwareSource_ClusterStatus_def VmwareSource_HasSecret_def VmwareSource_SecretReference_def
  VmwareSource_GetKind_def VmwareSource_GetConnectionInfo_def VmwareSource_GetOptions_def
  OvaSource_ClusterStatus_def OvaSource_HasSecret_def OvaSource_SecretReference_def
  OvaSource_GetKind_def OvaSource_GetConnectionInfo_def OvaSource_GetOptions_def
  OpenstackSource_ClusterStatus_def OpenstackSource_HasSecret_def
  OpenstackSource_SecretReference_def OpenstackSource_GetKind_def
  OpenstackSource_GetConnectionInfo_def OpenstackSource_GetOptions_def

lemmas kind_defs = KindVmwareSource_def KindOvaSource_def KindOpenstackSource_def

section \<open>The contract\<close>

text \<open>
  A source has a secret reference exactly when it says so, and its kind (already in lower
  case) is one of the three known ones and fixes the dynamic type of its options.
\<close>

locale source_resource =
  fixes has_secret :: "'s \<Rightarrow> bool"
    and secret_ref :: "'s \<Rightarrow> SecretRef option"
    and get_kind :: "'s \<Rightarrow> string"
    and get_options :: "'s \<Rightarrow> SourceOptions"
  assumes secret_iff: "has_secret s \<longleftrightarrow> secret_ref s \<noteq> None"
    and kind_known: "get_kind s \<in> {KindVmwareSource, KindOvaSource, KindOpenstackSource}"
    and ova_options: "get_kind s = KindOvaSource \<Longrightarrow> \<exists>opts. get_options s = OvaOptions opts"
    and openstack_options: "get_kind s = KindOpenstackSource \<Longrightarrow>
      \<exists>opts. get_options s = OpenstackOptions opts \<and>
        0 < sint (UploadImageRetryCount opts) \<and> 0 < sint (UploadImageRetryDelay opts)"
begin

lemma lower_kind: "strings_ToLower (get_kind s) = get_kind s"
  using kind_known [of s]
  by (auto simp: kind_defs strings_ToLower_def lower_char_def char_code_def)

lemma secret_never_nil: "has_secret s \<Longrightarrow> \<exists>r. secret_ref s = Some r"
  by (simp add: secret_iff)

lemma kind_cases:
  obtains "get_kind s = KindVmwareSource"
  | opts where "get_kind s = KindOvaSource" "get_options s = OvaOptions opts"
  | opts where "get_kind s = KindOpenstackSource" "get_options s = OpenstackOptions opts"
  using kind_known [of s] ova_options [of s] openstack_options [of s] by blast

end

lemma sanitize_options_pos:
  "0 < sint (UploadImageRetryCount (sanitize_options opts))"
  "0 < sint (UploadImageRetryDelay (sanitize_options opts))"
  by (auto simp: sanitize_options_def Let_def OpenstackDefaultRetryCount_def
      OpenstackDefaultRetryDelay_def)

interpretation vmware_src: source_resource VmwareSource_HasSecret VmwareSource_SecretReference
  VmwareSource_GetKind VmwareSource_GetOptions
  by unfold_locales (auto simp: source_defs kind_defs)

interpretation ova_src: source_resource OvaSource_HasSecret OvaSource_SecretReference
  OvaSource_GetKind OvaSource_GetOptions
  by unfold_locales (auto simp: source_defs kind_defs)

interpretation openstack_src: source_resource OpenstackSource_HasSecret
  OpenstackSource_SecretReference OpenstackSource_GetKind OpenstackSource_GetOptions
  by unfold_locales (auto simp: source_defs kind_defs sanitize_options_pos)

lemma SourceInterface_laws:
  "HasSecret s \<longleftrightarrow> SecretReference s \<noteq> None"
  "GetKind s \<in> {KindVmwareSource, KindOvaSource, KindOpenstackSource}"
  by (cases s; simp add: source_defs)+

interpretation src: source_resource HasSecret SecretReference GetKind GetOptions
proof unfold_locales
  fix s
  show "HasSecret s \<longleftrightarrow> SecretReference s \<noteq> None"
    and "GetKind s \<in> {KindVmwareSource, KindOvaSource, KindOpenstackSource}"
    by (fact SourceInterface_laws)+
  show "GetKind s = KindOvaSource \<Longrightarrow> \<exists>opts. GetOptions s = OvaOptions opts"
    by (cases s) (auto simp: source_defs kind_defs)
  show "GetKind s = KindOpenstackSource \<Longrightarrow>
      \<exists>opts. GetOptions s = OpenstackOptions opts \<and>
        0 < sint (UploadImageRetryCount opts) \<and> 0 < sint (UploadImageRetryDelay opts)"
    using openstack_src.openstack_options
    by (cases s) (auto simp: source_defs kind_defs sanitize_options_pos)
qed

section \<open>Bounds\<close>

lemma sint_times_int64:
  "sint ((a :: int64) * b) = (sint a * sint b + 2 ^ 63) mod 2 ^ 64 - 2 ^ 63"
proof -
  have "sint (a * b) = signed_take_bit 63 (sint a * sint b)"
    by (simp add: sint_word_ariths)
  then show ?thesis
    by (simp add: signed_take_bit_eq_take_bit_shift take_bit_eq_mod)
qed

lemma sint_time_Second: "sint time_Second = 10 ^ 9"
  unfolding time_Second_def by simp

text \<open>
  The options of an OpenStack source never make the upload loop run no time or wait backwards: a
  retry count or delay that is not positive becomes 30 or 10, a positive one stays as it is. The
  HTTP timeout of an OVA source is ten minutes by default and otherwise the number of seconds in
  nanoseconds, wrapped around to a 64-bit duration.
\<close>

theorem source_options_bounds:
  "sanitize_options opts =
     \<lparr>UploadImageRetryCount =
        (if 0 < sint (UploadImageRetryCount opts) then UploadImageRetryCount opts else 30),
      UploadImageRetryDelay =
        (if 0 < sint (UploadImageRetryDelay opts) then UploadImageRetryDelay opts else 10)\<rparr> \<and>
   0 < sint (UploadImageRetryCount (sanitize_options opts)) \<and>
   0 < sint (UploadImageRetryDelay (sanitize_options opts)) \<and>
   sint (GetHttpTimeout \<lparr>HttpTimeoutSeconds = None\<rparr>) = 600 * 10 ^ 9 \<and>
   sint (GetHttpTimeout \<lparr>HttpTimeoutSeconds = Some s\<rparr>) =
     (sint s * 10 ^ 9 + 2 ^ 63) mod 2 ^ 64 - 2 ^ 63"
proof (intro conjI)
  show "sanitize_options opts =
     \<lparr>UploadImageRetryCount =
        (if 0 < sint (UploadImageRetryCount opts) then UploadImageRetryCount opts else 30),
      UploadImageRetryDelay =
        (if 0 < sint (UploadImageRetryDelay opts) then UploadImageRetryDelay opts else 10)\<rparr>"
    by (cases opts) (simp add: sanitize_options_def Let_def OpenstackDefaultRetryCount_def
        OpenstackDefaultRetryDelay_def not_le)
  show "sint (GetHttpTimeout \<lparr>HttpTimeoutSeconds = Some s\<rparr>) =
     (sint s * 10 ^ 9 + 2 ^ 63) mod 2 ^ 64 - 2 ^ 63"
    by (simp add: GetHttpTimeout_def ptr_Deref_def sint_times_int64 sint_time_Second)
  show "sint (GetHttpTimeout \<lparr>HttpTimeoutSeconds = None\<rparr>) = 600 * 10 ^ 9"
    by (simp add: GetHttpTimeout_def ptr_Deref_def DefaultHttpTimeoutSeconds_def time_Second_def)
qed (rule sanitize_options_pos)+

end
