(* ===== verification/VMSpec.thy ===== *)
theory VMSpec
  imports ApiTypes
begin

text \<open>
  \<open>pkg/source/helper.go\<close>: the KubeVirt virtual machine specification built from the
  hardware and firmware of a source machine. The KubeVirt records hold the fields the program
  sets. A resource quantity is the literal handed to \<open>resource.MustParse\<close>; names of labels and
  annotations that other modules declare are the record \<open>HarvesterConsts\<close>, a parameter.
\<close>

section \<open>Names declared outside the repository\<close>

record HarvesterConsts =
  LabelVMName :: string
  AnnotationImageID :: string
  AnnotationStorageClassName :: string
  CSIProvisionerLonghorn :: string
  DataEngineTypeV1 :: string

section \<open>KubeVirt objects\<close>

datatype NetworkSource = Multus string | PodNetwork

record Network =
  net_Name :: string
  net_Source :: NetworkSource

datatype InterfaceBinding = Bridge | Masquerade

record Interface =
  if_Name :: string
  MacAddress :: string
  if_Model :: string
  Binding :: InterfaceBinding

record Volume =
  vol_Name :: string
  ClaimName :: string

record Disk =
  disk_Name :: string
  BootOrder :: int64
  disk_Bus :: DiskBus

datatype RunStrategyT = RunStrategyRerunOnFailure | RunStrategyOther string
datatype EvictionStrategyT = EvictionStrategyLiveMigrateIfPossible | EvictionStrategyOther string

record CPUTopology =
  Cores :: uint32
  Sockets :: uint32
  Threads :: uint32

record EFIFirmware =
  efi_SecureBoot :: bool

record VirtualMachineSpec =
  RunStrategy :: RunStrategyT
  TemplateLabels :: "string \<rightharpoonup> string"
  EvictionStrategy :: EvictionStrategyT
  CPU :: CPUTopology
  MemoryGuest :: string
  LimitMemory :: string
  LimitCPU :: string
  ACPI :: bool
  SMM :: "bool option"
  DomainFirmware :: "EFIFirmware option"
  DeviceTPM :: bool
  Networks :: "Network list"
  Interfaces :: "Interface list"
  Disks :: "Disk list"
  Volumes :: "Volume list"

record VirtualMachine =
  kv_Meta :: ObjectMeta
  kv_Spec :: VirtualMachineSpec
  kv_Ready :: bool

section \<open>helper.go\<close>

record Firmware =
  UEFI :: bool
  TPM :: bool
  SecureBoot :: bool

definition NewFirmware :: "bool \<Rightarrow> bool \<Rightarrow> bool \<Rightarrow> Firmware" where
  "NewFirmware uefi tpm secureBoot = \<lparr>UEFI = uefi, TPM = tpm, SecureBoot = secureBoot\<rparr>"

record Hardware =
  NumCPU :: uint32
  NumCoresPerSocket :: uint32
  MemoryMB :: int64

definition NewHardware :: "uint32 \<Rightarrow> uint32 \<Rightarrow> int64 \<Rightarrow> Hardware" where
  "NewHardware numCPU numCoresPerSocket memoryMB =
     \<lparr>NumCPU = numCPU, NumCoresPerSocket = numCoresPerSocket, MemoryMB = memoryMB\<rparr>"

definition NewVirtualMachineSpec :: "HarvesterConsts \<Rightarrow> string \<Rightarrow> Hardware \<Rightarrow> VirtualMachineSpec"
  where
  "NewVirtualMachineSpec hc name hw =
     \<lparr>RunStrategy = RunStrategyRerunOnFailure,
      TemplateLabels = [LabelVMName hc \<mapsto> name],
      EvictionStrategy = EvictionStrategyLiveMigrateIfPossible,
      CPU = \<lparr>Cores = NumCPU hw, Sockets = NumCoresPerSocket hw, Threads = 1\<rparr>,
      MemoryGuest = show_int (sint (MemoryMB hw)) @ ''M'',
      LimitMemory = show_int (sint (MemoryMB hw)) @ ''M'',
      LimitCPU = show_nat (unat (NumCPU hw)),
      ACPI = True,
      SMM = None,
      DomainFirmware = None,
      DeviceTPM = False,
      Networks = [],
      Interfaces = [],
      Disks = [],
      Volumes = []\<rparr>"

definition ApplyFirmwareSettings :: "VirtualMachineSpec \<Rightarrow> Firmware \<Rightarrow> VirtualMachineSpec" where
  "ApplyFirmwareSettings vmSpec fw =
     (if \<not> UEFI fw then vmSpec
      else let firmware = \<lparr>efi_SecureBoot = False\<rparr>;
               firmware = (if SecureBoot fw then firmware\<lparr>efi_SecureBoot := True\<rparr> else firmware);
               vmSpec = vmSpec\<lparr>DomainFirmware := Some firmware\<rparr>;
               vmSpec = (if TPM fw then vmSpec\<lparr>DeviceTPM := True\<rparr> else vmSpec)
           in if SecureBoot fw \<or> TPM fw then vmSpec\<lparr>SMM := Some True\<rparr> else vmSpec)"

text \<open>The virtual CPUs KubeVirt gives the guest: cores times sockets times threads.\<close>

definition guest_vcpus :: "VirtualMachineSpec \<Rightarrow> nat" where
  "guest_vcpus s = unat (Cores (CPU s)) * unat (Sockets (CPU s)) * unat (Threads (CPU s))"

section \<open>Properties\<close>

lemma ApplyFirmwareSettings_frame [simp]:
  "RunStrategy (ApplyFirmwareSettings s fw) = RunStrategy s"
  "TemplateLabels (ApplyFirmwareSettings s fw) = TemplateLabels s"
  "CPU (ApplyFirmwareSettings s fw) = CPU s"
  "MemoryGuest (ApplyFirmwareSettings s fw) = MemoryGuest s"
  "LimitMemory (ApplyFirmwareSettings s fw) = LimitMemory s"
  "LimitCPU (ApplyFirmwareSettings s fw) = LimitCPU s"
  "Networks (ApplyFirmwareSettings s fw) = Networks s"
  "Interfaces (ApplyFirmwareSettings s fw) = Interfaces s"
  "Disks (ApplyFirmwareSettings s fw) = Disks s"
  "Volumes (ApplyFirmwareSettings s fw) = Volumes s"
  by (simp_all add: ApplyFirmwareSettings_def Let_def)

lemma NewVirtualMachineSpec_sel [simp]:
  "SMM (NewVirtualMachineSpec hc n hw) = None"
  "DomainFirmware (NewVirtualMachineSpec hc n hw) = None"
  "DeviceTPM (NewVirtualMachineSpec hc n hw) = False"
  "CPU (NewVirtualMachineSpec hc n hw) =
    \<lparr>Cores = NumCPU hw, Sockets = NumCoresPerSocket hw, Threads = 1\<rparr>"
  "LimitCPU (NewVirtualMachineSpec hc n hw) = show_nat (unat (NumCPU hw))"
  "TemplateLabels (NewVirtualMachineSpec hc n hw) = [LabelVMName hc \<mapsto> n]"
  by (simp_all add: NewVirtualMachineSpec_def)

lemma guest_vcpus_new:
  "guest_vcpus (NewVirtualMachineSpec hc n hw) =
   unat (NumCPU hw) * unat (NumCoresPerSocket hw)"
  by (simp add: guest_vcpus_def)

text \<open>
  The firmware part of a freshly built specification: a boot loader is configured exactly for
  UEFI machines and its secure boot flag is the machine's; a TPM device is added exactly for UEFI
  machines with a TPM; system management mode is enabled exactly when one of the two needs it.
\<close>

lemma firmware_of_new_spec:
  "DomainFirmware (ApplyFirmwareSettings (NewVirtualMachineSpec hc n hw) fw) =
     (if UEFI fw then Some \<lparr>efi_SecureBoot = SecureBoot fw\<rparr> else None)"
  "DeviceTPM (ApplyFirmwareSettings (NewVirtualMachineSpec hc n hw) fw) \<longleftrightarrow> UEFI fw \<and> TPM fw"
  "SMM (ApplyFirmwareSettings (NewVirtualMachineSpec hc n hw) fw) =
     (if UEFI fw \<and> (SecureBoot fw \<or> TPM fw) then Some True else None)"
  by (auto simp: ApplyFirmwareSettings_def Let_def)

text \<open>
  The virtual CPUs of a guest are the number of CPUs times the number of cores per socket: the
  specification takes the total for the cores and the cores per socket for the sockets. They are
  the CPUs of the source machine, and of the CPU limit, only if it has one core per socket.
\<close>

theorem NewVirtualMachineSpec_vcpus:
  "guest_vcpus (NewVirtualMachineSpec hc n hw) = unat (NumCPU hw) * unat (NumCoresPerSocket hw) \<and>
   LimitCPU (NewVirtualMachineSpec hc n hw) = show_nat (unat (NumCPU hw)) \<and>
   (guest_vcpus (NewVirtualMachineSpec hc n hw) = unat (NumCPU hw) \<longleftrightarrow>
      NumCPU hw = 0 \<or> NumCoresPerSocket hw = 1)"
proof -
  have "unat (NumCoresPerSocket hw) = Suc 0 \<longleftrightarrow> NumCoresPerSocket hw = 1"
    by (simp add: word_unat_eq_iff)
  then show ?thesis
    by (simp add: guest_vcpus_new unat_eq_zero)
qed

text \<open>
  The firmware settings of the source machine reach a fresh specification as one update: a
  boot loader exactly for UEFI machines, with the machine's secure boot flag; a TPM device exactly
  for UEFI machines with a TPM; system management mode exactly when one of these two needs it.
\<close>

theorem ApplyFirmwareSettings_spec:
  "ApplyFirmwareSettings (NewVirtualMachineSpec hc n hw) fw =
     (NewVirtualMachineSpec hc n hw)
       \<lparr>DomainFirmware := (if UEFI fw then Some \<lparr>efi_SecureBoot = SecureBoot fw\<rparr> else None),
        DeviceTPM := UEFI fw \<and> TPM fw,
        SMM := (if UEFI fw \<and> (SecureBoot fw \<or> TPM fw) then Some True else None)\<rparr>"
  by (simp add: ApplyFirmwareSettings_def NewVirtualMachineSpec_def Let_def)

end
