(* ===== verification/StorageClasses.thy ===== *)
theory StorageClasses
  imports VMSpec
begin

text \<open>
  \<open>pkg/util/storageclass.go\<close>: the storage class lookup (its cache is a parameter) and the
  image backend that a storage class calls for.
\<close>

definition GetStorageClassByName ::
  "string \<Rightarrow> (string \<Rightarrow> 'x \<Rightarrow> (go_error + StorageClass) \<times> 'x) \<Rightarrow> ('x, 'ev) world \<Rightarrow>
   (go_error + StorageClass) \<times> ('x, 'ev) world" where
  "GetStorageClassByName scName scGet w = query (scGet scName) w"

definition getBackendFromStorageClass :: "HarvesterConsts \<Rightarrow> StorageClass \<Rightarrow> VMIBackend" where
  "getBackendFromStorageClass hc sc =
     (if Provisioner sc = CSIProvisionerLonghorn hc
      then (case Parameters sc ''dataEngine'' of
              Some dataEngine \<Rightarrow>
                if dataEngine = DataEngineTypeV1 hc then VMIBackendBackingImage else VMIBackendCDI
            | None \<Rightarrow> VMIBackendCDI)
      else VMIBackendCDI)"

definition GetBackendFromStorageClassName ::
  "HarvesterConsts \<Rightarrow> string \<Rightarrow> (string \<Rightarrow> 'x \<Rightarrow> (go_error + StorageClass) \<times> 'x) \<Rightarrow>
   ('x, 'ev) world \<Rightarrow> (go_error + VMIBackend) \<times> ('x, 'ev) world" where
  "GetBackendFromStorageClassName hc scName scGet w =
     (case GetStorageClassByName scName scGet w of
        (Inl err, w) \<Rightarrow> (Inl err, w)
      | (Inr sc, w) \<Rightarrow> (Inr (getBackendFromStorageClass hc sc), w))"

lemma GetStorageClassByName_log [world_simps]:
  "GetStorageClassByName n g w = (r, w') \<Longrightarrow> log w' = log w"
  by (auto simp: GetStorageClassByName_def dest: query_log)

lemma GetBackendFromStorageClassName_log [world_simps]:
  "GetBackendFromStorageClassName hc n g w = (r, w') \<Longrightarrow> log w' = log w"
  by (auto simp: GetBackendFromStorageClassName_def dest: GetStorageClassByName_log
      split: prod.splits sum.splits)

lemma backend_iff:
  "getBackendFromStorageClass hc sc = VMIBackendBackingImage \<longleftrightarrow>
   Provisioner sc = CSIProvisionerLonghorn hc \<and>
   Parameters sc ''dataEngine'' = Some (DataEngineTypeV1 hc)"
  by (auto simp: getBackendFromStorageClass_def split: option.splits)

lemma backend_set: "getBackendFromStorageClass hc sc \<noteq> VMIBackendUnset"
  by (simp add: getBackendFromStorageClass_def split: option.splits)

text \<open>
  The backend of the images of an import follows from its storage class: a backing image exactly
  for the Longhorn provisioner with the V1 data engine, CDI for every other class, never unset; a
  class that cannot be read is an error.
\<close>

theorem GetBackendFromStorageClassName_spec:
  "GetBackendFromStorageClassName hc n get w =
     (let (r, w') = query (get n) w
      in (map_sum id (\<lambda>sc. if Provisioner sc = CSIProvisionerLonghorn hc \<and>
                             Parameters sc ''dataEngine'' = Some (DataEngineTypeV1 hc)
                          then VMIBackendBackingImage else VMIBackendCDI) r, w'))"
  by (auto simp: GetBackendFromStorageClassName_def GetStorageClassByName_def
      getBackendFromStorageClass_def split: prod.splits sum.splits option.splits)

end
