(* ===== verification/NetworkMaps.thy ===== *)
theory NetworkMaps
  imports VMSpec
begin

text \<open>
  \<open>pkg/source/network.go\<close>: from the interfaces of the source machine and the network mapping
  of the import to KubeVirt networks and interfaces.
\<close>

record NetworkInfo =
  NetworkName :: string
  MAC :: string
  MappedNetwork :: string
  Model :: string

text \<open>
  The inner loop of \<open>MapNetworks\<close>. The loop variable \<open>ni\<close> is assigned in the body, so what
  one mapping writes is still there when a later mapping of the same network is met.
\<close>

fun map_one :: "NetworkInfo \<Rightarrow> NetworkMapping list \<Rightarrow> NetworkInfo list" where
  "map_one ni [] = []"
| "map_one ni (nm # nms) =
     (if SourceNetwork nm = NetworkName ni
      then let ni = ni\<lparr>MappedNetwork := DestinationNetwork nm\<rparr>;
               ni = (if NetworkInterfaceModel nm \<noteq> None
                     then ni\<lparr>Model := GetNetworkInterfaceModel nm\<rparr> else ni)
           in ni # map_one ni nms
      else map_one ni nms)"

fun MapNetworks :: "NetworkInfo list \<Rightarrow> NetworkMapping list \<Rightarrow> NetworkInfo list" where
  "MapNetworks [] networkMappings = []"
| "MapNetworks (ni # nis) networkMappings = map_one ni networkMappings @ MapNetworks nis networkMappings"

definition migrated_name :: "nat \<Rightarrow> string" where
  "migrated_name i = ''migrated-'' @ show_nat i"

fun network_loop :: "nat \<Rightarrow> NetworkInfo list \<Rightarrow> Network list \<times> Interface list" where
  "network_loop i [] = ([], [])"
| "network_loop i (ni # nis) =
     (let (ns, is) = network_loop (Suc i) nis in
      (\<lparr>net_Name = migrated_name i, net_Source = Multus (MappedNetwork ni)\<rparr> # ns,
       \<lparr>if_Name = migrated_name i, MacAddress = MAC ni, if_Model = Model ni, Binding = Bridge\<rparr> # is))"

definition GenerateNetworkInterfaceConfigs ::
  "NetworkInfo list \<Rightarrow> string \<Rightarrow> Network list \<times> Interface list" where
  "GenerateNetworkInterfaceConfigs networkInfos defaultNetworkInterfaceModel =
     (let (networks, interfaces) = network_loop 0 networkInfos in
      if length networks = 0
      then (networks @ [\<lparr>net_Name = ''pod-network'', net_Source = PodNetwork\<rparr>],
            interfaces @ [\<lparr>if_Name = ''pod-network'', MacAddress = [],
                           if_Model = defaultNetworkInterfaceModel, Binding = Masquerade\<rparr>])
      else (networks, interfaces))"

section \<open>MapNetworks\<close>

text \<open>The result of one mapping entry, when it is the only one for its source network.\<close>

definition apply_mapping :: "NetworkInfo \<Rightarrow> NetworkMapping \<Rightarrow> NetworkInfo" where
  "apply_mapping ni nm =
     ni\<lparr>MappedNetwork := DestinationNetwork nm,
        Model := (case NetworkInterfaceModel nm of None \<Rightarrow> Model ni | Some m \<Rightarrow> m)\<rparr>"

definition mapping_for :: "NetworkInfo \<Rightarrow> NetworkMapping list \<Rightarrow> NetworkMapping option" where
  "mapping_for ni nms = find (\<lambda>nm. SourceNetwork nm = NetworkName ni) nms"

lemma map_one_none: "NetworkName ni \<notin> SourceNetwork ` set nms \<Longrightarrow> map_one ni nms = []"
  by (induction nms) auto

lemma map_one_distinct:
  "distinct (map SourceNetwork nms) \<Longrightarrow>
   map_one ni nms = (case mapping_for ni nms of None \<Rightarrow> [] | Some nm \<Rightarrow> [apply_mapping ni nm])"
proof (induction nms)
  case Nil
  then show ?case by (simp add: mapping_for_def)
next
  case (Cons nm nms)
  then show ?case
    by (auto simp: mapping_for_def apply_mapping_def Let_def GetNetworkInterfaceModel_def
        intro!: map_one_none)
qed

lemma map_one_fields:
  "x \<in> set (map_one ni nms) \<Longrightarrow> NetworkName x = NetworkName ni \<and> MAC x = MAC ni \<and>
     (\<exists>nm \<in> set nms. SourceNetwork nm = NetworkName ni \<and> MappedNetwork x = DestinationNetwork nm)"
  by (induction nms arbitrary: ni) (fastforce simp: Let_def split: if_splits)+

lemma MapNetworks_concat: "MapNetworks nis nms = concat (map (\<lambda>ni. map_one ni nms) nis)"
  by (induction nis) auto

text \<open>
  C29. With pairwise different source networks (which the preflight checks enforce),
  \<open>MapNetworks\<close> keeps, in order, exactly the interfaces whose network has a mapping, connects
  each to the mapped destination with the mapping's interface model (or the detected one), and
  drops every other interface: an interface without a match is not attached to any network.
\<close>

theorem MapNetworks_spec:
  assumes "distinct (map SourceNetwork nms)"
  shows "MapNetworks nis nms =
    List.map_filter (\<lambda>ni. map_option (apply_mapping ni) (mapping_for ni nms)) nis"
proof (induction nis)
  case Nil
  then show ?case by (simp add: List.map_filter_simps)
next
  case (Cons ni nis)
  then show ?case
    by (simp add: List.map_filter_simps map_one_distinct [OF assms] split: option.splits)
qed

theorem MapNetworks_spec_witness:
  "MapNetworks
     [\<lparr>NetworkName = ''dv1'', MAC = ''aa'', MappedNetwork = [], Model = ''e1000''\<rparr>,
      \<lparr>NetworkName = ''dv9'', MAC = ''bb'', MappedNetwork = [], Model = ''e1000''\<rparr>]
     [\<lparr>SourceNetwork = ''dv1'', DestinationNetwork = ''default/vlan1'', NetworkInterfaceModel = None\<rparr>]
   = [\<lparr>NetworkName = ''dv1'', MAC = ''aa'', MappedNetwork = ''default/vlan1'', Model = ''e1000''\<rparr>]"
  by (subst MapNetworks_spec)
    (simp_all add: List.map_filter_simps mapping_for_def apply_mapping_def)

section \<open>GenerateNetworkInterfaceConfigs\<close>

lemma network_loop_map:
  "network_loop i nis =
   (map (\<lambda>(j, ni). \<lparr>net_Name = migrated_name j, net_Source = Multus (MappedNetwork ni)\<rparr>)
      (enumerate i nis),
    map (\<lambda>(j, ni). \<lparr>if_Name = migrated_name j, MacAddress = MAC ni, if_Model = Model ni,
                     Binding = Bridge\<rparr>) (enumerate i nis))"
  by (induction nis arbitrary: i) auto

lemma migrated_name_inject [simp]: "migrated_name i = migrated_name j \<longleftrightarrow> i = j"
  by (simp add: migrated_name_def)

lemma network_loop_names:
  "map net_Name (fst (network_loop i nis)) = map migrated_name [i..<i + length nis]"
  "map if_Name (snd (network_loop i nis)) = map migrated_name [i..<i + length nis]"
  by (induction nis arbitrary: i) (simp_all add: case_prod_beta upt_conv_Cons del: upt_Suc)

lemma network_loop_sources:
  "map net_Source (fst (network_loop i nis)) = map (\<lambda>ni. Multus (MappedNetwork ni)) nis"
  by (induction nis arbitrary: i) (simp_all add: case_prod_beta)

lemma network_loop_interfaces:
  "map MacAddress (snd (network_loop i nis)) = map MAC nis"
  "map if_Model (snd (network_loop i nis)) = map Model nis"
  by (induction nis arbitrary: i) (simp_all add: case_prod_beta)

lemma network_loop_length [simp]: "length (fst (network_loop i nis)) = length nis"
  using network_loop_sources [of i nis] by (metis length_map)

lemma GenerateNetworkInterfaceConfigs_Cons:
  "nis \<noteq> [] \<Longrightarrow> GenerateNetworkInterfaceConfigs nis m = network_loop 0 nis"
  using network_loop_length [of 0 nis]
  by (auto simp: GenerateNetworkInterfaceConfigs_def simp del: network_loop_length split: prod.splits)

lemma GenerateNetworkInterfaceConfigs_Nil:
  "GenerateNetworkInterfaceConfigs [] m =
    ([\<lparr>net_Name = ''pod-network'', net_Source = PodNetwork\<rparr>],
     [\<lparr>if_Name = ''pod-network'', MacAddress = [], if_Model = m, Binding = Masquerade\<rparr>])"
  by (simp add: GenerateNetworkInterfaceConfigs_def)

lemma network_configs_shape:
  "case GenerateNetworkInterfaceConfigs nis m of (ns, is) \<Rightarrow>
     ns \<noteq> [] \<and> map net_Name ns = map if_Name is \<and> distinct (map net_Name ns)"
proof (cases "nis = []")
  case True
  then show ?thesis by (simp add: GenerateNetworkInterfaceConfigs_Nil)
next
  case False
  have "distinct (map migrated_name [0..<length nis])"
    by (simp add: distinct_map inj_on_def)
  moreover have "fst (network_loop 0 nis) \<noteq> []"
    using False network_loop_length [of 0 nis] by (metis length_0_conv)
  ultimately show ?thesis
    using False network_loop_names [of 0 nis]
    by (simp add: GenerateNetworkInterfaceConfigs_Cons case_prod_beta)
qed

text \<open>
  The generated networks and interfaces pair up by name, the names are pairwise
  different, and there is at least one of them: the pod network when nothing is mapped, and
  otherwise one Multus network per mapped interface, in order, on its mapped network, with the
  interface's MAC address and model.
\<close>

theorem GenerateNetworkInterfaceConfigs_spec:
  "case GenerateNetworkInterfaceConfigs nis m of (ns, is) \<Rightarrow>
     map net_Name ns = map if_Name is \<and> distinct (map net_Name ns) \<and> ns \<noteq> [] \<and>
     map net_Source ns = (if nis = [] then [PodNetwork] else map (\<lambda>ni. Multus (MappedNetwork ni)) nis) \<and>
     map MacAddress is = (if nis = [] then [[]] else map MAC nis) \<and>
     map if_Model is = (if nis = [] then [m] else map Model nis)"
proof (cases "nis = []")
  case True
  then show ?thesis by (simp add: GenerateNetworkInterfaceConfigs_Nil)
next
  case False
  then show ?thesis
    using network_configs_shape [of nis m] network_loop_sources [of 0 nis]
      network_loop_interfaces [of 0 nis]
    by (auto simp: GenerateNetworkInterfaceConfigs_Cons case_prod_beta)
qed

end
