(* ===== verification/Wiring.thy ===== *)
theory Wiring
  imports ApiTypes
begin

text \<open>
  What the start of the process hands to the libraries: the custom resource definitions of
  \<open>pkg/crd/crd.go\<close>, the controller factories of \<open>pkg/controllers/controllers.go\<close>, the
  handlers the \<open>Register\<close> functions of \<open>pkg/controllers/migration\<close> build, and the
  calls that hand them over.
\<close>

text \<open>The names of the API: the structs of \<open>k8s.io/apimachinery/pkg/runtime/schema\<close>.\<close>

record GroupVersion =
  gv_Group :: string
  gv_Version :: string

record GroupVersionKind =
  gvk_Group :: string
  gvk_Version :: string
  gvk_Kind :: string

text \<open>The Go types the scheme of the group knows (\<open>addKnownTypes\<close>).\<close>

datatype KnownType =
    OpenstackSourceType | OpenstackSourceListType | OvaSourceType | OvaSourceListType
  | VirtualMachineImportType | VirtualMachineImportListType | VmwareSourceType | VmwareSourceListType

datatype SchemaObject =
    VmwareSourceObject | OvaSourceObject | OpenstackSourceObject | VirtualMachineImportObject

record CRD =
  crd_Group :: string
  crd_Version :: string
  crd_Status :: bool
  crd_NonNamespace :: bool
  crd_SchemaObject :: SchemaObject
  crd_Columns :: "(string \<times> string) list"

datatype Factory =
    MigrationFactory | CoreFactory | HarvesterFactory | KubevirtFactory | StorageFactory | CniFactory

text \<open>A typed controller of a factory, and the cache of one.\<close>

datatype Controller = TypedController Factory string

datatype Cache = CacheOf Controller

text \<open>The handlers, with the controllers they keep (\<open>virtualMachineHandler\<close> has ten).\<close>

record handler_clients =
  hc_vmware :: Controller
  hc_ova :: Controller
  hc_openstack :: Controller
  hc_secret :: Controller
  hc_importVM :: Controller
  hc_vmi :: Controller
  hc_kubevirt :: Controller
  hc_pvc :: Controller
  hc_sc :: Cache
  hc_nadCache :: Cache

datatype Handler =
    VmwareSourceChange Controller Controller
  | OvaSourceChange Controller Controller
  | OpenstackSourceChange Controller Controller
  | VirtualMachineChange handler_clients
  | VirtualMachineRemove handler_clients
  | ReconcileImage handler_clients

text \<open>The options of the shared controller factory: back-off in milliseconds, and workers.\<close>

record factory_options =
  backoff_base :: int
  backoff_max :: int
  DefaultWorkers :: int

datatype start_event =
    KnownTypesAdded GroupVersion "KnownType list"
  | GroupVersionAdded GroupVersion
  | SchemeAdded string bool
  | DebugLevel
  | BatchCreated "CRD list" bool
  | ControllerFactory factory_options
  | FactoryMade Factory bool bool
  | Registered Controller string Handler
  | RegisteredRemove Controller string Handler
  | Watched string Handler Controller Controller
  | StartedAll int "Factory list" bool

end
