(* ===== verification/Events.thy ===== *)
theory Events
  imports NetworkMaps Wiring
begin

text \<open>
  The events of the log: one constructor per call by which the program changes something
  outside itself. An event carries the arguments of the call and, where a property needs it,
  its result.
\<close>

datatype event =
    \<comment> \<open>import and source resources\<close>
    EvUpdateStatus VirtualMachineImport
  | EvEnqueueAfter string string int
  | EvUpdateVmwareSource VmwareSource
  | EvUpdateOvaSource OvaSource
  | EvUpdateOpenstackSource OpenstackSource
    \<comment> \<open>objects of the target cluster\<close>
  | EvImageCreate VirtualMachineImage
  | EvImageUpdate VirtualMachineImage
  | EvImageDelete string string
  | EvPVCCreate PersistentVolumeClaim
  | EvVMCreate VirtualMachine
    \<comment> \<open>calls through the \<open>VirtualMachineOperations\<close> interface\<close>
  | EvShutdownGuest VirtualMachineImport
  | EvPowerOff VirtualMachineImport
  | EvExport VirtualMachineImport
  | EvCleanup VirtualMachineImport
    \<comment> \<open>file system and conversion\<close>
  | EvMkdirTemp string "string option"
  | EvFileCreate string bool
  | EvFileWrite string bool
  | EvFileRemove string
  | EvRemoveAll string
  | EvConvert string string bool
    \<comment> \<open>vSphere\<close>
  | EvVsphereShutdownGuest string
  | EvVspherePowerOff string
  | EvLeaseOpen string bool
  | EvLeaseDownload string string
  | EvLeaseComplete
  | EvUpdaterStart
  | EvUpdaterDone
    \<comment> \<open>OpenStack\<close>
  | EvServerStop string
  | EvSnapshotCreate string "string option"
  | EvSnapshotDelete string
  | EvVolumeCreate string "string option"
  | EvVolumeDelete string
  | EvImageUpload string "string option"
  | EvGlanceDelete string
  | EvSleep int
    \<comment> \<open>standard output\<close>
  | EvPrint string
    \<comment> \<open>start of the process\<close>
  | EvStart start_event

type_synonym 'x go_world = "('x, event) world"

text \<open>Code that may panic and code that may not.\<close>

type_synonym ('x, 'a) go = "'x go_world \<Rightarrow> ('a \<times> 'x go_world) option"
type_synonym ('x, 'a) call = "'x \<Rightarrow> 'a \<times> 'x"

text \<open>
  The mark the controller leaves before it calls an operation of a source client: it records
  that the call was made and does nothing else.
\<close>

definition mark :: "event \<Rightarrow> 'x go_world \<Rightarrow> 'x go_world" where
  "mark ev w = w\<lparr>log := log w @ [ev]\<rparr>"

lemma mark_log [simp]: "log (mark ev w) = log w @ [ev]"
  by (simp add: mark_def)

lemma emits_mark: "P ev \<Longrightarrow> emits P (mark ev w) m \<Longrightarrow> emits P w m"
  by (rule emits_step [where v = "mark ev w" and ev = ev]) simp_all

text \<open>Events of the interface calls: what a provider does inside a call is never one of them.\<close>

fun controller_event :: "event \<Rightarrow> bool" where
  "controller_event (EvUpdateStatus vm) = True"
| "controller_event (EvEnqueueAfter ns n d) = True"
| "controller_event (EvImageCreate img) = True"
| "controller_event (EvImageUpdate img) = True"
| "controller_event (EvImageDelete ns n) = True"
| "controller_event (EvPVCCreate p) = True"
| "controller_event (EvVMCreate v) = True"
| "controller_event (EvShutdownGuest vm) = True"
| "controller_event (EvPowerOff vm) = True"
| "controller_event (EvExport vm) = True"
| "controller_event (EvCleanup vm) = True"
| "controller_event (EvUpdateVmwareSource s) = True"
| "controller_event (EvUpdateOvaSource s) = True"
| "controller_event (EvUpdateOpenstackSource s) = True"
| "controller_event e = False"

end
