(* ===== verification/TempFiles.thy ===== *)
theory TempFiles
  imports Events
begin

text \<open>
  The directory the disk images are served from (\<open>pkg/server/server.go\<close>), the base name helper
  of \<open>pkg/util/filepath.go\<close>, and \<open>RemoveTempImageFiles\<close> of \<open>pkg/source/helper.go\<close>.
  \<open>os.Remove\<close> is a parameter: it returns nil or an error.
\<close>

definition tmpDir :: string where "tmpDir = ''/tmp/vm-import-controller''"
definition defaultPort :: int where "defaultPort = 8080"

definition TempDir :: string where "TempDir = tmpDir"
definition DefaultPort :: int where "DefaultPort = defaultPort"

text \<open>\<open>server.Address\<close>, for the value of the environment variable SVC\_ADDRESS (empty if unset).\<close>

definition server_Address :: "string \<Rightarrow> string" where
  "server_Address svcAddress =
     (let address = ''harvester-vm-import-controller.harvester-system.svc''
      in if svcAddress \<noteq> [] then svcAddress else address)"

text \<open>\<open>createTempDir\<close>: the directory is created only when \<open>os.Stat\<close> says it does not exist.\<close>

definition createTempDir ::
  "('x, go_error option) call \<Rightarrow> (string \<Rightarrow> ('x, go_error option) call) \<Rightarrow> 'x go_world \<Rightarrow>
   go_error option \<times> 'x go_world" where
  "createTempDir os_Stat os_Mkdir w =
     (case query os_Stat w of
        (None, w) \<Rightarrow> (None, w)
      | (Some err, w) \<Rightarrow>
          if os_IsNotExist err
          then effect (\<lambda>r. EvFileCreate tmpDir (r = None)) (os_Mkdir tmpDir) w
          else (Some err, w))"

definition BaseName :: "string \<Rightarrow> string" where
  "BaseName path =
     (let filename = filepath_Base path; ext = filepath_Ext filename
      in strings_TrimSuffix filename ext)"

text \<open>The loop of \<open>RemoveTempImageFiles\<close>, with the errors collected so far.\<close>

fun remove_loop ::
  "(string \<Rightarrow> ('x, go_error option) call) \<Rightarrow> go_error list \<Rightarrow> DiskInfo list \<Rightarrow> 'x go_world \<Rightarrow>
   go_error list \<times> 'x go_world" where
  "remove_loop os_Remove errs [] w = (errs, w)"
| "remove_loop os_Remove errs (di # dis) w =
     (let path = filepath_Join [TempDir, DiskName di];
          (err, w) = effect (\<lambda>_. EvFileRemove path) (os_Remove path) w
      in case err of
           Some e \<Rightarrow> if \<not> os_IsNotExist e
             then remove_loop os_Remove (errs @ [Wrapf ''failed to remove image file: '' e]) dis w
             else remove_loop os_Remove errs dis w
         | None \<Rightarrow> remove_loop os_Remove errs dis w)"

definition RemoveTempImageFiles ::
  "(string \<Rightarrow> ('x, go_error option) call) \<Rightarrow> DiskInfo list \<Rightarrow> 'x go_world \<Rightarrow>
   go_error option \<times> 'x go_world" where
  "RemoveTempImageFiles os_Remove dis w =
     (let (errs, w) = remove_loop os_Remove [] dis w
      in if 0 < length errs then (Some (Joined errs), w) else (None, w))"

section \<open>Every file is tried\<close>

definition image_paths :: "DiskInfo list \<Rightarrow> string list" where
  "image_paths dis = map (\<lambda>di. filepath_Join [TempDir, DiskName di]) dis"

lemma remove_loop_log:
  "remove_loop rm errs dis w = (errs', w') \<Longrightarrow>
   log w' = log w @ map EvFileRemove (image_paths dis)"
  by (induction dis arbitrary: errs w)
    (auto simp: image_paths_def Let_def dest: effect_log split: prod.splits option.splits if_splits)

lemma remove_loop_errs:
  "remove_loop rm errs dis w = (errs', w') \<Longrightarrow> \<exists>more. errs' = errs @ more \<and> length more \<le> length dis"
proof (induction dis arbitrary: errs w)
  case Nil
  then show ?case by simp
next
  case (Cons di dis)
  then show ?case
    by (fastforce simp: Let_def split: prod.splits option.splits if_splits)
qed

lemma RemoveTempImageFiles_log [world_simps]:
  "RemoveTempImageFiles rm dis w = (r, w') \<Longrightarrow>
   log w' = log w @ map EvFileRemove (image_paths dis)"
  by (auto simp: RemoveTempImageFiles_def Let_def dest: remove_loop_log
      split: prod.splits if_splits)

text \<open>The removal answers of a file system that decides each path once and for all.\<close>

lemma remove_loop_stateless:
  "remove_loop (\<lambda>p x. (f p, x)) errs dis w =
   (errs @ List.map_filter (\<lambda>p. case f p of
        Some e \<Rightarrow> if os_IsNotExist e then None else Some (Wrapf ''failed to remove image file: '' e)
      | None \<Rightarrow> None) (image_paths dis),
    w\<lparr>log := log w @ map EvFileRemove (image_paths dis)\<rparr>)"
  by (induction dis arbitrary: errs w)
    (auto simp: image_paths_def List.map_filter_simps effect_def split: option.splits)

section \<open>Where the image of a disk lies\<close>

text \<open>Some event of the list has put the image of a disk where it is served from.\<close>

definition stored :: "event list \<Rightarrow> DiskInfo \<Rightarrow> bool" where
  "stored es d \<longleftrightarrow>
     (\<exists>src. EvConvert src (filepath_Join [TempDir, DiskName d]) True \<in> set es) \<or>
     EvFileWrite (filepath_Join [TempDir, DiskName d]) True \<in> set es"

lemma stored_append [simp]: "stored (es @ fs) d \<longleftrightarrow> stored es d \<or> stored fs d"
  by (auto simp: stored_def)

lemma stored_mono: "stored es d \<Longrightarrow> set es \<subseteq> set fs \<Longrightarrow> stored fs d"
  by (auto simp: stored_def)

lemma stored_path_cong: "DiskName d = DiskName d' \<Longrightarrow> stored es d = stored es d'"
  by (simp add: stored_def)

text \<open>A plain file name in the directory: joined, and taken apart again.\<close>

lemma Join_TempDir:
  assumes "CHR ''/'' \<notin> set n" "n \<notin> {[], ''.'', ''..''}"
  shows "filepath_Join [TempDir, n] = TempDir @ ''/'' @ n"
proof -
  have "strings_Split (''/tmp/vm-import-controller/'' @ n) (CHR ''/'') =
      [[], ''tmp'', ''vm-import-controller'', n]"
    using Split_no_sep [OF assms(1)] by simp
  then show ?thesis
    using assms(2) by (simp add: filepath_Join_def filepath_Clean_def TempDir_def tmpDir_def
        strings_HasPrefix_def)
qed

lemma Base_TempDir:
  assumes "CHR ''/'' \<notin> set n" "n \<noteq> []"
  shows "filepath_Base (TempDir @ ''/'' @ n) = n"
proof -
  have "dropWhile (\<lambda>c. c = CHR ''/'') (rev n @ xs) = rev n @ xs" for xs
    using assms by (cases n rule: rev_cases) auto
  then show ?thesis
    using assms after_last_append [OF assms(1), of TempDir] by (simp add: filepath_Base_def Let_def)
qed

section \<open>The outcome\<close>

text \<open>What the removal of one path adds to the joined error, for a file system that answers \<open>f\<close>.\<close>

definition removal_error :: "(string \<Rightarrow> go_error option) \<Rightarrow> string \<Rightarrow> go_error option" where
  "removal_error f p =
     (case f p of
        Some e \<Rightarrow> if os_IsNotExist e then None else Some (Wrapf ''failed to remove image file: '' e)
      | None \<Rightarrow> None)"

text \<open>
  \<open>RemoveTempImageFiles\<close> tries the file of every disk, whatever the earlier removals
  answer; a file that is already gone is no error, and all other errors are joined, in the order
  of the disks, into the error that is returned.
\<close>

theorem RemoveTempImageFiles_spec:
  "RemoveTempImageFiles (\<lambda>p x. (f p, x)) dis w =
     (let errs = List.map_filter (removal_error f) (image_paths dis)
      in (if errs = [] then None else Some (Joined errs),
          w\<lparr>log := log w @ map EvFileRemove (image_paths dis)\<rparr>))"
  using remove_loop_stateless [of f "[]" dis w]
  by (simp add: RemoveTempImageFiles_def removal_error_def [abs_def] Let_def)

end
