(* ===== verification/Operations.thy ===== *)
theory Operations
  imports Sources StorageClasses TempFiles
begin

text \<open>
  The Go interface \<open>VirtualMachineOperations\<close> as a table of methods, the contract its
  implementations keep (the locale \<open>vm_operations\<close>, interpreted on the three clients in their
  own theories), and the handler of \<open>pkg/controllers/migration/virtualmachine.go\<close> with the
  services it calls.

  A method that changes the import it is given returns it; the others take it by value because
  no implementation writes through it.
\<close>

section \<open>The interface\<close>

record 'x VirtualMachineOperations =
  SanitizeVirtualMachineImport ::
    "VirtualMachineImport \<Rightarrow> ('x, go_error option \<times> VirtualMachineImport) go"
  ExportVirtualMachine ::
    "VirtualMachineImport \<Rightarrow> ('x, go_error option \<times> VirtualMachineImport) go"
  ShutdownGuest :: "VirtualMachineImport \<Rightarrow> ('x, go_error option) go"
  PowerOff :: "VirtualMachineImport \<Rightarrow> ('x, go_error option) go"
  IsPowerOffSupported :: bool
  IsPoweredOff :: "VirtualMachineImport \<Rightarrow> ('x, go_error + bool) go"
  GenerateVirtualMachine :: "VirtualMachineImport \<Rightarrow> ('x, go_error + VirtualMachine) go"
  PreFlightChecks :: "VirtualMachineImport \<Rightarrow> ('x, go_error option) go"
  Cleanup :: "VirtualMachineImport \<Rightarrow> ('x, go_error option) go"

section \<open>The handler\<close>

record 'x virtualMachineHandler =
  vmware_Get :: "string \<Rightarrow> string \<Rightarrow> ('x, go_error + VmwareSource) call"
  ova_Get :: "string \<Rightarrow> string \<Rightarrow> ('x, go_error + OvaSource) call"
  openstack_Get :: "string \<Rightarrow> string \<Rightarrow> ('x, go_error + OpenstackSource) call"
  secret_Get :: "string \<Rightarrow> string \<Rightarrow> ('x, go_error + Secret) call"
  importVM_UpdateStatus ::
    "VirtualMachineImport \<Rightarrow> ('x, VirtualMachineImport option \<times> string option) call"
  importVM_EnqueueAfter :: "string \<Rightarrow> string \<Rightarrow> int \<Rightarrow> 'x \<Rightarrow> 'x"
  vmi_Get :: "string \<Rightarrow> string \<Rightarrow> ('x, go_error + VirtualMachineImage) call"
  vmi_List :: "string \<Rightarrow> string \<Rightarrow> string \<Rightarrow> ('x, go_error + VirtualMachineImage list) call"
  vmi_Create :: "VirtualMachineImage \<Rightarrow> ('x, go_error + VirtualMachineImage) call"
  vmi_Update :: "VirtualMachineImage \<Rightarrow> ('x, go_error option) call"
  vmi_Delete :: "string \<Rightarrow> string \<Rightarrow> ('x, go_error option) call"
  kubevirt_Get :: "string \<Rightarrow> string \<Rightarrow> ('x, go_error + VirtualMachine) call"
  kubevirt_Create :: "VirtualMachine \<Rightarrow> ('x, go_error option) call"
  pvc_Get :: "string \<Rightarrow> string \<Rightarrow> ('x, go_error + PersistentVolumeClaim) call"
  pvc_Create :: "PersistentVolumeClaim \<Rightarrow> ('x, go_error option) call"
  sc_Get :: "string \<Rightarrow> ('x, go_error + StorageClass) call"
  nadCache_Get :: "string \<Rightarrow> string \<Rightarrow> ('x, go_error option) call"
  time_Now :: "('x, int) call"
  time_Format :: "int \<Rightarrow> string"
  time_Parse :: "string \<Rightarrow> go_error + int"
  MustFormatValue :: "string \<Rightarrow> string"
  IsDNS1123Label :: "string \<Rightarrow> string list"
  svcAddress :: string
  harvester :: HarvesterConsts
  vmware_NewClient ::
    "string \<Rightarrow> string \<Rightarrow> Secret option \<Rightarrow> ('x, go_error + 'x VirtualMachineOperations) go"
  ova_NewClient ::
    "string \<Rightarrow> Secret option \<Rightarrow> OvaSourceOptions \<Rightarrow> ('x, go_error + 'x VirtualMachineOperations) go"
  openstack_NewClient ::
    "string \<Rightarrow> string \<Rightarrow> Secret option \<Rightarrow> OpenstackSourceOptions \<Rightarrow>
     ('x, go_error + 'x VirtualMachineOperations) go"

section \<open>The contract of the operations\<close>

text \<open>Only the provider's own events: it never writes cluster objects of the controller.\<close>

abbreviation quiet :: "'x go_world \<Rightarrow> ('a \<times> 'x go_world) option \<Rightarrow> bool" where
  "quiet w m \<equiv> emits (\<lambda>e. \<not> controller_event e) w m"

abbreviation quiet_log :: "'x go_world \<Rightarrow> 'x go_world \<Rightarrow> bool" where
  "quiet_log w w' \<equiv> \<exists>es. log w' = log w @ es \<and> list_all (\<lambda>e. \<not> controller_event e) es"

lemma quietI: "(\<And>r w'. m = Some (r, w') \<Longrightarrow> quiet_log w w') \<Longrightarrow> quiet w m"
  by (simp add: emits_def)

lemma quietD: "quiet w m \<Longrightarrow> m = Some (r, w') \<Longrightarrow> quiet_log w w'"
  by (simp add: emits_def)

text \<open>
  The disks an export has added are files of the directory the images are served from. The
  exception is a disk of an archive whose file is called by slashes only: it is named
  \<open>.img\<close> and lies in a directory below.
\<close>

definition files_added ::
  "'x go_world \<Rightarrow> VirtualMachineImport \<Rightarrow> VirtualMachineImport \<Rightarrow> 'x go_world \<Rightarrow> bool" where
  "files_added w vm vm' w' \<longleftrightarrow>
     (\<exists>es. log w' = log w @ es \<and>
        list_all (\<lambda>d. stored es d \<or> DiskName d = ''.img'')
          (drop (length (disks_of vm)) (disks_of vm')))"

text \<open>A cleanup tries to remove the file of every disk.\<close>

definition files_removed :: "'x go_world \<Rightarrow> VirtualMachineImport \<Rightarrow> 'x go_world \<Rightarrow> bool" where
  "files_removed w vm w' \<longleftrightarrow>
     (\<exists>es. log w' = log w @ es \<and> EvFileRemove ` set (image_paths (disks_of vm)) \<subseteq> set es)"

lemma RemoveTempImageFiles_removed:
  "RemoveTempImageFiles rm (disks_of vm) w = (r, w') \<Longrightarrow> files_removed w vm w'"
  by (auto simp: files_removed_def dest: RemoveTempImageFiles_log)

locale vm_operations =
  fixes vmo :: "'x VirtualMachineOperations"
  assumes sanitize_quiet: "quiet w (SanitizeVirtualMachineImport vmo vm w)"
    and sanitize_frame: "SanitizeVirtualMachineImport vmo vm w = Some ((err, vm'), w') \<Longrightarrow>
      \<exists>n. vm' = set_ImportedName n vm"
    and sanitize_lower: "SanitizeVirtualMachineImport vmo vm w = Some ((None, vm'), w') \<Longrightarrow>
      strings_ToLower (imported_name vm') = imported_name vm'"
    and export_quiet: "quiet w (ExportVirtualMachine vmo vm w)"
    and export_frame: "ExportVirtualMachine vmo vm w = Some ((err, vm'), w') \<Longrightarrow>
      \<exists>ds k. vm' = set_Disks ds vm \<and>
        map DiskConditions ds = map DiskConditions (disks_of vm) @ replicate k []"
    and export_stores: "ExportVirtualMachine vmo vm w = Some ((None, vm'), w') \<Longrightarrow>
      CHR ''/'' \<notin> set (imported_name vm) \<Longrightarrow> files_added w vm vm' w'"
    and shutdown_quiet: "quiet w (ShutdownGuest vmo vm w)"
    and poweroff_quiet: "quiet w (PowerOff vmo vm w)"
    and poweredoff_quiet: "quiet w (IsPoweredOff vmo vm w)"
    and generate_quiet: "quiet w (GenerateVirtualMachine vmo vm w)"
    and generate_shape: "GenerateVirtualMachine vmo vm w = Some (Inr v, w') \<Longrightarrow>
      Name (kv_Meta v) = imported_name vm \<and> Namespace (kv_Meta v) = vm_Namespace vm \<and>
      Networks (kv_Spec v) \<noteq> [] \<and>
      map net_Name (Networks (kv_Spec v)) = map if_Name (Interfaces (kv_Spec v)) \<and>
      distinct (map net_Name (Networks (kv_Spec v)))"
    and preflight_quiet: "quiet w (PreFlightChecks vmo vm w)"
    and cleanup_quiet: "quiet w (Cleanup vmo vm w)"
    and cleanup_removes: "Cleanup vmo vm w = Some (r, w') \<Longrightarrow> files_removed w vm w'"

text \<open>A handler whose three constructors only build clients that keep the contract.\<close>

locale import_handler =
  fixes h :: "'x virtualMachineHandler"
  assumes vmware_quiet: "quiet w (vmware_NewClient h endpoint dc secret w)"
    and vmware_ok: "vmware_NewClient h endpoint dc secret w = Some (Inr vmo, w') \<Longrightarrow> vm_operations vmo"
    and ova_quiet: "quiet w (ova_NewClient h url secret oo w)"
    and ova_ok: "ova_NewClient h url secret oo w = Some (Inr vmo, w') \<Longrightarrow> vm_operations vmo"
    and openstack_quiet: "quiet w (openstack_NewClient h endpoint region secret so w)"
    and openstack_ok:
      "openstack_NewClient h endpoint region secret so w = Some (Inr vmo, w') \<Longrightarrow> vm_operations vmo"

section \<open>Calls every step of the controller makes\<close>

text \<open>
  An error of the status update is one of the API server: it is none of the program's own
  sentinels.
\<close>

definition UpdateStatus ::
  "'x virtualMachineHandler \<Rightarrow> VirtualMachineImport \<Rightarrow> 'x go_world \<Rightarrow>
   (VirtualMachineImport option \<times> go_error option) \<times> 'x go_world" where
  "UpdateStatus h vm w =
     effect (\<lambda>_. EvUpdateStatus vm)
       (\<lambda>x. let ((vm', err), x) = importVM_UpdateStatus h vm x
            in ((vm', map_option ErrExternal err), x)) w"

definition EnqueueAfter ::
  "'x virtualMachineHandler \<Rightarrow> VirtualMachineImport \<Rightarrow> int \<Rightarrow> 'x go_world \<Rightarrow> 'x go_world" where
  "EnqueueAfter h vm d w =
     notify (EvEnqueueAfter (vm_Namespace vm) (vm_Name vm) d)
       (importVM_EnqueueAfter h (vm_Namespace vm) (vm_Name vm) d) w"

definition Seconds :: "int \<Rightarrow> int" where
  "Seconds n = n * 1000000000"

text \<open>A fresh condition with status true: two clock readings, formatted per RFC 3339.\<close>

definition new_condition ::
  "'x virtualMachineHandler \<Rightarrow> Cond \<Rightarrow> string \<Rightarrow> 'x go_world \<Rightarrow> Condition \<times> 'x go_world" where
  "new_condition h c msg w =
     (let (t1, w) = query (time_Now h) w;
          (t2, w) = query (time_Now h) w
      in (\<lparr>cond_Type = c, cond_Status = ConditionTrue, LastUpdateTime = time_Format h t1,
           LastTransitionTime = time_Format h t2, Reason = [], Message = msg\<rparr>, w))"

lemma UpdateStatus_log: "UpdateStatus h vm w = (r, w') \<Longrightarrow> log w' = log w @ [EvUpdateStatus vm]"
  by (auto simp: UpdateStatus_def dest: effect_log)

lemma UpdateStatus_err:
  "UpdateStatus h vm w = ((vm', err), w') \<Longrightarrow> \<not> errors_Is_opt err ErrGenerateSourceInterface"
  by (cases err) (auto simp: UpdateStatus_def effect_def Let_def split: prod.splits)

lemma log_snd_UpdateStatus [simp]: "log (snd (UpdateStatus h vm w)) = log w @ [EvUpdateStatus vm]"
  by (simp add: UpdateStatus_def)

lemma EnqueueAfter_log [simp]:
  "log (EnqueueAfter h vm d w) = log w @ [EvEnqueueAfter (vm_Namespace vm) (vm_Name vm) d]"
  by (simp add: EnqueueAfter_def)

lemma new_condition_log: "new_condition h c msg w = (cnd, w') \<Longrightarrow> log w' = log w"
  by (auto simp: new_condition_def Let_def dest!: query_log split: prod.splits)

lemma new_condition_fields:
  "new_condition h c msg w = (cnd, w') \<Longrightarrow> cond_Type cnd = c \<and> cond_Status cnd = ConditionTrue"
  by (auto simp: new_condition_def Let_def split: prod.splits)

end
