(* ===== verification/Conditions.thy ===== *)
theory Conditions
  imports ApiTypes
begin

text \<open>
  \<open>pkg/util/conditions.go\<close>: the condition lists of the custom resources. The Go functions
  work on slices, which are lists here: every caller owns the slice it passes (the reconcilers
  work on a deep copy), so the in-place update of \<open>AddOrUpdateCondition\<close> is a returned value.
  The theory SliceUpdates has the functions on the arrays of a memory, and proves that they agree.

  The locale \<open>condition_store\<close> is the contract the controllers use: what is present after a
  condition was put or removed. Its derived laws give the facts about merging several
  conditions, and the interpretation at the end proves it for the functions of the source.
\<close>

section \<open>The functions of conditions.go\<close>

definition matches :: "Cond \<Rightarrow> ConditionStatus \<Rightarrow> Condition \<Rightarrow> bool" where
  "matches c st v \<longleftrightarrow> cond_Type v = c \<and> cond_Status v = st"

fun GetCondition :: "Condition list \<Rightarrow> Cond \<Rightarrow> ConditionStatus \<Rightarrow> Condition option" where
  "GetCondition [] c st = None"
| "GetCondition (v # vs) c st =
     (if cond_Type v = c \<and> cond_Status v = st then Some v else GetCondition vs c st)"

fun ConditionExists :: "Condition list \<Rightarrow> Cond \<Rightarrow> ConditionStatus \<Rightarrow> bool" where
  "ConditionExists [] c st = False"
| "ConditionExists (v # vs) c st =
     (if cond_Type v = c \<and> cond_Status v = st then True else ConditionExists vs c st)"

text \<open>The body of the update loop, for one slot.\<close>

definition overwrite :: "Condition \<Rightarrow> Condition \<Rightarrow> Condition" where
  "overwrite newCond v =
     (if cond_Type v = cond_Type newCond
      then v\<lparr>cond_Status := cond_Status newCond,
             LastTransitionTime := LastTransitionTime newCond,
             LastUpdateTime := LastUpdateTime newCond,
             Message := Message newCond,
             Reason := Reason newCond\<rparr>
      else v)"

definition AddOrUpdateCondition :: "Condition list \<Rightarrow> Condition \<Rightarrow> Condition list" where
  "AddOrUpdateCondition conditions newCond =
     (let found = list_ex (\<lambda>v. cond_Type v = cond_Type newCond) conditions;
          updated = map (overwrite newCond) conditions
      in if \<not> found then updated @ [newCond] else updated)"

fun MergeConditions :: "Condition list \<Rightarrow> Condition list \<Rightarrow> Condition list" where
  "MergeConditions srcConditions [] = srcConditions"
| "MergeConditions srcConditions (v # vs) =
     MergeConditions (AddOrUpdateCondition srcConditions v) vs"

fun RemoveCondition :: "Condition list \<Rightarrow> Cond \<Rightarrow> ConditionStatus \<Rightarrow> Condition list" where
  "RemoveCondition [] c st = []"
| "RemoveCondition (v # vs) c st =
     (if cond_Type v \<noteq> c \<or> cond_Status v \<noteq> st then v # RemoveCondition vs c st
      else RemoveCondition vs c st)"

section \<open>The contract\<close>

locale condition_store =
  fixes present :: "'s \<Rightarrow> 'k \<Rightarrow> 'v \<Rightarrow> bool"
    and put :: "'s \<Rightarrow> 'e \<Rightarrow> 's"
    and take_out :: "'s \<Rightarrow> 'k \<Rightarrow> 'v \<Rightarrow> 's"
    and kind :: "'e \<Rightarrow> 'k"
    and stat :: "'e \<Rightarrow> 'v"
  assumes present_put:
      "present (put s e) k v \<longleftrightarrow> (if k = kind e then v = stat e else present s k v)"
    and present_take_out:
      "present (take_out s k v) k' v' \<longleftrightarrow> present s k' v' \<and> \<not> (k' = k \<and> v' = v)"
begin

definition single_valued_at :: "'s \<Rightarrow> 'k \<Rightarrow> bool" where
  "single_valued_at s k \<longleftrightarrow> (\<forall>v v'. present s k v \<longrightarrow> present s k v' \<longrightarrow> v = v')"

lemma single_valued_put: "single_valued_at s k \<Longrightarrow> single_valued_at (put s e) k"
  by (simp add: single_valued_at_def present_put)

lemma put_makes_single_valued: "single_valued_at (put s e) (kind e)"
  by (simp add: single_valued_at_def present_put)

lemma single_valued_take_out: "single_valued_at s k \<Longrightarrow> single_valued_at (take_out s c v) k"
  by (simp add: single_valued_at_def present_take_out)

text \<open>Putting a list: the last entry of a kind decides, kinds not in it are untouched.\<close>

lemma present_foldl_put:
  "present (foldl put s es) k v \<longleftrightarrow>
   (case find (\<lambda>e. kind e = k) (rev es) of None \<Rightarrow> present s k v | Some e \<Rightarrow> v = stat e)"
proof (induction es rule: rev_induct)
  case Nil
  then show ?case by simp
next
  case (snoc e es)
  then show ?case by (auto simp: present_put)
qed

lemma present_foldl_put_other:
  "k \<notin> kind ` set es \<Longrightarrow> present (foldl put s es) k v \<longleftrightarrow> present s k v"
proof -
  assume "k \<notin> kind ` set es"
  then have "find (\<lambda>e. kind e = k) (rev es) = None"
    by (auto simp: find_None_iff)
  then show ?thesis by (simp add: present_foldl_put)
qed

lemma present_put_commute:
  "kind d \<noteq> kind e \<Longrightarrow> present (put (put s d) e) = present (put (put s e) d)"
  by (auto simp: present_put fun_eq_iff)

lemma present_put_idem: "present (put (put s e) e) = present (put s e)"
  by (auto simp: present_put fun_eq_iff)

end

section \<open>The functions satisfy the contract\<close>

lemma ConditionExists_iff: "ConditionExists cs c st \<longleftrightarrow> (\<exists>v \<in> set cs. matches c st v)"
  by (induction cs) (auto simp: matches_def)

lemma GetCondition_find: "GetCondition cs c st = find (matches c st) cs"
  by (induction cs) (auto simp: matches_def)

lemma GetCondition_Some_iff: "(\<exists>v. GetCondition cs c st = Some v) \<longleftrightarrow> ConditionExists cs c st"
  by (induction cs) auto

lemma GetCondition_SomeD:
  "GetCondition cs c st = Some v \<Longrightarrow> v \<in> set cs \<and> cond_Type v = c \<and> cond_Status v = st"
  by (induction cs) (auto split: if_splits)

lemma RemoveCondition_filter: "RemoveCondition cs c st = filter (\<lambda>v. \<not> matches c st v) cs"
  by (induction cs) (auto simp: matches_def)

lemma overwrite_Type [simp]: "cond_Type (overwrite n v) = cond_Type v"
  by (simp add: overwrite_def)

lemma overwrite_same: "cond_Type v = cond_Type n \<Longrightarrow> overwrite n v = n"
  by (cases v; cases n) (simp add: overwrite_def)

lemma overwrite_other: "cond_Type v \<noteq> cond_Type n \<Longrightarrow> overwrite n v = v"
  by (simp add: overwrite_def)

lemma overwrite_Status:
  "cond_Status (overwrite n v) = (if cond_Type v = cond_Type n then cond_Status n else cond_Status v)"
  by (simp add: overwrite_def)

lemma set_AddOrUpdateCondition:
  "set (AddOrUpdateCondition cs n) = insert n {v \<in> set cs. cond_Type v \<noteq> cond_Type n}"
  by (auto simp: AddOrUpdateCondition_def Let_def list_ex_iff overwrite_same overwrite_other
        image_iff) (metis overwrite_other overwrite_same)+

lemma types_AddOrUpdateCondition:
  "map cond_Type (AddOrUpdateCondition cs n) =
   (if cond_Type n \<in> cond_Type ` set cs then map cond_Type cs else map cond_Type cs @ [cond_Type n])"
  by (auto simp: AddOrUpdateCondition_def Let_def list_ex_iff comp_def intro: rev_image_eqI)

lemma MergeConditions_foldl: "MergeConditions cs ns = foldl AddOrUpdateCondition cs ns"
  by (induction ns arbitrary: cs) auto

interpretation conds: condition_store ConditionExists AddOrUpdateCondition RemoveCondition
  cond_Type cond_Status
  by unfold_locales
    (auto simp: ConditionExists_iff set_AddOrUpdateCondition RemoveCondition_filter matches_def)

text \<open>The form in which the controllers use the contract.\<close>

lemma exists_merge1 [simp]:
  "ConditionExists (MergeConditions cs [n]) k v \<longleftrightarrow>
   (if k = cond_Type n then v = cond_Status n else ConditionExists cs k v)"
  using conds.present_put by simp

lemma exists_add [simp]:
  "ConditionExists (AddOrUpdateCondition cs n) k v \<longleftrightarrow>
   (if k = cond_Type n then v = cond_Status n else ConditionExists cs k v)"
  by (rule conds.present_put)

lemma exists_remove [simp]:
  "ConditionExists (RemoveCondition cs k v) k' v' \<longleftrightarrow>
   ConditionExists cs k' v' \<and> \<not> (k' = k \<and> v' = v)"
  by (rule conds.present_take_out)

definition distinct_types :: "Condition list \<Rightarrow> bool" where
  "distinct_types cs \<longleftrightarrow> distinct (map cond_Type cs)"

lemma distinct_types_put: "distinct_types cs \<Longrightarrow> distinct_types (AddOrUpdateCondition cs n)"
  by (auto simp: distinct_types_def types_AddOrUpdateCondition)

lemma distinct_types_merge: "distinct_types cs \<Longrightarrow> distinct_types (MergeConditions cs ns)"
  by (induction ns arbitrary: cs) (auto intro: distinct_types_put)

lemma distinct_types_remove: "distinct_types cs \<Longrightarrow> distinct_types (RemoveCondition cs k v)"
  by (simp add: distinct_types_def RemoveCondition_filter distinct_map_filterI)

section \<open>Properties\<close>

text \<open>
  C28. Merging a list of conditions: a status is reported for a condition type exactly when
  the last merged condition of that type has it, or, when no merged condition is of that type,
  when the old list reported it; the conditions of other types keep their place and content.
\<close>

theorem MergeConditions_spec:
  "(ConditionExists (MergeConditions cs ns) k v \<longleftrightarrow>
     (case find (\<lambda>n. cond_Type n = k) (rev ns) of
        None \<Rightarrow> ConditionExists cs k v
      | Some n \<Rightarrow> v = cond_Status n)) \<and>
   filter (\<lambda>c. cond_Type c \<notin> cond_Type ` set ns) (MergeConditions cs ns) =
   filter (\<lambda>c. cond_Type c \<notin> cond_Type ` set ns) cs"
proof
  show "ConditionExists (MergeConditions cs ns) k v \<longleftrightarrow>
     (case find (\<lambda>n. cond_Type n = k) (rev ns) of
        None \<Rightarrow> ConditionExists cs k v | Some n \<Rightarrow> v = cond_Status n)"
    unfolding MergeConditions_foldl by (rule conds.present_foldl_put)
  have one: "filter (\<lambda>c. cond_Type c \<notin> T) (AddOrUpdateCondition as n) =
      filter (\<lambda>c. cond_Type c \<notin> T) as" if "cond_Type n \<in> T" for as n T
    using that
    by (auto simp: AddOrUpdateCondition_def Let_def filter_map comp_def intro!: map_idI
        overwrite_other)
  have "filter (\<lambda>c. cond_Type c \<notin> T) (MergeConditions cs ns) = filter (\<lambda>c. cond_Type c \<notin> T) cs"
    if "cond_Type ` set ns \<subseteq> T" for T
    using that by (induction ns arbitrary: cs) (auto simp: one)
  then show "filter (\<lambda>c. cond_Type c \<notin> cond_Type ` set ns) (MergeConditions cs ns) =
      filter (\<lambda>c. cond_Type c \<notin> cond_Type ` set ns) cs"
    by blast
qed

end
