(* ===== verification/ImportSource.thy ===== *)
theory ImportSource
  imports Operations Conditions
begin

text \<open>
  The first group of handler functions of \<open>pkg/controllers/migration/virtualmachine.go\<close>: finding
  the source resource of an import, building the client for it, and the preflight checks, with
  \<open>reconcilePreFlightChecks\<close> and \<open>abortMigrationIfNecessary\<close> of \<open>helper.go\<close>.
\<close>

definition labelImported :: string where "labelImported = ''migration.harvesterhci.io/imported''"
definition labelImageDisplayName :: string where
  "labelImageDisplayName = ''harvesterhci.io/imageDisplayName''"
definition expectedAPIVersion :: string where
  "expectedAPIVersion = ''migration.harvesterhci.io/v1beta1''"

section \<open>Source and client\<close>

definition generateSource ::
  "'x virtualMachineHandler \<Rightarrow> VirtualMachineImport \<Rightarrow> 'x go_world \<Rightarrow>
   (go_error + SourceInterface) \<times> 'x go_world" where
  "generateSource h vm w =
     (let sc = SourceCluster (vm_Spec vm); kind = strings_ToLower (ref_Kind sc) in
      if kind = KindVmwareSource then
        (case query (vmware_Get h (ref_Namespace sc) (ref_Name sc)) w of
           (Inl err, w) \<Rightarrow> (Inl err, w) | (Inr s, w) \<Rightarrow> (Inr (VmwareSrc s), w))
      else if kind = KindOvaSource then
        (case query (ova_Get h (ref_Namespace sc) (ref_Name sc)) w of
           (Inl err, w) \<Rightarrow> (Inl err, w) | (Inr s, w) \<Rightarrow> (Inr (OvaSrc s), w))
      else if kind = KindOpenstackSource then
        (case query (openstack_Get h (ref_Namespace sc) (ref_Name sc)) w of
           (Inl err, w) \<Rightarrow> (Inl err, w) | (Inr s, w) \<Rightarrow> (Inr (OpenstackSrc s), w))
      else (Inl (Errorf (''source kind '' @ go_quote (ref_Kind sc) @ '' not supported'')), w))"

text \<open>The client of a source; a failed type assertion on the options is a panic.\<close>

definition newClientFor ::
  "'x virtualMachineHandler \<Rightarrow> SourceInterface \<Rightarrow> Secret option \<Rightarrow>
   ('x, go_error + 'x VirtualMachineOperations) go" where
  "newClientFor h source secret w =
     (let kind = strings_ToLower (GetKind source) in
      if kind = KindVmwareSource then
        (let (endpoint, dc) = GetConnectionInfo source in vmware_NewClient h endpoint dc secret w)
      else if kind = KindOvaSource then
        (let (url, _) = GetConnectionInfo source in
         case GetOptions source of
           OvaOptions options \<Rightarrow> ova_NewClient h url secret options w
         | _ \<Rightarrow> None)
      else if kind = KindOpenstackSource then
        (let (endpoint, region) = GetConnectionInfo source in
         case GetOptions source of
           OpenstackOptions options \<Rightarrow> openstack_NewClient h endpoint region secret options w
         | _ \<Rightarrow> None)
      else Some (Inl (Errorf (''source kind '' @ go_quote (GetKind source) @ '' not supported'')), w))"

definition generateVMO ::
  "'x virtualMachineHandler \<Rightarrow> VirtualMachineImport \<Rightarrow> ('x, go_error + 'x VirtualMachineOperations) go"
  where
  "generateVMO h vm w =
     (case generateSource h vm w of
        (Inl err, w) \<Rightarrow> Some (Inl ErrGenerateSourceInterface, w)
      | (Inr source, w) \<Rightarrow>
          if HasSecret source then
            (case SecretReference source of
               None \<Rightarrow> Some (Inl (Errorf ''secret reference is nil''), w)
             | Some secretRef \<Rightarrow>
                 (case query (secret_Get h (secretref_Namespace secretRef) (secretref_Name secretRef)) w of
                    (Inl err, w) \<Rightarrow> Some (Inl (Wrapf ''error fetching secret: '' err), w)
                  | (Inr secret, w) \<Rightarrow> newClientFor h source (Some secret) w))
          else newClientFor h source None w)"

section \<open>Preflight checks\<close>

text \<open>The first source network that appears twice.\<close>

fun repeated_source_network :: "string list \<Rightarrow> NetworkMapping list \<Rightarrow> string option" where
  "repeated_source_network seen [] = None"
| "repeated_source_network seen (nm # nms) =
     (if SourceNetwork nm \<notin> set seen then repeated_source_network (SourceNetwork nm # seen) nms
      else Some (SourceNetwork nm))"

text \<open>Namespace and name of a destination network, \<open>None\<close> for an invalid one.\<close>

definition destination_parts :: "VirtualMachineImport \<Rightarrow> NetworkMapping \<Rightarrow> (string \<times> string) option"
  where
  "destination_parts vm nm =
     (case strings_Split (DestinationNetwork nm) (CHR ''/'') of
        [n] \<Rightarrow> Some (vm_Namespace vm, n)
      | [ns, n] \<Rightarrow> Some (ns, n)
      | _ \<Rightarrow> None)"

fun check_destinations ::
  "'x virtualMachineHandler \<Rightarrow> VirtualMachineImport \<Rightarrow> NetworkMapping list \<Rightarrow> 'x go_world \<Rightarrow>
   go_error option \<times> 'x go_world" where
  "check_destinations h vm [] w = (None, w)"
| "check_destinations h vm (nm # nms) w =
     (case destination_parts vm nm of
        Some (ns, n) \<Rightarrow>
          (case query (nadCache_Get h ns n) w of
             (Some err, w) \<Rightarrow> (Some err, w)
           | (None, w) \<Rightarrow> check_destinations h vm nms w)
      | None \<Rightarrow>
          (Some (Errorf (''invalid destination network ''
             @ single_quoted (DestinationNetwork nm))), w))"

text \<open>Storage class, network mapping and destination networks.\<close>

definition check_spec ::
  "'x virtualMachineHandler \<Rightarrow> VirtualMachineImport \<Rightarrow> 'x go_world \<Rightarrow> go_error option \<times> 'x go_world"
  where
  "check_spec h vm w =
     (let spec = vm_Spec vm;
          (scErr, w) = (if StorageClassName spec \<noteq> []
             then (case GetStorageClassByName (StorageClassName spec) (sc_Get h) w of
                     (Inl err, w) \<Rightarrow> (Some err, w) | (Inr _, w) \<Rightarrow> (None, w))
             else (None, w))
      in case scErr of
           Some err \<Rightarrow> (Some err, w)
         | None \<Rightarrow>
             (case repeated_source_network [] (Mapping spec) of
                Some n \<Rightarrow> (Some (Errorf (''source network '' @ n
                  @ '' appears multiple times in VirtualMachineImport spec'')), w)
              | None \<Rightarrow> check_destinations h vm (Mapping spec) w))"

definition preFlightChecks ::
  "'x virtualMachineHandler \<Rightarrow> VirtualMachineImport \<Rightarrow> ('x, go_error option) go" where
  "preFlightChecks h vm w =
     (let sc = SourceCluster (vm_Spec vm); kind = strings_ToLower (ref_Kind sc) in
      if ref_APIVersion sc \<noteq> expectedAPIVersion
      then Some (Some (Errorf (''expected migration cluster apiversion to be '' @ single_quoted expectedAPIVersion
             @ '' but got '' @ single_quoted (ref_APIVersion sc))), w)
      else if kind \<noteq> KindVmwareSource \<and> kind \<noteq> KindOvaSource \<and> kind \<noteq> KindOpenstackSource
      then Some (Some (Errorf (''unsupported source kind '' @ go_quote (ref_Kind sc))), w)
      else
        (case generateSource h vm w of
           (Inl err, w) \<Rightarrow>
             Some (Some (Errorf (''error generating migration in preflight checks: '' @ Error err)), w)
         | (Inr ss, w) \<Rightarrow>
             if ClusterStatus ss \<noteq> ClusterReady then Some (Some ErrClusterNotReady, w)
             else
               (case check_spec h vm w of
                  (Some err, w) \<Rightarrow> Some (Some err, w)
                | (None, w) \<Rightarrow>
                    do {
                      (r, w) \<leftarrow> generateVMO h vm w;
                      (case r of
                         Inl err \<Rightarrow>
                           Some (Some (Wrapf ''error generating VMO in preFlightChecks: '' err), w)
                       | Inr vmo \<Rightarrow>
                           if SkipPreflightChecks vm then Some (None, w)
                           else PreFlightChecks vmo vm w)
                    })))"

definition reconcilePreFlightChecks ::
  "'x virtualMachineHandler \<Rightarrow> VirtualMachineImport \<Rightarrow>
   ('x, VirtualMachineImport option \<times> go_error option) go" where
  "reconcilePreFlightChecks h vm w =
     do {
       (err, w) \<leftarrow> preFlightChecks h vm w;
       (case err of
          Some e \<Rightarrow>
            if errors_Is e ErrClusterNotReady
            then Some ((Some vm, Some e), EnqueueAfter h vm (Seconds 5) w)
            else Some (UpdateStatus h (set_Status VirtualMachineImportInvalid vm) w)
        | None \<Rightarrow> Some (UpdateStatus h (set_Status VirtualMachineImportValid vm) w))
     }"

text \<open>\<open>abortMigrationIfNecessary\<close>: a nil import with the sentinel error is dereferenced.\<close>

definition abortMigrationIfNecessary ::
  "'x virtualMachineHandler \<Rightarrow> VirtualMachineImport option \<times> go_error option \<Rightarrow>
   ('x, VirtualMachineImport option \<times> go_error option) go" where
  "abortMigrationIfNecessary h r w =
     (case r of (vmi, err) \<Rightarrow>
        if errors_Is_opt err ErrGenerateSourceInterface
        then (case vmi of
                None \<Rightarrow> None
              | Some vm \<Rightarrow> Some (UpdateStatus h (set_Status VirtualMachineMigrationFailed vm) w))
        else Some ((vmi, err), w))"

section \<open>Facts about the source lookup\<close>

lemma generateSource_log: "generateSource h vm w = (r, w') \<Longrightarrow> log w' = log w"
  by (auto simp: generateSource_def Let_def dest: query_log split: if_splits prod.splits sum.splits)

lemma generateSource_kind:
  "generateSource h vm w = (Inr s, w') \<Longrightarrow>
   GetKind s = strings_ToLower (ref_Kind (SourceCluster (vm_Spec vm)))"
  by (auto simp: generateSource_def Let_def source_defs split: if_splits prod.splits sum.splits)

lemma check_destinations_log: "check_destinations h vm nms w = (r, w') \<Longrightarrow> log w' = log w"
  by (induction nms arbitrary: w)
    (auto dest!: query_log split: option.splits prod.splits)

lemma check_spec_log: "check_spec h vm w = (r, w') \<Longrightarrow> log w' = log w"
  by (auto simp: check_spec_def Let_def dest: check_destinations_log dest!: GetStorageClassByName_log
      split: if_splits prod.splits sum.splits option.splits)

lemma repeated_source_network_None:
  "repeated_source_network seen nms = None \<longleftrightarrow>
   distinct (map SourceNetwork nms) \<and> set (map SourceNetwork nms) \<inter> set seen = {}"
  by (induction nms arbitrary: seen) auto

text \<open>The type assertions of \<open>generateVMO\<close> never fail.\<close>

lemma newClientFor_simps [simp]:
  "newClientFor h (VmwareSrc v) secret w =
     vmware_NewClient h (vmware_Endpoint v) (vmware_Datacenter v) secret w"
  "newClientFor h (OvaSrc a) secret w = ova_NewClient h (ova_Url a) secret (ova_Options a) w"
  "newClientFor h (OpenstackSrc p) secret w =
     openstack_NewClient h (openstack_Endpoint p) (openstack_Region p) secret
       (sanitize_options (openstack_Options p)) w"
  using src.lower_kind [of "VmwareSrc v"] src.lower_kind [of "OvaSrc a"]
    src.lower_kind [of "OpenstackSrc p"]
  by (simp_all add: newClientFor_def source_defs kind_defs)

section \<open>The client that is built\<close>

context import_handler
begin

lemma newClientFor_quiet: "quiet w (newClientFor h s secret w)"
  by (cases s) (simp_all add: vmware_quiet ova_quiet openstack_quiet)

lemma newClientFor_ok: "newClientFor h s secret w = Some (Inr vmo, w') \<Longrightarrow> vm_operations vmo"
  by (cases s) (auto dest: vmware_ok ova_ok openstack_ok)

lemma generateVMO_quiet: "quiet w (generateVMO h vm w)"
  by (auto simp: generateVMO_def emits_Some dest!: generateSource_log query_log
      intro: emits_log_cong [OF newClientFor_quiet] split: prod.splits sum.splits option.splits)

lemma generateVMO_ok: "generateVMO h vm w = Some (Inr vmo, w') \<Longrightarrow> vm_operations vmo"
  by (auto simp: generateVMO_def split: prod.splits sum.splits option.splits if_splits
      dest: newClientFor_ok)

end

end
