(* ===== verification/ImportExport.thy ===== *)
theory ImportExport
  imports ImportSource
begin

text \<open>
  Shutting down the source machine and exporting its disks: \<open>triggerShutdownGuest\<close>,
  \<open>triggerPowerOff\<close>, \<open>triggerExport\<close> and \<open>sanitizeVirtualMachineImport\<close> of
  \<open>virtualmachine.go\<close>, \<open>runVirtualMachineExport\<close> of \<open>helper.go\<close>. Each function returns the
  error and the import with the changes made so far, because the caller writes it back.
\<close>

abbreviation has_cond :: "Cond \<Rightarrow> VirtualMachineImport \<Rightarrow> bool" where
  "has_cond c vm \<equiv> ConditionExists (conds_of vm) c ConditionTrue"

text \<open>\<open>vm.Status.ImportConditions = util.MergeConditions(\<dots>)\<close> with one fresh condition.\<close>

definition put_condition ::
  "'x virtualMachineHandler \<Rightarrow> Cond \<Rightarrow> string \<Rightarrow> VirtualMachineImport \<Rightarrow> 'x go_world \<Rightarrow>
   VirtualMachineImport \<times> 'x go_world" where
  "put_condition h c msg vm w =
     (let (cond, w) = new_condition h c msg w
      in (set_Conds (MergeConditions (conds_of vm) [cond]) vm, w))"

definition triggerShutdownGuest ::
  "'x virtualMachineHandler \<Rightarrow> VirtualMachineImport \<Rightarrow> 'x VirtualMachineOperations \<Rightarrow>
   ('x, go_error option \<times> VirtualMachineImport) go" where
  "triggerShutdownGuest h vm vmo w =
     do {
       (err, w) \<leftarrow> ShutdownGuest vmo vm (mark (EvShutdownGuest vm) w);
       (case err of
          Some e \<Rightarrow>
            Some ((Some (Wrapf ''failed to shutdown the guest OS of the source VM: '' e), vm), w)
        | None \<Rightarrow>
            (let (vm, w) = put_condition h VirtualMachineShutdownGuest [] vm w
             in Some ((None, vm), w)))
     }"

definition triggerPowerOff ::
  "'x virtualMachineHandler \<Rightarrow> VirtualMachineImport \<Rightarrow> 'x VirtualMachineOperations \<Rightarrow>
   ('x, go_error option \<times> VirtualMachineImport) go" where
  "triggerPowerOff h vm vmo w =
     do {
       (err, w) \<leftarrow> PowerOff vmo vm (mark (EvPowerOff vm) w);
       (case err of
          Some e \<Rightarrow> Some ((Some (Wrapf ''failed to power off the source VM: '' e), vm), w)
        | None \<Rightarrow>
            (let (vm, w) = put_condition h VirtualMachinePoweringOff [] vm w
             in Some ((None, vm), w)))
     }"

text \<open>
  The wait for a graceful shutdown to finish: what happens once the source machine is found
  to be still running. It is forced off when the configured time has passed, and otherwise the
  import is looked at again in five seconds.
\<close>

definition awaitShutdown ::
  "'x virtualMachineHandler \<Rightarrow> VirtualMachineImport \<Rightarrow> 'x VirtualMachineOperations \<Rightarrow>
   ('x, go_error option \<times> VirtualMachineImport) go" where
  "awaitShutdown h vm vmo w =
     (let again = Some ((None, vm), EnqueueAfter h vm (Seconds 5) w) in
      case GetCondition (conds_of vm) VirtualMachineShutdownGuest ConditionTrue of
        None \<Rightarrow> again
      | Some shutdownGuestCondition \<Rightarrow>
          if IsPowerOffSupported vmo \<and> \<not> GetForcePowerOff vm \<and>
             \<not> has_cond VirtualMachinePoweringOff vm
          then
            (case time_Parse h (LastUpdateTime shutdownGuestCondition) of
               Inl err \<Rightarrow>
                 Some ((Some (Wrapf (''failed to parse the last update time of the ''
                   @ Cond_string (cond_Type shutdownGuestCondition) @ '' condition of ''
                   @ NamespacedName (vm_Meta vm) @ '': '') err), vm), w)
             | Inr lastUpdateTime \<Rightarrow>
                 (let (now, w) = query (time_Now h) w in
                  if now - lastUpdateTime > Seconds (sint (GetGracefulShutdownTimeoutSeconds vm))
                  then triggerPowerOff h vm vmo w
                  else Some ((None, vm), EnqueueAfter h vm (Seconds 5) w)))
          else again)"

definition awaitPoweredOff ::
  "'x virtualMachineHandler \<Rightarrow> VirtualMachineImport \<Rightarrow> 'x VirtualMachineOperations \<Rightarrow>
   ('x, go_error option \<times> VirtualMachineImport) go" where
  "awaitPoweredOff h vm vmo w =
     do {
       (r, w) \<leftarrow> IsPoweredOff vmo vm w;
       (case r of
          Inl err \<Rightarrow>
            Some ((Some (Wrapf ''failed to check if source VM is powered off: '' err), vm), w)
        | Inr ok \<Rightarrow>
            if ok
            then (let (vm, w) = put_condition h VirtualMachinePoweredOff [] vm w
                  in Some ((None, vm), w))
            else awaitShutdown h vm vmo w)
     }"

text \<open>The call of \<open>ExportVirtualMachine\<close>; its error becomes a condition, not an error.\<close>

definition exportDisks ::
  "'x virtualMachineHandler \<Rightarrow> VirtualMachineImport \<Rightarrow> 'x VirtualMachineOperations \<Rightarrow>
   ('x, go_error option \<times> VirtualMachineImport) go" where
  "exportDisks h vm vmo w =
     do {
       ((err, vm), w) \<leftarrow> ExportVirtualMachine vmo vm (mark (EvExport vm) w);
       (case err of
          Some e \<Rightarrow>
            (let (vm, w) = put_condition h VirtualMachineExportFailed
                   (''error exporting VM: '' @ Error e) vm w
             in Some ((None, vm), w))
        | None \<Rightarrow>
            (let (vm, w) = put_condition h VirtualMachineExported [] vm w
             in Some ((None, vm), w)))
     }"

definition triggerExport ::
  "'x virtualMachineHandler \<Rightarrow> VirtualMachineImport \<Rightarrow> ('x, go_error option \<times> VirtualMachineImport) go"
  where
  "triggerExport h vm w =
     do {
       (r, w) \<leftarrow> generateVMO h vm w;
       (case r of
          Inl err \<Rightarrow> Some ((Some (Wrapf ''error generating VMO in triggerExport: '' err), vm), w)
        | Inr vmo \<Rightarrow>
            let force = IsPowerOffSupported vmo \<and> GetForcePowerOff vm;
                requested = has_cond VirtualMachinePoweringOff vm \<or>
                            has_cond VirtualMachineShutdownGuest vm
            in
            if force \<and> \<not> has_cond VirtualMachinePoweringOff vm then triggerPowerOff h vm vmo w
            else if \<not> force \<and> \<not> has_cond VirtualMachineShutdownGuest vm
            then triggerShutdownGuest h vm vmo w
            else if \<not> has_cond VirtualMachinePoweredOff vm \<and> requested
            then awaitPoweredOff h vm vmo w
            else if has_cond VirtualMachinePoweredOff vm \<and> requested \<and>
              \<not> has_cond VirtualMachineExported vm \<and> \<not> has_cond VirtualMachineExportFailed vm
            then exportDisks h vm vmo w
            else Some ((None, vm), w))
     }"

text \<open>The status that follows from the conditions after an export step.\<close>

definition settle :: "VirtualMachineImport \<Rightarrow> VirtualMachineImport" where
  "settle vm =
     (let vm = (if has_cond VirtualMachineExported vm then set_Status DisksExported vm else vm)
      in if has_cond VirtualMachineExportFailed vm
         then set_Status VirtualMachineMigrationFailed vm else vm)"

definition runVirtualMachineExport ::
  "'x virtualMachineHandler \<Rightarrow> VirtualMachineImport \<Rightarrow>
   ('x, VirtualMachineImport option \<times> go_error option) go" where
  "runVirtualMachineExport h vm w =
     do {
       ((err, vm), w) \<leftarrow> triggerExport h vm w;
       (case err of
          Some e \<Rightarrow> Some ((Some vm, Some e), w)
        | None \<Rightarrow> Some (UpdateStatus h (settle vm) w))
     }"

definition sanitizeVirtualMachineImport ::
  "'x virtualMachineHandler \<Rightarrow> VirtualMachineImport \<Rightarrow>
   ('x, VirtualMachineImport option \<times> go_error option) go" where
  "sanitizeVirtualMachineImport h vm w =
     do {
       (r, w) \<leftarrow> generateVMO h vm w;
       (case r of
          Inl err \<Rightarrow>
            Some ((None, Some (Wrapf ''error generating VMO in sanitizeVirtualMachineImport: '' err)), w)
        | Inr vmo \<Rightarrow>
            do {
              ((err, vm), w) \<leftarrow> SanitizeVirtualMachineImport vmo vm w;
              let vm = (if err \<noteq> None then set_Status VirtualMachineImportInvalid vm
                        else if length (IsDNS1123Label h (imported_name vm)) \<noteq> 0
                        then set_Status VirtualMachineImportInvalid vm
                        else set_Status SourceReady vm);
              Some (UpdateStatus h vm w)
            })
     }"

section \<open>What the pieces leave unchanged\<close>

lemma put_condition_log: "put_condition h c msg vm w = (vm', w') \<Longrightarrow> log w' = log w"
  by (auto simp: put_condition_def dest: new_condition_log split: prod.splits)

text \<open>
  The import after \<open>put_condition\<close>: the same but for its conditions, of which exactly the
  one of the given type changed, to true.
\<close>

lemma put_condition_spec:
  assumes "put_condition h c msg vm w = (vm', w')"
  obtains cnd where "vm' = set_Conds (MergeConditions (conds_of vm) [cnd]) vm"
    "cond_Type cnd = c" "cond_Status cnd = ConditionTrue"
  using assms by (auto simp: put_condition_def dest: new_condition_fields split: prod.splits)

lemma settle_sel [simp]:
  "disks_of (settle vm) = disks_of vm" "conds_of (settle vm) = conds_of vm"
  "imported_name (settle vm) = imported_name vm" "vm_Spec (settle vm) = vm_Spec vm"
  "vm_Meta (settle vm) = vm_Meta vm" "vm_Kind (settle vm) = vm_Kind vm"
  "vm_APIVersion (settle vm) = vm_APIVersion vm"
  by (simp_all add: settle_def Let_def)

lemma status_settle:
  "status_of (settle vm) =
     (if has_cond VirtualMachineExportFailed vm then VirtualMachineMigrationFailed
      else if has_cond VirtualMachineExported vm then DisksExported else status_of vm)"
  by (simp add: settle_def Let_def)

end
