(* ===== verification/DiskStatus.thy ===== *)
theory DiskStatus
  imports Conditions
begin

text \<open>
  \<open>evaluateDiskImportStatus\<close> of \<open>pkg/controllers/migration/helper.go\<close>: the verdict on the
  disk images of an import, with the four loop variables of the source.
\<close>

abbreviation disk_has :: "Cond \<Rightarrow> DiskInfo \<Rightarrow> bool" where
  "disk_has c d \<equiv> ConditionExists (DiskConditions d) c ConditionTrue"

fun evaluate_loop :: "DiskInfo list \<Rightarrow> bool \<Rightarrow> bool \<Rightarrow> nat \<Rightarrow> nat \<Rightarrow> bool \<times> bool \<times> nat \<times> nat" where
  "evaluate_loop [] ok failed failedCount passedCount = (ok, failed, failedCount, passedCount)"
| "evaluate_loop (d # ds) ok failed failedCount passedCount =
     (let ok = (disk_has VirtualMachineImageReady d \<and> ok);
          passedCount = (if ok then passedCount + 1 else passedCount);
          failed = (disk_has VirtualMachineImageFailed d \<or> failed);
          failedCount = (if failed then failedCount + 1 else failedCount)
      in evaluate_loop ds ok failed failedCount passedCount)"

definition evaluateDiskImportStatus :: "DiskInfo list \<Rightarrow> ImportStatus option" where
  "evaluateDiskImportStatus diskImportStatus =
     (let (ok, failed, failedCount, passedCount) = evaluate_loop diskImportStatus True False 0 0
      in if length diskImportStatus \<noteq> failedCount + passedCount then None
         else if ok then Some DiskImagesReady
         else if failed then Some DiskImagesFailed
         else None)"

section \<open>The verdict in closed form\<close>

text \<open>A disk that is ready and has no failure recorded; one that failed and is not ready.\<close>

definition disk_clean :: "DiskInfo \<Rightarrow> bool" where
  "disk_clean d \<longleftrightarrow> disk_has VirtualMachineImageReady d \<and> \<not> disk_has VirtualMachineImageFailed d"

definition disk_broken :: "DiskInfo \<Rightarrow> bool" where
  "disk_broken d \<longleftrightarrow> disk_has VirtualMachineImageFailed d \<and> \<not> disk_has VirtualMachineImageReady d"

lemma evaluate_loop_not_ok:
  "evaluate_loop ds False True fc pc = (False, True, fc + length ds, pc)"
  by (induction ds arbitrary: fc pc) (simp_all add: Let_def)

lemma evaluate_loop_stuck:
  "evaluate_loop ds False False fc pc = (ok', f', fc', pc') \<Longrightarrow>
   ok' = False \<and> pc' = pc \<and> fc' \<le> fc + length ds"
proof (induction ds arbitrary: fc pc)
  case Nil
  then show ?case by simp
next
  case (Cons d ds)
  then show ?case
    by (cases "disk_has VirtualMachineImageFailed d")
      (auto simp: Let_def evaluate_loop_not_ok dest!: Cons.IH)
qed

lemma evaluate_loop_both:
  "evaluate_loop ds True True fc pc = (ok', f', fc', pc') \<Longrightarrow>
   f' = True \<and> fc' = fc + length ds \<and> pc \<le> pc'"
proof (induction ds arbitrary: fc pc)
  case Nil
  then show ?case by simp
next
  case (Cons d ds)
  then show ?case
    by (cases "disk_has VirtualMachineImageReady d")
      (auto simp: Let_def evaluate_loop_not_ok dest!: Cons.IH)
qed

text \<open>How the counts compare with the number of disks once the clean prefix is over.\<close>

lemma evaluate_loop_clean:
  "list_all disk_clean ds \<Longrightarrow>
   evaluate_loop (ds @ es) True False fc pc = evaluate_loop es True False fc (pc + length ds)"
  by (induction ds arbitrary: pc) (auto simp: Let_def disk_clean_def)

lemma evaluate_dropWhile:
  "evaluateDiskImportStatus ds =
     (case dropWhile disk_clean ds of
        [] \<Rightarrow> Some DiskImagesReady
      | d # _ \<Rightarrow> if disk_broken d then Some DiskImagesFailed else None)"
proof -
  let ?p = "takeWhile disk_clean ds" and ?q = "dropWhile disk_clean ds"
  have clean: "list_all disk_clean ?p"
    by (auto simp: list_all_iff dest: set_takeWhileD)
  have loop: "evaluate_loop ds True False 0 0 = evaluate_loop ?q True False 0 (length ?p)"
    using evaluate_loop_clean [OF clean, of ?q 0 0] by simp
  have len: "length ds = length ?p + length ?q"
    by (metis length_append takeWhile_dropWhile_id)
  show ?thesis
  proof (cases ?q)
    case Nil
    show ?thesis using loop len unfolding Nil by (simp add: evaluateDiskImportStatus_def)
  next
    case (Cons d q)
    then have nclean: "\<not> disk_clean d"
      using hd_dropWhile [of disk_clean ds] by simp
    obtain ok f fc pc where r: "evaluate_loop (d # q) True False 0 (length ?p) = (ok, f, fc, pc)"
      by (cases "evaluate_loop (d # q) True False 0 (length ?p)") auto
    have "evaluateDiskImportStatus ds = (if disk_broken d then Some DiskImagesFailed else None)"
      using r nclean loop len Cons
      by (auto simp: evaluateDiskImportStatus_def Let_def disk_clean_def disk_broken_def
          evaluate_loop_not_ok split: if_splits dest!: evaluate_loop_stuck evaluate_loop_both)
    then show ?thesis using Cons by simp
  qed
qed

lemma evaluate_Some:
  "evaluateDiskImportStatus ds = Some s \<Longrightarrow>
   s = DiskImagesReady \<and> list_all disk_clean ds \<or> s = DiskImagesFailed \<and> list_ex disk_broken ds"
proof -
  assume e: "evaluateDiskImportStatus ds = Some s"
  show ?thesis
  proof (cases "dropWhile disk_clean ds")
    case Nil
    then have "list_all disk_clean ds"
      by (simp add: dropWhile_eq_Nil_conv list_all_iff)
    then show ?thesis
      using e unfolding evaluate_dropWhile Nil by simp
  next
    case (Cons d q)
    then have "d \<in> set ds"
      by (metis list.set_intros(1) set_dropWhileD)
    then show ?thesis
      using e Cons by (auto simp: evaluate_dropWhile list_ex_iff split: if_splits)
  qed
qed

text \<open>
  C24. The verdict on the disk images is decided by the first disk that is not cleanly ready:
  there is no such disk and the import's images are ready; or that disk has failed without being
  ready and the images count as failed, whatever the later disks report; or the images are still
  undecided. In particular a failure later in the list is not reported while an earlier disk is
  pending, and a disk that is both ready and failed blocks the verdict for good.
\<close>

theorem evaluateDiskImportStatus_spec:
  "evaluateDiskImportStatus ds =
     (case dropWhile disk_clean ds of
        [] \<Rightarrow> Some DiskImagesReady
      | d # _ \<Rightarrow> if disk_broken d then Some DiskImagesFailed else None)"
  by (rule evaluate_dropWhile)

end
