(* ===== verification/ImportImages.thy ===== *)
theory ImportImages
  imports ImportExport DiskStatus TempFiles
begin

text \<open>
  The disk images of an import: \<open>checkAndCreateVirtualMachineImage\<close>,
  \<open>createVirtualMachineImages\<close>, \<open>reconcileVMIStatus\<close>, \<open>cleanupAndResubmit\<close>,
  \<open>tidyUpObjects\<close> and the watch function \<open>ReconcileVMI\<close> of \<open>virtualmachine.go\<close>, and
  \<open>reconcileDiskImageStatus\<close> and \<open>triggerResubmit\<close> of \<open>helper.go\<close>. The loops over
  \<open>vm.Status.DiskImportStatus\<close> carry the index at which they write back.
\<close>

section \<open>Creating images\<close>

definition image_display_name :: "VirtualMachineImport \<Rightarrow> DiskInfo \<Rightarrow> string" where
  "image_display_name vm d = ''vm-import-'' @ vm_Name vm @ ''-'' @ DiskName d"

text \<open>The object that is created, before the storage class is considered.\<close>

definition new_image ::
  "'x virtualMachineHandler \<Rightarrow> VirtualMachineImport \<Rightarrow> DiskInfo \<Rightarrow> VirtualMachineImage" where
  "new_image h vm d =
     (let displayName = image_display_name vm d;
          labelDisplayName = MustFormatValue h displayName
      in \<lparr>img_Meta = empty_meta\<lparr>
            GenerateName := ''image-'',
            Namespace := vm_Namespace vm,
            OwnerReferences := [\<lparr>owner_APIVersion = vm_APIVersion vm, owner_Kind = vm_Kind vm,
               owner_Name = vm_Name vm, owner_UID = UID (vm_Meta vm)\<rparr>],
            Labels := [labelImported \<mapsto> ''true'', labelImageDisplayName \<mapsto> labelDisplayName]\<rparr>,
          DisplayName = displayName,
          URL = ''http://'' @ server_Address (svcAddress h) @ '':'' @ show_int DefaultPort @ ''/''
                @ DiskName d,
          SourceType = ''download'',
          Backend = VMIBackendUnset,
          TargetStorageClassName = [],
          img_Conditions = [],
          img_Size = 0,
          img_StorageClassName = []\<rparr>)"

definition checkAndCreateVirtualMachineImage ::
  "'x virtualMachineHandler \<Rightarrow> VirtualMachineImport \<Rightarrow> DiskInfo \<Rightarrow> 'x go_world \<Rightarrow>
   (go_error + VirtualMachineImage) \<times> 'x go_world" where
  "checkAndCreateVirtualMachineImage h vm d w =
     (let labelDisplayName = MustFormatValue h (image_display_name vm d) in
      case query (vmi_List h (vm_Namespace vm) labelImageDisplayName labelDisplayName) w of
        (Inl err, w) \<Rightarrow> (Inl err, w)
      | (Inr imageList, w) \<Rightarrow>
          let numImages = length imageList in
          if 1 < numImages
          then (Inl (Errorf (''found '' @ show_nat numImages
                 @ '' Harvester VirtualMachineImages with label ''
                 @ single_quoted (labelImageDisplayName @ ''='' @ labelDisplayName) @ '', only expected to find one'')), w)
          else if numImages = 1 then (Inr (imageList ! 0), w)
          else
            (let vmi = new_image h vm d;
                 sc = StorageClassName (vm_Spec vm);
                 (vmi', w) =
                   (if sc \<noteq> []
                    then (case GetBackendFromStorageClassName (harvester h) sc (sc_Get h) w of
                            (Inl err, w) \<Rightarrow>
                              (Inl (Errorf (''failed to get VMI backend from storage class ''
                                 @ single_quoted sc @ '': '' @ Error err)), w)
                          | (Inr vmiBackend, w) \<Rightarrow>
                              (Inr (vmi\<lparr>img_Meta := (img_Meta vmi)\<lparr>Annotations :=
                                      (Annotations (img_Meta vmi))
                                        (AnnotationStorageClassName (harvester h) \<mapsto> sc)\<rparr>,
                                    Backend := vmiBackend,
                                    TargetStorageClassName := sc\<rparr>), w))
                    else (Inr vmi, w))
             in case vmi' of
                  Inl err \<Rightarrow> (Inl err, w)
                | Inr vmi \<Rightarrow>
                    (case effect (\<lambda>_. EvImageCreate vmi) (vmi_Create h vmi) w of
                       (Inl err, w) \<Rightarrow>
                         (Inl (Errorf (''failed to create Harvester VirtualMachineImage (namespace=''
                            @ Namespace (img_Meta vmi) @ '' spec.displayName='' @ DisplayName vmi
                            @ ''): '' @ Error err)), w)
                     | (Inr vmiObj, w) \<Rightarrow> (Inr vmiObj, w))))"

fun create_images_loop ::
  "'x virtualMachineHandler \<Rightarrow> nat \<Rightarrow> DiskInfo list \<Rightarrow> VirtualMachineImport \<Rightarrow> 'x go_world \<Rightarrow>
   (go_error option \<times> VirtualMachineImport) \<times> 'x go_world" where
  "create_images_loop h i [] vm w = ((None, vm), w)"
| "create_images_loop h i (d # ds) vm w =
     (if \<not> disk_has VirtualMachineImageSubmitted d then
        (case checkAndCreateVirtualMachineImage h vm d w of
           (Inl err, w) \<Rightarrow> ((Some (Errorf (''error creating vmi: '' @ Error err)), vm), w)
         | (Inr vmiObj, w) \<Rightarrow>
             let d = d\<lparr>DiskImage := Name (img_Meta vmiObj)\<rparr>;
                 (cond, w) = new_condition h VirtualMachineImageSubmitted [] w;
                 d = d\<lparr>DiskConditions := MergeConditions (DiskConditions d) [cond]\<rparr>
             in create_images_loop h (Suc i) ds (set_Disks ((disks_of vm)[i := d]) vm) w)
      else create_images_loop h (Suc i) ds vm w)"

definition createVirtualMachineImages ::
  "'x virtualMachineHandler \<Rightarrow> VirtualMachineImport \<Rightarrow> 'x go_world \<Rightarrow>
   (go_error option \<times> VirtualMachineImport) \<times> 'x go_world" where
  "createVirtualMachineImages h vm w = create_images_loop h 0 (disks_of vm) vm w"

definition reconcileDiskImageStatus ::
  "'x virtualMachineHandler \<Rightarrow> VirtualMachineImport \<Rightarrow>
   ('x, VirtualMachineImport option \<times> go_error option) go" where
  "reconcileDiskImageStatus h vm w =
     (let orgDisks = disks_of vm in
      if length orgDisks = 0
      then Some (UpdateStatus h (set_Status VirtualMachineImportInvalid vm) w)
      else
        (case createVirtualMachineImages h vm w of
           ((Some err, vm), w) \<Rightarrow>
             if orgDisks \<noteq> disks_of vm
             then (let ((newVM, newErr), w) = UpdateStatus h vm w in Some ((newVM, Some err), w))
             else Some ((None, Some err), w)
         | ((None, vm), w) \<Rightarrow>
             let ok = list_all (disk_has VirtualMachineImageSubmitted) (disks_of vm);
                 vm = (if ok then set_Status DiskImagesSubmitted vm else vm)
             in Some (UpdateStatus h vm w)))"

section \<open>Following images\<close>

text \<open>The loop over the conditions of one image; both tests are made for each.\<close>

definition apply_image_condition ::
  "'x virtualMachineHandler \<Rightarrow> ImageCondition \<Rightarrow> DiskInfo \<Rightarrow> 'x go_world \<Rightarrow> DiskInfo \<times> 'x go_world"
  where
  "apply_image_condition h v d w =
     (let (d, w) =
            (if imgcond_Type v = ImageImported \<and> imgcond_Status v = ConditionTrue
             then (let (cond, w) = new_condition h VirtualMachineImageReady [] w
                   in (d\<lparr>DiskConditions := MergeConditions (DiskConditions d) [cond]\<rparr>, w))
             else (d, w))
      in if imgcond_Type v = ImageImported \<and> imgcond_Status v = ConditionFalse \<and>
            imgcond_Reason v = ''ImportFailed''
         then (let (cond, w) = new_condition h VirtualMachineImageFailed [] w
               in (d\<lparr>DiskConditions := MergeConditions (DiskConditions d) [cond]\<rparr>, w))
         else (d, w))"

fun image_conditions_loop ::
  "'x virtualMachineHandler \<Rightarrow> ImageCondition list \<Rightarrow> DiskInfo \<Rightarrow> 'x go_world \<Rightarrow>
   DiskInfo \<times> 'x go_world" where
  "image_conditions_loop h [] d w = (d, w)"
| "image_conditions_loop h (v # vs) d w =
     (let (d, w) = apply_image_condition h v d w in image_conditions_loop h vs d w)"

fun vmi_status_loop ::
  "'x virtualMachineHandler \<Rightarrow> nat \<Rightarrow> DiskInfo list \<Rightarrow> VirtualMachineImport \<Rightarrow> 'x go_world \<Rightarrow>
   (go_error option \<times> VirtualMachineImport) \<times> 'x go_world" where
  "vmi_status_loop h i [] vm w = ((None, vm), w)"
| "vmi_status_loop h i (d # ds) vm w =
     (if \<not> disk_has VirtualMachineImageReady d then
        (case query (vmi_Get h (vm_Namespace vm) (DiskImage d)) w of
           (Inl err, w) \<Rightarrow>
             ((Some (Errorf (''error quering vmi in reconcileVMIStatus: '' @ Error err)), vm), w)
         | (Inr vmi, w) \<Rightarrow>
             let (d, w) = image_conditions_loop h (img_Conditions vmi) d w
             in vmi_status_loop h (Suc i) ds (set_Disks ((disks_of vm)[i := d]) vm) w)
      else vmi_status_loop h (Suc i) ds vm w)"

definition reconcileVMIStatus ::
  "'x virtualMachineHandler \<Rightarrow> VirtualMachineImport \<Rightarrow> 'x go_world \<Rightarrow>
   (go_error option \<times> VirtualMachineImport) \<times> 'x go_world" where
  "reconcileVMIStatus h vm w = vmi_status_loop h 0 (disks_of vm) vm w"

text \<open>\<open>ReconcileVMI\<close>: which import to look at when an image changes (none, or one key).\<close>

definition ReconcileVMI :: "VirtualMachineImage option \<Rightarrow> (string \<times> string) list" where
  "ReconcileVMI obj =
     (case obj of
        None \<Rightarrow> []
      | Some vmiObj \<Rightarrow>
          if DeletionTimestamp (img_Meta vmiObj) = None
          then (case find (\<lambda>v. strings_EqualFold (owner_Kind v) ''virtualmachineimport'')
                       (OwnerReferences (img_Meta vmiObj)) of
                  Some v \<Rightarrow> [(Namespace (img_Meta vmiObj), owner_Name v)]
                | None \<Rightarrow> [])
          else [])"

section \<open>Resubmission and release\<close>

fun cleanup_loop ::
  "'x virtualMachineHandler \<Rightarrow> nat \<Rightarrow> DiskInfo list \<Rightarrow> VirtualMachineImport \<Rightarrow> 'x go_world \<Rightarrow>
   (go_error option \<times> VirtualMachineImport) \<times> 'x go_world" where
  "cleanup_loop h i [] vm w = ((None, vm), w)"
| "cleanup_loop h i (d # ds) vm w =
     (if disk_has VirtualMachineImageFailed d then
        (case effect (\<lambda>_. EvImageDelete (vm_Namespace vm) (DiskImage d))
                (vmi_Delete h (vm_Namespace vm) (DiskImage d)) w of
           (Some err, w) \<Rightarrow>
             ((Some (Errorf (''error deleting failed virtualmachineimage: '' @ Error err)), vm), w)
         | (None, w) \<Rightarrow>
             let conds = RemoveCondition (DiskConditions d) VirtualMachineImageFailed ConditionTrue;
                 d = d\<lparr>DiskConditions := conds\<rparr>
             in cleanup_loop h (Suc i) ds (set_Disks ((disks_of vm)[i := d]) vm) w)
      else cleanup_loop h (Suc i) ds vm w)"

definition cleanupAndResubmit ::
  "'x virtualMachineHandler \<Rightarrow> VirtualMachineImport \<Rightarrow> 'x go_world \<Rightarrow>
   (go_error option \<times> VirtualMachineImport) \<times> 'x go_world" where
  "cleanupAndResubmit h vm w = cleanup_loop h 0 (disks_of vm) vm w"

definition triggerResubmit ::
  "'x virtualMachineHandler \<Rightarrow> VirtualMachineImport \<Rightarrow>
   ('x, VirtualMachineImport option \<times> go_error option) go" where
  "triggerResubmit h vm w =
     (case cleanupAndResubmit h vm w of
        ((Some err, vm), w) \<Rightarrow> Some ((Some vm, Some err), w)
      | ((None, vm), w) \<Rightarrow> Some (UpdateStatus h (set_Status SourceReady vm) w))"

definition owned_by :: "VirtualMachineImport \<Rightarrow> OwnerReference \<Rightarrow> bool" where
  "owned_by vm r \<longleftrightarrow> owner_Kind r = vm_Kind vm \<and> owner_APIVersion r = vm_APIVersion vm \<and>
     owner_UID r = UID (vm_Meta vm) \<and> owner_Name r = vm_Name vm"

fun tidy_loop ::
  "'x virtualMachineHandler \<Rightarrow> VirtualMachineImport \<Rightarrow> DiskInfo list \<Rightarrow> 'x go_world \<Rightarrow>
   go_error option \<times> 'x go_world" where
  "tidy_loop h vm [] w = (None, w)"
| "tidy_loop h vm (v # vs) w =
     (case query (vmi_Get h (vm_Namespace vm) (DiskImage v)) w of
        (Inl err, w) \<Rightarrow> (Some err, w)
      | (Inr vmiObj, w) \<Rightarrow>
          let newRef = filter (\<lambda>r. \<not> owned_by vm r) (OwnerReferences (img_Meta vmiObj));
              vmiObj = vmiObj\<lparr>img_Meta := (img_Meta vmiObj)\<lparr>OwnerReferences := newRef\<rparr>\<rparr>
          in case effect (\<lambda>_. EvImageUpdate vmiObj) (vmi_Update h vmiObj) w of
               (Some err, w) \<Rightarrow>
                 (Some (Wrapf (''error removing ownerReference for VirtualMachineImage ''
                    @ NamespacedName (img_Meta vmiObj) @ '': '') err), w)
             | (None, w) \<Rightarrow> tidy_loop h vm vs w)"

definition tidyUpObjects ::
  "'x virtualMachineHandler \<Rightarrow> VirtualMachineImport \<Rightarrow> 'x go_world \<Rightarrow> go_error option \<times> 'x go_world"
  where
  "tidyUpObjects h vm w = tidy_loop h vm (disks_of vm) w"

end
