(* ===== verification/ImportVM.thy ===== *)
theory ImportVM
  imports ImportImages
begin

text \<open>
  Creating the KubeVirt virtual machine: \<open>findAndCreatePVC\<close>, \<open>createVirtualMachine\<close>,
  \<open>checkVirtualMachine\<close> and \<open>triggerCleanup\<close> of \<open>virtualmachine.go\<close>, and
  \<open>reconcileVirtualMachineStatus\<close> of \<open>helper.go\<close>.
\<close>

section \<open>Claims\<close>

definition new_pvc :: "'x virtualMachineHandler \<Rightarrow> VirtualMachineImport \<Rightarrow> DiskInfo \<Rightarrow>
   VirtualMachineImage \<Rightarrow> PersistentVolumeClaim" where
  "new_pvc h vm v vmiObj =
     \<lparr>pvc_Meta = empty_meta\<lparr>Name := DiskImage v, Namespace := vm_Namespace vm,
        Annotations := [AnnotationImageID (harvester h) \<mapsto> NamespacedName (img_Meta vmiObj)]\<rparr>,
      AccessModes = [''ReadWriteMany''],
      StorageRequest = show_int (sint (img_Size vmiObj)),
      pvc_StorageClassName = img_StorageClassName vmiObj,
      VolumeMode = ''Block''\<rparr>"

fun pvc_loop ::
  "'x virtualMachineHandler \<Rightarrow> VirtualMachineImport \<Rightarrow> DiskInfo list \<Rightarrow> 'x go_world \<Rightarrow>
   go_error option \<times> 'x go_world" where
  "pvc_loop h vm [] w = (None, w)"
| "pvc_loop h vm (v # vs) w =
     (case query (vmi_Get h (vm_Namespace vm) (DiskImage v)) w of
        (Inl err, w) \<Rightarrow>
          (Some (Errorf (''error quering VirtualMachineImage ''
             @ single_quoted (vm_Namespace vm @ ''/'' @ DiskImage v) @ '' in findAndCreatePVC: '' @ Error err)), w)
      | (Inr vmiObj, w) \<Rightarrow>
          if Backend vmiObj = VMIBackendBackingImage then
            (case query (pvc_Get h (vm_Namespace vm) (DiskImage v)) w of
               (Inr _, w) \<Rightarrow> pvc_loop h vm vs w
             | (Inl err, w) \<Rightarrow>
                 if apierrors_IsNotFound err
                 then (let pvcObj = new_pvc h vm v vmiObj in
                       case effect (\<lambda>_. EvPVCCreate pvcObj) (pvc_Create h pvcObj) w of
                         (Some err, w) \<Rightarrow> (Some err, w)
                       | (None, w) \<Rightarrow> pvc_loop h vm vs w)
                 else (Some (Errorf (''error looking up existing PVC ''
                        @ single_quoted (vm_Namespace vm @ ''/'' @ DiskImage v) @ '' in findAndCreatePVC: '' @ Error err)), w))
          else pvc_loop h vm vs w)"

definition findAndCreatePVC ::
  "'x virtualMachineHandler \<Rightarrow> VirtualMachineImport \<Rightarrow> 'x go_world \<Rightarrow> go_error option \<times> 'x go_world"
  where
  "findAndCreatePVC h vm w = pvc_loop h vm (disks_of vm) w"

section \<open>The virtual machine\<close>

definition disk_label :: "nat \<Rightarrow> string" where
  "disk_label i = ''disk-'' @ show_nat i"

text \<open>The loop that pairs a volume with a disk; boot orders start at 1.\<close>

fun volumes_loop :: "nat \<Rightarrow> DiskInfo list \<Rightarrow> Volume list \<times> Disk list" where
  "volumes_loop i [] = ([], [])"
| "volumes_loop i (v # vs) =
     (let (vols, disks) = volumes_loop (Suc i) vs;
          diskOrder = int i + 1
      in (\<lparr>vol_Name = disk_label i, ClaimName = DiskImage v\<rparr> # vols,
          \<lparr>disk_Name = disk_label i, BootOrder = word_of_int diskOrder, disk_Bus = BusType v\<rparr> # disks))"

text \<open>The object with its volumes, disks and the label \<open>SetMetaDataLabel\<close> adds.\<close>

definition patch_vm :: "VirtualMachineImport \<Rightarrow> VirtualMachine \<Rightarrow> VirtualMachine" where
  "patch_vm vm runVM =
     (let (vmVols, disks) = volumes_loop 0 (disks_of vm) in
      runVM\<lparr>kv_Spec := (kv_Spec runVM)\<lparr>Volumes := vmVols, Disks := disks\<rparr>,
            kv_Meta := (kv_Meta runVM)\<lparr>Labels := (Labels (kv_Meta runVM))(labelImported \<mapsto> ''true'')\<rparr>\<rparr>)"

text \<open>The last part of \<open>createVirtualMachine\<close>: create the object only if it is not there.\<close>

definition createIfMissing ::
  "'x virtualMachineHandler \<Rightarrow> VirtualMachine \<Rightarrow> 'x go_world \<Rightarrow> go_error option \<times> 'x go_world" where
  "createIfMissing h runVM w =
     (let (existing, w) = query (kubevirt_Get h (Namespace (kv_Meta runVM)) (Name (kv_Meta runVM))) w;
          found = (case existing of
            Inr existingVM \<Rightarrow> Labels (kv_Meta existingVM) labelImported = Some ''true''
          | Inl _ \<Rightarrow> False)
      in if \<not> found
         then (case effect (\<lambda>_. EvVMCreate runVM) (kubevirt_Create h runVM) w of
                 (Some err, w) \<Rightarrow>
                   (Some (Errorf (''error creating kubevirt VM in createVirtualMachine: ''
                      @ Error err)), w)
               | (None, w) \<Rightarrow> (None, w))
         else (None, w))"

definition createVirtualMachine ::
  "'x virtualMachineHandler \<Rightarrow> VirtualMachineImport \<Rightarrow> ('x, go_error option) go" where
  "createVirtualMachine h vm w =
     do {
       (r, w) \<leftarrow> generateVMO h vm w;
       (case r of
          Inl err \<Rightarrow> Some (Some (Wrapf ''error generating VMO in createVirtualMachine: '' err), w)
        | Inr vmo \<Rightarrow>
            do {
              (g, w) \<leftarrow> GenerateVirtualMachine vmo vm w;
              (case g of
                 Inl err \<Rightarrow> Some (Some (Errorf (''error generating Kubevirt VM: '' @ Error err)), w)
               | Inr runVM \<Rightarrow>
                   (case findAndCreatePVC h vm w of
                      (Some err, w) \<Rightarrow> Some (Some err, w)
                    | (None, w) \<Rightarrow> Some (createIfMissing h (patch_vm vm runVM) w)))
            })
     }"

definition checkVirtualMachine ::
  "'x virtualMachineHandler \<Rightarrow> VirtualMachineImport \<Rightarrow> 'x go_world \<Rightarrow> (go_error + bool) \<times> 'x go_world"
  where
  "checkVirtualMachine h vm w =
     (case query (kubevirt_Get h (vm_Namespace vm) (imported_name vm)) w of
        (Inl err, w) \<Rightarrow>
          (Inl (Errorf (''error querying kubevirt vm in checkVirtualMachine: '' @ Error err)), w)
      | (Inr vmObj, w) \<Rightarrow> (Inr (kv_Ready vmObj), w))"

definition reconcileVirtualMachineStatus ::
  "'x virtualMachineHandler \<Rightarrow> VirtualMachineImport \<Rightarrow>
   ('x, VirtualMachineImport option \<times> go_error option) go" where
  "reconcileVirtualMachineStatus h vm w =
     (case checkVirtualMachine h vm w of
        (Inl err, w) \<Rightarrow> Some ((Some vm, Some err), w)
      | (Inr ok, w) \<Rightarrow>
          if \<not> ok then Some ((Some vm, None), EnqueueAfter h vm (Seconds (2 * 60)) w)
          else Some (UpdateStatus h (set_Status VirtualMachineRunning vm) w))"

definition triggerCleanup ::
  "'x virtualMachineHandler \<Rightarrow> VirtualMachineImport \<Rightarrow> ('x, go_error option) go" where
  "triggerCleanup h vmi w =
     do {
       (r, w) \<leftarrow> generateVMO h vmi w;
       (case r of
          Inl err \<Rightarrow> Some (Some (Wrapf ''failed to generate VMO in triggerCleanup: '' err), w)
        | Inr vmo \<Rightarrow> Cleanup vmo vmi (mark (EvCleanup vmi) w))
     }"

end
