(* ===== verification/ImportController.thy ===== *)
theory ImportController
  imports ImportVM
begin

text \<open>
  The entry points of the import controller: \<open>OnVirtualMachineChange\<close> and
  \<open>OnVirtualMachineRemove\<close> of \<open>virtualmachine.go\<close>. A nil object is \<open>None\<close>.
\<close>

type_synonym 'x handler_result = "('x, VirtualMachineImport option \<times> go_error option) go"

text \<open>Status DiskImagesSubmitted: follow the images and evaluate them.\<close>

definition followImages :: "'x virtualMachineHandler \<Rightarrow> VirtualMachineImport \<Rightarrow> 'x handler_result"
  where
  "followImages h vmiCopy w =
     (case reconcileVMIStatus h vmiCopy w of
        ((Some err, vmiCopy), w) \<Rightarrow> Some ((Some vmiCopy, Some err), w)
      | ((None, vmiCopy), w) \<Rightarrow>
          (case evaluateDiskImportStatus (disks_of vmiCopy) of
             None \<Rightarrow> Some ((Some vmiCopy, None), w)
           | Some newStatus \<Rightarrow> Some (UpdateStatus h (set_Status newStatus vmiCopy) w)))"

text \<open>Status DiskImagesReady: create the machine.\<close>

definition createMachine :: "'x virtualMachineHandler \<Rightarrow> VirtualMachineImport \<Rightarrow> 'x handler_result"
  where
  "createMachine h vmiCopy w =
     do {
       (err, w) \<leftarrow> createVirtualMachine h vmiCopy w;
       (case err of
          Some e \<Rightarrow> abortMigrationIfNecessary h (Some vmiCopy, Some e) w
        | None \<Rightarrow> Some (UpdateStatus h (set_Status VirtualMachineCreated vmiCopy) w))
     }"

text \<open>The cleanup of an import that is over; its error is logged and dropped.\<close>

definition finalCleanup :: "'x virtualMachineHandler \<Rightarrow> VirtualMachineImport \<Rightarrow> 'x handler_result"
  where
  "finalCleanup h vmi w = do { (err, w) \<leftarrow> triggerCleanup h vmi w; Some ((None, None), w) }"

text \<open>Status VirtualMachineRunning: release the images, then clean up.\<close>

definition finishImport :: "'x virtualMachineHandler \<Rightarrow> VirtualMachineImport \<Rightarrow> 'x handler_result"
  where
  "finishImport h vmiCopy w =
     (case tidyUpObjects h vmiCopy w of
        (Some err, w) \<Rightarrow> Some ((None, Some err), w)
      | (None, w) \<Rightarrow> finalCleanup h vmiCopy w)"

definition reconcile_status ::
  "'x virtualMachineHandler \<Rightarrow> VirtualMachineImport \<Rightarrow> 'x handler_result" where
  "reconcile_status h vmiCopy w =
     (case status_of vmiCopy of
        StatusUnset \<Rightarrow> reconcilePreFlightChecks h vmiCopy w
      | VirtualMachineImportValid \<Rightarrow>
          do { (r, w) \<leftarrow> sanitizeVirtualMachineImport h vmiCopy w; abortMigrationIfNecessary h r w }
      | SourceReady \<Rightarrow>
          do { (r, w) \<leftarrow> runVirtualMachineExport h vmiCopy w; abortMigrationIfNecessary h r w }
      | DisksExported \<Rightarrow> reconcileDiskImageStatus h vmiCopy w
      | DiskImagesSubmitted \<Rightarrow> followImages h vmiCopy w
      | DiskImagesFailed \<Rightarrow> triggerResubmit h vmiCopy w
      | DiskImagesReady \<Rightarrow> createMachine h vmiCopy w
      | VirtualMachineCreated \<Rightarrow> reconcileVirtualMachineStatus h vmiCopy w
      | VirtualMachineRunning \<Rightarrow> finishImport h vmiCopy w
      | VirtualMachineImportInvalid \<Rightarrow> Some ((None, None), w)
      | VirtualMachineMigrationFailed \<Rightarrow> finalCleanup h vmiCopy w
      | StatusOther _ \<Rightarrow> Some ((None, None), w))"

definition OnVirtualMachineChange ::
  "'x virtualMachineHandler \<Rightarrow> VirtualMachineImport option \<Rightarrow> 'x handler_result" where
  "OnVirtualMachineChange h vmi w =
     (case vmi of
        None \<Rightarrow> Some ((None, None), w)
      | Some vm \<Rightarrow>
          if DeletionTimestamp (vm_Meta vm) \<noteq> None then Some ((None, None), w)
          else reconcile_status h vm w)"

definition OnVirtualMachineRemove ::
  "'x virtualMachineHandler \<Rightarrow> VirtualMachineImport option \<Rightarrow> 'x handler_result" where
  "OnVirtualMachineRemove h vmi w =
     (case vmi of
        None \<Rightarrow> Some ((None, None), w)
      | Some vm \<Rightarrow> finalCleanup h vm w)"

end
