(* ===== verification/ImportSpec.thy ===== *)
theory ImportSpec
  imports ImportController
begin

text \<open>
  The specification of the import controller as a state machine over the import resource:
  \<open>import_step\<close> says which object one reconciliation may write for the object it has read,
  and \<open>licensed\<close> which calls it may make. \<open>ImportRefinement\<close> shows that the code keeps
  to it, \<open>ImportInvariants\<close> reasons about its runs.
\<close>

section \<open>Progress of the export\<close>

definition true_condition :: "Cond \<Rightarrow> Condition \<Rightarrow> bool" where
  "true_condition c cnd \<longleftrightarrow> cond_Type cnd = c \<and> cond_Status cnd = ConditionTrue"

definition add_cond :: "Condition \<Rightarrow> VirtualMachineImport \<Rightarrow> VirtualMachineImport" where
  "add_cond cnd vm = set_Conds (MergeConditions (conds_of vm) [cnd]) vm"

definition off_requested :: "VirtualMachineImport \<Rightarrow> bool" where
  "off_requested vm \<longleftrightarrow> has_cond VirtualMachinePoweringOff vm \<or> has_cond VirtualMachineShutdownGuest vm"

definition export_enabled :: "VirtualMachineImport \<Rightarrow> bool" where
  "export_enabled vm \<longleftrightarrow> has_cond VirtualMachinePoweredOff vm \<and> off_requested vm \<and>
     \<not> has_cond VirtualMachineExported vm \<and> \<not> has_cond VirtualMachineExportFailed vm"

text \<open>The disks after an export: those before it keep their conditions, new ones have none.\<close>

definition export_disks :: "VirtualMachineImport \<Rightarrow> VirtualMachineImport \<Rightarrow> bool" where
  "export_disks vm vm' \<longleftrightarrow> (\<exists>ds k. vm' = set_Disks ds vm \<and>
     map DiskConditions ds = map DiskConditions (disks_of vm) @ replicate k [])"

inductive export_progress :: "VirtualMachineImport \<Rightarrow> VirtualMachineImport \<Rightarrow> bool" where
  idle: "export_progress vm vm"
| shutdown: "export_progress vm (add_cond cnd vm)"
  if "\<not> has_cond VirtualMachineShutdownGuest vm" "true_condition VirtualMachineShutdownGuest cnd"
| power_off: "export_progress vm (add_cond cnd vm)"
  if "\<not> has_cond VirtualMachinePoweringOff vm"
    "GetForcePowerOff vm \<or> has_cond VirtualMachineShutdownGuest vm"
    "true_condition VirtualMachinePoweringOff cnd"
| powered_off: "export_progress vm (add_cond cnd vm)"
  if "\<not> has_cond VirtualMachinePoweredOff vm" "off_requested vm"
    "true_condition VirtualMachinePoweredOff cnd"
| exported: "export_progress vm (add_cond cnd vm')"
  if "export_enabled vm" "export_disks vm vm'" "true_condition VirtualMachineExported cnd"
| export_failed: "export_progress vm (add_cond cnd vm')"
  if "export_enabled vm" "export_disks vm vm'" "true_condition VirtualMachineExportFailed cnd"

section \<open>Progress of a disk\<close>

definition disk_submitted :: "DiskInfo \<Rightarrow> DiskInfo \<Rightarrow> bool" where
  "disk_submitted d d' \<longleftrightarrow> d' = d \<or>
     \<not> disk_has VirtualMachineImageSubmitted d \<and>
     (\<exists>n cnd. true_condition VirtualMachineImageSubmitted cnd \<and>
        d' = d\<lparr>DiskImage := n, DiskConditions := MergeConditions (DiskConditions d) [cnd]\<rparr>)"

lemma disk_submitted_refl [simp]: "disk_submitted d d"
  by (simp add: disk_submitted_def)

definition disk_followed :: "DiskInfo \<Rightarrow> DiskInfo \<Rightarrow> bool" where
  "disk_followed d d' \<longleftrightarrow>
     (\<exists>ns. d' = d\<lparr>DiskConditions := MergeConditions (DiskConditions d) ns\<rparr> \<and>
        (\<forall>n \<in> set ns. true_condition VirtualMachineImageReady n \<or>
                       true_condition VirtualMachineImageFailed n) \<and>
        (disk_has VirtualMachineImageReady d \<longrightarrow> ns = []))"

lemma disk_followed_refl [simp]: "disk_followed d d"
  by (auto simp: disk_followed_def intro: exI [of _ "[]"])

definition disk_reset :: "DiskInfo \<Rightarrow> DiskInfo" where
  "disk_reset d =
     (if disk_has VirtualMachineImageFailed d
      then d\<lparr>DiskConditions :=
               RemoveCondition (DiskConditions d) VirtualMachineImageFailed ConditionTrue\<rparr>
      else d)"

section \<open>The state machine\<close>

inductive import_step :: "VirtualMachineImport \<Rightarrow> VirtualMachineImport \<Rightarrow> bool" where
  preflight_ok: "import_step vm (set_Status VirtualMachineImportValid vm)"
  if "status_of vm = StatusUnset"
| preflight_bad: "import_step vm (set_Status VirtualMachineImportInvalid vm)"
  if "status_of vm = StatusUnset"
| sanitize_ok: "import_step vm (set_Status SourceReady (set_ImportedName n vm))"
  if "status_of vm = VirtualMachineImportValid" "strings_ToLower n = n"
| sanitize_bad: "import_step vm (set_Status VirtualMachineImportInvalid (set_ImportedName n vm))"
  if "status_of vm = VirtualMachineImportValid"
| export: "import_step vm (settle vm')"
  if "status_of vm = SourceReady" "export_progress vm vm'"
| abort: "import_step vm (set_Status VirtualMachineMigrationFailed vm)"
  if "status_of vm = SourceReady \<or> status_of vm = DiskImagesReady"
| no_disks: "import_step vm (set_Status VirtualMachineImportInvalid vm)"
  if "status_of vm = DisksExported" "disks_of vm = []"
| submit_some: "import_step vm (set_Disks ds vm)"
  if "status_of vm = DisksExported" "list_all2 disk_submitted (disks_of vm) ds" "disks_of vm \<noteq> []"
| submit_all: "import_step vm (set_Status DiskImagesSubmitted (set_Disks ds vm))"
  if "status_of vm = DisksExported" "list_all2 disk_submitted (disks_of vm) ds" "disks_of vm \<noteq> []"
    "list_all (disk_has VirtualMachineImageSubmitted) ds"
| follow: "import_step vm (set_Status s (set_Disks ds vm))"
  if "status_of vm = DiskImagesSubmitted" "list_all2 disk_followed (disks_of vm) ds"
    "evaluateDiskImportStatus ds = Some s"
| resubmit: "import_step vm (set_Status SourceReady (set_Disks (map disk_reset (disks_of vm)) vm))"
  if "status_of vm = DiskImagesFailed"
| create: "import_step vm (set_Status VirtualMachineCreated vm)"
  if "status_of vm = DiskImagesReady"
| run: "import_step vm (set_Status VirtualMachineRunning vm)"
  if "status_of vm = VirtualMachineCreated"

inductive_cases import_stepE: "import_step vm vm'"
inductive_cases export_progressE: "export_progress vm vm'"

section \<open>Licensed calls\<close>

definition machine_for :: "VirtualMachineImport \<Rightarrow> VirtualMachine \<Rightarrow> bool" where
  "machine_for vm v \<longleftrightarrow>
     Name (kv_Meta v) = imported_name vm \<and> Namespace (kv_Meta v) = vm_Namespace vm \<and>
     Labels (kv_Meta v) labelImported = Some ''true'' \<and>
     (Volumes (kv_Spec v), Disks (kv_Spec v)) = volumes_loop 0 (disks_of vm) \<and>
     Networks (kv_Spec v) \<noteq> [] \<and>
     map net_Name (Networks (kv_Spec v)) = map if_Name (Interfaces (kv_Spec v)) \<and>
      distinct (map net_Name (Networks (kv_Spec v)))"

fun licensed :: "VirtualMachineImport \<Rightarrow> event \<Rightarrow> bool" where
  "licensed vm (EvUpdateStatus vm') \<longleftrightarrow> import_step vm vm'"
| "licensed vm (EvEnqueueAfter ns n d) \<longleftrightarrow> ns = vm_Namespace vm \<and> n = vm_Name vm \<and>
     (if status_of vm = VirtualMachineCreated then d = Seconds 120
      else status_of vm \<in> {StatusUnset, SourceReady} \<and> d = Seconds 5)"
| "licensed vm (EvShutdownGuest vm') \<longleftrightarrow> vm' = vm \<and> status_of vm = SourceReady \<and>
     \<not> has_cond VirtualMachineShutdownGuest vm"
| "licensed vm (EvPowerOff vm') \<longleftrightarrow> vm' = vm \<and> status_of vm = SourceReady \<and>
     \<not> has_cond VirtualMachinePoweringOff vm \<and>
     (GetForcePowerOff vm \<or> has_cond VirtualMachineShutdownGuest vm)"
| "licensed vm (EvExport vm') \<longleftrightarrow> vm' = vm \<and> status_of vm = SourceReady \<and> export_enabled vm"
| "licensed vm (EvImageCreate img) \<longleftrightarrow> status_of vm = DisksExported \<and>
     Namespace (img_Meta img) = vm_Namespace vm \<and>
     (\<exists>d \<in> set (disks_of vm). \<not> disk_has VirtualMachineImageSubmitted d \<and>
        DisplayName img = image_display_name vm d)"
| "licensed vm (EvImageDelete ns n) \<longleftrightarrow> status_of vm = DiskImagesFailed \<and> ns = vm_Namespace vm \<and>
     (\<exists>d \<in> set (disks_of vm). disk_has VirtualMachineImageFailed d \<and> DiskImage d = n)"
| "licensed vm (EvImageUpdate img) \<longleftrightarrow> status_of vm = VirtualMachineRunning \<and>
     (\<forall>r \<in> set (OwnerReferences (img_Meta img)). \<not> owned_by vm r)"
| "licensed vm (EvPVCCreate p) \<longleftrightarrow> status_of vm = DiskImagesReady \<and>
     Namespace (pvc_Meta p) = vm_Namespace vm \<and>
     (\<exists>d \<in> set (disks_of vm). Name (pvc_Meta p) = DiskImage d)"
| "licensed vm (EvVMCreate v) \<longleftrightarrow> status_of vm = DiskImagesReady \<and> machine_for vm v"
| "licensed vm (EvCleanup vm') \<longleftrightarrow> vm' = vm \<and>
     status_of vm \<in> {VirtualMachineRunning, VirtualMachineMigrationFailed}"
| "licensed vm e \<longleftrightarrow> \<not> controller_event e"

lemma licensed_quiet: "\<not> controller_event e \<Longrightarrow> licensed vm e"
  by (cases e) simp_all

section \<open>Requested objects\<close>

text \<open>
  The objects the controller creates in the target cluster, with the answers of the cluster
  that make it create them: no image carries the label of the disk, the claim is reported as not
  found, no machine with the label of an import has the name.
\<close>

definition submitted_image ::
  "'x virtualMachineHandler \<Rightarrow> VirtualMachineImport \<Rightarrow> DiskInfo \<Rightarrow> StorageClass option \<Rightarrow> VirtualMachineImage"
  where
  "submitted_image h vm d sc =
     (case sc of
        None \<Rightarrow> new_image h vm d
      | Some c \<Rightarrow> (new_image h vm d)\<lparr>
          img_Meta := (img_Meta (new_image h vm d))\<lparr>Annotations :=
            [AnnotationStorageClassName (harvester h) \<mapsto> StorageClassName (vm_Spec vm)]\<rparr>,
          Backend := getBackendFromStorageClass (harvester h) c,
          TargetStorageClassName := StorageClassName (vm_Spec vm)\<rparr>)"

lemma submitted_image_meta:
  "Namespace (img_Meta (submitted_image h vm d sc)) = vm_Namespace vm"
  "DeletionTimestamp (img_Meta (submitted_image h vm d sc)) = None"
  "DisplayName (submitted_image h vm d sc) = image_display_name vm d"
  "OwnerReferences (img_Meta (submitted_image h vm d sc)) =
     [\<lparr>owner_APIVersion = vm_APIVersion vm, owner_Kind = vm_Kind vm, owner_Name = vm_Name vm,
       owner_UID = UID (vm_Meta vm)\<rparr>]"
  by (simp_all add: submitted_image_def new_image_def Let_def empty_meta_def split: option.split)

definition image_request ::
  "'x virtualMachineHandler \<Rightarrow> VirtualMachineImport \<Rightarrow> DiskInfo \<Rightarrow> VirtualMachineImage \<Rightarrow> bool" where
  "image_request h vm d img \<longleftrightarrow>
     (\<exists>x x'. vmi_List h (vm_Namespace vm) labelImageDisplayName
        (MustFormatValue h (image_display_name vm d)) x = (Inr [], x')) \<and>
     (if StorageClassName (vm_Spec vm) = [] then img = submitted_image h vm d None
      else \<exists>c x x'. sc_Get h (StorageClassName (vm_Spec vm)) x = (Inr c, x') \<and>
        img = submitted_image h vm d (Some c))"

definition pvc_request ::
  "'x virtualMachineHandler \<Rightarrow> VirtualMachineImport \<Rightarrow> DiskInfo \<Rightarrow> PersistentVolumeClaim \<Rightarrow> bool" where
  "pvc_request h vm d p \<longleftrightarrow>
     (\<exists>img x x'. vmi_Get h (vm_Namespace vm) (DiskImage d) x = (Inr img, x') \<and>
        Backend img = VMIBackendBackingImage \<and> p = new_pvc h vm d img) \<and>
     (\<exists>x e x'. pvc_Get h (vm_Namespace vm) (DiskImage d) x = (Inl e, x') \<and> apierrors_IsNotFound e)"

definition vm_request :: "'x virtualMachineHandler \<Rightarrow> VirtualMachine \<Rightarrow> bool" where
  "vm_request h v \<longleftrightarrow>
     (\<exists>x r x'. kubevirt_Get h (Namespace (kv_Meta v)) (Name (kv_Meta v)) x = (r, x') \<and>
        (\<forall>u. r = Inr u \<longrightarrow> Labels (kv_Meta u) labelImported \<noteq> Some ''true''))"

fun requested :: "'x virtualMachineHandler \<Rightarrow> VirtualMachineImport \<Rightarrow> event \<Rightarrow> bool" where
  "requested h vm (EvImageCreate img) \<longleftrightarrow>
     (\<exists>d \<in> set (disks_of vm). \<not> disk_has VirtualMachineImageSubmitted d \<and> image_request h vm d img)"
| "requested h vm (EvPVCCreate p) \<longleftrightarrow> (\<exists>d \<in> set (disks_of vm). pvc_request h vm d p)"
| "requested h vm (EvVMCreate v) \<longleftrightarrow> vm_request h v"
| "requested h vm e \<longleftrightarrow> True"

end
