(* ===== verification/ImportRefinement.thy ===== *)
theory ImportRefinement
  imports ImportSpec
begin

text \<open>
  The controller implements \<open>ImportSpec\<close>: whatever \<open>OnVirtualMachineChange\<close> does for an
  object is licensed for that object. One lemma per function of the controller says what it
  returns, one what it emits; both are proved in the locale of handlers whose clients keep the
  contract of the operations.
\<close>

section \<open>Rules for the log\<close>

lemma emits_UpdateStatus:
  "P (EvUpdateStatus vm) \<Longrightarrow> emits P w (Some (UpdateStatus h vm w))"
  by (cases "UpdateStatus h vm w") (auto dest: UpdateStatus_log intro: emits_Some_append)

lemma emits_EnqueueAfter:
  "P (EvEnqueueAfter (vm_Namespace vm) (vm_Name vm) d) \<Longrightarrow>
   emits P w (Some (r, EnqueueAfter h vm d w))"
  by (rule emits_Some_append [where es = "[EvEnqueueAfter (vm_Namespace vm) (vm_Name vm) d]"])
    simp_all

lemma emits_licensed: "quiet w m \<Longrightarrow> emits (licensed vm) w m"
  by (erule emits_mono) (rule licensed_quiet)

lemma put_condition_cases:
  assumes "put_condition h c msg vm w = (vm', w')"
  obtains cnd where "vm' = add_cond cnd vm" "true_condition c cnd" "log w' = log w"
  using put_condition_spec [OF assms] put_condition_log [OF assms]
  by (metis add_cond_def true_condition_def)

text \<open>A result of the status update is never a reason to abort.\<close>

lemma abort_after_write: "UpdateStatus h v w = (r, u) \<Longrightarrow> abortMigrationIfNecessary h r u = Some (r, u)"
  by (cases r) (auto simp: abortMigrationIfNecessary_def dest: UpdateStatus_err)

lemma emits_write_abort:
  "P (EvUpdateStatus v) \<Longrightarrow>
   emits P w (case UpdateStatus h v w of (r, w) \<Rightarrow> abortMigrationIfNecessary h r w)"
  by (cases "UpdateStatus h v w")
    (auto simp: abort_after_write intro!: emits_Some_append dest: UpdateStatus_log)

section \<open>Preflight checks and sanitizing\<close>

context import_handler
begin

lemma preFlightChecks_quiet: "quiet w (preFlightChecks h vm w)"
proof -
  have vmo: "quiet v (Option.bind (generateVMO h vm v)
      (\<lambda>(r, w). case r of
          Inl err \<Rightarrow> Some (Some (Wrapf ''error generating VMO in preFlightChecks: '' err), w)
        | Inr vmo \<Rightarrow> if SkipPreflightChecks vm then Some (None, w) else PreFlightChecks vmo vm w))"
    for v
    by (rule emits_bind [OF generateVMO_quiet])
      (auto simp: emits_Some vm_operations.preflight_quiet dest: generateVMO_ok split: sum.splits)
  show ?thesis
    by (auto simp: preFlightChecks_def Let_def emits_Some
        dest!: generateSource_log check_spec_log intro: emits_log_cong [OF vmo]
        split: prod.splits sum.splits option.splits)
qed

lemma reconcilePreFlightChecks_licensed:
  assumes "status_of vm = StatusUnset"
  shows "emits (licensed vm) w (reconcilePreFlightChecks h vm w)"
  unfolding reconcilePreFlightChecks_def
  by (rule emits_bind [OF emits_licensed [OF preFlightChecks_quiet]])
    (auto simp: assms intro!: emits_UpdateStatus emits_EnqueueAfter import_step.preflight_ok
      import_step.preflight_bad split: option.splits)

lemma sanitize_outcome:
  assumes "vm_operations vmo" "status_of vm = VirtualMachineImportValid"
    and s: "SanitizeVirtualMachineImport vmo vm w = Some ((err, vm'), w')"
  shows "import_step vm (set_Status VirtualMachineImportInvalid vm')"
    and "err = None \<Longrightarrow> import_step vm (set_Status SourceReady vm')"
proof -
  obtain n where n: "vm' = set_ImportedName n vm"
    using vm_operations.sanitize_frame [OF assms(1) s] by blast
  show "import_step vm (set_Status VirtualMachineImportInvalid vm')"
    unfolding n by (rule import_step.sanitize_bad) fact
  assume "err = None"
  then have "strings_ToLower n = n"
    using vm_operations.sanitize_lower [OF assms(1)] s n by fastforce
  then show "import_step vm (set_Status SourceReady vm')"
    unfolding n using assms(2) by (intro import_step.sanitize_ok)
qed

lemma sanitize_then_abort_licensed:
  assumes "status_of vm = VirtualMachineImportValid"
  shows "emits (licensed vm) w
    (Option.bind (sanitizeVirtualMachineImport h vm w) (\<lambda>(r, w). abortMigrationIfNecessary h r w))"
proof -
  have failed: "emits (licensed vm) v (abortMigrationIfNecessary h (None, e) v)" for e v
    by (auto simp: abortMigrationIfNecessary_def emits_Some)
  have written: "emits (licensed vm) v (Option.bind (SanitizeVirtualMachineImport vmo vm v) f)"
    if ok: "vm_operations vmo" and f: "\<And>err vm' u. f ((err, vm'), u) =
        (let vm = (if err \<noteq> None then set_Status VirtualMachineImportInvalid vm'
          else if length (IsDNS1123Label h (imported_name vm')) \<noteq> 0
          then set_Status VirtualMachineImportInvalid vm' else set_Status SourceReady vm')
         in case UpdateStatus h vm u of (r, w) \<Rightarrow> abortMigrationIfNecessary h r w)" for vmo v f
    by (rule emits_bind [OF emits_licensed [OF vm_operations.sanitize_quiet [OF ok]]])
      (auto simp: f Let_def intro!: emits_write_abort, auto intro: sanitize_outcome [OF ok assms])
  show ?thesis
    unfolding sanitizeVirtualMachineImport_def Option.bind_assoc
    by (rule emits_bind [OF emits_licensed [OF generateVMO_quiet]])
      (auto intro!: failed written dest: generateVMO_ok split: sum.splits simp: Let_def)
qed

end

section \<open>Shutdown and export\<close>

text \<open>
  What an export function returns: with an error the import as it was, without one an import
  that has made one step of progress.
\<close>

fun progress_result :: "VirtualMachineImport \<Rightarrow> go_error option \<times> VirtualMachineImport \<Rightarrow> bool" where
  "progress_result vm (None, vm') = export_progress vm vm'"
| "progress_result vm (Some e, vm') = (vm' = vm)"

lemma progress_bind:
  assumes "Option.bind m f = Some (r, w')"
    and "\<And>a v. m = Some (a, v) \<Longrightarrow> f (a, v) = Some (r, w') \<Longrightarrow> Q"
  shows Q
  using assms by (cases m) auto

lemma put_condition_emits:
  "put_condition h c msg vm w = (vm', w') \<Longrightarrow> emits P w (Some (r, w'))"
  by (auto dest: put_condition_log intro: emits_Some)

lemma triggerShutdownGuest_outcome:
  assumes "triggerShutdownGuest h vm vmo w = Some (r, w')" "\<not> has_cond VirtualMachineShutdownGuest vm"
  shows "progress_result vm r"
  using assms unfolding triggerShutdownGuest_def
  by (auto elim!: progress_bind put_condition_cases split: option.splits prod.splits)
    (rule export_progress.shutdown)

lemma triggerPowerOff_outcome:
  assumes "triggerPowerOff h vm vmo w = Some (r, w')" "\<not> has_cond VirtualMachinePoweringOff vm"
    and "GetForcePowerOff vm \<or> has_cond VirtualMachineShutdownGuest vm"
  shows "progress_result vm r"
  using assms unfolding triggerPowerOff_def
  by (auto elim!: progress_bind put_condition_cases split: option.splits prod.splits)
    (auto intro: export_progress.power_off)

lemma awaitShutdown_outcome:
  assumes "awaitShutdown h vm vmo w = Some (r, w')"
  shows "progress_result vm r"
  using assms
  by (auto simp: awaitShutdown_def Let_def GetCondition_Some_iff [symmetric]
      intro: export_progress.idle
      dest: triggerPowerOff_outcome split: option.splits prod.splits sum.splits if_splits)

lemma awaitPoweredOff_outcome:
  assumes "awaitPoweredOff h vm vmo w = Some (r, w')"
    and "\<not> has_cond VirtualMachinePoweredOff vm" "off_requested vm"
  shows "progress_result vm r"
  using assms unfolding awaitPoweredOff_def
  by (auto elim!: progress_bind put_condition_cases split: sum.splits prod.splits if_splits)
    (auto intro: export_progress.powered_off awaitShutdown_outcome)

context import_handler
begin

lemma exportDisks_outcome:
  assumes "vm_operations vmo" "exportDisks h vm vmo w = Some (r, w')" "export_enabled vm"
  shows "progress_result vm r"
proof -
  obtain err vm1 v where e: "ExportVirtualMachine vmo vm (mark (EvExport vm) w) = Some ((err, vm1), v)"
    using assms(2) unfolding exportDisks_def by (auto elim!: progress_bind)
  then have "export_disks vm vm1"
    unfolding export_disks_def by (rule vm_operations.export_frame [OF assms(1)])
  then show ?thesis
    using assms(2,3) e unfolding exportDisks_def
    by (auto elim!: put_condition_cases split: option.splits prod.splits
        intro: export_progress.exported export_progress.export_failed)
qed

lemma triggerExport_outcome:
  assumes "triggerExport h vm w = Some (r, w')"
  shows "progress_result vm r"
  using assms unfolding triggerExport_def
  by (auto simp: Let_def elim!: progress_bind split: sum.splits if_splits)
    (auto simp: off_requested_def export_enabled_def intro: export_progress.idle
      triggerShutdownGuest_outcome triggerPowerOff_outcome awaitPoweredOff_outcome
      exportDisks_outcome [OF generateVMO_ok])

lemma triggerShutdownGuest_licensed:
  assumes "vm_operations vmo" "status_of vm = SourceReady" "\<not> has_cond VirtualMachineShutdownGuest vm"
  shows "emits (licensed vm) w (triggerShutdownGuest h vm vmo w)"
  unfolding triggerShutdownGuest_def
proof (rule emits_mark [where ev = "EvShutdownGuest vm"])
  show "licensed vm (EvShutdownGuest vm)" using assms by simp
qed (rule emits_bind_err [OF emits_licensed [OF vm_operations.shutdown_quiet [OF assms(1)]]],
    auto simp: emits_Some intro: put_condition_emits split: prod.splits)

lemma triggerPowerOff_licensed:
  assumes "vm_operations vmo" "status_of vm = SourceReady" "\<not> has_cond VirtualMachinePoweringOff vm"
    and "GetForcePowerOff vm \<or> has_cond VirtualMachineShutdownGuest vm"
  shows "emits (licensed vm) w (triggerPowerOff h vm vmo w)"
  unfolding triggerPowerOff_def
proof (rule emits_mark [where ev = "EvPowerOff vm"])
  show "licensed vm (EvPowerOff vm)" using assms by simp
qed (rule emits_bind_err [OF emits_licensed [OF vm_operations.poweroff_quiet [OF assms(1)]]],
    auto simp: emits_Some intro: put_condition_emits split: prod.splits)

lemma awaitShutdown_licensed:
  assumes "vm_operations vmo" "status_of vm = SourceReady"
  shows "emits (licensed vm) w (awaitShutdown h vm vmo w)"
proof -
  have wait: "emits (licensed vm) v (Some (r, EnqueueAfter h vm (Seconds 5) v))" for r v
    by (rule emits_EnqueueAfter) (simp add: assms)
  have "emits (licensed vm) w (Some (r, EnqueueAfter h vm (Seconds 5) v))" if "log v = log w" for r v
    by (rule emits_log_cong [OF wait]) (simp add: that)
  moreover have "emits (licensed vm) w (triggerPowerOff h vm vmo v)"
    if "log v = log w" "\<not> has_cond VirtualMachinePoweringOff vm"
      "has_cond VirtualMachineShutdownGuest vm" for v
    by (rule emits_log_cong [OF triggerPowerOff_licensed]) (use assms that in auto)
  ultimately show ?thesis
    using wait by (auto simp: awaitShutdown_def Let_def emits_Some GetCondition_Some_iff [symmetric]
      split: option.splits prod.splits sum.splits dest!: query_log)
qed

lemma awaitPoweredOff_licensed:
  assumes "vm_operations vmo" "status_of vm = SourceReady"
  shows "emits (licensed vm) w (awaitPoweredOff h vm vmo w)"
  unfolding awaitPoweredOff_def
  by (rule emits_bind_sum [OF emits_licensed [OF vm_operations.poweredoff_quiet [OF assms(1)]]])
    (auto simp: emits_Some intro: put_condition_emits awaitShutdown_licensed [OF assms]
      split: prod.splits)

lemma exportDisks_licensed:
  assumes "vm_operations vmo" "status_of vm = SourceReady" "export_enabled vm"
  shows "emits (licensed vm) w (exportDisks h vm vmo w)"
  unfolding exportDisks_def
proof (rule emits_mark [where ev = "EvExport vm"])
  show "licensed vm (EvExport vm)" using assms by simp
qed (rule emits_bind_err_state [OF emits_licensed [OF vm_operations.export_quiet [OF assms(1)]]],
    auto intro: put_condition_emits split: prod.splits)

lemma triggerExport_licensed:
  assumes "status_of vm = SourceReady"
  shows "emits (licensed vm) w (triggerExport h vm w)"
  unfolding triggerExport_def
proof (rule emits_bind_sum [OF emits_licensed [OF generateVMO_quiet]], simp add: emits_Some)
  fix vmo v
  assume "generateVMO h vm w = Some (Inr vmo, v)"
  then have ok: "vm_operations vmo" by (rule generateVMO_ok)
  show "emits (licensed vm) v
     (let force = IsPowerOffSupported vmo \<and> GetForcePowerOff vm;
          requested = has_cond VirtualMachinePoweringOff vm \<or> has_cond VirtualMachineShutdownGuest vm
      in if force \<and> \<not> has_cond VirtualMachinePoweringOff vm then triggerPowerOff h vm vmo v
         else if \<not> force \<and> \<not> has_cond VirtualMachineShutdownGuest vm
         then triggerShutdownGuest h vm vmo v
         else if \<not> has_cond VirtualMachinePoweredOff vm \<and> requested
         then awaitPoweredOff h vm vmo v
         else if has_cond VirtualMachinePoweredOff vm \<and> requested \<and>
           \<not> has_cond VirtualMachineExported vm \<and> \<not> has_cond VirtualMachineExportFailed vm
         then exportDisks h vm vmo v
         else Some ((None, vm), v))"
    using ok assms
    by (auto simp: Let_def emits_Some export_enabled_def off_requested_def
        intro: triggerPowerOff_licensed triggerShutdownGuest_licensed awaitPoweredOff_licensed
          exportDisks_licensed)
qed

text \<open>
  A result of \<open>runVirtualMachineExport\<close> with an error carries the import as it was read.
\<close>

lemma runVirtualMachineExport_licensed:
  assumes "status_of vm = SourceReady"
  shows "emits (licensed vm) w
    (Option.bind (runVirtualMachineExport h vm w) (\<lambda>(r, w). abortMigrationIfNecessary h r w))"
proof -
  have aborted: "emits (licensed vm) u (abortMigrationIfNecessary h (Some vm, e) u)" for e u
    by (auto simp: abortMigrationIfNecessary_def assms emits_Some
        intro!: emits_UpdateStatus import_step.abort)
  show ?thesis
    unfolding runVirtualMachineExport_def Option.bind_assoc
    by (rule emits_bind [OF triggerExport_licensed [OF assms]])
      (auto dest!: triggerExport_outcome split: option.splits,
        auto intro!: aborted emits_write_abort import_step.export assms)
qed

end

section \<open>Images\<close>

lemma image_request_meta:
  "image_request h vm d img \<Longrightarrow> DisplayName img = image_display_name vm d"
  "image_request h vm d img \<Longrightarrow> Namespace (img_Meta img) = vm_Namespace vm"
  by (auto simp: image_request_def submitted_image_meta split: if_splits)

lemma image_request_disks [simp]: "image_request h (set_Disks ds vm) d = image_request h vm d"
  by (simp add: image_request_def [abs_def] submitted_image_def new_image_def image_display_name_def)

lemma checkAndCreate_emits:
  assumes "checkAndCreateVirtualMachineImage h vm d w = (r, w')"
    and "\<And>img. image_request h vm d img \<Longrightarrow> P (EvImageCreate img)"
  shows "emits_fst P w (x, w')"
proof (cases "log w' = log w")
  case False
  have ann: "Annotations (img_Meta (new_image h vm d)) = Map.empty"
    by (simp add: new_image_def Let_def empty_meta_def)
  let ?label = "MustFormatValue h (image_display_name vm d)" and ?sc = "StorageClassName (vm_Spec vm)"
  obtain l w1 where q: "query (vmi_List h (vm_Namespace vm) labelImageDisplayName ?label) w = (l, w1)"
    by fastforce
  have "l = Inr []"
  proof (rule ccontr)
    assume "l \<noteq> Inr []"
    then consider e where "l = Inl e" | a where "l = Inr [a]" | a b imgs where "l = Inr (a # b # imgs)"
      by (metis list.exhaust sum.exhaust)
    then show False
      using assms(1) False q query_log [OF q]
      by cases (auto simp: checkAndCreateVirtualMachineImage_def Let_def)
  qed
  then have none: "\<exists>x x'. vmi_List h (vm_Namespace vm) labelImageDisplayName ?label x = (Inr [], x')"
    using q by (auto simp: query_def split: prod.splits)
  obtain img where "log w' = log w @ [EvImageCreate img]" "image_request h vm d img"
  proof (cases "?sc = []")
    case True
    then show ?thesis
      using assms(1) q query_log [OF q] \<open>l = Inr []\<close> none that [of "new_image h vm d"]
      by (auto simp: checkAndCreateVirtualMachineImage_def Let_def image_request_def submitted_image_def
          dest!: effect_log split: prod.splits sum.splits)
  next
    case sc: False
    obtain b w2 where g: "GetStorageClassByName ?sc (sc_Get h) w1 = (b, w2)"
      by fastforce
    obtain c where c: "b = Inr c"
      using assms(1) False q query_log [OF q] GetStorageClassByName_log [OF g] \<open>l = Inr []\<close> sc g
      by (cases b) (auto simp: checkAndCreateVirtualMachineImage_def Let_def GetBackendFromStorageClassName_def)
    have "\<exists>x x'. sc_Get h ?sc x = (Inr c, x')"
      using g c by (auto simp: GetStorageClassByName_def query_def split: prod.splits sum.splits)
    then have img: "image_request h vm d (submitted_image h vm d (Some c))"
      using none sc by (auto simp: image_request_def)
    have "log w' = log w @ [EvImageCreate (submitted_image h vm d (Some c))]"
      using assms(1) q query_log [OF q] GetStorageClassByName_log [OF g] \<open>l = Inr []\<close> sc g c
      by (auto simp: checkAndCreateVirtualMachineImage_def Let_def GetBackendFromStorageClassName_def
          submitted_image_def ann dest!: effect_log split: prod.splits sum.splits)
    then show ?thesis by (rule that [OF _ img])
  qed
  with assms(2) show ?thesis by (simp add: emits_fst_def)
qed (simp add: emits_fst_same)

text \<open>
  The loop over the disks. With the disks already handled written back in \<open>vm\<close>, it changes
  the remaining ones as \<open>disk_submitted\<close> says and, without an error, submits all of them.
\<close>

lemma create_images_loop_spec:
  "create_images_loop h i ds vm w = ((err, vm'), w') \<Longrightarrow> drop i (disks_of vm) = ds \<Longrightarrow>
   \<exists>ds'. vm' = set_Disks (take i (disks_of vm) @ ds') vm \<and> list_all2 disk_submitted ds ds' \<and>
     (err = None \<longrightarrow> list_all (disk_has VirtualMachineImageSubmitted) ds')"
proof (induction ds arbitrary: i vm w)
  case Nil
  then show ?case by (auto intro!: exI [of _ "[]"])
next
  case (Cons d ds)
  note wb = write_back [OF Cons.prems(2)]
  show ?case
  proof (cases "disk_has VirtualMachineImageSubmitted d")
    case True
    then obtain ds' where "vm' = set_Disks (take (Suc i) (disks_of vm) @ ds') vm"
      "list_all2 disk_submitted ds ds'"
      "err = None \<longrightarrow> list_all (disk_has VirtualMachineImageSubmitted) ds'"
      using Cons.IH [OF _ wb(3)] Cons.prems(1) by auto
    then show ?thesis
      using True wb(6) by (intro exI [of _ "d # ds'"]) simp
  next
    case False
    obtain r w1 where c: "checkAndCreateVirtualMachineImage h vm d w = (r, w1)"
      by fastforce
    show ?thesis
    proof (cases r)
      case (Inl e)
      then obtain e' where "vm' = vm" "err = Some e'" using Cons.prems(1) False c by auto
      then show ?thesis
        using Cons.prems(2) by (intro exI [of _ "d # ds"])
          (simp add: list_all2_refl flip: Cons.prems(2))
    next
      case (Inr vmiObj)
      obtain cnd w2 where n: "new_condition h VirtualMachineImageSubmitted [] w1 = (cnd, w2)"
        by fastforce
      let ?d = "d\<lparr>DiskImage := Name (img_Meta vmiObj),
        DiskConditions := MergeConditions (DiskConditions d) [cnd]\<rparr>"
      let ?vm = "set_Disks ((disks_of vm)[i := ?d]) vm"
      have "create_images_loop h (Suc i) ds ?vm w2 = ((err, vm'), w')"
        using Cons.prems(1) False c Inr n by simp
      then obtain ds' where vm': "vm' = set_Disks (take i (disks_of vm) @ ?d # ds') vm"
        "list_all2 disk_submitted ds ds'"
        "err = None \<longrightarrow> list_all (disk_has VirtualMachineImageSubmitted) ds'"
        using Cons.IH [of "Suc i" ?vm w2] wb(4,5) by auto
      moreover have "true_condition VirtualMachineImageSubmitted cnd"
        using new_condition_fields [OF n] by (simp add: true_condition_def)
      then have "disk_submitted d ?d" "disk_has VirtualMachineImageSubmitted ?d"
        using False by (auto simp: disk_submitted_def true_condition_def)
      ultimately show ?thesis
        by (intro exI [of _ "?d # ds'"]) simp
    qed
  qed
qed

lemma create_images_loop_emits:
  assumes "\<And>img d. d \<in> set ds \<Longrightarrow> \<not> disk_has VirtualMachineImageSubmitted d \<Longrightarrow>
      image_request h vm d img \<Longrightarrow> P (EvImageCreate img)"
  shows "emits_fst P w (create_images_loop h i ds vm w)"
  using assms
proof (induction ds arbitrary: i vm w)
  case Nil
  then show ?case by (simp add: emits_fst_same)
next
  case (Cons d ds)
  have IH: "emits_fst P v (create_images_loop h j ds (set_Disks xs vm) v)" for j xs v
    by (rule Cons.IH) (use Cons.prems in auto)
  show ?case
  proof (cases "disk_has VirtualMachineImageSubmitted d")
    case True
    then show ?thesis using IH [of w "Suc i" "disks_of vm"] by simp
  next
    case False
    obtain r w1 where c: "checkAndCreateVirtualMachineImage h vm d w = (r, w1)"
      by fastforce
    have e: "emits_fst P w (x, w1)" for x :: unit
      by (rule checkAndCreate_emits [OF c]) (use Cons.prems False in auto)
    show ?thesis
    proof (cases r)
      case (Inl e')
      then show ?thesis using False c e by (simp add: emits_fst_def)
    next
      case (Inr vmiObj)
      obtain cnd w2 where n: "new_condition h VirtualMachineImageSubmitted [] w1 = (cnd, w2)"
        by fastforce
      have "emits_fst P w ((), w2)"
        using e new_condition_log [OF n] by (simp add: emits_fst_def)
      then show ?thesis
        using False c Inr n IH by (auto intro: emits_fst_trans)
    qed
  qed
qed

lemma reconcileDiskImageStatus_emits:
  assumes "status_of vm = DisksExported"
    and step: "\<And>vm'. import_step vm vm' \<Longrightarrow> P (EvUpdateStatus vm')"
    and create: "\<And>img d. d \<in> set (disks_of vm) \<Longrightarrow> \<not> disk_has VirtualMachineImageSubmitted d \<Longrightarrow>
      image_request h vm d img \<Longrightarrow> P (EvImageCreate img)"
  shows "emits P w (reconcileDiskImageStatus h vm w)"
proof (cases "disks_of vm = []")
  case True
  then show ?thesis
    by (auto simp: reconcileDiskImageStatus_def intro!: emits_UpdateStatus step import_step.no_disks assms(1))
next
  case False
  obtain err vm' v where c: "createVirtualMachineImages h vm w = ((err, vm'), v)"
    by (metis prod.exhaust)
  have e: "emits_fst P w ((err, vm'), v)"
    unfolding c [symmetric] createVirtualMachineImages_def
    by (rule create_images_loop_emits) (rule create)
  obtain ds where ds: "vm' = set_Disks ds vm" "list_all2 disk_submitted (disks_of vm) ds"
    "err = None \<longrightarrow> list_all (disk_has VirtualMachineImageSubmitted) ds"
    using create_images_loop_spec [OF c [unfolded createVirtualMachineImages_def]] by auto
  have "import_step vm vm'"
    unfolding ds(1) by (rule import_step.submit_some) (use ds assms(1) False in auto)
  moreover have "err = None \<Longrightarrow> import_step vm (set_Status DiskImagesSubmitted vm')"
    unfolding ds(1) by (rule import_step.submit_all) (use ds assms(1) False in auto)
  ultimately have "emits P v
      (case err of
         Some err \<Rightarrow> if disks_of vm \<noteq> disks_of vm'
           then (let ((newVM, newErr), w) = UpdateStatus h vm' v in Some ((newVM, Some err), w))
           else Some ((None, Some err), v)
       | None \<Rightarrow>
           let ok = list_all (disk_has VirtualMachineImageSubmitted) (disks_of vm');
               vm' = (if ok then set_Status DiskImagesSubmitted vm' else vm')
           in Some (UpdateStatus h vm' v))"
    by (auto simp: Let_def emits_Some intro!: emits_UpdateStatus step emits_Some_append
        dest: UpdateStatus_log split: option.splits prod.splits)
  then have "emits P v (reconcileDiskImageStatus h vm w)"
    using False c by (simp add: reconcileDiskImageStatus_def Let_def split: option.splits)
  then show ?thesis using e by (rule emits_after [rotated])
qed

lemma reconcileDiskImageStatus_licensed:
  assumes "status_of vm = DisksExported"
  shows "emits (licensed vm) w (reconcileDiskImageStatus h vm w)"
  by (rule reconcileDiskImageStatus_emits [OF assms]) (auto simp: assms image_request_meta)

section \<open>Following and resetting images\<close>

lemma apply_image_condition_spec:
  assumes "apply_image_condition h v d w = (d', w')"
  shows "log w' = log w \<and> (\<exists>ns. d' = d\<lparr>DiskConditions := MergeConditions (DiskConditions d) ns\<rparr> \<and>
    (\<forall>n \<in> set ns. true_condition VirtualMachineImageReady n \<or>
                   true_condition VirtualMachineImageFailed n))"
proof -
  have none: "\<exists>ns. d = d\<lparr>DiskConditions := MergeConditions (DiskConditions d) ns\<rparr> \<and>
      (\<forall>n \<in> set ns. true_condition VirtualMachineImageReady n \<or>
                     true_condition VirtualMachineImageFailed n)"
    by (rule exI [of _ "[]"]) simp
  have one: "\<exists>ns. d\<lparr>DiskConditions := AddOrUpdateCondition (DiskConditions d) cnd\<rparr> =
        d\<lparr>DiskConditions := MergeConditions (DiskConditions d) ns\<rparr> \<and>
      (\<forall>n \<in> set ns. true_condition VirtualMachineImageReady n \<or>
                     true_condition VirtualMachineImageFailed n)"
    if "new_condition h c [] w = (cnd, w1)" "c = VirtualMachineImageReady \<or> c = VirtualMachineImageFailed"
    for c cnd w1
    using new_condition_fields [OF that(1)] that(2)
    by (intro exI [of _ "[cnd]"]) (auto simp: true_condition_def)
  show ?thesis
    using assms none one
    by (auto simp: apply_image_condition_def Let_def dest: new_condition_log
        split: if_splits prod.splits)
qed

lemma MergeConditions_append: "MergeConditions cs (ms @ ns) = MergeConditions (MergeConditions cs ms) ns"
  by (simp add: MergeConditions_foldl)

lemma image_conditions_loop_spec:
  "image_conditions_loop h vs d w = (d', w') \<Longrightarrow>
   log w' = log w \<and> (\<exists>ns. d' = d\<lparr>DiskConditions := MergeConditions (DiskConditions d) ns\<rparr> \<and>
     (\<forall>n \<in> set ns. true_condition VirtualMachineImageReady n \<or>
                    true_condition VirtualMachineImageFailed n))"
proof (induction vs arbitrary: d w)
  case Nil
  then show ?case by (auto intro: exI [of _ "[]"])
next
  case (Cons v vs)
  obtain d1 w1 where a: "apply_image_condition h v d w = (d1, w1)"
    by fastforce
  obtain ms where ms: "d1 = d\<lparr>DiskConditions := MergeConditions (DiskConditions d) ms\<rparr>"
    "\<forall>n \<in> set ms. true_condition VirtualMachineImageReady n \<or>
                   true_condition VirtualMachineImageFailed n" "log w1 = log w"
    using apply_image_condition_spec [OF a] by blast
  obtain ns where "d' = d1\<lparr>DiskConditions := MergeConditions (DiskConditions d1) ns\<rparr>"
    "\<forall>n \<in> set ns. true_condition VirtualMachineImageReady n \<or>
                   true_condition VirtualMachineImageFailed n" "log w' = log w1"
    using Cons a by auto
  with ms show ?case
    by (intro conjI exI [of _ "ms @ ns"]) (auto simp: MergeConditions_append)
qed

lemma vmi_status_loop_spec:
  "vmi_status_loop h i ds vm w = ((err, vm'), w') \<Longrightarrow> drop i (disks_of vm) = ds \<Longrightarrow>
   log w' = log w \<and>
   (\<exists>ds'. vm' = set_Disks (take i (disks_of vm) @ ds') vm \<and> list_all2 disk_followed ds ds')"
proof (induction ds arbitrary: i vm w)
  case Nil
  then show ?case by (auto intro!: exI [of _ "[]"])
next
  case (Cons d ds)
  note wb = write_back [OF Cons.prems(2)]
  show ?case
  proof (cases "disk_has VirtualMachineImageReady d")
    case True
    then obtain ds' where "vm' = set_Disks (take (Suc i) (disks_of vm) @ ds') vm"
      "list_all2 disk_followed ds ds'" "log w' = log w"
      using Cons.IH [OF _ wb(3)] Cons.prems(1) by auto
    then show ?thesis
      using wb(6) by (intro conjI exI [of _ "d # ds'"]) simp_all
  next
    case False
    obtain r w1 where q: "query (vmi_Get h (vm_Namespace vm) (DiskImage d)) w = (r, w1)"
      by fastforce
    show ?thesis
    proof (cases r)
      case (Inl e)
      then have "vm' = vm" "w' = w1" using Cons.prems(1) False q by auto
      then show ?thesis
        using query_log [OF q]
        by (intro conjI exI [of _ "d # ds"]) (simp_all add: list_all2_refl flip: Cons.prems(2))
    next
      case (Inr vmi)
      obtain d' w2 where l: "image_conditions_loop h (img_Conditions vmi) d w1 = (d', w2)"
        by fastforce
      then have d': "disk_followed d d'" "log w2 = log w1"
        using image_conditions_loop_spec [OF l] False by (auto simp: disk_followed_def)
      have "vmi_status_loop h (Suc i) ds (set_Disks ((disks_of vm)[i := d']) vm) w2 = ((err, vm'), w')"
        using Cons.prems(1) False q Inr l by simp
      then obtain ds' where "vm' = set_Disks (take i (disks_of vm) @ d' # ds') vm"
        "list_all2 disk_followed ds ds'" "log w' = log w2"
        using Cons.IH [of "Suc i" "set_Disks ((disks_of vm)[i := d']) vm" w2] wb(4,5) by auto
      then show ?thesis
        using d' query_log [OF q] by (intro conjI exI [of _ "d' # ds'"]) simp_all
    qed
  qed
qed

lemma followImages_licensed:
  assumes "status_of vm = DiskImagesSubmitted"
  shows "emits (licensed vm) w (followImages h vm w)"
proof -
  obtain err vm' v where r: "reconcileVMIStatus h vm w = ((err, vm'), v)"
    by (metis prod.exhaust)
  obtain ds where ds: "vm' = set_Disks ds vm" "list_all2 disk_followed (disks_of vm) ds"
    and log: "log v = log w"
    using vmi_status_loop_spec [OF r [unfolded reconcileVMIStatus_def]] by auto
  have "import_step vm (set_Status s vm')" if "evaluateDiskImportStatus ds = Some s" for s
    unfolding ds(1) using ds(2) that assms by (intro import_step.follow)
  then have "emits (licensed vm) v (followImages h vm w)"
    using r ds(1) by (auto simp: followImages_def emits_Some intro!: emits_UpdateStatus split: option.splits)
  then show ?thesis using log by (rule emits_log_cong)
qed

lemma cleanup_loop_spec:
  "cleanup_loop h i ds vm w = ((err, vm'), w') \<Longrightarrow> drop i (disks_of vm) = ds \<Longrightarrow>
   err = None \<longrightarrow> vm' = set_Disks (take i (disks_of vm) @ map disk_reset ds) vm"
proof (induction ds arbitrary: i vm w)
  case Nil
  then show ?case by auto
next
  case (Cons d ds)
  note wb = write_back [OF Cons.prems(2)]
  show ?case
  proof (cases "disk_has VirtualMachineImageFailed d")
    case True
    then show ?thesis
      using Cons.prems Cons.IH [of "Suc i" "set_Disks ((disks_of vm)[i := disk_reset d]) vm"] wb(4,5)
      by (auto simp: Let_def disk_reset_def split: prod.splits option.splits)
  next
    case False
    then show ?thesis
      using Cons.prems Cons.IH [of "Suc i" vm] wb(3,6) by (auto simp: disk_reset_def)
  qed
qed

lemma cleanup_loop_emits:
  assumes "\<And>d. d \<in> set ds \<Longrightarrow> disk_has VirtualMachineImageFailed d \<Longrightarrow>
      P (EvImageDelete (vm_Namespace vm) (DiskImage d))"
  shows "emits_fst P w (cleanup_loop h i ds vm w)"
  using assms
proof (induction ds arbitrary: i vm w)
  case Nil
  then show ?case by (simp add: emits_fst_same)
next
  case (Cons d ds)
  have IH: "emits_fst P v (cleanup_loop h j ds (set_Disks xs vm) v)" for j xs v
    by (rule Cons.IH) (use Cons.prems in auto)
  obtain r w1 where q: "effect (\<lambda>_. EvImageDelete (vm_Namespace vm) (DiskImage d))
      (vmi_Delete h (vm_Namespace vm) (DiskImage d)) w = (r, w1)"
    by fastforce
  have e: "emits_fst P w ((), w1)" if "disk_has VirtualMachineImageFailed d"
    using effect_log [OF q] Cons.prems [of d] that by (simp add: emits_fst_def)
  then have "emits_fst P w (x, w1)" if "disk_has VirtualMachineImageFailed d"
    for x :: "go_error option \<times> VirtualMachineImport"
    using that by (simp add: emits_fst_def)
  then show ?case
    using q IH [of w "Suc i" "disks_of vm"] emits_fst_trans [OF e IH]
    by (auto simp: Let_def split: option.splits)
qed

lemma triggerResubmit_licensed:
  assumes "status_of vm = DiskImagesFailed"
  shows "emits (licensed vm) w (triggerResubmit h vm w)"
proof -
  obtain err vm' v where r: "cleanupAndResubmit h vm w = ((err, vm'), v)"
    by (metis prod.exhaust)
  have e: "emits_fst (licensed vm) w ((err, vm'), v)"
    unfolding r [symmetric] cleanupAndResubmit_def
    by (rule cleanup_loop_emits) (auto simp: assms)
  have "err = None \<Longrightarrow> import_step vm (set_Status SourceReady vm')"
    using cleanup_loop_spec [OF r [unfolded cleanupAndResubmit_def]] import_step.resubmit [OF assms]
    by auto
  then have "emits (licensed vm) v (triggerResubmit h vm w)"
    using r by (cases err) (auto simp: triggerResubmit_def emits_Some intro!: emits_UpdateStatus)
  then show ?thesis using e by (rule emits_after [rotated])
qed

section \<open>The virtual machine\<close>

lemma tidy_loop_emits:
  assumes "\<And>img. \<forall>r \<in> set (OwnerReferences (img_Meta img)). \<not> owned_by vm r \<Longrightarrow> P (EvImageUpdate img)"
  shows "emits_fst P w (tidy_loop h vm ds w)"
proof (induction ds arbitrary: w)
  case Nil
  then show ?case by (simp add: emits_fst_same)
next
  case (Cons d ds)
  obtain r w1 where q: "query (vmi_Get h (vm_Namespace vm) (DiskImage d)) w = (r, w1)"
    by fastforce
  show ?case
  proof (cases r)
    case (Inl e)
    then show ?thesis using q query_log [OF q] by (simp add: emits_fst_same)
  next
    case (Inr img)
    let ?img = "img\<lparr>img_Meta := (img_Meta img)\<lparr>OwnerReferences :=
      filter (\<lambda>r. \<not> owned_by vm r) (OwnerReferences (img_Meta img))\<rparr>\<rparr>"
    obtain s w2 where u: "effect (\<lambda>_. EvImageUpdate ?img) (vmi_Update h ?img) w1 = (s, w2)"
      by fastforce
    have "P (EvImageUpdate ?img)" by (rule assms) simp
    then have e: "emits_fst P w (x, w2)" for x :: "go_error option"
      using query_log [OF q] effect_log [OF u] by (simp add: emits_fst_def)
    show ?thesis
      using q Inr u e emits_fst_trans [OF e Cons.IH] by (auto simp: Let_def split: option.splits)
  qed
qed

lemma pvc_loop_emits:
  assumes "\<And>p d. d \<in> set ds \<Longrightarrow> pvc_request h vm d p \<Longrightarrow> P (EvPVCCreate p)"
  shows "emits_fst P w (pvc_loop h vm ds w)"
  using assms
proof (induction ds arbitrary: w)
  case Nil
  then show ?case by (simp add: emits_fst_same)
next
  case (Cons d ds)
  have IH: "emits_fst P v (pvc_loop h vm ds v)" for v
    by (rule Cons.IH) (use Cons.prems in auto)
  obtain r w1 where q: "query (vmi_Get h (vm_Namespace vm) (DiskImage d)) w = (r, w1)"
    by fastforce
  obtain s w2 where g: "query (pvc_Get h (vm_Namespace vm) (DiskImage d)) w1 = (s, w2)"
    by fastforce
  have log: "log w1 = log w" "log w2 = log w"
    using query_log [OF q] query_log [OF g] by simp_all
  have create: "emits_fst P w (x, w3)"
    if "r = Inr img" "Backend img = VMIBackendBackingImage" "s = Inl e" "apierrors_IsNotFound e"
      "effect (\<lambda>_. EvPVCCreate (new_pvc h vm d img)) f w2 = (y, w3)"
    for img e f y w3 and x :: "go_error option"
  proof -
    have "pvc_request h vm d (new_pvc h vm d img)"
      using q g that(1-4) unfolding pvc_request_def query_def
      by (auto split: prod.splits)
    then show ?thesis
      using effect_log [OF that(5)] log Cons.prems [of d] by (simp add: emits_fst_def)
  qed
  show ?case
  proof (cases "\<exists>img e. r = Inr img \<and> Backend img = VMIBackendBackingImage \<and> s = Inl e \<and> apierrors_IsNotFound e")
    case True
    then obtain img e where c: "r = Inr img" "Backend img = VMIBackendBackingImage" "s = Inl e"
      "apierrors_IsNotFound e"
      by blast
    obtain y w3 where x: "effect (\<lambda>_. EvPVCCreate (new_pvc h vm d img)) (pvc_Create h (new_pvc h vm d img)) w2 = (y, w3)"
      by fastforce
    show ?thesis
      using q g c x create [OF c x] emits_fst_trans [OF create [OF c x] IH]
      by (auto simp: Let_def split: option.splits)
  next
    case False
    then show ?thesis
      using q g emits_fst_cong [OF IH log(1)] emits_fst_cong [OF IH log(2)]
      by (auto simp: Let_def log emits_fst_same split: sum.splits)
  qed
qed

lemma pvc_request_meta:
  "pvc_request h vm d p \<Longrightarrow> Name (pvc_Meta p) = DiskImage d"
  "pvc_request h vm d p \<Longrightarrow> Namespace (pvc_Meta p) = vm_Namespace vm"
  by (auto simp: pvc_request_def new_pvc_def)

lemma patch_vm_machine_for:
  assumes "vm_operations vmo" "GenerateVirtualMachine vmo vm w = Some (Inr runVM, w')"
  shows "machine_for vm (patch_vm vm runVM)"
proof -
  have kept: "Name (kv_Meta (patch_vm vm runVM)) = Name (kv_Meta runVM)"
      "Namespace (kv_Meta (patch_vm vm runVM)) = Namespace (kv_Meta runVM)"
      "Networks (kv_Spec (patch_vm vm runVM)) = Networks (kv_Spec runVM)"
      "Interfaces (kv_Spec (patch_vm vm runVM)) = Interfaces (kv_Spec runVM)"
    and set: "Labels (kv_Meta (patch_vm vm runVM)) labelImported = Some ''true''"
      "(Volumes (kv_Spec (patch_vm vm runVM)), Disks (kv_Spec (patch_vm vm runVM))) =
        volumes_loop 0 (disks_of vm)"
    by (simp_all add: patch_vm_def case_prod_beta)
  show ?thesis
    unfolding machine_for_def kept set
    using vm_operations.generate_shape [OF assms] by blast
qed

lemma createIfMissing_emits:
  assumes "vm_request h v \<Longrightarrow> P (EvVMCreate v)"
  shows "emits_fst P w (createIfMissing h v w)"
proof -
  obtain r u where q: "query (kubevirt_Get h (Namespace (kv_Meta v)) (Name (kv_Meta v))) w = (r, u)"
    by fastforce
  then have "vm_request h v" if "\<forall>u. r = Inr u \<longrightarrow> Labels (kv_Meta u) labelImported \<noteq> Some ''true''"
    using that by (auto simp: vm_request_def query_def split: prod.splits)
  then show ?thesis
    using assms q query_log [OF q]
    by (auto simp: createIfMissing_def Let_def emits_fst_def dest!: effect_log
        split: prod.splits option.splits sum.splits)
qed

lemma createVirtualMachine_tail:
  assumes "\<And>p d. d \<in> set (disks_of vm) \<Longrightarrow> pvc_request h vm d p \<Longrightarrow> P (EvPVCCreate p)"
    and "vm_request h v \<Longrightarrow> P (EvVMCreate v)"
  shows "emits P w
    (case findAndCreatePVC h vm w of
       (Some err, w) \<Rightarrow> Some (Some err, w)
     | (None, w) \<Rightarrow> Some (createIfMissing h v w))"
proof -
  obtain e u where p: "findAndCreatePVC h vm w = (e, u)"
    by fastforce
  have pvcs: "emits_fst P w (e, u)"
    unfolding p [symmetric] findAndCreatePVC_def by (rule pvc_loop_emits) (rule assms(1))
  have "emits_fst P u (createIfMissing h v u)"
    by (rule createIfMissing_emits) (rule assms(2))
  then show ?thesis
    using p pvcs emits_fst_trans [OF pvcs]
    by (auto intro!: emits_fst_Some split: option.splits simp: emits_fst_def)
qed

context import_handler
begin

text \<open>The calls of status DiskImagesReady, for any predicate on events.\<close>

lemma createVirtualMachine_emits:
  assumes quietly: "\<And>e. \<not> controller_event e \<Longrightarrow> P e"
    and pvc: "\<And>p d. d \<in> set (disks_of vm) \<Longrightarrow> pvc_request h vm d p \<Longrightarrow> P (EvPVCCreate p)"
    and create: "\<And>v. machine_for vm v \<Longrightarrow> vm_request h v \<Longrightarrow> P (EvVMCreate v)"
  shows "emits P w (createVirtualMachine h vm w)"
  unfolding createVirtualMachine_def
proof (rule emits_bind_sum [OF emits_mono [OF generateVMO_quiet quietly]], assumption,
    simp add: emits_Some, rule emits_bind_sum)
  fix vmo v
  assume "generateVMO h vm w = Some (Inr vmo, v)"
  then have ok: "vm_operations vmo" by (rule generateVMO_ok)
  show "emits P v (GenerateVirtualMachine vmo vm v)"
    by (rule emits_mono [OF vm_operations.generate_quiet [OF ok] quietly])
  fix runVM u
  assume "GenerateVirtualMachine vmo vm v = Some (Inr runVM, u)"
  then have "machine_for vm (patch_vm vm runVM)"
    by (rule patch_vm_machine_for [OF ok])
  then show "emits P u (case findAndCreatePVC h vm u of
       (Some err, w) \<Rightarrow> Some (Some err, w)
     | (None, w) \<Rightarrow> Some (createIfMissing h (patch_vm vm runVM) w))"
    by (intro createVirtualMachine_tail pvc create)
qed (simp add: emits_Some)

lemma createVirtualMachine_licensed:
  assumes "status_of vm = DiskImagesReady"
  shows "emits (licensed vm) w (createVirtualMachine h vm w)"
  by (rule createVirtualMachine_emits [OF licensed_quiet]) (auto simp: assms pvc_request_meta)

lemma createMachine_emits:
  assumes "emits P w (createVirtualMachine h vm w)"
    and step: "\<And>vm'. import_step vm vm' \<Longrightarrow> P (EvUpdateStatus vm')"
    and status: "status_of vm = DiskImagesReady"
  shows "emits P w (createMachine h vm w)"
  unfolding createMachine_def
  by (rule emits_bind_err [OF assms(1)])
    (auto simp: status abortMigrationIfNecessary_def emits_Some
      intro!: emits_UpdateStatus step import_step.abort import_step.create)

lemma createMachine_licensed:
  assumes "status_of vm = DiskImagesReady"
  shows "emits (licensed vm) w (createMachine h vm w)"
  by (rule createMachine_emits [OF createVirtualMachine_licensed [OF assms] _ assms]) simp

lemma finalCleanup_licensed:
  assumes "status_of vm \<in> {VirtualMachineRunning, VirtualMachineMigrationFailed}"
  shows "emits (licensed vm) w (finalCleanup h vm w)"
proof -
  have "emits (licensed vm) v (Cleanup vmo vm (mark (EvCleanup vm) v))" if "vm_operations vmo" for vmo v
    by (rule emits_mark [OF _ emits_licensed [OF vm_operations.cleanup_quiet [OF that]]])
      (use assms in simp)
  then have "emits (licensed vm) w (triggerCleanup h vm w)"
    unfolding triggerCleanup_def
    by (intro emits_bind_sum [OF emits_licensed [OF generateVMO_quiet]])
      (auto simp: emits_Some dest: generateVMO_ok)
  then show ?thesis
    unfolding finalCleanup_def by (rule emits_bind) (simp add: emits_Some)
qed

lemma finishImport_licensed:
  assumes "status_of vm = VirtualMachineRunning"
  shows "emits (licensed vm) w (finishImport h vm w)"
proof -
  obtain e u where t: "tidyUpObjects h vm w = (e, u)"
    by fastforce
  have tidy: "emits_fst (licensed vm) w (e, u)"
    unfolding t [symmetric] tidyUpObjects_def by (rule tidy_loop_emits) (simp add: assms)
  have "emits (licensed vm) u (finishImport h vm w)"
    using t finalCleanup_licensed [of vm u] assms
    by (auto simp: finishImport_def emits_Some split: option.splits)
  then show ?thesis by (rule emits_after [OF tidy])
qed

lemma checkVirtualMachine_log: "checkVirtualMachine h' vm w = (r, w') \<Longrightarrow> log w' = log w"
  by (auto simp: checkVirtualMachine_def dest!: query_log split: prod.splits sum.splits)

lemma reconcileVirtualMachineStatus_licensed:
  assumes "status_of vm = VirtualMachineCreated"
  shows "emits (licensed vm) w (reconcileVirtualMachineStatus h vm w)"
proof -
  obtain r u where c: "checkVirtualMachine h vm w = (r, u)"
    by fastforce
  have "emits (licensed vm) u (reconcileVirtualMachineStatus h vm w)"
    using c by (auto simp: reconcileVirtualMachineStatus_def emits_Some assms Seconds_def
        intro!: emits_UpdateStatus emits_EnqueueAfter import_step.run split: sum.splits)
  then show ?thesis by (rule emits_log_cong) (rule checkVirtualMachine_log [OF c])
qed

section \<open>The entry points\<close>

lemma reconcile_status_licensed: "emits (licensed vm) w (reconcile_status h vm w)"
  by (cases "status_of vm")
    (simp_all add: reconcile_status_def emits_Some reconcilePreFlightChecks_licensed
      sanitize_then_abort_licensed runVirtualMachineExport_licensed
      reconcileDiskImageStatus_licensed followImages_licensed triggerResubmit_licensed
      createMachine_licensed reconcileVirtualMachineStatus_licensed finishImport_licensed
      finalCleanup_licensed)

text \<open>Whatever one reconciliation does is licensed for the object it has read.\<close>

lemma OnVirtualMachineChange_licensed:
  "emits (licensed vm) w (OnVirtualMachineChange h (Some vm) w)"
  by (simp add: OnVirtualMachineChange_def emits_Some reconcile_status_licensed)

text \<open>Every object it creates is one it was asked for and the cluster does not have.\<close>

lemma requested_otherwise:
  "licensed vm ev \<Longrightarrow> status_of vm \<noteq> DisksExported \<Longrightarrow> status_of vm \<noteq> DiskImagesReady \<Longrightarrow> requested h vm ev"
  by (cases ev) simp_all

lemma requested_quiet: "\<not> controller_event ev \<Longrightarrow> requested h vm ev"
  by (cases ev) simp_all

lemma OnVirtualMachineChange_requested:
  "emits (requested h vm) w (OnVirtualMachineChange h (Some vm) w)"
proof -
  have "emits (requested h vm) w (reconcileDiskImageStatus h vm w)" if "status_of vm = DisksExported"
    by (rule reconcileDiskImageStatus_emits [OF that]) auto
  moreover have "emits (requested h vm) w (createMachine h vm w)" if "status_of vm = DiskImagesReady"
    by (rule createMachine_emits [OF createVirtualMachine_emits [OF requested_quiet] _ that]) auto
  ultimately show ?thesis
    using emits_mono [OF OnVirtualMachineChange_licensed requested_otherwise]
    by (cases "status_of vm = DisksExported \<or> status_of vm = DiskImagesReady")
      (auto simp: OnVirtualMachineChange_def reconcile_status_def emits_Some)
qed

text \<open>Nothing is done for an import that is being deleted.\<close>

lemma OnVirtualMachineChange_deleted:
  "DeletionTimestamp (vm_Meta vm) \<noteq> None \<Longrightarrow>
   OnVirtualMachineChange h (Some vm) w = Some ((None, None), w)"
  by (simp add: OnVirtualMachineChange_def)

end

end
