(* ===== verification/ImportInvariants.thy ===== *)
theory ImportInvariants
  imports ImportRefinement
begin

text \<open>
  What holds of every import resource the controller writes, over all histories: the objects
  reachable from a fresh one by the steps of \<open>ImportSpec\<close> and by edits of the specification and
  the metadata, in any order, stale reads included (every object that was ever written may be
  read again).
\<close>

section \<open>Reachable imports\<close>

definition fresh :: "VirtualMachineImport \<Rightarrow> bool" where
  "fresh vm \<longleftrightarrow> status_of vm = StatusUnset \<and> conds_of vm = [] \<and> disks_of vm = []"

inductive reachable :: "VirtualMachineImport \<Rightarrow> bool" where
  start: "reachable vm" if "fresh vm"
| step: "reachable vm'" if "reachable vm" "import_step vm vm'"
| edit: "reachable (vm\<lparr>vm_Spec := spec, vm_Meta := meta\<rparr>)" if "reachable vm"

section \<open>The invariant\<close>

text \<open>The conditions of the import tell a consistent story of the export.\<close>

definition conditions_inv :: "VirtualMachineImport \<Rightarrow> bool" where
  "conditions_inv vm \<longleftrightarrow>
     (has_cond VirtualMachineExported vm \<or> has_cond VirtualMachineExportFailed vm \<longrightarrow>
        has_cond VirtualMachinePoweredOff vm) \<and>
     (has_cond VirtualMachinePoweredOff vm \<longrightarrow> off_requested vm) \<and>
     \<not> (has_cond VirtualMachineExported vm \<and> has_cond VirtualMachineExportFailed vm) \<and>
     distinct_types (conds_of vm)"

definition untouched :: "VirtualMachineImport \<Rightarrow> bool" where
  "untouched vm \<longleftrightarrow> status_of vm \<in> {StatusUnset, VirtualMachineImportValid}"

definition has_images :: "VirtualMachineImport \<Rightarrow> bool" where
  "has_images vm \<longleftrightarrow> status_of vm \<in> {DiskImagesSubmitted, DiskImagesReady, DiskImagesFailed,
     VirtualMachineCreated, VirtualMachineRunning}"

definition images_done :: "VirtualMachineImport \<Rightarrow> bool" where
  "images_done vm \<longleftrightarrow> status_of vm \<in> {DiskImagesReady, VirtualMachineCreated, VirtualMachineRunning}"

definition all_submitted :: "VirtualMachineImport \<Rightarrow> bool" where
  "all_submitted vm \<longleftrightarrow> disks_of vm \<noteq> [] \<and> list_all (disk_has VirtualMachineImageSubmitted) (disks_of vm)"

text \<open>The status agrees with the conditions of the import and of its disks.\<close>

definition status_inv :: "VirtualMachineImport \<Rightarrow> bool" where
  "status_inv vm \<longleftrightarrow>
     (untouched vm \<longrightarrow> conds_of vm = [] \<and> disks_of vm = []) \<and>
     (status_of vm = DisksExported \<or> has_images vm \<longrightarrow> has_cond VirtualMachineExported vm) \<and>
     (has_images vm \<longrightarrow> all_submitted vm) \<and>
     (images_done vm \<longrightarrow> list_all disk_clean (disks_of vm)) \<and>
     (status_of vm = DiskImagesFailed \<longrightarrow> list_ex disk_broken (disks_of vm)) \<and>
     (\<not> untouched vm \<and> status_of vm \<noteq> VirtualMachineImportInvalid \<longrightarrow>
        strings_ToLower (imported_name vm) = imported_name vm)"

lemmas status_defs = untouched_def has_images_def images_done_def

section \<open>Conditions grow\<close>

lemma has_add_cond [simp]:
  "true_condition c cnd \<Longrightarrow> has_cond k (add_cond cnd vm) \<longleftrightarrow> k = c \<or> has_cond k vm"
  by (auto simp: add_cond_def true_condition_def)

lemma add_cond_sel [simp]:
  "status_of (add_cond cnd vm) = status_of vm" "disks_of (add_cond cnd vm) = disks_of vm"
  "imported_name (add_cond cnd vm) = imported_name vm" "vm_Spec (add_cond cnd vm) = vm_Spec vm"
  "vm_Meta (add_cond cnd vm) = vm_Meta vm" "vm_Kind (add_cond cnd vm) = vm_Kind vm"
  "vm_APIVersion (add_cond cnd vm) = vm_APIVersion vm"
  by (simp_all add: add_cond_def)

lemma distinct_add_cond: "distinct_types (conds_of vm) \<Longrightarrow> distinct_types (conds_of (add_cond cnd vm))"
  by (simp add: add_cond_def distinct_types_put)

lemma export_disks_sel:
  assumes "export_disks vm vm'"
  shows "status_of vm' = status_of vm" "conds_of vm' = conds_of vm"
    "imported_name vm' = imported_name vm" "vm_Spec vm' = vm_Spec vm" "vm_Meta vm' = vm_Meta vm"
    "vm_Kind vm' = vm_Kind vm" "vm_APIVersion vm' = vm_APIVersion vm"
  using assms by (auto simp: export_disks_def)

lemma export_progress_sel:
  assumes "export_progress vm vm'"
  shows "status_of vm' = status_of vm" "imported_name vm' = imported_name vm"
    "vm_Spec vm' = vm_Spec vm" "vm_Meta vm' = vm_Meta vm" "vm_Kind vm' = vm_Kind vm"
    "vm_APIVersion vm' = vm_APIVersion vm"
  using assms by (auto elim!: export_progressE simp: export_disks_sel)

lemma export_progress_mono:
  "export_progress vm vm' \<Longrightarrow> has_cond c vm \<Longrightarrow> has_cond c vm'"
  by (erule export_progressE) (auto simp: export_disks_sel)

text \<open>Identity and specification are never written, conditions never taken back.\<close>

lemma import_step_frame:
  assumes "import_step vm vm'"
  shows "vm_Spec vm' = vm_Spec vm" "vm_Meta vm' = vm_Meta vm" "vm_Kind vm' = vm_Kind vm"
    "vm_APIVersion vm' = vm_APIVersion vm"
  using assms by (auto elim!: import_stepE simp: export_progress_sel)

lemma import_step_mono:
  "import_step vm vm' \<Longrightarrow> has_cond c vm \<Longrightarrow> has_cond c vm'"
  by (erule import_stepE) (auto intro: export_progress_mono)

section \<open>Preservation\<close>

lemma export_progress_conditions:
  assumes "export_progress vm vm'" "conditions_inv vm"
  shows "conditions_inv vm'"
  using assms(1)
proof cases
  case idle
  then show ?thesis using assms by simp
qed (use assms(2) in \<open>auto simp: conditions_inv_def off_requested_def export_enabled_def export_disks_sel
    intro: distinct_add_cond\<close>)

lemma import_step_conditions:
  assumes "import_step vm vm'" "conditions_inv vm"
  shows "conditions_inv vm'"
  using assms(1)
proof cases
  case (export vm1)
  then have "conditions_inv vm1" using assms(2) export_progress_conditions by blast
  then show ?thesis using export by (simp add: conditions_inv_def off_requested_def)
qed (use assms(2) in \<open>simp_all add: conditions_inv_def off_requested_def\<close>)

lemma followed_keeps:
  assumes "disk_followed d d'" "c \<notin> {VirtualMachineImageReady, VirtualMachineImageFailed}"
  shows "disk_has c d' = disk_has c d"
proof -
  obtain ns where ns: "d' = d\<lparr>DiskConditions := MergeConditions (DiskConditions d) ns\<rparr>"
    "\<forall>n \<in> set ns. cond_Type n \<in> {VirtualMachineImageReady, VirtualMachineImageFailed}"
    using assms(1) by (auto simp: disk_followed_def true_condition_def)
  have "c \<notin> cond_Type ` set ns" using ns(2) assms(2) by auto
  then show ?thesis
    unfolding ns(1) MergeConditions_foldl by (simp add: conds.present_foldl_put_other)
qed

lemma followed_submitted:
  "list_all2 disk_followed ds ds' \<Longrightarrow> list_all (disk_has VirtualMachineImageSubmitted) ds \<Longrightarrow>
   list_all (disk_has VirtualMachineImageSubmitted) ds'"
  by (induction rule: list_all2_induct) (auto simp: followed_keeps)

lemma status_inv_step:
  assumes "import_step vm vm'" "status_inv vm"
  shows "status_inv vm'"
  using assms(1)
proof cases
  case (export vm1)
  have "strings_ToLower (imported_name vm) = imported_name vm"
    using assms(2) export(2) by (simp add: status_inv_def status_defs)
  then show ?thesis
    unfolding export(1) status_inv_def status_defs status_settle settle_sel
    using export_progress_sel [OF export(3)] export(2) by simp
next
  case (follow ds s)
  have inv: "list_all (disk_has VirtualMachineImageSubmitted) (disks_of vm)" "disks_of vm \<noteq> []"
    "has_cond VirtualMachineExported vm" "strings_ToLower (imported_name vm) = imported_name vm"
    using assms(2) follow(2) by (simp_all add: status_inv_def status_defs all_submitted_def)
  then have "list_all (disk_has VirtualMachineImageSubmitted) ds" "ds \<noteq> []"
    using followed_submitted [OF follow(3)] follow(3) by auto
  then show ?thesis
    using evaluate_Some [OF follow(4)] inv(3,4) unfolding follow(1)
    by (elim disjE conjE) (simp_all add: status_inv_def status_defs all_submitted_def)
next
  case (submit_all ds)
  then have "ds \<noteq> []" by auto
  then show ?thesis
    using submit_all assms(2) by (simp add: status_inv_def status_defs all_submitted_def)
next
  case (abort)
  then have "strings_ToLower (imported_name vm) = imported_name vm"
    using assms(2) by (elim disjE) (simp_all add: status_inv_def status_defs)
  then show ?thesis unfolding abort(1) by (simp add: status_inv_def status_defs)
qed (use assms(2) in \<open>simp_all add: status_inv_def status_defs all_submitted_def\<close>)

lemma fresh_inv: "fresh vm \<Longrightarrow> conditions_inv vm \<and> status_inv vm"
  by (auto simp: fresh_def conditions_inv_def status_inv_def status_defs distinct_types_def)

lemma reachable_conditions: "reachable vm \<Longrightarrow> conditions_inv vm"
  by (induction rule: reachable.induct)
    (auto dest: fresh_inv import_step_conditions simp: conditions_inv_def off_requested_def)

lemma reachable_status: "reachable vm \<Longrightarrow> status_inv vm"
proof (induction rule: reachable.induct)
  case (edit vm spec meta)
  then show ?case by (simp add: status_inv_def status_defs all_submitted_def)
qed (auto dest: fresh_inv status_inv_step)

section \<open>Runs of the controller\<close>

text \<open>
  A step of the code: one call of \<open>OnVirtualMachineChange\<close> for \<open>vm\<close>, in any state of
  the world, in which the controller writes \<open>vm'\<close>. \<open>runs\<close> are the objects written in a
  history of such calls.
\<close>

definition writes ::
  "'x virtualMachineHandler \<Rightarrow> VirtualMachineImport \<Rightarrow> VirtualMachineImport \<Rightarrow> bool" where
  "writes h vm vm' \<longleftrightarrow>
     (\<exists>w r w' es. OnVirtualMachineChange h (Some vm) w = Some (r, w') \<and>
        log w' = log w @ es \<and> EvUpdateStatus vm' \<in> set es)"

inductive runs :: "'x virtualMachineHandler \<Rightarrow> VirtualMachineImport \<Rightarrow> bool" for h where
  run_start: "runs h vm" if "fresh vm"
| run_step: "runs h vm'" if "runs h vm" "writes h vm vm'"
| run_edit: "runs h (vm\<lparr>vm_Spec := spec, vm_Meta := meta\<rparr>)" if "runs h vm"

text \<open>The calls of one reconciliation.\<close>

definition calls ::
  "'x virtualMachineHandler \<Rightarrow> VirtualMachineImport \<Rightarrow> event \<Rightarrow> bool" where
  "calls h vm ev \<longleftrightarrow>
     (\<exists>w r w' es. OnVirtualMachineChange h (Some vm) w = Some (r, w') \<and>
        log w' = log w @ es \<and> ev \<in> set es)"

lemma writes_calls: "writes h vm vm' \<longleftrightarrow> calls h vm (EvUpdateStatus vm')"
  by (simp add: writes_def calls_def)

context import_handler
begin

lemma calls_licensed: "calls h vm ev \<Longrightarrow> licensed vm ev"
  using OnVirtualMachineChange_licensed
  by (fastforce simp: calls_def emits_def list_all_iff)

lemma writes_import_step: "writes h vm vm' \<Longrightarrow> import_step vm vm'"
  using calls_licensed by (fastforce simp: writes_calls)

lemma runs_reachable: "runs h vm \<Longrightarrow> reachable vm"
  by (induction rule: runs.induct) (auto intro: reachable.intros dest: writes_import_step)

lemmas runs_conditions = runs_reachable [THEN reachable_conditions]
lemmas runs_status = runs_reachable [THEN reachable_status]

end

section \<open>Status edges\<close>

fun status_edge :: "ImportStatus \<Rightarrow> ImportStatus \<Rightarrow> bool" where
  "status_edge StatusUnset s \<longleftrightarrow> s = VirtualMachineImportValid \<or> s = VirtualMachineImportInvalid"
| "status_edge VirtualMachineImportValid s \<longleftrightarrow> s = SourceReady \<or> s = VirtualMachineImportInvalid"
| "status_edge SourceReady s \<longleftrightarrow>
     s = SourceReady \<or> s = DisksExported \<or> s = VirtualMachineMigrationFailed"
| "status_edge DisksExported s \<longleftrightarrow>
     s = DisksExported \<or> s = DiskImagesSubmitted \<or> s = VirtualMachineImportInvalid"
| "status_edge DiskImagesSubmitted s \<longleftrightarrow> s = DiskImagesReady \<or> s = DiskImagesFailed"
| "status_edge DiskImagesFailed s \<longleftrightarrow> s = SourceReady"
| "status_edge DiskImagesReady s \<longleftrightarrow> s = VirtualMachineCreated \<or> s = VirtualMachineMigrationFailed"
| "status_edge VirtualMachineCreated s \<longleftrightarrow> s = VirtualMachineRunning"
| "status_edge VirtualMachineRunning s \<longleftrightarrow> False"
| "status_edge VirtualMachineImportInvalid s \<longleftrightarrow> False"
| "status_edge VirtualMachineMigrationFailed s \<longleftrightarrow> False"
| "status_edge (StatusOther t) s \<longleftrightarrow> False"

lemma import_step_edge: "import_step vm vm' \<Longrightarrow> status_edge (status_of vm) (status_of vm')"
  by (erule import_stepE)
    (auto simp: status_settle export_progress_sel dest: evaluate_Some split: if_splits)

section \<open>Images are created once\<close>

text \<open>
  From the moment all disks are submitted the export is over for good and the disks stay
  submitted, through failures and resubmissions.
\<close>

definition settled_images :: "VirtualMachineImport \<Rightarrow> bool" where
  "settled_images vm \<longleftrightarrow> has_cond VirtualMachineExported vm \<and> all_submitted vm"

lemma reset_submitted [simp]:
  "disk_has VirtualMachineImageSubmitted (disk_reset d) = disk_has VirtualMachineImageSubmitted d"
  by (simp add: disk_reset_def)

lemma submitted_stay:
  "list_all2 disk_submitted ds ds' \<Longrightarrow> list_all (disk_has VirtualMachineImageSubmitted) ds \<Longrightarrow> ds' = ds"
  by (induction rule: list_all2_induct) (auto simp: disk_submitted_def)

lemma settled_export:
  assumes "export_progress vm vm'" "settled_images vm"
  shows "settled_images vm'"
  using assms(1)
  by cases (use assms(2) in \<open>auto simp: settled_images_def all_submitted_def export_enabled_def\<close>)

lemma settled_step:
  assumes "import_step vm vm'" "settled_images vm"
  shows "settled_images vm'"
  using assms(1)
proof cases
  case (export vm1)
  then show ?thesis
    using settled_export [OF export(3) assms(2)] by (simp add: settled_images_def all_submitted_def)
next
  case (submit_some ds)
  then show ?thesis
    using assms(2) submitted_stay by (auto simp: settled_images_def all_submitted_def)
next
  case (submit_all ds)
  then show ?thesis
    using assms(2) submitted_stay by (auto simp: settled_images_def all_submitted_def)
next
  case (follow ds s)
  then show ?thesis
    using assms(2) followed_submitted [OF follow(3)]
    by (auto simp: settled_images_def all_submitted_def)
qed (use assms(2) in \<open>auto simp: settled_images_def all_submitted_def list_all_iff\<close>)

lemma settled_no_create: "settled_images vm \<Longrightarrow> \<not> licensed vm (EvImageCreate img)"
  by (auto simp: settled_images_def all_submitted_def list_all_iff)

lemma settled_no_export: "settled_images vm \<Longrightarrow> \<not> licensed vm (EvExport vm')"
  by (auto simp: settled_images_def export_enabled_def)

text \<open>Histories that continue from a given object.\<close>

inductive later :: "'x virtualMachineHandler \<Rightarrow> VirtualMachineImport \<Rightarrow> VirtualMachineImport \<Rightarrow> bool"
  for h vm where
  later_refl: "later h vm vm"
| later_step: "later h vm v'" if "later h vm v" "writes h v v'"
| later_edit: "later h vm (v\<lparr>vm_Spec := spec, vm_Meta := meta\<rparr>)" if "later h vm v"

context import_handler
begin

lemma later_settled: "later h vm v \<Longrightarrow> settled_images vm \<Longrightarrow> settled_images v"
proof (induction rule: later.induct)
  case (later_step v v')
  then show ?case using settled_step writes_import_step by blast
next
  case (later_edit v spec meta)
  then show ?case by (simp add: settled_images_def all_submitted_def)
qed

lemma later_mono: "later h vm v \<Longrightarrow> has_cond c vm \<Longrightarrow> has_cond c v"
proof (induction rule: later.induct)
  case (later_step v v')
  then show ?case using import_step_mono writes_import_step by blast
qed simp_all

end

end
