(* ===== verification/ImportProgress.thy ===== *)
theory ImportProgress
  imports ImportInvariants
begin

text \<open>
  Liveness of the import controller, in two halves. A write that changes the import moves it
  strictly forward in a well-founded order, unless it resubmits failed images; and a
  reconciliation without an error never leaves an unfinished import behind without either such a
  write or a wake-up, unless the import waits for the watch on its images.
\<close>

section \<open>A measure of what is left to do\<close>

fun stage :: "ImportStatus \<Rightarrow> nat" where
  "stage StatusUnset = 8"
| "stage VirtualMachineImportValid = 7"
| "stage SourceReady = 6"
| "stage DisksExported = 5"
| "stage DiskImagesSubmitted = 4"
| "stage DiskImagesFailed = 3"
| "stage DiskImagesReady = 3"
| "stage VirtualMachineCreated = 2"
| "stage VirtualMachineRunning = 1"
| "stage s = 0"

definition export_conds :: "Cond list" where
  "export_conds = [VirtualMachineShutdownGuest, VirtualMachinePoweringOff, VirtualMachinePoweredOff,
     VirtualMachineExported, VirtualMachineExportFailed]"

definition missing_conds :: "VirtualMachineImport \<Rightarrow> nat" where
  "missing_conds vm = length (filter (\<lambda>c. \<not> has_cond c vm) export_conds)"

definition unsubmitted :: "DiskInfo list \<Rightarrow> nat" where
  "unsubmitted ds = length (filter (\<lambda>d. \<not> disk_has VirtualMachineImageSubmitted d) ds)"

definition todo :: "VirtualMachineImport \<Rightarrow> nat" where
  "todo vm = (case status_of vm of
     SourceReady \<Rightarrow> missing_conds vm | DisksExported \<Rightarrow> unsubmitted (disks_of vm) | _ \<Rightarrow> 0)"

definition ahead :: "(VirtualMachineImport \<times> VirtualMachineImport) set" where
  "ahead = inv_image (less_than <*lex*> less_than) (\<lambda>vm. (stage (status_of vm), todo vm))"

lemma wf_ahead: "wf ahead"
  unfolding ahead_def by (rule wf_inv_image) (auto intro: wf_lex_prod)

lemma in_ahead:
  "(vm', vm) \<in> ahead \<longleftrightarrow> stage (status_of vm') < stage (status_of vm) \<or>
     stage (status_of vm') = stage (status_of vm) \<and> todo vm' < todo vm"
  by (auto simp: ahead_def)

section \<open>Each step decreases it\<close>

lemma missing_add:
  assumes "true_condition c cnd" "\<not> has_cond c vm" "c \<in> set export_conds"
    and "conds_of vm' = conds_of vm"
  shows "missing_conds (add_cond cnd vm') < missing_conds vm"
proof -
  have "filter (\<lambda>k. \<not> has_cond k (add_cond cnd vm')) export_conds =
      filter (\<lambda>k. k \<noteq> c) (filter (\<lambda>k. \<not> has_cond k vm) export_conds)"
    using assms(1,4) by (auto simp: intro!: filter_cong)
  moreover have "c \<in> set (filter (\<lambda>k. \<not> has_cond k vm) export_conds)"
    using assms(2,3) by simp
  ultimately show ?thesis
    unfolding missing_conds_def by (metis (mono_tags) length_filter_less)
qed

lemma export_progress_missing:
  assumes "export_progress vm vm'" "vm' \<noteq> vm"
  shows "missing_conds vm' < missing_conds vm"
  using assms(1)
proof cases
  case (exported vm1 cnd)
  then show ?thesis
    by (auto simp: export_conds_def export_enabled_def export_disks_sel
        intro: missing_add [where c = VirtualMachineExported])
next
  case (export_failed vm1 cnd)
  then show ?thesis
    by (auto simp: export_conds_def export_enabled_def export_disks_sel
        intro: missing_add [where c = VirtualMachineExportFailed])
qed (use assms(2) in \<open>auto simp: export_conds_def intro: missing_add\<close>)

lemma submitted_less:
  assumes "list_all2 disk_submitted ds ds'" "ds' \<noteq> ds"
  shows "unsubmitted ds' < unsubmitted ds"
proof -
  have le: "unsubmitted es' \<le> unsubmitted es" if "list_all2 disk_submitted es es'" for es es'
    using that by (induction rule: list_all2_induct)
      (auto simp: unsubmitted_def disk_submitted_def true_condition_def)
  show ?thesis
    using assms
  proof (induction rule: list_all2_induct)
    case (Cons d ds d' ds')
    then show ?case
      using le [OF Cons(2)]
      by (cases "d' = d") (auto simp: unsubmitted_def disk_submitted_def true_condition_def)
  qed simp
qed

lemma stage_settle: "status_of vm = SourceReady \<Longrightarrow> settle vm \<noteq> vm \<Longrightarrow> stage (status_of (settle vm)) < 6"
  by (auto simp: status_settle settle_def Let_def split: if_splits)

lemma import_step_ahead:
  assumes "import_step vm vm'" "vm' \<noteq> vm" "status_of vm \<noteq> DiskImagesFailed"
  shows "(vm', vm) \<in> ahead"
  using assms(1)
proof cases
  case (export vm1)
  then have s: "status_of vm1 = SourceReady" by (simp add: export_progress_sel)
  show ?thesis
  proof (cases "settle vm1 = vm1")
    case True
    then have "missing_conds vm1 < missing_conds vm"
      using export assms(2) export_progress_missing by metis
    then show ?thesis
      using True export s by (simp add: in_ahead todo_def)
  next
    case False
    then show ?thesis
      using stage_settle [OF s] export by (simp add: in_ahead)
  qed
next
  case (submit_some ds)
  then have "ds \<noteq> disks_of vm" using assms(2) by auto
  then show ?thesis
    using submit_some submitted_less by (simp add: in_ahead todo_def)
next
  case (follow ds s)
  then show ?thesis
    using evaluate_Some [OF follow(4)] by (auto simp: in_ahead)
qed (use assms(3) in \<open>auto simp: in_ahead\<close>)

text \<open>Edits of the specification and the metadata do not change the measure.\<close>

lemma todo_edit [simp]: "todo (vm\<lparr>vm_Spec := spec, vm_Meta := meta\<rparr>) = todo vm"
  by (simp add: todo_def missing_conds_def split: ImportStatus.split)

lemma edit_ahead [simp]:
  "(vm\<lparr>vm_Spec := spec, vm_Meta := meta\<rparr>, v) \<in> ahead \<longleftrightarrow> (vm, v) \<in> ahead"
  "(v, vm\<lparr>vm_Spec := spec, vm_Meta := meta\<rparr>) \<in> ahead \<longleftrightarrow> (v, vm) \<in> ahead"
  by (simp_all add: in_ahead)

section \<open>No import is left behind\<close>

text \<open>A write that changes the import, or a request to look at it again.\<close>

definition wakes :: "VirtualMachineImport \<Rightarrow> event \<Rightarrow> bool" where
  "wakes vm ev = (case ev of
     EvUpdateStatus vm' \<Rightarrow> vm' \<noteq> vm
   | EvEnqueueAfter ns n d \<Rightarrow> ns = vm_Namespace vm \<and> n = vm_Name vm
   | _ \<Rightarrow> False)"

lemma wakes_simps [simp]:
  "wakes vm (EvUpdateStatus vm') \<longleftrightarrow> vm' \<noteq> vm"
  "wakes vm (EvEnqueueAfter ns n d) \<longleftrightarrow> ns = vm_Namespace vm \<and> n = vm_Name vm"
  by (simp_all add: wakes_def)

text \<open>If the code returns without an error, its log contains an event of the kind \<open>P\<close>.\<close>

definition signals ::
  "(event \<Rightarrow> bool) \<Rightarrow> 'x go_world \<Rightarrow> (('a \<times> go_error option) \<times> 'x go_world) option \<Rightarrow> bool" where
  "signals P w m \<longleftrightarrow>
     (\<forall>r w'. m = Some ((r, None), w') \<longrightarrow> (\<exists>es. log w' = log w @ es \<and> list_ex P es))"

lemma signals_None [simp]: "signals P w None"
  by (simp add: signals_def)

lemma signals_err [simp]: "signals P w (Some ((r, Some e), w'))"
  by (simp add: signals_def)

lemma signals_bind:
  assumes "emits Q w m" "\<And>r v. m = Some (r, v) \<Longrightarrow> signals P v (f (r, v))"
  shows "signals P w (Option.bind m f)"
proof (unfold signals_def, intro allI impI)
  fix r w'
  assume "Option.bind m f = Some ((r, None), w')"
  then obtain a v where m: "m = Some (a, v)" "f (a, v) = Some ((r, None), w')"
    by (cases m) auto
  moreover obtain es where "log v = log w @ es"
    using assms(1) m(1) by (auto simp: emits_def)
  moreover obtain es' where "log w' = log v @ es'" "list_ex P es'"
    using assms(2) [OF m(1)] m(2) by (auto simp: signals_def)
  ultimately show "\<exists>es. log w' = log w @ es \<and> list_ex P es"
    by (intro exI [of _ "es @ es'"]) simp
qed

lemma signals_after:
  assumes "emits_fst Q w (x, v)" "signals P v m"
  shows "signals P w m"
  using assms unfolding signals_def emits_fst_def by fastforce

lemma signals_UpdateStatus:
  "P (EvUpdateStatus v) \<Longrightarrow> signals P w (Some (UpdateStatus h v w))"
  by (cases "UpdateStatus h v w") (auto simp: signals_def dest: UpdateStatus_log)

lemma signals_write_abort:
  "P (EvUpdateStatus v) \<Longrightarrow>
   signals P w (case UpdateStatus h v w of (r, w) \<Rightarrow> abortMigrationIfNecessary h r w)"
  by (cases "UpdateStatus h v w") (auto simp: signals_def abort_after_write dest: UpdateStatus_log)

lemma signals_abort_error:
  assumes "\<And>v. vmi = Some v \<Longrightarrow> P (EvUpdateStatus (set_Status VirtualMachineMigrationFailed v))"
  shows "signals P w (abortMigrationIfNecessary h (vmi, Some e) w)"
  using assms by (auto simp: abortMigrationIfNecessary_def intro!: signals_UpdateStatus split: option.splits)

lemma status_neq: "status_of vm \<noteq> s \<Longrightarrow> set_Status s vm' \<noteq> vm"
  by auto

lemma set_Status_same [simp]: "set_Status s vm = vm \<longleftrightarrow> status_of vm = s"
  by (auto simp: set_Status_def) (metis set_Status_def set_Status_sel(1))

text \<open>What an export step leaves to do: a wake-up, or a write that changes the import.\<close>

lemma changed_by_condition:
  "\<not> has_cond c vm \<Longrightarrow> true_condition c cnd \<Longrightarrow> settle (add_cond cnd vm') \<noteq> vm"
  by (metis has_add_cond settle_sel(2))

lemma settle_done:
  "status_of vm = SourceReady \<Longrightarrow> has_cond VirtualMachineExported vm \<or> has_cond VirtualMachineExportFailed vm \<Longrightarrow>
   settle vm \<noteq> vm"
  by (metis ImportStatus.distinct status_settle)

definition export_wakes ::
  "VirtualMachineImport \<Rightarrow> 'x go_world \<Rightarrow> ((go_error option \<times> VirtualMachineImport) \<times> 'x go_world) option \<Rightarrow>
   bool" where
  "export_wakes vm w m \<longleftrightarrow> (\<forall>vm' w'. m = Some ((None, vm'), w') \<longrightarrow>
     settle vm' \<noteq> vm \<or> (\<exists>es. log w' = log w @ es \<and> list_ex (wakes vm) es))"

lemma export_wakes_err [simp]: "export_wakes vm w (Some ((Some e, vm'), w'))"
  by (simp add: export_wakes_def)

lemma export_wakes_changed: "settle vm' \<noteq> vm \<Longrightarrow> export_wakes vm w (Some ((e, vm'), w'))"
  by (simp add: export_wakes_def)

lemma export_wakes_again:
  "log v = log w \<Longrightarrow> export_wakes vm w (Some (r, EnqueueAfter h vm d v))"
  by (simp add: export_wakes_def)

lemma export_wakes_bind:
  assumes "emits Q w m" "\<And>r v. m = Some (r, v) \<Longrightarrow> export_wakes vm v (f (r, v))"
  shows "export_wakes vm w (Option.bind m f)"
proof (unfold export_wakes_def, intro allI impI)
  fix vm' w'
  assume "Option.bind m f = Some ((None, vm'), w')"
  then obtain a v where m: "m = Some (a, v)" "f (a, v) = Some ((None, vm'), w')"
    by (cases m) auto
  moreover obtain es where "log v = log w @ es"
    using assms(1) m(1) by (auto simp: emits_def)
  moreover have "settle vm' \<noteq> vm \<or> (\<exists>es. log w' = log v @ es \<and> list_ex (wakes vm) es)"
    using assms(2) [OF m(1)] m(2) by (simp add: export_wakes_def)
  ultimately show "settle vm' \<noteq> vm \<or> (\<exists>es. log w' = log w @ es \<and> list_ex (wakes vm) es)"
    by (metis append_assoc list_ex_append)
qed

text \<open>A condition was added that the import did not have.\<close>

definition new_cond_in :: "VirtualMachineImport \<Rightarrow> VirtualMachineImport \<Rightarrow> bool" where
  "new_cond_in vm vm' \<longleftrightarrow>
     (\<exists>c cnd vm1. vm' = add_cond cnd vm1 \<and> true_condition c cnd \<and> \<not> has_cond c vm)"

lemma new_cond_changes: "new_cond_in vm vm' \<Longrightarrow> settle vm' \<noteq> vm"
  using changed_by_condition by (fastforce simp: new_cond_in_def)

lemma put_condition_new:
  "put_condition h c msg vm1 w = (vm', w') \<Longrightarrow> \<not> has_cond c vm \<Longrightarrow> new_cond_in vm vm'"
  by (erule put_condition_cases) (auto simp: new_cond_in_def)

lemma triggerShutdownGuest_new:
  "triggerShutdownGuest h vm vmo w = Some ((None, vm'), w') \<Longrightarrow>
   \<not> has_cond VirtualMachineShutdownGuest vm \<Longrightarrow> new_cond_in vm vm'"
  unfolding triggerShutdownGuest_def
  by (auto elim!: progress_bind intro: put_condition_new split: option.splits prod.splits)

lemma triggerPowerOff_new:
  "triggerPowerOff h vm vmo w = Some ((None, vm'), w') \<Longrightarrow>
   \<not> has_cond VirtualMachinePoweringOff vm \<Longrightarrow> new_cond_in vm vm'"
  unfolding triggerPowerOff_def
  by (auto elim!: progress_bind intro: put_condition_new split: option.splits prod.splits)

lemma exportDisks_new:
  "exportDisks h vm vmo w = Some ((e, vm'), w') \<Longrightarrow>
   \<not> has_cond VirtualMachineExported vm \<Longrightarrow> \<not> has_cond VirtualMachineExportFailed vm \<Longrightarrow>
   new_cond_in vm vm'"
  unfolding exportDisks_def
  by (auto elim!: progress_bind intro: put_condition_new split: option.splits prod.splits)

lemma export_wakes_new:
  "(\<And>vm' w'. m = Some ((None, vm'), w') \<Longrightarrow> new_cond_in vm vm') \<Longrightarrow> export_wakes vm w m"
  using new_cond_changes by (fastforce simp: export_wakes_def)

lemma awaitShutdown_wakes: "export_wakes vm w (awaitShutdown h vm vmo w)"
  unfolding awaitShutdown_def
  by (auto simp: Let_def intro: export_wakes_again export_wakes_new triggerPowerOff_new
      dest!: query_log split: option.splits sum.splits prod.splits)

context import_handler
begin

lemma awaitPoweredOff_wakes:
  assumes "vm_operations vmo" "\<not> has_cond VirtualMachinePoweredOff vm"
  shows "export_wakes vm w (awaitPoweredOff h vm vmo w)"
  unfolding awaitPoweredOff_def
  by (rule export_wakes_bind [OF vm_operations.poweredoff_quiet [OF assms(1)]])
    (auto intro: awaitShutdown_wakes export_wakes_new put_condition_new [OF _ assms(2)]
      split: sum.splits prod.splits)

lemma triggerExport_wakes:
  assumes "status_of vm = SourceReady"
  shows "export_wakes vm w (triggerExport h vm w)"
  unfolding triggerExport_def
proof (rule export_wakes_bind [OF generateVMO_quiet], clarify)
  fix r v
  assume g: "generateVMO h vm w = Some (r, v)"
  have ok: "vm_operations vmo" if "r = Inr vmo" for vmo
    using g that generateVMO_ok by blast
  have over: "export_wakes vm v (Some ((None, vm), v))"
    if "has_cond VirtualMachineExported vm \<or> has_cond VirtualMachineExportFailed vm"
    using settle_done [OF assms that] by (rule export_wakes_changed)
  show "export_wakes vm v (case r of
          Inl err \<Rightarrow> Some ((Some (Wrapf ''error generating VMO in triggerExport: '' err), vm), v)
        | Inr vmo \<Rightarrow>
            let force = IsPowerOffSupported vmo \<and> GetForcePowerOff vm;
                requested = has_cond VirtualMachinePoweringOff vm \<or>
                            has_cond VirtualMachineShutdownGuest vm
            in
            if force \<and> \<not> has_cond VirtualMachinePoweringOff vm then triggerPowerOff h vm vmo v
            else if \<not> force \<and> \<not> has_cond VirtualMachineShutdownGuest vm
            then triggerShutdownGuest h vm vmo v
            else if \<not> has_cond VirtualMachinePoweredOff vm \<and> requested
            then awaitPoweredOff h vm vmo v
            else if has_cond VirtualMachinePoweredOff vm \<and> requested \<and>
              \<not> has_cond VirtualMachineExported vm \<and> \<not> has_cond VirtualMachineExportFailed vm
            then exportDisks h vm vmo v
            else Some ((None, vm), v))"
    using ok over
    by (auto simp: Let_def intro: export_wakes_new triggerPowerOff_new triggerShutdownGuest_new
        exportDisks_new awaitPoweredOff_wakes split: sum.splits)
qed

lemma run_export_wakes:
  assumes "status_of vm = SourceReady"
  shows "signals (wakes vm) w
    (Option.bind (runVirtualMachineExport h vm w) (\<lambda>(r, w). abortMigrationIfNecessary h r w))"
proof -
  have "signals (wakes vm) w (Option.bind (triggerExport h vm w) f)"
    if f: "\<And>e vm' v. f ((Some e, vm'), v) = abortMigrationIfNecessary h (Some vm', Some e) v"
      "\<And>vm' v. f ((None, vm'), v) =
         (case UpdateStatus h (settle vm') v of (r, w) \<Rightarrow> abortMigrationIfNecessary h r w)" for f
  proof (cases "triggerExport h vm w")
    case (Some t)
    obtain e vm' v where t: "triggerExport h vm w = Some ((e, vm'), v)"
      using Some by (cases t) auto
    obtain es where es: "log v = log w @ es"
      using emitsD [OF triggerExport_licensed [OF assms] t] by auto
    show ?thesis
    proof (cases e)
      case (Some err)
      then have "vm' = vm" using triggerExport_outcome [OF t] by simp
      then have "signals (wakes vm) v (f ((e, vm'), v))"
        unfolding Some f by (rule_tac signals_abort_error) (use assms in auto)
      then show ?thesis
        using t es by (fastforce simp: signals_def)
    next
      case None
      obtain r u where u: "UpdateStatus h (settle vm') v = (r, u)"
        by fastforce
      then have "f ((e, vm'), v) = Some (r, u)" "log u = log w @ es @ [EvUpdateStatus (settle vm')]"
        using es by (simp_all add: None f abort_after_write UpdateStatus_log)
      moreover have "settle vm' \<noteq> vm \<or> list_ex (wakes vm) es"
        using triggerExport_wakes [OF assms, of w] t es by (simp add: None export_wakes_def)
      ultimately show ?thesis
        using t by (auto simp: signals_def)
    qed
  qed simp
  then show ?thesis
    unfolding runVirtualMachineExport_def Option.bind_assoc by (auto split: option.splits)
qed

lemma sanitize_wakes:
  assumes "status_of vm = VirtualMachineImportValid"
  shows "signals (wakes vm) w
    (Option.bind (sanitizeVirtualMachineImport h vm w) (\<lambda>(r, w). abortMigrationIfNecessary h r w))"
proof -
  have written: "signals (wakes vm) v (Option.bind (SanitizeVirtualMachineImport vmo vm v) f)"
    if ok: "vm_operations vmo" and f: "\<And>err vm' u. f ((err, vm'), u) =
        (let vm = (if err \<noteq> None then set_Status VirtualMachineImportInvalid vm'
          else if length (IsDNS1123Label h (imported_name vm')) \<noteq> 0
          then set_Status VirtualMachineImportInvalid vm' else set_Status SourceReady vm')
         in case UpdateStatus h vm u of (r, w) \<Rightarrow> abortMigrationIfNecessary h r w)" for vmo v f
    by (rule signals_bind [OF vm_operations.sanitize_quiet [OF ok]])
      (auto simp: f Let_def assms intro!: signals_write_abort status_neq)
  show ?thesis
    unfolding sanitizeVirtualMachineImport_def Option.bind_assoc
    by (rule signals_bind [OF generateVMO_quiet])
      (auto intro!: signals_abort_error written dest: generateVMO_ok split: sum.splits simp: Let_def)
qed

lemma preflight_wakes:
  assumes "status_of vm = StatusUnset"
  shows "signals (wakes vm) w (reconcilePreFlightChecks h vm w)"
  unfolding reconcilePreFlightChecks_def
  by (rule signals_bind [OF preFlightChecks_quiet])
    (auto simp: assms intro!: signals_UpdateStatus status_neq split: option.splits)

lemma images_wakes:
  assumes "status_of vm = DisksExported"
  shows "signals (wakes vm) w (reconcileDiskImageStatus h vm w)"
proof (cases "disks_of vm = []")
  case True
  then show ?thesis
    by (auto simp: reconcileDiskImageStatus_def assms intro!: signals_UpdateStatus status_neq)
next
  case False
  obtain err vm' v where c: "createVirtualMachineImages h vm w = ((err, vm'), v)"
    by (metis prod.exhaust)
  have e: "emits_fst (\<lambda>_. True) w ((err, vm'), v)"
    unfolding c [symmetric] createVirtualMachineImages_def by (rule create_images_loop_emits) simp
  have "signals (wakes vm) v (reconcileDiskImageStatus h vm w)"
  proof (cases err)
    case None
    then have "list_all (disk_has VirtualMachineImageSubmitted) (disks_of vm')"
      using create_images_loop_spec [OF c [unfolded createVirtualMachineImages_def]] by auto
    then show ?thesis
      using False c None assms
      by (auto simp: reconcileDiskImageStatus_def Let_def intro!: signals_UpdateStatus status_neq)
  next
    case (Some x)
    then show ?thesis
      using False c by (auto simp: reconcileDiskImageStatus_def Let_def split: prod.splits)
  qed
  then show ?thesis by (rule signals_after [OF e])
qed

lemma resubmit_wakes:
  assumes "status_of vm = DiskImagesFailed"
  shows "signals (wakes vm) w (triggerResubmit h vm w)"
proof -
  obtain err vm' v where r: "cleanupAndResubmit h vm w = ((err, vm'), v)"
    by (metis prod.exhaust)
  have e: "emits_fst (\<lambda>_. True) w ((err, vm'), v)"
    unfolding r [symmetric] cleanupAndResubmit_def by (rule cleanup_loop_emits) simp
  have "signals (wakes vm) v (triggerResubmit h vm w)"
    using r by (cases err) (auto simp: triggerResubmit_def assms intro!: signals_UpdateStatus status_neq)
  then show ?thesis by (rule signals_after [OF e])
qed

lemma create_wakes:
  assumes "status_of vm = DiskImagesReady"
  shows "signals (wakes vm) w (createMachine h vm w)"
  unfolding createMachine_def
  by (rule signals_bind [OF createVirtualMachine_licensed [OF assms]])
    (auto simp: assms intro!: signals_UpdateStatus signals_abort_error status_neq split: option.splits)

lemma created_wakes:
  assumes "status_of vm = VirtualMachineCreated"
  shows "signals (wakes vm) w (reconcileVirtualMachineStatus h vm w)"
proof -
  obtain r u where c: "checkVirtualMachine h vm w = (r, u)"
    by fastforce
  have "signals (wakes vm) u (reconcileVirtualMachineStatus h vm w)"
    using c by (auto simp: reconcileVirtualMachineStatus_def signals_def assms
        dest: UpdateStatus_log split: sum.splits)
  then show ?thesis
    using checkVirtualMachine_log [OF c] by (auto simp: signals_def)
qed

lemma reconcile_wakes:
  assumes "status_of vm \<in> {StatusUnset, VirtualMachineImportValid, SourceReady, DisksExported,
    DiskImagesFailed, DiskImagesReady, VirtualMachineCreated}"
  shows "signals (wakes vm) w (reconcile_status h vm w)"
  using assms
  by (auto simp: reconcile_status_def intro: preflight_wakes sanitize_wakes run_export_wakes
      images_wakes resubmit_wakes create_wakes created_wakes)

text \<open>While the images are awaited: a verdict is written, or the watch has to call again.\<close>

lemma follow_wakes:
  assumes st: "status_of vm = DiskImagesSubmitted"
    and f: "followImages h vm w = Some ((r, None), w')"
  shows "(\<exists>es. log w' = log w @ es \<and> list_ex (wakes vm) es) \<or>
    (\<exists>vm'. r = Some vm' \<and> log w' = log w \<and> evaluateDiskImportStatus (disks_of vm') = None)"
proof -
  obtain err vm' v where r: "reconcileVMIStatus h vm w = ((err, vm'), v)"
    by (metis prod.exhaust)
  have log: "log v = log w"
    using vmi_status_loop_spec [OF r [unfolded reconcileVMIStatus_def]] by simp
  show ?thesis
  proof (cases "evaluateDiskImportStatus (disks_of vm')")
    case None
    then show ?thesis
      using f r log by (auto simp: followImages_def split: option.splits)
  next
    case (Some s)
    then have "set_Status s vm' \<noteq> vm"
      using evaluate_Some [OF Some] st by (intro status_neq) auto
    then show ?thesis
      using f r log Some
      by (auto simp: followImages_def dest!: UpdateStatus_log split: option.splits)
  qed
qed

end

end
