(* ===== verification/ImportProperties.thy ===== *)
theory ImportProperties
  imports ImportProgress
begin

text \<open>
  Further facts about the functions of the import controller: what a passed preflight check
  means, when a machine is forced off, what the image and machine functions create, and two ways
  in which an import is lost (a source that disappears after validation, an image that is gone
  after a resubmission).
\<close>

section \<open>Lost imports\<close>

lemma vmi_status_loop_lost:
  assumes "\<And>x. \<exists>e x'. vmi_Get h (vm_Namespace vm) (DiskImage d) x = (Inl e, x')"
    and "\<not> disk_has VirtualMachineImageReady d" "d \<in> set ds"
  shows "\<exists>e vm' w'. vmi_status_loop h i ds vm w = ((Some e, vm'), w')"
  using assms(1,3)
proof (induction ds arbitrary: i vm w)
  case (Cons a ds)
  obtain r v where q: "query (vmi_Get h (vm_Namespace vm) (DiskImage a)) w = (r, v)"
    by fastforce
  have IH: "\<exists>e vm' w'. vmi_status_loop h j ds (set_Disks xs vm) u = ((Some e, vm'), w')"
    if "d \<in> set ds" for j xs u
    using that Cons.prems(1) by (intro Cons.IH) auto
  show ?case
  proof (cases "d \<in> set ds")
    case True
    then show ?thesis
      using q IH [OF True, of _ "disks_of vm"] IH [OF True] by (auto simp: Let_def split: sum.splits prod.splits)
  next
    case False
    then have "a = d" using Cons.prems(2) by simp
    moreover obtain e x' where "vmi_Get h (vm_Namespace vm) (DiskImage d) (ext w) = (Inl e, x')"
      using Cons.prems(1) by blast
    ultimately show ?thesis
      using assms(2) by (simp add: query_def)
  qed
qed simp

lemma follow_lost:
  assumes "\<And>x. \<exists>e x'. vmi_Get h (vm_Namespace vm) (DiskImage d) x = (Inl e, x')"
    and "\<not> disk_has VirtualMachineImageReady d" "d \<in> set (disks_of vm)"
  shows "\<exists>r e w'. followImages h vm w = Some ((r, Some e), w') \<and> log w' = log w"
proof -
  obtain e vm' w' where r: "reconcileVMIStatus h vm w = ((Some e, vm'), w')"
    using vmi_status_loop_lost [OF assms] unfolding reconcileVMIStatus_def by blast
  moreover have "log w' = log w"
    using vmi_status_loop_spec [OF r [unfolded reconcileVMIStatus_def]] by simp
  ultimately show ?thesis by (simp add: followImages_def)
qed

text \<open>
  The sentinel error reaches \<open>abortMigrationIfNecessary\<close> together with a nil import.
\<close>

lemma sanitize_lost_source:
  assumes "generateSource h vm w = (Inl e, w')"
  shows "Option.bind (sanitizeVirtualMachineImport h vm w) (\<lambda>(r, w). abortMigrationIfNecessary h r w) = None"
  using assms by (simp add: sanitizeVirtualMachineImport_def generateVMO_def abortMigrationIfNecessary_def)

section \<open>Preflight checks\<close>

lemma destination_parts_None:
  "destination_parts vm nm = None \<longleftrightarrow> 2 < length (strings_Split (DestinationNetwork nm) (CHR ''/''))"
  by (auto simp: destination_parts_def split: list.splits)

lemma check_destinations_sound:
  "check_destinations h vm nms w = (None, w') \<Longrightarrow>
   list_all (\<lambda>nm. \<exists>ns n x x'. destination_parts vm nm = Some (ns, n) \<and> nadCache_Get h ns n x = (None, x')) nms"
  by (induction nms arbitrary: w) (auto simp: query_def split: option.splits prod.splits)

lemma check_spec_sound:
  assumes "check_spec h vm w = (None, w')"
  shows "distinct (map SourceNetwork (Mapping (vm_Spec vm)))"
    and "list_all (\<lambda>nm. \<exists>ns n x x'. destination_parts vm nm = Some (ns, n) \<and> nadCache_Get h ns n x = (None, x'))
      (Mapping (vm_Spec vm))"
    and "StorageClassName (vm_Spec vm) = [] \<or>
      (\<exists>x sc x'. sc_Get h (StorageClassName (vm_Spec vm)) x = (Inr sc, x'))"
  using assms repeated_source_network_None [of "[]" "Mapping (vm_Spec vm)"]
  by (auto simp: check_spec_def Let_def GetStorageClassByName_def query_def
      split: if_splits option.splits prod.splits sum.splits dest: check_destinations_sound)

lemma preFlightChecks_sound:
  assumes "preFlightChecks h vm w = Some (None, w')"
  obtains ss v v' where "generateSource h vm w = (Inr ss, v)" "ClusterStatus ss = ClusterReady"
    "check_spec h vm v = (None, v')"
    "ref_APIVersion (SourceCluster (vm_Spec vm)) = expectedAPIVersion"
  using assms by (auto simp: preFlightChecks_def Let_def split: if_splits prod.splits sum.splits option.splits)

section \<open>Forcing the source machine off\<close>

text \<open>The time of the graceful shutdown is over, by the clock of some moment.\<close>

definition timed_out :: "'x virtualMachineHandler \<Rightarrow> VirtualMachineImport \<Rightarrow> bool" where
  "timed_out h vm \<longleftrightarrow>
     (\<exists>c t x now x'. GetCondition (conds_of vm) VirtualMachineShutdownGuest ConditionTrue = Some c \<and>
        time_Parse h (LastUpdateTime c) = Inr t \<and> time_Now h x = (now, x') \<and>
        Seconds (sint (GetGracefulShutdownTimeoutSeconds vm)) < now - t)"

fun power_off_due :: "'x virtualMachineHandler \<Rightarrow> VirtualMachineImport \<Rightarrow> event \<Rightarrow> bool" where
  "power_off_due h vm (EvPowerOff u) \<longleftrightarrow> GetForcePowerOff vm \<or> timed_out h vm"
| "power_off_due h vm ev \<longleftrightarrow> True"

lemma power_off_due_quiet: "\<not> controller_event ev \<Longrightarrow> power_off_due h vm ev"
  by (cases ev) simp_all

text \<open>The events of a step of the export, as a condition on what they are to satisfy.\<close>

definition permits :: "'x virtualMachineHandler \<Rightarrow> VirtualMachineImport \<Rightarrow> (event \<Rightarrow> bool) \<Rightarrow> bool" where
  "permits h vm P \<longleftrightarrow>
     (\<forall>ev. \<not> controller_event ev \<longrightarrow> P ev) \<and> P (EvShutdownGuest vm) \<and> P (EvExport vm) \<and>
     (\<forall>d. P (EvEnqueueAfter (vm_Namespace vm) (vm_Name vm) d)) \<and>
     (GetForcePowerOff vm \<or> timed_out h vm \<longrightarrow> P (EvPowerOff vm))"

lemma permits_due: "permits h vm (power_off_due h vm)"
  by (simp add: permits_def power_off_due_quiet)

lemma permits_quietly: "permits h vm P \<Longrightarrow> quiet w m \<Longrightarrow> emits P w m"
  by (auto simp: permits_def intro: emits_mono)

context import_handler
begin

lemma triggerPowerOff_emits:
  assumes "permits h vm P" "vm_operations vmo" "GetForcePowerOff vm \<or> timed_out h vm"
  shows "emits P w (triggerPowerOff h vm vmo w)"
  unfolding triggerPowerOff_def
proof (rule emits_mark [where ev = "EvPowerOff vm"])
  show "P (EvPowerOff vm)" using assms(1,3) by (auto simp: permits_def)
qed (rule emits_bind_err [OF permits_quietly [OF assms(1) vm_operations.poweroff_quiet [OF assms(2)]]],
    auto simp: emits_Some intro: put_condition_emits split: prod.splits)

lemma triggerShutdownGuest_emits:
  assumes "permits h vm P" "vm_operations vmo"
  shows "emits P w (triggerShutdownGuest h vm vmo w)"
  unfolding triggerShutdownGuest_def
proof (rule emits_mark [where ev = "EvShutdownGuest vm"])
  show "P (EvShutdownGuest vm)" using assms(1) by (simp add: permits_def)
qed (rule emits_bind_err [OF permits_quietly [OF assms(1) vm_operations.shutdown_quiet [OF assms(2)]]],
    auto simp: emits_Some intro: put_condition_emits split: prod.splits)

lemma exportDisks_emits:
  assumes "permits h vm P" "vm_operations vmo"
  shows "emits P w (exportDisks h vm vmo w)"
  unfolding exportDisks_def
proof (rule emits_mark [where ev = "EvExport vm"])
  show "P (EvExport vm)" using assms(1) by (simp add: permits_def)
qed (rule emits_bind_err_state [OF permits_quietly [OF assms(1) vm_operations.export_quiet [OF assms(2)]]],
    auto intro: put_condition_emits split: prod.splits)

lemma awaitShutdown_emits:
  assumes "permits h vm P" "vm_operations vmo"
  shows "emits P w (awaitShutdown h vm vmo w)"
proof -
  have wait: "emits P w (Some (r, EnqueueAfter h vm d v))" if "log v = log w" for r d v
    by (rule emits_log_cong [OF emits_EnqueueAfter]) (use assms(1) in \<open>simp_all add: that permits_def\<close>)
  have off: "emits P w (triggerPowerOff h vm vmo v)"
    if q: "query (time_Now h) w = (now, v)"
      and c: "GetCondition (conds_of vm) VirtualMachineShutdownGuest ConditionTrue = Some c"
        "time_Parse h (LastUpdateTime c) = Inr t"
        "Seconds (sint (GetGracefulShutdownTimeoutSeconds vm)) < now - t" for now v c t
  proof -
    obtain x' where "time_Now h (ext w) = (now, x')"
      using q by (auto simp: query_def split: prod.splits)
    then have "timed_out h vm"
      using c unfolding timed_out_def by blast
    then show ?thesis
      using triggerPowerOff_emits [OF assms] query_log [OF q] by (metis emits_log_cong)
  qed
  show ?thesis
    unfolding awaitShutdown_def
    by (auto simp: Let_def emits_Some intro!: wait off dest: query_log
        split: option.splits prod.splits sum.splits)
qed

lemma awaitPoweredOff_emits:
  assumes "permits h vm P" "vm_operations vmo"
  shows "emits P w (awaitPoweredOff h vm vmo w)"
  unfolding awaitPoweredOff_def
  by (rule emits_bind_sum [OF permits_quietly [OF assms(1) vm_operations.poweredoff_quiet [OF assms(2)]]])
    (auto simp: emits_Some intro: put_condition_emits awaitShutdown_emits [OF assms] split: prod.splits)

lemma triggerExport_emits:
  assumes "permits h vm P"
  shows "emits P w (triggerExport h vm w)"
  unfolding triggerExport_def
  by (rule emits_bind_sum [OF permits_quietly [OF assms generateVMO_quiet]])
    (auto simp: emits_Some Let_def dest!: generateVMO_ok intro: triggerPowerOff_emits [OF assms]
      triggerShutdownGuest_emits [OF assms] awaitPoweredOff_emits [OF assms] exportDisks_emits [OF assms])

lemma abort_due: "emits (power_off_due h vm) w (abortMigrationIfNecessary h r w)"
  by (auto simp: abortMigrationIfNecessary_def emits_Some intro!: emits_UpdateStatus split: option.splits prod.splits)

lemma run_export_due:
  "emits (power_off_due h vm) w
    (Option.bind (runVirtualMachineExport h vm w) (\<lambda>(r, w). abortMigrationIfNecessary h r w))"
  unfolding runVirtualMachineExport_def Option.bind_assoc
  by (rule emits_bind [OF triggerExport_emits [OF permits_due]])
    (auto intro!: abort_due emits_write_abort split: option.splits)

lemma OnVirtualMachineChange_power_off: "emits (power_off_due h vm) w (OnVirtualMachineChange h (Some vm) w)"
proof (cases "status_of vm = SourceReady \<and> DeletionTimestamp (vm_Meta vm) = None")
  case True
  then show ?thesis
    by (simp add: OnVirtualMachineChange_def reconcile_status_def run_export_due)
next
  case False
  have "power_off_due h vm ev" if "licensed vm ev" "status_of vm \<noteq> SourceReady" for ev
    using that by (cases ev) simp_all
  then show ?thesis
    using False OnVirtualMachineChange_licensed [of vm w]
    by (cases "status_of vm = SourceReady")
      (auto simp: OnVirtualMachineChange_deleted emits_Some elim: emits_mono)
qed

end

section \<open>Creating an image\<close>

text \<open>The outcome is decided by the number of images that carry the label of the disk.\<close>

lemma checkAndCreate_found:
  assumes "vmi_List h (vm_Namespace vm) labelImageDisplayName
      (MustFormatValue h (image_display_name vm d)) (ext w) = (Inr imgs, x)" "imgs \<noteq> []"
  shows "checkAndCreateVirtualMachineImage h vm d w =
    (case imgs of [img] \<Rightarrow> (Inr img, w\<lparr>ext := x\<rparr>)
     | _ \<Rightarrow> (Inl (Errorf (''found '' @ show_nat (length imgs)
                 @ '' Harvester VirtualMachineImages with label '' @ single_quoted (labelImageDisplayName @ ''=''
                 @ MustFormatValue h (image_display_name vm d)) @ '', only expected to find one'')),
             w\<lparr>ext := x\<rparr>))"
  using assms
  by (auto simp: checkAndCreateVirtualMachineImage_def query_def Let_def neq_Nil_conv split: list.splits)

section \<open>The machine\<close>

lemma volumes_loop_enumerate:
  "volumes_loop i ds =
     (map (\<lambda>(j, d). \<lparr>vol_Name = disk_label j, ClaimName = DiskImage d\<rparr>) (enumerate i ds),
      map (\<lambda>(j, d). \<lparr>disk_Name = disk_label j, BootOrder = word_of_int (int j + 1), disk_Bus = BusType d\<rparr>)
        (enumerate i ds))"
  by (induction ds arbitrary: i) (simp_all add: Let_def)

lemma disk_label_inject [simp]: "disk_label i = disk_label j \<longleftrightarrow> i = j"
  by (simp add: disk_label_def)

lemma distinct_volume_names:
  "distinct (map vol_Name (fst (volumes_loop i ds)))"
  "map disk_Name (snd (volumes_loop i ds)) = map vol_Name (fst (volumes_loop i ds))"
  by (auto simp: volumes_loop_enumerate comp_def case_prod_beta distinct_map inj_on_def
      enumerate_eq_zip set_zip nth_eq_iff_index_eq intro!: distinct_zipI1)

lemma volumes_loop_shape:
  "map ClaimName (fst (volumes_loop i ds)) = map DiskImage ds"
  "map disk_Bus (snd (volumes_loop i ds)) = map BusType ds"
  "map BootOrder (snd (volumes_loop i ds)) = map (\<lambda>j. word_of_nat (Suc j)) [i..<i + length ds]"
  "length (snd (volumes_loop i ds)) = length ds"
  by (induction ds arbitrary: i) (simp_all add: Let_def case_prod_beta upt_conv_Cons add.commute del: upt_Suc)

section \<open>Release of the images\<close>

definition released :: "VirtualMachineImport \<Rightarrow> VirtualMachineImage \<Rightarrow> VirtualMachineImage" where
  "released vm img = img\<lparr>img_Meta := (img_Meta img)\<lparr>OwnerReferences :=
     filter (\<lambda>r. \<not> owned_by vm r) (OwnerReferences (img_Meta img))\<rparr>\<rparr>"

lemma tidy_loop_spec:
  "tidy_loop h vm ds w = (None, w') \<Longrightarrow>
   \<exists>imgs. log w' = log w @ map (\<lambda>img. EvImageUpdate (released vm img)) imgs \<and>
     list_all2 (\<lambda>d img. \<exists>x x'. vmi_Get h (vm_Namespace vm) (DiskImage d) x = (Inr img, x')) ds imgs"
proof (induction ds arbitrary: w)
  case Nil
  then show ?case by simp
next
  case (Cons d ds)
  obtain r w1 where q: "query (vmi_Get h (vm_Namespace vm) (DiskImage d)) w = (r, w1)"
    by fastforce
  then obtain img where img: "r = Inr img"
    using Cons.prems by (cases r) auto
  obtain e w2 where u: "effect (\<lambda>_. EvImageUpdate (released vm img)) (vmi_Update h (released vm img)) w1 = (e, w2)"
    by fastforce
  have "e = None" "tidy_loop h vm ds w2 = (None, w')"
    using Cons.prems q img u by (simp_all add: Let_def released_def split: option.splits)
  then obtain imgs where "log w' = log w2 @ map (\<lambda>img. EvImageUpdate (released vm img)) imgs"
    "list_all2 (\<lambda>d img. \<exists>x x'. vmi_Get h (vm_Namespace vm) (DiskImage d) x = (Inr img, x')) ds imgs"
    using Cons.IH by blast
  moreover have "\<exists>x x'. vmi_Get h (vm_Namespace vm) (DiskImage d) x = (Inr img, x')"
    using q img by (auto simp: query_def split: prod.splits)
  ultimately show ?case
    using query_log [OF q] effect_log [OF u]
    by (intro exI [of _ "img # imgs"]) simp
qed

section \<open>Validation\<close>

text \<open>What a passed preflight check means, each point by some answer of the cluster.\<close>

definition admissible :: "'x virtualMachineHandler \<Rightarrow> VirtualMachineImport \<Rightarrow> bool" where
  "admissible h vm \<longleftrightarrow>
     ref_APIVersion (SourceCluster (vm_Spec vm)) = expectedAPIVersion \<and>
     (\<exists>w ss w'. generateSource h vm w = (Inr ss, w') \<and> ClusterStatus ss = ClusterReady) \<and>
     distinct (map SourceNetwork (Mapping (vm_Spec vm))) \<and>
     list_all (\<lambda>nm. \<exists>ns n x x'. destination_parts vm nm = Some (ns, n) \<and> nadCache_Get h ns n x = (None, x'))
       (Mapping (vm_Spec vm)) \<and>
     (StorageClassName (vm_Spec vm) = [] \<or>
       (\<exists>x sc x'. sc_Get h (StorageClassName (vm_Spec vm)) x = (Inr sc, x')))"

lemma preFlightChecks_admissible:
  assumes "preFlightChecks h vm w = Some (None, w')"
  shows "admissible h vm"
proof (rule preFlightChecks_sound [OF assms])
  fix ss v v'
  assume a: "generateSource h vm w = (Inr ss, v)" "ClusterStatus ss = ClusterReady"
    "check_spec h vm v = (None, v')" "ref_APIVersion (SourceCluster (vm_Spec vm)) = expectedAPIVersion"
  show "admissible h vm"
    unfolding admissible_def using a(1,2,4) check_spec_sound [OF a(3)] by blast
qed

fun validated :: "'x virtualMachineHandler \<Rightarrow> VirtualMachineImport \<Rightarrow> event \<Rightarrow> bool" where
  "validated h vm (EvUpdateStatus u) \<longleftrightarrow> (status_of u = VirtualMachineImportValid \<longrightarrow> admissible h vm)"
| "validated h vm ev \<longleftrightarrow> True"

lemma validated_quiet: "\<not> controller_event ev \<Longrightarrow> validated h vm ev"
  by (cases ev) simp_all

lemma status_edge_valid: "status_edge s VirtualMachineImportValid \<Longrightarrow> s = StatusUnset"
  by (cases s) simp_all

lemma licensed_validated:
  assumes "licensed vm ev" "status_of vm \<noteq> StatusUnset"
  shows "validated h vm ev"
  using assms by (cases ev) (auto dest!: import_step_edge status_edge_valid)

text \<open>What remains to be done once the machine runs, or the import is removed: a cleanup.\<close>

fun only_cleanup :: "VirtualMachineImport \<Rightarrow> event \<Rightarrow> bool" where
  "only_cleanup vm (EvCleanup u) \<longleftrightarrow> u = vm"
| "only_cleanup vm ev \<longleftrightarrow> \<not> controller_event ev"

lemma only_cleanup_quiet: "\<not> controller_event ev \<Longrightarrow> only_cleanup vm ev"
  by (cases ev) simp_all

context import_handler
begin

lemma preflight_validated:
  assumes "status_of vm = StatusUnset"
  shows "emits (validated h vm) w (reconcilePreFlightChecks h vm w)"
  unfolding reconcilePreFlightChecks_def
  by (rule emits_bind_err [OF emits_mono [OF preFlightChecks_quiet validated_quiet]])
    (auto intro!: emits_UpdateStatus emits_EnqueueAfter dest: preFlightChecks_admissible)

lemma OnVirtualMachineChange_validated:
  "emits (validated h vm) w (OnVirtualMachineChange h (Some vm) w)"
proof (cases "status_of vm = StatusUnset")
  case True
  then show ?thesis
    by (simp add: OnVirtualMachineChange_def reconcile_status_def emits_Some preflight_validated)
next
  case False
  show ?thesis
    by (rule emits_mono [OF OnVirtualMachineChange_licensed licensed_validated]) (assumption, rule False)
qed

lemma finalCleanup_only: "emits (only_cleanup vm) w (finalCleanup h vm w)"
proof -
  have "emits (only_cleanup vm) v (Cleanup vmo vm (mark (EvCleanup vm) v))" if "vm_operations vmo" for vmo v
    by (rule emits_mark [OF _ emits_mono [OF vm_operations.cleanup_quiet [OF that] only_cleanup_quiet]])
      simp_all
  then have "emits (only_cleanup vm) w (triggerCleanup h vm w)"
    unfolding triggerCleanup_def
    by (intro emits_bind_sum [OF emits_mono [OF generateVMO_quiet only_cleanup_quiet]])
      (auto simp: emits_Some dest: generateVMO_ok)
  then show ?thesis
    unfolding finalCleanup_def by (rule emits_bind) (auto simp: emits_Some)
qed

lemma finalCleanup_result: "finalCleanup h vm w = Some (r, w') \<Longrightarrow> r = (None, None)"
  by (auto simp: finalCleanup_def split: Option.bind_splits)

lemma finishImport_spec:
  assumes "finishImport h vm w = Some ((r, None), w')"
  shows "\<exists>imgs es. log w' = log w @ map (\<lambda>img. EvImageUpdate (released vm img)) imgs @ es \<and>
    list_all2 (\<lambda>d img. \<exists>x x'. vmi_Get h (vm_Namespace vm) (DiskImage d) x = (Inr img, x')) (disks_of vm) imgs \<and>
    list_all (only_cleanup vm) es"
proof -
  obtain u where t: "tidyUpObjects h vm w = (None, u)" and f: "finalCleanup h vm u = Some ((r, None), w')"
    using assms by (auto simp: finishImport_def split: prod.splits option.splits)
  obtain es where "log w' = log u @ es" "list_all (only_cleanup vm) es"
    using emitsD [OF finalCleanup_only f] by blast
  then show ?thesis
    using tidy_loop_spec [OF t [unfolded tidyUpObjects_def]] by fastforce
qed

end

end
