(* ===== verification/ServedImages.thy ===== *)
theory ServedImages
  imports ImportProperties
begin

text \<open>
  The way of a disk image through the parts of the program: a successful export writes the file
  of every disk into the directory of the file server, the image of the disk is requested from
  the address of that file, and the cleanup removes the file. The facts are about histories of
  the import controller with clients that keep the contract of the operations.
\<close>

section \<open>Names\<close>

text \<open>The name of an imported machine is a valid label from the moment the source is ready.\<close>

definition sanitized :: "VirtualMachineImport \<Rightarrow> bool" where
  "sanitized vm \<longleftrightarrow> status_of vm \<notin> {StatusUnset, VirtualMachineImportValid, VirtualMachineImportInvalid}"

definition valid_name :: "'x virtualMachineHandler \<Rightarrow> VirtualMachineImport \<Rightarrow> bool" where
  "valid_name h vm \<longleftrightarrow> IsDNS1123Label h (imported_name vm) = []"

fun names_checked :: "'x virtualMachineHandler \<Rightarrow> VirtualMachineImport \<Rightarrow> event \<Rightarrow> bool" where
  "names_checked h vm (EvUpdateStatus u) \<longleftrightarrow> (status_of u = SourceReady \<longrightarrow> valid_name h u)"
| "names_checked h vm ev \<longleftrightarrow> \<not> controller_event ev"

lemma names_checked_quiet: "quiet w m \<Longrightarrow> emits (names_checked h vm) w m"
  by (erule emits_mono) (metis names_checked.simps controller_event.simps event.exhaust)

context import_handler
begin

lemma sanitize_checks_name:
  "emits (names_checked h vm) w
    (Option.bind (sanitizeVirtualMachineImport h vm w) (\<lambda>(r, w). abortMigrationIfNecessary h r w))"
proof -
  have failed: "emits (names_checked h vm) v (abortMigrationIfNecessary h (None, e) v)" for e v
    by (auto simp: abortMigrationIfNecessary_def emits_Some)
  have written: "emits (names_checked h vm) v (Option.bind (SanitizeVirtualMachineImport vmo vm v) f)"
    if ok: "vm_operations vmo" and f: "\<And>err vm' u. f ((err, vm'), u) =
        (let vm = (if err \<noteq> None then set_Status VirtualMachineImportInvalid vm'
          else if length (IsDNS1123Label h (imported_name vm')) \<noteq> 0
          then set_Status VirtualMachineImportInvalid vm' else set_Status SourceReady vm')
         in case UpdateStatus h vm u of (r, w) \<Rightarrow> abortMigrationIfNecessary h r w)" for vmo v f
    by (rule emits_bind [OF names_checked_quiet [OF vm_operations.sanitize_quiet [OF ok]]])
      (auto simp: f Let_def valid_name_def intro!: emits_write_abort)
  show ?thesis
    unfolding sanitizeVirtualMachineImport_def Option.bind_assoc
    by (rule emits_bind [OF names_checked_quiet [OF generateVMO_quiet]])
      (auto intro!: failed written dest: generateVMO_ok split: sum.splits simp: Let_def)
qed

lemma writes_valid_name:
  assumes "writes h vm v" "status_of vm = VirtualMachineImportValid" "status_of v = SourceReady"
  shows "valid_name h v"
proof -
  have "emits (names_checked h vm) w (OnVirtualMachineChange h (Some vm) w)" for w
    using sanitize_checks_name assms(2)
    by (simp add: OnVirtualMachineChange_def reconcile_status_def emits_Some)
  then show ?thesis
    using assms(1,3) by (fastforce simp: writes_def emits_def list_all_iff)
qed

lemma import_step_name:
  "import_step vm v \<Longrightarrow> sanitized v \<Longrightarrow>
   status_of vm = VirtualMachineImportValid \<and> status_of v = SourceReady \<or>
   sanitized vm \<and> imported_name v = imported_name vm"
  by (erule import_stepE) (auto simp: sanitized_def export_progress_sel)

lemma runs_valid_name: "runs h vm \<Longrightarrow> sanitized vm \<Longrightarrow> valid_name h vm"
proof (induction rule: runs.induct)
  case (run_start vm)
  then show ?case by (simp add: fresh_def sanitized_def)
next
  case (run_step vm v)
  then show ?case
    using import_step_name [OF writes_import_step [OF run_step(2)]] writes_valid_name [OF run_step(2)]
    by (auto simp: valid_name_def)
next
  case (run_edit vm spec meta)
  then show ?case by (simp add: sanitized_def valid_name_def)
qed

end

section \<open>Disks before and after the export\<close>

text \<open>Before an export has ended there are no disks; after it their names stay.\<close>

definition disks_inv :: "VirtualMachineImport \<Rightarrow> bool" where
  "disks_inv vm \<longleftrightarrow>
     has_cond VirtualMachineExported vm \<or> has_cond VirtualMachineExportFailed vm \<or> disks_of vm = []"

lemma disks_inv_export: "export_progress vm v \<Longrightarrow> disks_inv vm \<Longrightarrow> disks_inv v"
  by (erule export_progressE) (auto simp: disks_inv_def)

lemma disks_inv_step:
  assumes "import_step vm v" "disks_inv vm" "status_inv vm"
  shows "disks_inv v"
  using assms(1)
  by cases (use assms(2,3) disks_inv_export in
    \<open>auto simp: disks_inv_def status_inv_def status_defs dest: disks_inv_export\<close>)

lemma reachable_disks: "reachable vm \<Longrightarrow> disks_inv vm"
proof (induction rule: reachable.induct)
  case (start vm)
  then show ?case by (simp add: fresh_def disks_inv_def)
next
  case (step vm v)
  then show ?case using disks_inv_step reachable_status by blast
next
  case (edit vm spec meta)
  then show ?case by (simp add: disks_inv_def)
qed

lemma submitted_names: "list_all2 disk_submitted ds ds' \<Longrightarrow> map DiskName ds' = map DiskName ds"
  by (induction rule: list_all2_induct) (auto simp: disk_submitted_def)

lemma followed_names: "list_all2 disk_followed ds ds' \<Longrightarrow> map DiskName ds' = map DiskName ds"
  by (induction rule: list_all2_induct) (auto simp: disk_followed_def)

lemma exported_names:
  assumes "import_step vm v" "has_cond VirtualMachineExported vm"
  shows "map DiskName (disks_of v) = map DiskName (disks_of vm)"
  using assms(1)
proof cases
  case (export vm1)
  then show ?thesis
    using assms(2) by (auto elim!: export_progressE simp: export_enabled_def)
next
  case resubmit
  then show ?thesis by (simp add: disk_reset_def comp_def)
qed (simp_all add: submitted_names followed_names)

section \<open>From the export to the file\<close>

text \<open>The image of a disk is where it is served from, by an earlier call for the import.\<close>

definition served ::
  "'x virtualMachineHandler \<Rightarrow> VirtualMachineImport \<Rightarrow> DiskInfo \<Rightarrow> bool" where
  "served h vm d \<longleftrightarrow> DiskName d = ''.img'' \<or>
     (\<exists>u ev. runs h u \<and> later h u vm \<and> calls h u ev \<and> stored [ev] d)"

lemma stored_Ex: "stored es d \<longleftrightarrow> (\<exists>ev \<in> set es. stored [ev] d)"
  by (auto simp: stored_def)

fun writes_nothing :: "event \<Rightarrow> bool" where
  "writes_nothing (EvUpdateStatus u) \<longleftrightarrow> False"
| "writes_nothing ev \<longleftrightarrow> True"

lemma permits_writes_nothing: "permits h vm writes_nothing"
  by (simp add: permits_def) (metis controller_event.simps(1) writes_nothing.elims(3))

lemma power_off_keeps:
  "triggerPowerOff h vm vmo w = Some ((e, v), w') \<Longrightarrow>
   has_cond VirtualMachineExported v = has_cond VirtualMachineExported vm"
  unfolding triggerPowerOff_def
  by (auto elim!: progress_bind put_condition_cases split: option.splits prod.splits)

lemma shutdown_keeps:
  "triggerShutdownGuest h vm vmo w = Some ((e, v), w') \<Longrightarrow>
   has_cond VirtualMachineExported v = has_cond VirtualMachineExported vm"
  unfolding triggerShutdownGuest_def
  by (auto elim!: progress_bind put_condition_cases split: option.splits prod.splits)

lemma await_keeps:
  "awaitPoweredOff h vm vmo w = Some ((e, v), w') \<Longrightarrow>
   has_cond VirtualMachineExported v = has_cond VirtualMachineExported vm"
  unfolding awaitPoweredOff_def awaitShutdown_def
  by (auto simp: Let_def elim!: progress_bind put_condition_cases dest!: power_off_keeps
      split: option.splits prod.splits sum.splits if_splits)

lemmas exported_keeps = power_off_keeps shutdown_keeps await_keeps

lemma exportDisks_files:
  assumes "vm_operations vmo" "exportDisks h vm vmo w = Some ((None, v), w')"
    and "\<not> has_cond VirtualMachineExported vm" "has_cond VirtualMachineExported v"
    and "disks_of vm = []" "CHR ''/'' \<notin> set (imported_name vm)"
  shows "\<exists>es. log w' = log w @ es \<and> list_all (\<lambda>d. stored es d \<or> DiskName d = ''.img'') (disks_of v)"
proof -
  obtain err vm1 w1 where e: "ExportVirtualMachine vmo vm (mark (EvExport vm) w) = Some ((err, vm1), w1)"
    using assms(2) unfolding exportDisks_def by (auto elim!: progress_bind)
  have frame: "\<exists>ds. vm1 = set_Disks ds vm"
    using vm_operations.export_frame [OF assms(1) e] by blast
  then have "err = None"
    using assms(2-4) e unfolding exportDisks_def
    by (cases err) (auto elim!: put_condition_cases split: prod.splits)
  moreover from this have "disks_of v = disks_of vm1 \<and> log w' = log w1"
    using assms(2) e unfolding exportDisks_def by (auto elim!: put_condition_cases split: prod.splits)
  ultimately show ?thesis
    using vm_operations.export_stores [OF assms(1) e [simplified \<open>err = None\<close>] assms(6)] assms(5)
    by (auto simp: files_added_def list_all_iff) (metis stored_append append_Cons append_Nil)
qed

context import_handler
begin

lemma triggerExport_files:
  assumes "triggerExport h vm w = Some ((None, v), w')"
    and "\<not> has_cond VirtualMachineExported vm" "has_cond VirtualMachineExported v"
    and "disks_inv vm" "CHR ''/'' \<notin> set (imported_name vm)"
  shows "\<exists>es. log w' = log w @ es \<and> list_all (\<lambda>d. stored es d \<or> DiskName d = ''.img'') (disks_of v)"
proof -
  obtain vmo w1 where g: "generateVMO h vm w = Some (Inr vmo, w1)"
    using assms(1-3) by (auto simp: triggerExport_def split: Option.bind_splits sum.splits)
  have x: "exportDisks h vm vmo w1 = Some ((None, v), w')" and "disks_of vm = []"
    using assms(1-4) g
    by (auto simp: triggerExport_def Let_def disks_inv_def dest: exported_keeps split: if_splits)
  then obtain es where "log w' = log w1 @ es"
    "list_all (\<lambda>d. stored es d \<or> DiskName d = ''.img'') (disks_of v)"
    using exportDisks_files [OF generateVMO_ok [OF g] x assms(2,3) _ assms(5)] by blast
  then show ?thesis
    using quietD [OF generateVMO_quiet g] by (auto simp: list_all_iff)
qed

lemma export_write_files:
  assumes "OnVirtualMachineChange h (Some vm) w = Some (r, w')" "log w' = log w @ es"
    and "EvUpdateStatus v \<in> set es"
    and "\<not> has_cond VirtualMachineExported vm" "has_cond VirtualMachineExported v"
    and "disks_inv vm" "CHR ''/'' \<notin> set (imported_name vm)"
  shows "list_all (\<lambda>d. stored es d \<or> DiskName d = ''.img'') (disks_of v)"
proof -
  have "import_step vm v"
    using assms(1-3) writes_import_step [of vm v] unfolding writes_def by blast
  then have s: "status_of vm = SourceReady"
    using assms(4,5) by cases simp_all
  have "DeletionTimestamp (vm_Meta vm) = None"
    using assms(1-3) by (auto simp: OnVirtualMachineChange_def split: if_splits)
  then have run: "Option.bind (runVirtualMachineExport h vm w) (\<lambda>(r, w). abortMigrationIfNecessary h r w) = Some (r, w')"
    using assms(1) s by (simp add: OnVirtualMachineChange_def reconcile_status_def)
  then obtain err vm1 w1 where t: "triggerExport h vm w = Some ((err, vm1), w1)"
    by (auto simp: runVirtualMachineExport_def split: Option.bind_splits)
  obtain fs where fs: "log w1 = log w @ fs" "list_all writes_nothing fs"
    using emitsD [OF triggerExport_emits [OF permits_writes_nothing] t] by blast
  have no_write: "EvUpdateStatus v \<notin> set fs"
    using fs(2) by (auto simp: list_all_iff)
  show ?thesis
  proof (cases err)
    case (Some e)
    then have "vm1 = vm"
      using triggerExport_outcome [OF t] by simp
    then have "abortMigrationIfNecessary h (Some vm, Some e) w1 = Some (r, w')"
      using run t Some by (simp add: runVirtualMachineExport_def)
    then have "es = fs \<or> es = fs @ [EvUpdateStatus (set_Status VirtualMachineMigrationFailed vm)]"
      using fs(1) assms(2)
      by (cases "UpdateStatus h (set_Status VirtualMachineMigrationFailed vm) w1")
        (auto simp: abortMigrationIfNecessary_def dest!: UpdateStatus_log split: if_splits)
    then have "v = set_Status VirtualMachineMigrationFailed vm"
      using assms(3) no_write by auto
    then show ?thesis
      using assms(4,5) by simp
  next
    case None
    obtain r1 w2 where u: "UpdateStatus h (settle vm1) w1 = (r1, w2)"
      by fastforce
    then have "w2 = w'"
      using run t None abort_after_write [OF u] by (simp add: runVirtualMachineExport_def)
    then have es: "es = fs @ [EvUpdateStatus (settle vm1)]"
      using UpdateStatus_log [OF u] fs(1) assms(2) by simp
    then have v: "v = settle vm1"
      using assms(3) no_write by auto
    then have "has_cond VirtualMachineExported vm1"
      using assms(5) by simp
    then have "list_all (\<lambda>d. stored fs d \<or> DiskName d = ''.img'') (disks_of vm1)"
      using triggerExport_files [OF t [unfolded None] assms(4) _ assms(6,7)] fs(1) by auto
    then show ?thesis
      by (auto simp: es v list_all_iff)
  qed
qed

lemma served_later: "served h vm d \<Longrightarrow> DiskName d' = DiskName d \<Longrightarrow> writes h vm v \<Longrightarrow> served h v d'"
  using stored_path_cong [of d' d] by (auto simp: served_def intro: later_step)

lemma runs_served:
  assumes "runs h vm" "\<And>s. IsDNS1123Label h s = [] \<Longrightarrow> CHR ''/'' \<notin> set s"
  shows "has_cond VirtualMachineExported vm \<Longrightarrow> d \<in> set (disks_of vm) \<Longrightarrow> served h vm d"
  using assms(1)
proof (induction arbitrary: d rule: runs.induct)
  case (run_start vm)
  then show ?case by (simp add: fresh_def)
next
  case (run_step vm v)
  show ?case
  proof (cases "has_cond VirtualMachineExported vm")
    case True
    have "DiskName d \<in> DiskName ` set (disks_of vm)"
      using exported_names [OF writes_import_step [OF run_step(2)] True] run_step.prems(2)
      by (metis image_eqI image_set)
    then obtain d0 where "d0 \<in> set (disks_of vm)" "DiskName d = DiskName d0"
      by auto
    then show ?thesis
      using run_step.IH [OF True] run_step(2) served_later by blast
  next
    case False
    have "status_of vm = SourceReady"
      using writes_import_step [OF run_step(2)] False run_step.prems(1) by cases simp_all
    then have "CHR ''/'' \<notin> set (imported_name vm)"
      using runs_valid_name [OF run_step(1)] assms(2) by (auto simp: sanitized_def valid_name_def)
    then obtain es where es: "\<forall>ev \<in> set es. calls h vm ev"
      and "list_all (\<lambda>d. stored es d \<or> DiskName d = ''.img'') (disks_of v)"
      using run_step(2) export_write_files [OF _ _ _ False run_step.prems(1)
          reachable_disks [OF runs_reachable [OF run_step(1)]]]
      unfolding writes_def calls_def by meson
    then have "stored es d \<or> DiskName d = ''.img''"
      using run_step.prems(2) by (simp add: list_all_iff)
    moreover have "later h vm v"
      using run_step(2) by (blast intro: later_refl later_step)
    ultimately show ?thesis
      using es run_step(1) stored_Ex [of es d] unfolding served_def by blast
  qed
next
  case (run_edit vm spec meta)
  then have "served h vm d" by simp
  then show ?case
    by (auto simp: served_def intro: later_edit)
qed

text \<open>The image requested for a disk is downloaded from the file server under the name of its file.\<close>

lemma image_request_URL:
  "image_request h vm d img \<Longrightarrow>
   URL img = ''http://'' @ server_Address (svcAddress h) @ '':'' @ show_int DefaultPort @ ''/'' @ DiskName d"
  by (auto simp: image_request_def submitted_image_def new_image_def Let_def split: if_splits)

end

section \<open>From the cleanup to the file\<close>

lemma tidy_loop_updates:
  "tidy_loop h vm ds w = (x, w') \<Longrightarrow> \<exists>fs. log w' = log w @ fs \<and> (\<forall>u. EvCleanup u \<notin> set fs)"
  by (induction ds arbitrary: w)
    (fastforce simp: Let_def dest!: query_log effect_log split: prod.splits sum.splits option.splits)+

lemma tidyUpObjects_updates:
  "tidyUpObjects h vm w = (x, w') \<Longrightarrow> \<exists>fs. log w' = log w @ fs \<and> (\<forall>u. EvCleanup u \<notin> set fs)"
  unfolding tidyUpObjects_def by (rule tidy_loop_updates)

text \<open>A call of the cleanup is followed by the removal of the files.\<close>

definition cleans_files :: "VirtualMachineImport \<Rightarrow> event list \<Rightarrow> bool" where
  "cleans_files vm es \<longleftrightarrow>
     (\<forall>u. EvCleanup u \<in> set es \<longrightarrow> EvFileRemove ` set (image_paths (disks_of vm)) \<subseteq> set es)"

lemma cleans_files_append: "cleans_files vm fs \<Longrightarrow> (\<And>u. EvCleanup u \<notin> set es) \<Longrightarrow> cleans_files vm (es @ fs)"
  by (auto simp: cleans_files_def)

context import_handler
begin

lemma finalCleanup_files:
  assumes "finalCleanup h vm w = Some (r, w')"
  shows "\<exists>es. log w' = log w @ es \<and>
    (\<forall>u. EvCleanup u \<in> set es \<longrightarrow> EvFileRemove ` set (image_paths (disks_of vm)) \<subseteq> set es)"
proof -
  obtain e where t: "triggerCleanup h vm w = Some (e, w')"
    using assms by (auto simp: finalCleanup_def split: Option.bind_splits)
  obtain g w1 where g: "generateVMO h vm w = Some (g, w1)"
    using t by (auto simp: triggerCleanup_def split: Option.bind_splits)
  obtain es where es: "log w1 = log w @ es" "list_all (\<lambda>e. \<not> controller_event e) es"
    using quietD [OF generateVMO_quiet g] by blast
  have none: "EvCleanup u \<notin> set es" for u
    using es(2) by (auto simp: list_all_iff)
  show ?thesis
  proof (cases g)
    case (Inl x)
    then show ?thesis
      using t g es(1) none by (auto simp: triggerCleanup_def)
  next
    case (Inr vmo)
    then have c: "Cleanup vmo vm (mark (EvCleanup vm) w1) = Some (e, w')"
      using t g by (auto simp: triggerCleanup_def split: Option.bind_splits)
    then have "files_removed (mark (EvCleanup vm) w1) vm w'"
      using vm_operations.cleanup_removes generateVMO_ok g Inr by blast
    then obtain fs where "log w' = log w @ es @ EvCleanup vm # fs"
      "EvFileRemove ` set (image_paths (disks_of vm)) \<subseteq> set fs"
      using es(1) by (auto simp: files_removed_def)
    then show ?thesis
      by (intro exI [of _ "es @ EvCleanup vm # fs"]) auto
  qed
qed

text \<open>The two callers of the final cleanup: a reconciliation, and the removal of the import.\<close>

lemma OnVirtualMachineRemove_files:
  assumes "OnVirtualMachineRemove h (Some vm) w = Some (r, w')" "log w' = log w @ es"
  shows "cleans_files vm es"
  using assms finalCleanup_files [of vm w r w'] by (auto simp: OnVirtualMachineRemove_def cleans_files_def)

lemma OnVirtualMachineChange_files:
  assumes "OnVirtualMachineChange h (Some vm) w = Some (r, w')" "log w' = log w @ es"
  shows "cleans_files vm es"
proof (cases "\<exists>u. EvCleanup u \<in> set es")
  case False
  then show ?thesis by (simp add: cleans_files_def)
next
  case True
  then have s: "status_of vm = VirtualMachineRunning \<or> status_of vm = VirtualMachineMigrationFailed"
    using assms OnVirtualMachineChange_licensed [of vm w] by (fastforce simp: emits_def list_all_iff)
  have "DeletionTimestamp (vm_Meta vm) = None"
    using True assms by (auto simp: OnVirtualMachineChange_def split: if_splits)
  then have step: "reconcile_status h vm w = Some (r, w')"
    using assms(1) by (simp add: OnVirtualMachineChange_def)
  show ?thesis
  proof (cases "status_of vm = VirtualMachineRunning")
    case False
    then show ?thesis
      using s step assms(2) finalCleanup_files [of vm w r w'] by (auto simp: reconcile_status_def cleans_files_def)
  next
    case running: True
    obtain x w1 where t: "tidyUpObjects h vm w = (x, w1)"
      by fastforce
    obtain fs where fs: "log w1 = log w @ fs" "\<And>u. EvCleanup u \<notin> set fs"
      using tidyUpObjects_updates [OF t] by blast
    show ?thesis
    proof (cases x)
      case None
      then have "finalCleanup h vm w1 = Some (r, w')"
        using step running t by (simp add: reconcile_status_def finishImport_def)
      then obtain gs where "log w' = log w1 @ gs" "cleans_files vm gs"
        using finalCleanup_files unfolding cleans_files_def by blast
      then show ?thesis
        using fs assms(2) cleans_files_append by auto
    next
      case (Some e)
      then show ?thesis
        using step running t fs assms(2) by (auto simp: reconcile_status_def finishImport_def cleans_files_def)
    qed
  qed
qed

end

end
