(* ===== verification/ImportCompletion.thy ===== *)
theory ImportCompletion
  imports ImportProgress
begin

text \<open>
  An import that meets no obstacle is completed: when the source client does what it is asked and
  the target cluster accepts every object and imports the images, eight reconciliations take a
  fresh import to the created machine, whatever its specification, its source and its disks are.
\<close>

section \<open>A cooperative world\<close>

definition same_import :: "VirtualMachineImport \<Rightarrow> VirtualMachineImport \<Rightarrow> bool" where
  "same_import vm0 vm \<longleftrightarrow> vm_Spec vm = vm_Spec vm0 \<and> vm_Meta vm = vm_Meta vm0"

text \<open>
  A client whose operations succeed on the import, which it names \<open>n\<close>: the machine is off when asked,
  and it has at least one disk.
\<close>

definition willing ::
  "VirtualMachineImport \<Rightarrow> string \<Rightarrow> bool \<Rightarrow> 'x VirtualMachineOperations \<Rightarrow> bool" where
  "willing vm0 n supported vmo \<longleftrightarrow>
     IsPowerOffSupported vmo = supported \<and>
     (\<forall>vm w. same_import vm0 vm \<longrightarrow>
        (\<exists>w'. PreFlightChecks vmo vm w = Some (None, w')) \<and>
        (\<exists>w'. SanitizeVirtualMachineImport vmo vm w = Some ((None, set_ImportedName n vm), w')) \<and>
        (imported_name vm = n \<longrightarrow>
           (\<exists>w'. ShutdownGuest vmo vm w = Some (None, w')) \<and> (\<exists>w'. PowerOff vmo vm w = Some (None, w')) \<and>
           (\<exists>w'. IsPoweredOff vmo vm w = Some (Inr True, w')) \<and>
           (\<exists>vm' w'. ExportVirtualMachine vmo vm w = Some ((None, vm'), w') \<and> disks_of vm' \<noteq> []) \<and>
           (\<exists>v w'. GenerateVirtualMachine vmo vm w = Some (Inr v, w'))))"

text \<open>An image the target cluster has imported.\<close>

definition imported_image :: "VirtualMachineImage \<Rightarrow> bool" where
  "imported_image img \<longleftrightarrow>
     (\<exists>c \<in> set (img_Conditions img). imgcond_Type c = ImageImported \<and> imgcond_Status c = ConditionTrue) \<and>
     (\<forall>c \<in> set (img_Conditions img). imgcond_Type c = ImageImported \<longrightarrow> imgcond_Status c \<noteq> ConditionFalse)"

text \<open>A source that is found and ready, a specification that passes the checks, willing clients.\<close>

definition source_cooperates ::
  "'x virtualMachineHandler \<Rightarrow> VirtualMachineImport \<Rightarrow> string \<Rightarrow> bool \<Rightarrow> bool" where
  "source_cooperates h vm0 n supported \<longleftrightarrow>
     ref_APIVersion (SourceCluster (vm_Spec vm0)) = expectedAPIVersion \<and>
     IsDNS1123Label h n = [] \<and>
     (\<forall>w. \<exists>ss w'. generateSource h vm0 w = (Inr ss, w') \<and> ClusterStatus ss = ClusterReady) \<and>
     (\<forall>w. \<exists>w'. check_spec h vm0 w = (None, w')) \<and>
     (\<forall>vm w. same_import vm0 vm \<longrightarrow>
        (\<exists>vmo w'. generateVMO h vm w = Some (Inr vmo, w') \<and> willing vm0 n supported vmo))"

text \<open>A cluster that stores what it is given, holds no image twice, and imports the images.\<close>

definition cluster_cooperates :: "'x virtualMachineHandler \<Rightarrow> VirtualMachineImport \<Rightarrow> bool" where
  "cluster_cooperates h vm0 \<longleftrightarrow>
     (\<forall>vm x. \<exists>x'. importVM_UpdateStatus h vm x = ((Some vm, None), x')) \<and>
     (\<forall>ns k v x. \<exists>imgs x'. vmi_List h ns k v x = (Inr imgs, x') \<and> length imgs \<le> 1) \<and>
     (\<forall>img x. \<exists>img' x'. vmi_Create h img x = (Inr img', x')) \<and>
     (\<forall>ns n x. \<exists>img x'. vmi_Get h ns n x = (Inr img, x') \<and> imported_image img) \<and>
     (StorageClassName (vm_Spec vm0) \<noteq> [] \<longrightarrow>
        (\<forall>x. \<exists>c x'. sc_Get h (StorageClassName (vm_Spec vm0)) x = (Inr c, x'))) \<and>
     (\<forall>ns n x. \<exists>r x'. pvc_Get h ns n x = (r, x') \<and> (\<forall>e. r = Inl e \<longrightarrow> apierrors_IsNotFound e)) \<and>
     (\<forall>p x. \<exists>x'. pvc_Create h p x = (None, x')) \<and>
     (\<forall>v x. \<exists>x'. kubevirt_Create h v x = (None, x'))"

section \<open>Calls that succeed\<close>

lemma vmi_List_ok:
  assumes "cluster_cooperates h vm0"
  shows "\<exists>imgs w'. query (vmi_List h ns k v) w = (Inr imgs, w') \<and> length imgs \<le> 1"
proof -
  obtain imgs x' where "vmi_List h ns k v (ext w) = (Inr imgs, x')" "length imgs \<le> 1"
    using assms unfolding cluster_cooperates_def by meson
  then show ?thesis by (simp add: query_def)
qed

lemma vmi_Create_ok:
  assumes "cluster_cooperates h vm0"
  shows "\<exists>img' w'. effect ev (vmi_Create h img) w = (Inr img', w')"
proof -
  obtain img' x' where "vmi_Create h img (ext w) = (Inr img', x')"
    using assms unfolding cluster_cooperates_def by meson
  then show ?thesis by (simp add: effect_def)
qed

lemma vmi_Get_ok:
  assumes "cluster_cooperates h vm0"
  shows "\<exists>img w'. query (vmi_Get h ns n) w = (Inr img, w') \<and> imported_image img"
proof -
  obtain img x' where "vmi_Get h ns n (ext w) = (Inr img, x')" "imported_image img"
    using assms unfolding cluster_cooperates_def by meson
  then show ?thesis by (simp add: query_def)
qed

lemma sc_Get_ok:
  assumes "cluster_cooperates h vm0" "StorageClassName (vm_Spec vm0) \<noteq> []"
  shows "\<exists>c w'. query (sc_Get h (StorageClassName (vm_Spec vm0))) w = (Inr c, w')"
proof -
  obtain c x' where "sc_Get h (StorageClassName (vm_Spec vm0)) (ext w) = (Inr c, x')"
    using assms unfolding cluster_cooperates_def by meson
  then show ?thesis by (simp add: query_def)
qed

lemma pvc_Get_ok:
  assumes "cluster_cooperates h vm0"
  shows "\<exists>r w'. query (pvc_Get h ns n) w = (r, w') \<and> (\<forall>e. r = Inl e \<longrightarrow> apierrors_IsNotFound e)"
proof -
  obtain r x' where "pvc_Get h ns n (ext w) = (r, x')" "\<forall>e. r = Inl e \<longrightarrow> apierrors_IsNotFound e"
    using assms unfolding cluster_cooperates_def by meson
  then show ?thesis by (simp add: query_def)
qed

lemma pvc_Create_ok:
  assumes "cluster_cooperates h vm0"
  shows "\<exists>w'. effect ev (pvc_Create h p) w = (None, w')"
proof -
  obtain x' where "pvc_Create h p (ext w) = (None, x')"
    using assms unfolding cluster_cooperates_def by meson
  then show ?thesis by (simp add: effect_def)
qed

lemma kubevirt_Create_ok:
  assumes "cluster_cooperates h vm0"
  shows "\<exists>w'. effect ev (kubevirt_Create h v) w = (None, w')"
proof -
  obtain x' where "kubevirt_Create h v (ext w) = (None, x')"
    using assms unfolding cluster_cooperates_def by meson
  then show ?thesis by (simp add: effect_def)
qed

lemma UpdateStatus_ok:
  assumes "cluster_cooperates h vm0"
  shows "\<exists>w'. UpdateStatus h vm w = ((Some vm, None), w')"
proof -
  obtain x' where "importVM_UpdateStatus h vm (ext w) = ((Some vm, None), x')"
    using assms unfolding cluster_cooperates_def by meson
  then show ?thesis by (simp add: UpdateStatus_def effect_def)
qed

lemma put_condition_ok:
  "\<exists>cnd w'. put_condition h c msg vm w = (add_cond cnd vm, w') \<and> true_condition c cnd"
  by (cases "put_condition h c msg vm w") (blast elim: put_condition_cases)

lemma same_import_sel [simp]:
  "same_import vm0 (set_Status s vm) = same_import vm0 vm"
  "same_import vm0 (set_Disks ds vm) = same_import vm0 vm"
  "same_import vm0 (set_Conds cs vm) = same_import vm0 vm"
  "same_import vm0 (set_ImportedName k vm) = same_import vm0 vm"
  "same_import vm0 (add_cond cnd vm) = same_import vm0 vm"
  by (simp_all add: same_import_def)

lemma same_source: "same_import vm0 vm \<Longrightarrow> generateSource h vm = generateSource h vm0"
  by (simp add: generateSource_def same_import_def fun_eq_iff)

lemma same_destinations:
  "same_import vm0 vm \<Longrightarrow> check_destinations h vm nms w = check_destinations h vm0 nms w"
  by (induction nms arbitrary: w) (auto simp: same_import_def destination_parts_def
      split: option.splits prod.splits list.splits)

lemma same_check:
  assumes "same_import vm0 vm"
  shows "check_spec h vm w = check_spec h vm0 w"
proof -
  have "check_destinations h vm = check_destinations h vm0"
    using same_destinations [OF assms] by (intro ext)
  then show ?thesis
    using assms by (simp only: check_spec_def same_import_def)
qed

section \<open>The loops succeed\<close>

definition submitted_only :: "DiskInfo \<Rightarrow> bool" where
  "submitted_only d \<longleftrightarrow> disk_has VirtualMachineImageSubmitted d \<and>
     \<not> disk_has VirtualMachineImageReady d \<and> \<not> disk_has VirtualMachineImageFailed d"

lemma checkAndCreate_ok:
  assumes "cluster_cooperates h vm0" "same_import vm0 vm"
  shows "\<exists>img w'. checkAndCreateVirtualMachineImage h vm d w = (Inr img, w')"
proof -
  let ?name = "MustFormatValue h (image_display_name vm d)"
  obtain imgs w1 where l: "query (vmi_List h (vm_Namespace vm) labelImageDisplayName ?name) w = (Inr imgs, w1)"
      "length imgs \<le> 1"
    using vmi_List_ok [OF assms(1)] by blast
  have create: "\<exists>img' w'. effect (\<lambda>_. EvImageCreate img) (vmi_Create h img) u = (Inr img', w')" for img u
    by (rule vmi_Create_ok [OF assms(1)])
  have created: "effect (\<lambda>_. EvImageCreate img) (vmi_Create h img) u \<noteq> (Inl e, v)" for img u e v
    using create [of img u] by auto
  have backend: "\<exists>b w2. GetBackendFromStorageClassName (harvester h) (StorageClassName (vm_Spec vm)) (sc_Get h) w1 = (Inr b, w2)"
    if "StorageClassName (vm_Spec vm) \<noteq> []"
    using sc_Get_ok [OF assms(1), of w1] assms(2) that
    by (auto simp: same_import_def GetBackendFromStorageClassName_def GetStorageClassByName_def)
  consider "length imgs = 1" | "imgs = []" "StorageClassName (vm_Spec vm) = []"
    | "imgs = []" "StorageClassName (vm_Spec vm) \<noteq> []"
    using l(2) by (cases imgs) auto
  then show ?thesis
  proof cases
    case 1
    then show ?thesis
      using l by (simp add: checkAndCreateVirtualMachineImage_def)
  next
    case 2
    then show ?thesis
      using l create [of "new_image h vm d" w1] by (auto simp: checkAndCreateVirtualMachineImage_def Let_def)
  next
    case 3
    obtain b w2 where "GetBackendFromStorageClassName (harvester h) (StorageClassName (vm_Spec vm)) (sc_Get h) w1 = (Inr b, w2)"
      using backend [OF 3(2)] by blast
    then show ?thesis
      using 3 l by (auto simp: checkAndCreateVirtualMachineImage_def Let_def created split: sum.splits prod.splits)
  qed
qed

lemma create_images_ok:
  assumes "cluster_cooperates h vm0"
  shows "same_import vm0 vm \<Longrightarrow> drop i (disks_of vm) = ds \<Longrightarrow> \<forall>d \<in> set ds. DiskConditions d = [] \<Longrightarrow>
    \<exists>ds' w'. create_images_loop h i ds vm w = ((None, set_Disks (take i (disks_of vm) @ ds') vm), w') \<and>
      length ds' = length ds \<and> list_all submitted_only ds'"
proof (induction ds arbitrary: i vm w)
  case Nil
  then show ?case by (intro exI [of _ "[]"]) simp
next
  case (Cons d ds)
  note wb = write_back [OF Cons.prems(2)]
  obtain img w1 where c: "checkAndCreateVirtualMachineImage h vm d w = (Inr img, w1)"
    using checkAndCreate_ok [OF assms Cons.prems(1)] by blast
  obtain cnd w2 where n: "new_condition h VirtualMachineImageSubmitted [] w1 = (cnd, w2)"
    by fastforce
  let ?d = "d\<lparr>DiskImage := Name (img_Meta img), DiskConditions := MergeConditions [] [cnd]\<rparr>"
  let ?vm = "set_Disks ((disks_of vm)[i := ?d]) vm"
  have d: "submitted_only ?d"
    using new_condition_fields [OF n] by (simp add: submitted_only_def)
  obtain ds' w' where rest: "create_images_loop h (Suc i) ds ?vm w2 =
      ((None, set_Disks (take (Suc i) (disks_of ?vm) @ ds') ?vm), w')"
    "length ds' = length ds" "list_all submitted_only ds'"
    using Cons.IH [of ?vm "Suc i" w2] Cons.prems wb(4) [of ?d] by auto
  show ?case
    using c n rest d Cons.prems(3) wb(5) [of ?d]
    by (intro exI [of _ "?d # ds'"] exI [of _ w']) (simp add: Let_def)
qed

lemma image_conditions_ok:
  assumes "\<forall>c \<in> set cs. imgcond_Type c = ImageImported \<longrightarrow> imgcond_Status c \<noteq> ConditionFalse"
    and "image_conditions_loop h cs d w = (d', w')"
    and "\<not> disk_has VirtualMachineImageFailed d"
    and "disk_has VirtualMachineImageReady d \<or>
      (\<exists>c \<in> set cs. imgcond_Type c = ImageImported \<and> imgcond_Status c = ConditionTrue)"
  shows "disk_clean d'"
  using assms
proof (induction cs arbitrary: d w)
  case Nil
  then show ?case by (simp add: disk_clean_def)
next
  case (Cons c cs)
  obtain d1 w1 where a: "apply_image_condition h c d w = (d1, w1)"
    by fastforce
  have "\<not> disk_has VirtualMachineImageFailed d1 \<and>
      disk_has VirtualMachineImageReady d1 = (disk_has VirtualMachineImageReady d \<or>
        imgcond_Type c = ImageImported \<and> imgcond_Status c = ConditionTrue)"
    using a Cons.prems(1,3)
    by (auto simp: apply_image_condition_def Let_def dest: new_condition_fields split: prod.splits if_splits)
  then show ?case
    using Cons.IH [of d1 w1] Cons.prems a by auto
qed

lemma vmi_status_ok:
  assumes "cluster_cooperates h vm0"
  shows "drop i (disks_of vm) = ds \<Longrightarrow> list_all submitted_only ds \<Longrightarrow>
    \<exists>ds' w'. vmi_status_loop h i ds vm w = ((None, set_Disks (take i (disks_of vm) @ ds') vm), w') \<and>
      length ds' = length ds \<and> list_all disk_clean ds'"
proof (induction ds arbitrary: i vm w)
  case Nil
  then show ?case by (intro exI [of _ "[]"]) simp
next
  case (Cons d ds)
  note wb = write_back [OF Cons.prems(1)]
  obtain img w1 where g: "query (vmi_Get h (vm_Namespace vm) (DiskImage d)) w = (Inr img, w1)"
      "imported_image img"
    using vmi_Get_ok [OF assms] by blast
  obtain d' w2 where l: "image_conditions_loop h (img_Conditions img) d w1 = (d', w2)"
    by fastforce
  have "disk_clean d'"
    using image_conditions_ok [OF _ l] g(2) Cons.prems(2) by (auto simp: imported_image_def submitted_only_def)
  moreover obtain ds' w' where "vmi_status_loop h (Suc i) ds (set_Disks ((disks_of vm)[i := d']) vm) w2 =
      ((None, set_Disks (take (Suc i) ((disks_of vm)[i := d']) @ ds') (set_Disks ((disks_of vm)[i := d']) vm)), w')"
    "length ds' = length ds" "list_all disk_clean ds'"
    using Cons.IH [of "Suc i" "set_Disks ((disks_of vm)[i := d']) vm" w2] Cons.prems(2) wb(4) [of d'] by auto
  ultimately show ?case
    using g(1) l wb(5) [of d'] Cons.prems(2)
    by (intro exI [of _ "d' # ds'"] exI [of _ w']) (simp add: submitted_only_def)
qed

lemma pvc_loop_ok:
  assumes "cluster_cooperates h vm0"
  shows "\<exists>w'. pvc_loop h vm ds w = (None, w')"
proof (induction ds arbitrary: w)
  case Nil
  then show ?case by simp
next
  case (Cons d ds)
  obtain img w1 where g: "query (vmi_Get h (vm_Namespace vm) (DiskImage d)) w = (Inr img, w1)"
    using vmi_Get_ok [OF assms] by blast
  obtain r w2 where p: "query (pvc_Get h (vm_Namespace vm) (DiskImage d)) w1 = (r, w2)"
      "\<forall>e. r = Inl e \<longrightarrow> apierrors_IsNotFound e"
    using pvc_Get_ok [OF assms] by blast
  obtain w3 where c: "effect (\<lambda>_. EvPVCCreate (new_pvc h vm d img)) (pvc_Create h (new_pvc h vm d img)) w2 = (None, w3)"
    using pvc_Create_ok [OF assms] by blast
  show ?case
    using g p c Cons.IH by (cases r) (auto simp: Let_def)
qed

lemma createIfMissing_ok:
  assumes "cluster_cooperates h vm0"
  shows "\<exists>w'. createIfMissing h v w = (None, w')"
proof -
  obtain r w1 where q: "query (kubevirt_Get h (Namespace (kv_Meta v)) (Name (kv_Meta v))) w = (r, w1)"
    by fastforce
  obtain w2 where "effect (\<lambda>_. EvVMCreate v) (kubevirt_Create h v) w1 = (None, w2)"
    using kubevirt_Create_ok [OF assms] by blast
  then show ?thesis
    using q by (simp add: createIfMissing_def Let_def)
qed

section \<open>Round by round\<close>

text \<open>One reconciliation that returns the object it has written.\<close>

definition advances ::
  "'x virtualMachineHandler \<Rightarrow> VirtualMachineImport \<Rightarrow> 'x go_world \<Rightarrow> VirtualMachineImport \<Rightarrow>
   'x go_world \<Rightarrow> bool" where
  "advances h vm w vm' w' \<longleftrightarrow> OnVirtualMachineChange h (Some vm) w = Some ((Some vm', None), w')"

text \<open>How the import looks between two rounds of a cooperative world.\<close>

definition requested_off :: "bool \<Rightarrow> VirtualMachineImport \<Rightarrow> Cond" where
  "requested_off supported vm =
     (if supported \<and> GetForcePowerOff vm then VirtualMachinePoweringOff else VirtualMachineShutdownGuest)"

definition to_export ::
  "VirtualMachineImport \<Rightarrow> string \<Rightarrow> Cond set \<Rightarrow> VirtualMachineImport \<Rightarrow> bool" where
  "to_export vm0 n cs vm \<longleftrightarrow>
     same_import vm0 vm \<and> imported_name vm = n \<and> status_of vm = SourceReady \<and> disks_of vm = [] \<and>
     {c. has_cond c vm} = cs"

definition at_status ::
  "VirtualMachineImport \<Rightarrow> string \<Rightarrow> ImportStatus \<Rightarrow> (DiskInfo \<Rightarrow> bool) \<Rightarrow> VirtualMachineImport \<Rightarrow> bool"
  where
  "at_status vm0 n s P vm \<longleftrightarrow>
     same_import vm0 vm \<and> imported_name vm = n \<and> status_of vm = s \<and> disks_of vm \<noteq> [] \<and>
     list_all P (disks_of vm)"

lemma advances_reconcile:
  assumes "same_import vm0 vm" "DeletionTimestamp (vm_Meta vm0) = None"
  shows "advances h vm w vm' w' \<longleftrightarrow> reconcile_status h vm w = Some ((Some vm', None), w')"
  using assms by (simp add: advances_def OnVirtualMachineChange_def same_import_def)

lemma same_force: "same_import vm0 vm \<Longrightarrow> GetForcePowerOff vm = GetForcePowerOff vm0"
  by (simp add: GetForcePowerOff_def same_import_def)

context import_handler
begin

lemma willing_client:
  assumes "source_cooperates h vm0 n supported" "same_import vm0 vm"
  obtains vmo w' where "generateVMO h vm w = Some (Inr vmo, w')" "willing vm0 n supported vmo"
    "vm_operations vmo"
  using assms generateVMO_ok unfolding source_cooperates_def by meson

lemma preflight_round:
  assumes "cluster_cooperates h vm0" "source_cooperates h vm0 n supported"
    and "DeletionTimestamp (vm_Meta vm0) = None" "same_import vm0 vm" "status_of vm = StatusUnset"
  shows "\<exists>w'. advances h vm w (set_Status VirtualMachineImportValid vm) w'"
proof -
  have spec: "vm_Spec vm = vm_Spec vm0"
    using assms(4) by (simp add: same_import_def)
  obtain ss w1 where s: "generateSource h vm w = (Inr ss, w1)" "ClusterStatus ss = ClusterReady"
    using assms(2) same_source [OF assms(4)] unfolding source_cooperates_def by metis
  obtain w2 where c: "check_spec h vm w1 = (None, w2)"
    using assms(2) same_check [OF assms(4)] unfolding source_cooperates_def by metis
  obtain vmo w3 where g: "generateVMO h vm w2 = Some (Inr vmo, w3)" "willing vm0 n supported vmo"
    using willing_client [OF assms(2,4)] by metis
  obtain w4 where p: "PreFlightChecks vmo vm w3 = Some (None, w4)"
    using g(2) assms(4) unfolding willing_def by metis
  have api: "ref_APIVersion (SourceCluster (vm_Spec vm)) = expectedAPIVersion"
    using assms(2) spec unfolding source_cooperates_def by simp
  have kind: "strings_ToLower (ref_Kind (SourceCluster (vm_Spec vm))) \<in> {KindVmwareSource, KindOvaSource, KindOpenstackSource}"
    using s(1) by (auto simp: generateSource_def Let_def split: if_splits)
  have "\<exists>w5. preFlightChecks h vm w = Some (None, w5)"
    using api kind s c g p by (auto simp: preFlightChecks_def Let_def)
  then obtain w5 where "preFlightChecks h vm w = Some (None, w5)"
    by blast
  moreover obtain w6 where "UpdateStatus h (set_Status VirtualMachineImportValid vm) w5 =
      ((Some (set_Status VirtualMachineImportValid vm), None), w6)"
    using UpdateStatus_ok [OF assms(1)] by blast
  ultimately show ?thesis
    using assms(5) by (simp add: advances_reconcile [OF assms(4,3)] reconcile_status_def reconcilePreFlightChecks_def)
qed

lemma sanitize_round:
  assumes "cluster_cooperates h vm0" "source_cooperates h vm0 n supported"
    and "DeletionTimestamp (vm_Meta vm0) = None" "same_import vm0 vm" "status_of vm = VirtualMachineImportValid"
  shows "\<exists>w'. advances h vm w (set_Status SourceReady (set_ImportedName n vm)) w'"
proof -
  obtain vmo w1 where g: "generateVMO h vm w = Some (Inr vmo, w1)" "willing vm0 n supported vmo"
    using willing_client [OF assms(2,4)] by metis
  obtain w2 where "SanitizeVirtualMachineImport vmo vm w1 = Some ((None, set_ImportedName n vm), w2)"
    using g(2) assms(4) unfolding willing_def by metis
  moreover obtain w3 where "UpdateStatus h (set_Status SourceReady (set_ImportedName n vm)) w2 =
      ((Some (set_Status SourceReady (set_ImportedName n vm)), None), w3)"
    using UpdateStatus_ok [OF assms(1)] by blast
  moreover have "IsDNS1123Label h n = []"
    using assms(2) by (simp add: source_cooperates_def)
  ultimately show ?thesis
    using g(1) assms(5)
    by (simp add: advances_reconcile [OF assms(4,3)] reconcile_status_def sanitizeVirtualMachineImport_def
        abortMigrationIfNecessary_def)
qed

text \<open>A round of the export, from what \<open>triggerExport\<close> returns.\<close>

lemma export_round:
  assumes "cluster_cooperates h vm0" "DeletionTimestamp (vm_Meta vm0) = None"
    and "same_import vm0 vm" "status_of vm = SourceReady" "triggerExport h vm w = Some ((None, v), w1)"
  shows "\<exists>w'. advances h vm w (settle v) w'"
proof -
  obtain w2 where u: "UpdateStatus h (settle v) w1 = ((Some (settle v), None), w2)"
    using UpdateStatus_ok [OF assms(1)] by blast
  then show ?thesis
    using assms(4,5) abort_after_write [OF u]
    by (simp add: advances_reconcile [OF assms(3,2)] reconcile_status_def runVirtualMachineExport_def)
qed

lemma settle_unexported:
  "\<not> has_cond VirtualMachineExported v \<Longrightarrow> \<not> has_cond VirtualMachineExportFailed v \<Longrightarrow> settle v = v"
  by (simp add: settle_def)

lemma to_export_conds:
  "to_export vm0 n cs vm \<Longrightarrow> has_cond c vm \<longleftrightarrow> c \<in> cs"
  by (auto simp: to_export_def)

lemma to_export_add:
  "to_export vm0 n cs vm \<Longrightarrow> true_condition c cnd \<Longrightarrow> to_export vm0 n (insert c cs) (add_cond cnd vm)"
  by (auto simp: to_export_def)

lemma off_round:
  assumes "cluster_cooperates h vm0" "source_cooperates h vm0 n supported"
    and "DeletionTimestamp (vm_Meta vm0) = None" "to_export vm0 n {} vm"
  shows "\<exists>v w'. advances h vm w v w' \<and> to_export vm0 n {requested_off supported vm0} v"
proof -
  have vm: "same_import vm0 vm" "status_of vm = SourceReady" "imported_name vm = n"
    using assms(4) by (simp_all add: to_export_def)
  note none = to_export_conds [OF assms(4)]
  obtain vmo w1 where g: "generateVMO h vm w = Some (Inr vmo, w1)" "willing vm0 n supported vmo"
    using willing_client [OF assms(2) vm(1)] by metis
  obtain w2 w3 where off: "PowerOff vmo vm (mark (EvPowerOff vm) w1) = Some (None, w2)"
      "ShutdownGuest vmo vm (mark (EvShutdownGuest vm) w1) = Some (None, w3)"
      "IsPowerOffSupported vmo = supported"
    using g(2) vm unfolding willing_def by metis
  let ?c = "requested_off supported vm0"
  let ?w = "if ?c = VirtualMachinePoweringOff then w2 else w3"
  obtain cnd w4 where p: "put_condition h ?c [] vm ?w = (add_cond cnd vm, w4)" "true_condition ?c cnd"
    using put_condition_ok by blast
  have "triggerExport h vm w = Some ((None, add_cond cnd vm), w4)"
    using g(1) off p none same_force [OF vm(1)]
    by (auto simp: triggerExport_def triggerPowerOff_def triggerShutdownGuest_def requested_off_def Let_def
        split: if_splits)
  then obtain w5 where "advances h vm w (settle (add_cond cnd vm)) w5"
    using export_round [OF assms(1,3) vm(1,2)] by blast
  moreover have "settle (add_cond cnd vm) = add_cond cnd vm"
    using p(2) none by (intro settle_unexported) (auto simp: requested_off_def)
  ultimately show ?thesis
    using to_export_add [OF assms(4) p(2)] by auto
qed

lemma powered_off_round:
  assumes "cluster_cooperates h vm0" "source_cooperates h vm0 n supported"
    and "DeletionTimestamp (vm_Meta vm0) = None" "to_export vm0 n {requested_off supported vm0} vm"
  shows "\<exists>v w'. advances h vm w v w' \<and>
    to_export vm0 n {VirtualMachinePoweredOff, requested_off supported vm0} v"
proof -
  have vm: "same_import vm0 vm" "status_of vm = SourceReady" "imported_name vm = n"
    using assms(4) by (simp_all add: to_export_def)
  note conds = to_export_conds [OF assms(4)]
  obtain vmo w1 where g: "generateVMO h vm w = Some (Inr vmo, w1)" "willing vm0 n supported vmo"
    using willing_client [OF assms(2) vm(1)] by metis
  obtain w2 where off: "IsPoweredOff vmo vm w1 = Some (Inr True, w2)" "IsPowerOffSupported vmo = supported"
    using g(2) vm unfolding willing_def by metis
  obtain cnd w3 where p: "put_condition h VirtualMachinePoweredOff [] vm w2 = (add_cond cnd vm, w3)"
      "true_condition VirtualMachinePoweredOff cnd"
    using put_condition_ok by blast
  have "triggerExport h vm w = Some ((None, add_cond cnd vm), w3)"
    using g(1) off p conds same_force [OF vm(1)]
    by (auto simp: triggerExport_def awaitPoweredOff_def requested_off_def Let_def split: if_splits)
  then obtain w4 where "advances h vm w (settle (add_cond cnd vm)) w4"
    using export_round [OF assms(1,3) vm(1,2)] by blast
  moreover have "settle (add_cond cnd vm) = add_cond cnd vm"
    using p(2) conds by (intro settle_unexported) (auto simp: requested_off_def)
  ultimately show ?thesis
    using to_export_add [OF assms(4) p(2)] by auto
qed

lemma exported_round:
  assumes "cluster_cooperates h vm0" "source_cooperates h vm0 n supported"
    and "DeletionTimestamp (vm_Meta vm0) = None"
    and "to_export vm0 n {VirtualMachinePoweredOff, requested_off supported vm0} vm"
  shows "\<exists>v w'. advances h vm w v w' \<and> at_status vm0 n DisksExported (\<lambda>d. DiskConditions d = []) v"
proof -
  have vm: "same_import vm0 vm" "status_of vm = SourceReady" "imported_name vm = n" "disks_of vm = []"
    using assms(4) by (simp_all add: to_export_def)
  note conds = to_export_conds [OF assms(4)]
  obtain vmo w1 where g: "generateVMO h vm w = Some (Inr vmo, w1)" "willing vm0 n supported vmo"
      "vm_operations vmo"
    using willing_client [OF assms(2) vm(1)] by metis
  obtain v w2 where x: "ExportVirtualMachine vmo vm (mark (EvExport vm) w1) = Some ((None, v), w2)"
      "disks_of v \<noteq> []" and off: "IsPowerOffSupported vmo = supported"
    using g(2) vm unfolding willing_def by metis
  obtain ds k where v: "v = set_Disks ds vm" "map DiskConditions ds = replicate k []"
    using vm_operations.export_frame [OF g(3) x(1)] vm(4) by auto
  obtain cnd w3 where p: "put_condition h VirtualMachineExported [] v w2 = (add_cond cnd v, w3)"
      "true_condition VirtualMachineExported cnd"
    using put_condition_ok by blast
  have "triggerExport h vm w = Some ((None, add_cond cnd v), w3)"
    using g(1) off p conds x(1) same_force [OF vm(1)]
    by (auto simp: triggerExport_def exportDisks_def requested_off_def Let_def split: if_splits)
  then obtain w4 where "advances h vm w (settle (add_cond cnd v)) w4"
    using export_round [OF assms(1,3) vm(1,2)] by blast
  moreover have "status_of (settle (add_cond cnd v)) = DisksExported"
    using p(2) conds v(1) by (simp add: status_settle requested_off_def)
  moreover have "same_import vm0 (settle (add_cond cnd v))" "imported_name (settle (add_cond cnd v)) = n"
    using vm v(1) by (simp_all add: same_import_def)
  moreover have "\<forall>d \<in> set ds. DiskConditions d = []"
    using v(2) by (metis in_set_replicate list.set_map imageI)
  ultimately show ?thesis
    using x(2) v(1) by (auto simp: at_status_def list_all_iff)
qed

lemma images_round:
  assumes "cluster_cooperates h vm0" "DeletionTimestamp (vm_Meta vm0) = None"
    and "at_status vm0 n DisksExported (\<lambda>d. DiskConditions d = []) vm"
  shows "\<exists>v w'. advances h vm w v w' \<and> at_status vm0 n DiskImagesSubmitted submitted_only v"
proof -
  have vm: "same_import vm0 vm" "status_of vm = DisksExported" "imported_name vm = n" "disks_of vm \<noteq> []"
    "\<forall>d \<in> set (disks_of vm). DiskConditions d = []"
    using assms(3) by (simp_all add: at_status_def list_all_iff)
  obtain ds w1 where c: "createVirtualMachineImages h vm w = ((None, set_Disks ds vm), w1)"
      "length ds = length (disks_of vm)" "list_all submitted_only ds"
    using create_images_ok [OF assms(1) vm(1) _ vm(5), of 0 w] by (auto simp: createVirtualMachineImages_def)
  have ok: "list_all (disk_has VirtualMachineImageSubmitted) ds" "ds \<noteq> []"
    using c(2,3) vm(4) by (auto simp: submitted_only_def list_all_iff)
  let ?v = "set_Status DiskImagesSubmitted (set_Disks ds vm)"
  obtain w2 where "UpdateStatus h ?v w1 = ((Some ?v, None), w2)"
    using UpdateStatus_ok [OF assms(1)] by blast
  then have "advances h vm w ?v w2"
    using vm c(1) ok
    by (simp add: advances_reconcile [OF vm(1) assms(2)] reconcile_status_def reconcileDiskImageStatus_def)
  then show ?thesis
    using vm c(3) ok by (auto simp: at_status_def)
qed

lemma follow_round:
  assumes "cluster_cooperates h vm0" "DeletionTimestamp (vm_Meta vm0) = None"
    and "at_status vm0 n DiskImagesSubmitted submitted_only vm"
  shows "\<exists>v w'. advances h vm w v w' \<and> at_status vm0 n DiskImagesReady disk_clean v"
proof -
  have vm: "same_import vm0 vm" "status_of vm = DiskImagesSubmitted" "imported_name vm = n" "disks_of vm \<noteq> []"
    "list_all submitted_only (disks_of vm)"
    using assms(3) by (simp_all add: at_status_def)
  obtain ds w1 where c: "reconcileVMIStatus h vm w = ((None, set_Disks ds vm), w1)"
      "length ds = length (disks_of vm)" "list_all disk_clean ds"
    using vmi_status_ok [OF assms(1), of 0 vm "disks_of vm" w] vm(5) by (auto simp: reconcileVMIStatus_def)
  have clean: "dropWhile disk_clean ds = []"
    using c(3) by (simp add: list_all_iff)
  have e: "evaluateDiskImportStatus ds = Some DiskImagesReady"
    unfolding evaluate_dropWhile clean by simp
  let ?v = "set_Status DiskImagesReady (set_Disks ds vm)"
  obtain w2 where "UpdateStatus h ?v w1 = ((Some ?v, None), w2)"
    using UpdateStatus_ok [OF assms(1)] by blast
  then have "advances h vm w ?v w2"
    using vm c(1) e by (simp add: advances_reconcile [OF vm(1) assms(2)] reconcile_status_def followImages_def)
  then show ?thesis
    using vm c by (auto simp: at_status_def)
qed

lemma machine_round:
  assumes "cluster_cooperates h vm0" "source_cooperates h vm0 n supported"
    and "DeletionTimestamp (vm_Meta vm0) = None" "at_status vm0 n DiskImagesReady disk_clean vm"
  shows "\<exists>v w'. advances h vm w v w' \<and> at_status vm0 n VirtualMachineCreated disk_clean v"
proof -
  have vm: "same_import vm0 vm" "status_of vm = DiskImagesReady" "imported_name vm = n"
    using assms(4) by (simp_all add: at_status_def)
  obtain vmo w1 where g: "generateVMO h vm w = Some (Inr vmo, w1)" "willing vm0 n supported vmo"
    using willing_client [OF assms(2) vm(1)] by metis
  obtain u w2 where m: "GenerateVirtualMachine vmo vm w1 = Some (Inr u, w2)"
    using g(2) vm unfolding willing_def by metis
  obtain w3 where p: "findAndCreatePVC h vm w2 = (None, w3)"
    using pvc_loop_ok [OF assms(1), of vm "disks_of vm" w2] by (auto simp: findAndCreatePVC_def)
  obtain w4 where c: "createIfMissing h (patch_vm vm u) w3 = (None, w4)"
    using createIfMissing_ok [OF assms(1)] by blast
  let ?v = "set_Status VirtualMachineCreated vm"
  obtain w5 where "UpdateStatus h ?v w4 = ((Some ?v, None), w5)"
    using UpdateStatus_ok [OF assms(1)] by blast
  then have "advances h vm w ?v w5"
    using vm(2) g(1) m p c
    by (simp add: advances_reconcile [OF vm(1) assms(3)] reconcile_status_def createMachine_def createVirtualMachine_def)
  then show ?thesis
    using assms(4) by (auto simp: at_status_def)
qed

lemma running_round:
  assumes "cluster_cooperates h vm0" "DeletionTimestamp (vm_Meta vm0) = None"
    and "at_status vm0 n VirtualMachineCreated P vm"
    and "kubevirt_Get h (vm_Namespace vm0) n (ext w) = (Inr u, x)" "kv_Ready u"
  shows "\<exists>w'. advances h vm w (set_Status VirtualMachineRunning vm) w'"
proof -
  have vm: "same_import vm0 vm" "status_of vm = VirtualMachineCreated" "imported_name vm = n"
    using assms(3) by (simp_all add: at_status_def)
  let ?v = "set_Status VirtualMachineRunning vm"
  have c: "checkVirtualMachine h vm w = (Inr True, w\<lparr>ext := x\<rparr>)"
    using assms(4,5) vm by (simp add: checkVirtualMachine_def query_def same_import_def)
  obtain w2 where "UpdateStatus h ?v (w\<lparr>ext := x\<rparr>) = ((Some ?v, None), w2)"
    using UpdateStatus_ok [OF assms(1)] by blast
  then show ?thesis
    using vm(2) c
    by (auto simp: advances_reconcile [OF vm(1) assms(2)] reconcile_status_def reconcileVirtualMachineStatus_def)
qed

end

section \<open>All rounds\<close>

text \<open>So many reconciliations, each of the object the one before has written.\<close>

fun rounds ::
  "'x virtualMachineHandler \<Rightarrow> nat \<Rightarrow> VirtualMachineImport \<Rightarrow> 'x go_world \<Rightarrow>
   (VirtualMachineImport \<times> 'x go_world) option" where
  "rounds h 0 vm w = Some (vm, w)"
| "rounds h (Suc k) vm w =
     (case OnVirtualMachineChange h (Some vm) w of
        Some ((Some vm', None), w') \<Rightarrow> rounds h k vm' w'
      | _ \<Rightarrow> None)"

lemma rounds_advance: "advances h vm w v u \<Longrightarrow> rounds h (Suc k) vm w = rounds h k v u"
  by (simp add: advances_def)

context import_handler
begin

lemma import_completes:
  assumes "cluster_cooperates h vm" "source_cooperates h vm n supported"
    and "DeletionTimestamp (vm_Meta vm) = None" "fresh vm"
  shows "\<exists>v u. rounds h 8 vm w = Some (v, u) \<and> at_status vm n VirtualMachineCreated disk_clean v \<and>
    (\<forall>m x. kubevirt_Get h (vm_Namespace vm) n (ext u) = (Inr m, x) \<and> kv_Ready m \<longrightarrow>
       (\<exists>u'. rounds h 9 vm w = Some (set_Status VirtualMachineRunning v, u')))"
proof -
  have vm: "same_import vm vm" "status_of vm = StatusUnset" "conds_of vm = []" "disks_of vm = []"
    using assms(4) by (simp_all add: same_import_def fresh_def)
  let ?v1 = "set_Status VirtualMachineImportValid vm"
  let ?v2 = "set_Status SourceReady (set_ImportedName n ?v1)"
  obtain w1 where r1: "advances h vm w ?v1 w1"
    using preflight_round [OF assms(1-3) vm(1,2)] by blast
  obtain w2 where r2: "advances h ?v1 w1 ?v2 w2"
    using sanitize_round [OF assms(1-3), of ?v1] vm(1) by auto
  have v2: "to_export vm n {} ?v2"
    using vm by (simp add: to_export_def)
  obtain v3 w3 where r3: "advances h ?v2 w2 v3 w3" "to_export vm n {requested_off supported vm} v3"
    using off_round [OF assms(1-3) v2] by blast
  obtain v4 w4 where r4: "advances h v3 w3 v4 w4"
    "to_export vm n {VirtualMachinePoweredOff, requested_off supported vm} v4"
    using powered_off_round [OF assms(1-3) r3(2)] by blast
  obtain v5 w5 where r5: "advances h v4 w4 v5 w5" "at_status vm n DisksExported (\<lambda>d. DiskConditions d = []) v5"
    using exported_round [OF assms(1-3) r4(2)] by blast
  obtain v6 w6 where r6: "advances h v5 w5 v6 w6" "at_status vm n DiskImagesSubmitted submitted_only v6"
    using images_round [OF assms(1,3) r5(2)] by blast
  obtain v7 w7 where r7: "advances h v6 w6 v7 w7" "at_status vm n DiskImagesReady disk_clean v7"
    using follow_round [OF assms(1,3) r6(2)] by blast
  obtain v8 w8 where r8: "advances h v7 w7 v8 w8" "at_status vm n VirtualMachineCreated disk_clean v8"
    using machine_round [OF assms(1-3) r7(2)] by blast
  have to8: "rounds h (8 + k) vm w = rounds h k v8 w8" for k
    using r1 r2 r3(1) r4(1) r5(1) r6(1) r7(1) r8(1)
    by (simp add: rounds_advance numeral_eq_Suc del: rounds.simps)
  have "\<exists>u'. rounds h 9 vm w = Some (set_Status VirtualMachineRunning v8, u')"
    if "kubevirt_Get h (vm_Namespace vm) n (ext w8) = (Inr m, x)" "kv_Ready m" for m x
    using to8 [of 1] running_round [OF assms(1,3) r8(2) that] by (auto simp: advances_def)
  then show ?thesis
    using to8 [of 0] r8(2) by auto
qed

end

end
