(* ===== verification/Hypervisor.thy ===== *)
theory Hypervisor
  imports TempFiles
begin

text \<open>
  What the clients call outside the program and the vSphere objects they read. The operating
  system, the conversion tool and the vSphere SDK are parameters, one record each; the
  configuration of a machine and the entries of an export lease are data. \<open>ConvertVMDKtoRAW\<close> and
  \<open>runCommand\<close> are those of \<open>pkg/qemu/qemu.go\<close>; the process they run is a parameter.
\<close>

section \<open>Operating system\<close>

record 'x system =
  os_MkdirTemp :: "string \<Rightarrow> string \<Rightarrow> ('x, go_error + string) call"
  os_RemoveAll :: "string \<Rightarrow> ('x, go_error option) call"
  os_Remove :: "string \<Rightarrow> ('x, go_error option) call"
  os_CreateTemp :: "string \<Rightarrow> string \<Rightarrow> ('x, go_error + string) call"
  os_Create :: "string \<Rightarrow> ('x, go_error option) call"
  os_Write :: "string \<Rightarrow> string \<Rightarrow> ('x, go_error option) call"
  cmd_StderrPipe :: "string \<Rightarrow> string list \<Rightarrow> ('x, go_error option) call"
  cmd_StdoutPipe :: "string \<Rightarrow> string list \<Rightarrow> ('x, go_error option) call"
  cmd_Start :: "string \<Rightarrow> string list \<Rightarrow> ('x, go_error option) call"
  cmd_ReadStderr :: "string \<Rightarrow> string list \<Rightarrow> ('x, string) call"
  cmd_ReadStdout :: "string \<Rightarrow> string list \<Rightarrow> ('x, go_error + string) call"
  cmd_Wait :: "string \<Rightarrow> string list \<Rightarrow> ('x, go_error option) call"

text \<open>
  \<open>runCommand\<close>: a process is given by its command line. An error of reading its error output is
  dropped, and the error of a failed command shows that output instead of the exit status.
\<close>

definition runCommand :: "'x system \<Rightarrow> string \<Rightarrow> string list \<Rightarrow> ('x, go_error option) call" where
  "runCommand sys command args x =
     (case cmd_StderrPipe sys command args x of
        (Some err, x) \<Rightarrow> (Some (Errorf (''error creating stderr pipe: '' @ Error err)), x)
      | (None, x) \<Rightarrow>
          (case cmd_StdoutPipe sys command args x of
             (Some err, x) \<Rightarrow> (Some (Errorf (''error creating stdout pipe: '' @ Error err)), x)
           | (None, x) \<Rightarrow>
               (case cmd_Start sys command args x of
                  (Some err, x) \<Rightarrow> (Some (Errorf (''error in command start: '' @ Error err)), x)
                | (None, x) \<Rightarrow>
                    let (errOut, x) = cmd_ReadStderr sys command args x in
                    (case cmd_ReadStdout sys command args x of
                       (Inl err, x) \<Rightarrow> (Some (Errorf (''error reading command output: '' @ Error err)), x)
                     | (Inr out, x) \<Rightarrow>
                         (case cmd_Wait sys command args x of
                            (Some err, x) \<Rightarrow>
                              (Some (Errorf (''error in command: '' @ command @ '', '' @ errOut)), x)
                          | (None, x) \<Rightarrow> (None, x))))))"

definition defaultCommand :: string where "defaultCommand = ''qemu-wrapper.sh''"

definition ConvertVMDKtoRAW ::
  "'x system \<Rightarrow> string \<Rightarrow> string \<Rightarrow> 'x go_world \<Rightarrow> go_error option \<times> 'x go_world" where
  "ConvertVMDKtoRAW sys source target w =
     effect (\<lambda>r. EvConvert source target (r = None))
       (runCommand sys defaultCommand
          [''convert'', ''-f'', ''vmdk'', ''-O'', ''raw'', source, target]) w"

definition createVMDK :: "'x system \<Rightarrow> string \<Rightarrow> string \<Rightarrow> ('x, go_error option) call" where
  "createVMDK sys path sz = runCommand sys defaultCommand [''create'', ''-f'', ''vmdk'', path, sz]"

lemma ConvertVMDKtoRAW_log:
  "ConvertVMDKtoRAW sys s t w = (r, w') \<Longrightarrow> log w' = log w @ [EvConvert s t (r = None)]"
  by (simp add: ConvertVMDKtoRAW_def effect_log)

section \<open>vSphere data\<close>

text \<open>The backing of a network card, as far as \<open>identifyNetworkName\<close> tells them apart.\<close>

datatype Backing =
    DistributedVirtualPort string
  | NetworkBacking string
  | OtherBacking

record VirtualDevice =
  dev_Key :: int32
  dev_ControllerKey :: int32
  dev_UnitNumber :: "int32 option"
  dev_Backing :: Backing
  dev_Summary :: "string option"

text \<open>The dynamic types the client distinguishes; a nil description is a missing summary.\<close>

datatype Device =
    VirtualVmxnet VirtualDevice string
  | VirtualE1000e VirtualDevice string
  | VirtualE1000 VirtualDevice string
  | VirtualVmxnet3 VirtualDevice string
  | VirtualVmxnet2 VirtualDevice string
  | VirtualPCNet32 VirtualDevice string
  | VirtualController VirtualDevice int32
  | VirtualDisk VirtualDevice int64
  | OtherDevice VirtualDevice

record VMConfig =
  mo_Devices :: "Device list"
  mo_NumCPU :: int32
  mo_NumCoresPerSocket :: int32
  mo_MemoryMB :: int32
  mo_Firmware :: string
  mo_BootOptions :: "bool option option"

record VMProperties =
  mo_Config :: "VMConfig option"
  mo_TpmPresent :: "bool option"

record LeaseItem =
  item_DeviceId :: string
  item_Path :: string
  item_Size :: int64

section \<open>The vSphere SDK\<close>

text \<open>A session, a machine and a lease are identified by strings.\<close>

record 'x vsphere =
  url_Parse :: "string \<Rightarrow> go_error option"
  SetRootCAs :: "string \<Rightarrow> ('x, go_error option) call"
  vim25_NewClient :: "string \<Rightarrow> bool \<Rightarrow> ('x, go_error + string) call"
  Login :: "string \<Rightarrow> string \<Rightarrow> string \<Rightarrow> ('x, go_error option) call"
  Logout :: "string \<Rightarrow> ('x, go_error option) call"
  CreateContainerView :: "string \<Rightarrow> ('x, go_error + string) call"
  RetrieveNetworks :: "string \<Rightarrow> string \<Rightarrow> ('x, go_error + (string \<times> string) list) call"
  DestroyView :: "string \<Rightarrow> string \<Rightarrow> ('x, unit) call"
  FindDatacenter :: "string \<Rightarrow> string \<Rightarrow> ('x, go_error option) call"
  FindVirtualMachine :: "string \<Rightarrow> string \<Rightarrow> ('x, go_error + string) call"
  PowerState :: "string \<Rightarrow> ('x, go_error + string) call"
  IsToolsRunning :: "string \<Rightarrow> ('x, go_error + bool) call"
  vs_ShutdownGuest :: "string \<Rightarrow> ('x, go_error option) call"
  vs_PowerOff :: "string \<Rightarrow> ('x, go_error option) call"
  Properties :: "string \<Rightarrow> ('x, go_error + VMProperties) call"
  LeaseExport :: "string \<Rightarrow> ('x, go_error + string) call"
  LeaseWait :: "string \<Rightarrow> ('x, go_error + LeaseItem list) call"
  StartUpdater :: "string \<Rightarrow> ('x, unit) call"
  UpdaterDone :: "string \<Rightarrow> ('x, unit) call"
  LeaseDownload :: "string \<Rightarrow> string \<Rightarrow> LeaseItem \<Rightarrow> ('x, go_error option) call"
  LeaseComplete :: "string \<Rightarrow> ('x, go_error option) call"

end
