(* ===== verification/VmwareClient.thy ===== *)
theory VmwareClient
  imports Hypervisor Operations NetworkMaps
begin

text \<open>
  The vSphere client, \<open>pkg/source/vmware/client.go\<close>: connecting, the preflight checks, shutting
  down, the export of the disks and the generation of the KubeVirt machine.
\<close>

record vmware_Client =
  vc_session :: string
  vc_tmpCerts :: string
  vc_dc :: string
  vc_networkMapping :: "string \<rightharpoonup> string"

section \<open>Networks of the inventory\<close>

definition generateNetworkList ::
  "'x vsphere \<Rightarrow> string \<Rightarrow> 'x go_world \<Rightarrow> (go_error + (string \<times> string) list) \<times> 'x go_world" where
  "generateNetworkList vs session w =
     (case query (CreateContainerView vs session) w of
        (Inl err, w) \<Rightarrow>
          (Inl (Errorf (''error generating network container view: '' @ Error err)), w)
      | (Inr view, w) \<Rightarrow>
          let (networks, w) = query (RetrieveNetworks vs session view) w;
              (_, w) = query (DestroyView vs session view) w
          in case networks of
               Inl err \<Rightarrow> (Inl (Errorf (''error retreiving networks: '' @ Error err)), w)
             | Inr networks \<Rightarrow> (Inr networks, w))"

text \<open>A network is given by its reference value and its name; a later one wins.\<close>

definition network_map_by_ref :: "(string \<times> string) list \<Rightarrow> string \<rightharpoonup> string" where
  "network_map_by_ref networks = foldl (\<lambda>m (ref, name). m(ref \<mapsto> name)) Map.empty networks"

definition network_map_by_name :: "(string \<times> string) list \<Rightarrow> string \<rightharpoonup> string" where
  "network_map_by_name networks = foldl (\<lambda>m (ref, name). m(name \<mapsto> ref)) Map.empty networks"

definition GenerateNetworkMapByRef ::
  "'x vsphere \<Rightarrow> string \<Rightarrow> 'x go_world \<Rightarrow> (go_error + (string \<rightharpoonup> string)) \<times> 'x go_world" where
  "GenerateNetworkMapByRef vs session w =
     (case generateNetworkList vs session w of
        (Inl err, w) \<Rightarrow> (Inl err, w)
      | (Inr networks, w) \<Rightarrow> (Inr (network_map_by_ref networks), w))"

definition GenerateNetworkMapByName ::
  "'x vsphere \<Rightarrow> string \<Rightarrow> 'x go_world \<Rightarrow> (go_error + (string \<rightharpoonup> string)) \<times> 'x go_world" where
  "GenerateNetworkMapByName vs session w =
     (case generateNetworkList vs session w of
        (Inl err, w) \<Rightarrow> (Inl err, w)
      | (Inr networks, w) \<Rightarrow> (Inr (network_map_by_name networks), w))"

text \<open>\<open>ListNetworks\<close>: the view is destroyed when the function returns, after the lines are
  printed. The text of a reference is a parameter.\<close>

fun print_networks :: "(string \<Rightarrow> string) \<Rightarrow> (string \<times> string) list \<Rightarrow> 'x go_world \<Rightarrow> 'x go_world" where
  "print_networks ref_string [] w = w"
| "print_networks ref_string ((ref, name) # networks) w =
     print_networks ref_string networks (mark (EvPrint (name @ '': '' @ ref_string ref @ [CHR 0x0A])) w)"

definition ListNetworks ::
  "'x vsphere \<Rightarrow> (string \<Rightarrow> string) \<Rightarrow> vmware_Client \<Rightarrow> 'x go_world \<Rightarrow> go_error option \<times> 'x go_world"
  where
  "ListNetworks vs ref_string c w =
     (case query (CreateContainerView vs (vc_session c)) w of
        (Inl err, w) \<Rightarrow> (Some (Errorf (''error creating view '' @ Error err)), w)
      | (Inr v, w) \<Rightarrow>
          let (networks, w) = query (RetrieveNetworks vs (vc_session c) v) w
          in case networks of
               Inl err \<Rightarrow>
                 let (_, w) = query (DestroyView vs (vc_session c) v) w
                 in (Some (Errorf (''error fetching networks: '' @ Error err)), w)
             | Inr networks \<Rightarrow>
                 let w = print_networks ref_string networks w;
                     (_, w) = query (DestroyView vs (vc_session c) v) w
                 in (None, w))"

lemma print_networks_log:
  "log (print_networks f networks w) =
   log w @ map (\<lambda>(ref, name). EvPrint (name @ '': '' @ f ref @ [CHR 0x0A])) networks"
  by (induction networks arbitrary: w) auto

lemma ListNetworks_log:
  "ListNetworks vs f c w = (r, w') \<Longrightarrow>
   \<exists>networks. log w' = log w @ map (\<lambda>(ref, name). EvPrint (name @ '': '' @ f ref @ [CHR 0x0A])) networks \<and>
     (r \<noteq> None \<longrightarrow> networks = [])"
  by (auto simp: ListNetworks_def Let_def print_networks_log dest!: query_log
      split: sum.splits prod.splits)

section \<open>Connecting\<close>

text \<open>The certificate file that a secret with a CA asks for.\<close>

definition write_ca_file ::
  "'x system \<Rightarrow> 'x vsphere \<Rightarrow> string \<Rightarrow> 'x go_world \<Rightarrow> (go_error + string) \<times> 'x go_world" where
  "write_ca_file sys vs caCert w =
     (case effect (\<lambda>r. EvFileCreate ''/tmp/vmware-ca-'' (case r of Inl _ \<Rightarrow> False | Inr _ \<Rightarrow> True))
             (os_CreateTemp sys ''/tmp'' ''vmware-ca-'') w of
        (Inl err, w) \<Rightarrow>
          (Inl (Errorf (''error creating tmp file for vmware ca certs: '' @ Error err)), w)
      | (Inr name, w) \<Rightarrow>
          (case effect (\<lambda>r. EvFileWrite name (r = None)) (os_Write sys name caCert) w of
             (Some err, w) \<Rightarrow>
               (Inl (Errorf (''error writing ca cert to tmp file '' @ name @ '': '' @ Error err)), w)
           | (None, w) \<Rightarrow>
               (case query (SetRootCAs vs name) w of
                  (Some err, w) \<Rightarrow> (Inl err, w)
                | (None, w) \<Rightarrow> (Inr name, w))))"

definition vmware_connect ::
  "'x vsphere \<Rightarrow> string \<Rightarrow> bool \<Rightarrow> string \<Rightarrow> string \<Rightarrow> string \<Rightarrow> string \<Rightarrow> 'x go_world \<Rightarrow>
   (go_error + vmware_Client) \<times> 'x go_world" where
  "vmware_connect vs endpoint insecure username password dc certs w =
     (case query (vim25_NewClient vs endpoint insecure) w of
        (Inl err, w) \<Rightarrow> (Inl (Errorf (''error creating vim client: '' @ Error err)), w)
      | (Inr session, w) \<Rightarrow>
          (case query (Login vs session username password) w of
             (Some err, w) \<Rightarrow> (Inl (Errorf (''error during login :'' @ Error err)), w)
           | (None, w) \<Rightarrow>
               (case GenerateNetworkMapByRef vs session w of
                  (Inl err, w) \<Rightarrow>
                    (Inl (Wrapf ''error generating network map during client initialisation: '' err), w)
                | (Inr networkMap, w) \<Rightarrow>
                    (Inr \<lparr>vc_session = session, vc_tmpCerts = certs, vc_dc = dc,
                          vc_networkMapping = networkMap\<rparr>, w))))"

definition vmware_NewClient_impl ::
  "'x system \<Rightarrow> 'x vsphere \<Rightarrow> string \<Rightarrow> string \<Rightarrow> Secret option \<Rightarrow> ('x, go_error + vmware_Client) go"
  where
  "vmware_NewClient_impl sys vs endpoint dc secret w =
     (case secret of
        None \<Rightarrow> None
      | Some s \<Rightarrow>
          (case Data s ''username'' of
             None \<Rightarrow> Some (Inl (Errorf (''no key '' @ go_quote ''username'' @ '' found in secret ''
                       @ secret_Name s)), w)
           | Some username \<Rightarrow>
               (case Data s ''password'' of
                  None \<Rightarrow> Some (Inl (Errorf (''no key '' @ go_quote ''password'' @ '' found in the secret ''
                            @ secret_Name s)), w)
                | Some password \<Rightarrow>
                    (case url_Parse vs endpoint of
                       Some err \<Rightarrow>
                         Some (Inl (Errorf (''error parsing endpoint url: '' @ Error err)), w)
                     | None \<Rightarrow>
                         (case Data s ''caCert'' of
                            None \<Rightarrow> Some (vmware_connect vs endpoint True username password dc [] w)
                          | Some caCert \<Rightarrow>
                              (case write_ca_file sys vs caCert w of
                                 (Inl err, w) \<Rightarrow> Some (Inl err, w)
                               | (Inr name, w) \<Rightarrow>
                                   Some (vmware_connect vs endpoint False username password dc name w)))))))"

definition vmware_Close ::
  "'x system \<Rightarrow> 'x vsphere \<Rightarrow> vmware_Client \<Rightarrow> 'x go_world \<Rightarrow> go_error option \<times> 'x go_world" where
  "vmware_Close sys vs c w =
     (case query (Logout vs (vc_session c)) w of
        (Some err, w) \<Rightarrow> (Some err, w)
      | (None, w) \<Rightarrow> effect (\<lambda>_. EvFileRemove (vc_tmpCerts c)) (os_Remove sys (vc_tmpCerts c)) w)"

definition datacenter_path :: "vmware_Client \<Rightarrow> string" where
  "datacenter_path c = (if \<not> strings_HasPrefix (vc_dc c) ''/'' then ''/'' @ vc_dc c else vc_dc c)"

definition vmware_Verify ::
  "'x vsphere \<Rightarrow> vmware_Client \<Rightarrow> 'x go_world \<Rightarrow> go_error option \<times> 'x go_world" where
  "vmware_Verify vs c w = query (FindDatacenter vs (vc_session c) (datacenter_path c)) w"

section \<open>Finding and switching off the machine\<close>

definition findVM ::
  "'x vsphere \<Rightarrow> vmware_Client \<Rightarrow> string \<Rightarrow> string \<Rightarrow> 'x go_world \<Rightarrow> (go_error + string) \<times> 'x go_world"
  where
  "findVM vs c path name w =
     query (FindVirtualMachine vs (vc_session c)
       (filepath_Join [datacenter_path c, ''/vm'', path, name])) w"

definition find_import ::
  "'x vsphere \<Rightarrow> vmware_Client \<Rightarrow> VirtualMachineImport \<Rightarrow> 'x go_world \<Rightarrow>
   (go_error + string) \<times> 'x go_world" where
  "find_import vs c vm w = findVM vs c (Folder (vm_Spec vm)) (VirtualMachineName (vm_Spec vm)) w"

definition isPoweredOff ::
  "'x vsphere \<Rightarrow> string \<Rightarrow> 'x go_world \<Rightarrow> (go_error + bool) \<times> 'x go_world" where
  "isPoweredOff vs vmObj w =
     (case query (PowerState vs vmObj) w of
        (Inl err, w) \<Rightarrow> (Inl (Wrapf ''failed to get power state: '' err), w)
      | (Inr state, w) \<Rightarrow> (Inr (state = ''poweredOff''), w))"

text \<open>\<open>ShutdownGuest\<close> and \<open>PowerOff\<close>: nothing is sent to a machine that is off.\<close>

definition vmware_ShutdownGuest ::
  "'x vsphere \<Rightarrow> vmware_Client \<Rightarrow> VirtualMachineImport \<Rightarrow> 'x go_world \<Rightarrow>
   go_error option \<times> 'x go_world" where
  "vmware_ShutdownGuest vs c vm w =
     (case find_import vs c vm w of
        (Inl err, w) \<Rightarrow> (Some (Wrapf ''error finding VM in ShutdownGuest: '' err), w)
      | (Inr vmObj, w) \<Rightarrow>
          (case isPoweredOff vs vmObj w of
             (Inl err, w) \<Rightarrow> (Some err, w)
           | (Inr ok, w) \<Rightarrow>
               if \<not> ok then effect (\<lambda>_. EvVsphereShutdownGuest vmObj) (vs_ShutdownGuest vs vmObj) w
               else (None, w)))"

definition vmware_PowerOff ::
  "'x vsphere \<Rightarrow> vmware_Client \<Rightarrow> VirtualMachineImport \<Rightarrow> 'x go_world \<Rightarrow>
   go_error option \<times> 'x go_world" where
  "vmware_PowerOff vs c vm w =
     (case find_import vs c vm w of
        (Inl err, w) \<Rightarrow> (Some (Wrapf ''error finding VM in PowerOff: '' err), w)
      | (Inr vmObj, w) \<Rightarrow>
          (case isPoweredOff vs vmObj w of
             (Inl err, w) \<Rightarrow> (Some err, w)
           | (Inr ok, w) \<Rightarrow>
               if \<not> ok then effect (\<lambda>_. EvVspherePowerOff vmObj) (vs_PowerOff vs vmObj) w
               else (None, w)))"

definition vmware_IsPoweredOff ::
  "'x vsphere \<Rightarrow> vmware_Client \<Rightarrow> VirtualMachineImport \<Rightarrow> 'x go_world \<Rightarrow>
   (go_error + bool) \<times> 'x go_world" where
  "vmware_IsPoweredOff vs c vm w =
     (case find_import vs c vm w of
        (Inl err, w) \<Rightarrow> (Inl (Errorf (''error find VM in IsPoweredOff: '' @ Error err)), w)
      | (Inr vmObj, w) \<Rightarrow> isPoweredOff vs vmObj w)"

section \<open>Preflight checks\<close>

text \<open>The first mapping whose last path element is no network of the inventory.\<close>

definition unknown_network :: "(string \<rightharpoonup> string) \<Rightarrow> NetworkMapping list \<Rightarrow> NetworkMapping option" where
  "unknown_network networkMap mapping =
     find (\<lambda>nm. networkMap (last (strings_Split (SourceNetwork nm) (CHR ''/''))) = None) mapping"

definition check_tools ::
  "'x vsphere \<Rightarrow> vmware_Client \<Rightarrow> VirtualMachineImport \<Rightarrow> 'x go_world \<Rightarrow>
   go_error option \<times> 'x go_world" where
  "check_tools vs c vm w =
     (case find_import vs c vm w of
        (Inl err, w) \<Rightarrow> (Some (Wrapf ''failed to find VM: '' err), w)
      | (Inr vmObj, w) \<Rightarrow>
          (case isPoweredOff vs vmObj w of
             (Inl err, w) \<Rightarrow> (Some err, w)
           | (Inr poweredOff, w) \<Rightarrow>
               if \<not> poweredOff then
                 (case query (IsToolsRunning vs vmObj) w of
                    (Inl err, w) \<Rightarrow>
                      (Some (Wrapf ''failed to check if VMware Tools is running: '' err), w)
                  | (Inr toolsRunning, w) \<Rightarrow>
                      if \<not> toolsRunning
                      then (Some (Errorf (''cannot shutdown guest OS, VMware Tools is not running in the VM ''
                             @ VirtualMachineName (vm_Spec vm) @ ''. Shut down the VM manually or use the ''
                             @ single_quoted ''spec.forcePowerOff'' @ '' field'')), w)
                      else (None, w))
               else (None, w)))"

definition vmware_PreFlightChecks ::
  "'x vsphere \<Rightarrow> vmware_Client \<Rightarrow> VirtualMachineImport \<Rightarrow> 'x go_world \<Rightarrow>
   go_error option \<times> 'x go_world" where
  "vmware_PreFlightChecks vs c vm w =
     (case GenerateNetworkMapByName vs (vc_session c) w of
        (Inl err, w) \<Rightarrow> (Some (Errorf (''error generating network map: '' @ Error err)), w)
      | (Inr networkMap, w) \<Rightarrow>
          (case unknown_network networkMap (Mapping (vm_Spec vm)) of
             Some nm \<Rightarrow> (Some (Errorf (''source network '' @ single_quoted (SourceNetwork nm) @ '' not found'')), w)
           | None \<Rightarrow> if \<not> GetForcePowerOff vm then check_tools vs c vm w else (None, w)))"

section \<open>What the preflight checks establish\<close>

definition known_network :: "(string \<rightharpoonup> string) \<Rightarrow> NetworkMapping \<Rightarrow> bool" where
  "known_network m nm \<longleftrightarrow> m (last (strings_Split (SourceNetwork nm) (CHR ''/''))) \<noteq> None"

lemma unknown_network_None: "unknown_network m nms = None \<longleftrightarrow> list_all (known_network m) nms"
  by (auto simp: unknown_network_def known_network_def find_None_iff list_all_iff)

lemma network_map_by_name_dom:
  "network_map_by_name networks n \<noteq> None \<longleftrightarrow> n \<in> snd ` set networks"
proof -
  have "foldl (\<lambda>m (ref, name). m(name \<mapsto> ref)) m networks n \<noteq> None \<longleftrightarrow> n \<in> snd ` set networks \<or> m n \<noteq> None"
    for m :: "string \<rightharpoonup> string"
    by (induction networks arbitrary: m) (auto split: if_splits)
  then show ?thesis by (simp add: network_map_by_name_def)
qed

lemma check_tools_None:
  assumes "check_tools vs c vm w = (None, w')"
  shows "\<exists>vmObj v v'. find_import vs c vm v = (Inr vmObj, v') \<and>
    ((\<exists>x x'. PowerState vs vmObj x = (Inr ''poweredOff'', x')) \<or>
     (\<exists>x x'. IsToolsRunning vs vmObj x = (Inr True, x')))"
  using assms
  by (auto simp: check_tools_def isPoweredOff_def query_def
      split: prod.splits sum.splits if_splits) blast+

text \<open>
  C23. A vSphere import that passes the preflight checks of its client names only networks whose last path
  element is a network of the inventory, and its machine can be stopped: it is forced off, or was found
  powered off, or runs the VMware Tools that the guest shutdown needs.
\<close>

theorem vmware_preflight_sound:
  assumes "vmware_PreFlightChecks vs c vm w = (None, w')"
  shows "(\<exists>view networks x x'. RetrieveNetworks vs (vc_session c) view x = (Inr networks, x') \<and>
      (\<forall>nm \<in> set (Mapping (vm_Spec vm)).
         last (strings_Split (SourceNetwork nm) (CHR ''/'')) \<in> snd ` set networks)) \<and>
    (GetForcePowerOff vm \<or>
     (\<exists>vmObj v v'. find_import vs c vm v = (Inr vmObj, v') \<and>
       ((\<exists>x x'. PowerState vs vmObj x = (Inr ''poweredOff'', x')) \<or>
        (\<exists>x x'. IsToolsRunning vs vmObj x = (Inr True, x')))))"
proof -
  obtain m w1 where g: "GenerateNetworkMapByName vs (vc_session c) w = (Inr m, w1)"
    and u: "unknown_network m (Mapping (vm_Spec vm)) = None"
    and t: "GetForcePowerOff vm \<or> check_tools vs c vm w1 = (None, w')"
    using assms by (auto simp: vmware_PreFlightChecks_def split: prod.splits sum.splits option.splits if_splits)
  obtain view networks x x' where n: "RetrieveNetworks vs (vc_session c) view x = (Inr networks, x')"
    and m: "m = network_map_by_name networks"
    using g by (auto simp: GenerateNetworkMapByName_def generateNetworkList_def query_def Let_def
        split: prod.splits sum.splits)
  have "\<forall>nm \<in> set (Mapping (vm_Spec vm)). last (strings_Split (SourceNetwork nm) (CHR ''/'')) \<in> snd ` set networks"
    using u unfolding unknown_network_None m
    by (simp add: known_network_def network_map_by_name_dom list_all_iff del: not_None_eq)
  with n t check_tools_None show ?thesis by blast
qed

text \<open>
  C40. A mapping may name its source network by a path, and passes the preflight checks when the last
  element of the path is known; but the interfaces carry the bare name, so the mapping matches none of
  them and the machine loses every interface that was meant.
\<close>

theorem vmware_path_network_dropped:
  assumes "CHR ''/'' \<notin> set n" "networkMap n \<noteq> None"
  shows "unknown_network networkMap [nm\<lparr>SourceNetwork := path @ ''/'' @ n\<rparr>] = None \<and>
    MapNetworks [ni\<lparr>NetworkName := n\<rparr>] [nm\<lparr>SourceNetwork := path @ ''/'' @ n\<rparr>] = []"
proof -
  have "\<exists>ys. ys \<noteq> [] \<and> strings_Split (path @ ''/'' @ n) (CHR ''/'') = ys @ [n]"
    by (induction path) (auto simp: Split_no_sep [OF assms(1)] neq_Nil_conv)
  then have "last (strings_Split (path @ ''/'' @ n) (CHR ''/'')) = n" by auto
  moreover have "path @ ''/'' @ n \<noteq> n"
    using assms(1) by (metis append_Cons in_set_conv_decomp)
  ultimately show ?thesis
    using assms(2) by (simp add: unknown_network_None known_network_def map_one_none del: not_None_eq)
qed

end
