(* ===== verification/VmwareMachine.thy ===== *)
theory VmwareMachine
  imports VmwareClient
begin

text \<open>
  The pure parts of the vSphere client: device identifiers, disk bus types, network cards and
  firmware of a machine, and the KubeVirt machine made from them.
\<close>

section \<open>Device identifiers\<close>

definition trailing_digits :: "string \<Rightarrow> string" where
  "trailing_digits s = rev (takeWhile is_digit (rev s))"

text \<open>The result of \<open>parseDeviceId\<close>: \<open>None\<close> stands for the triple (0, 0, false).\<close>

definition parseDeviceId :: "string \<Rightarrow> (int32 \<times> int32) option" where
  "parseDeviceId deviceId =
     (let deviceId = after_last (CHR ''/'') deviceId;
          colon = strings_Split deviceId (CHR '':'')
      in if length colon \<noteq> 2 then None
         else
           (case strconv_ParseInt (colon ! 1) 32 of
              NumOk unit64 \<Rightarrow>
                let digits = trailing_digits (colon ! 0) in
                if digits = [] then None
                else
                  (case strconv_ParseInt digits 32 of
                     NumOk bus64 \<Rightarrow> Some (word_of_int bus64, word_of_int unit64)
                   | _ \<Rightarrow> None)
            | _ \<Rightarrow> None))"

definition vmware_detectDiskBusType :: "string \<Rightarrow> DiskBus \<Rightarrow> DiskBus" where
  "vmware_detectDiskBusType deviceID def =
     (let deviceID = strings_ToLower deviceID; has = strings_Contains deviceID in
      if has ''paravirtualscsi'' then DiskBusSATA
      else if has ''scsi'' \<or> has ''buslogic'' \<or> has ''lsilogic'' then DiskBusSCSI
      else if has ''ahci'' \<or> has ''sata'' \<or> has ''ide'' then DiskBusSATA
      else if has ''nvme'' then DiskBusVirtio
      else if has ''usb'' then DiskBusUSB
      else def)"

section \<open>Network cards\<close>

definition identifyNetworkName :: "(string \<rightharpoonup> string) \<Rightarrow> VirtualDevice \<Rightarrow> string" where
  "identifyNetworkName networkMap device =
     (case dev_Backing device of
        DistributedVirtualPort key \<Rightarrow> (case networkMap key of Some n \<Rightarrow> n | None \<Rightarrow> [])
      | NetworkBacking name \<Rightarrow> name
      | OtherBacking \<Rightarrow> [])"

text \<open>The case of one card; a missing description is dereferenced.\<close>

definition network_card ::
  "(string \<rightharpoonup> string) \<Rightarrow> VirtualDevice \<Rightarrow> string \<Rightarrow> string \<Rightarrow> NetworkInfo option" where
  "network_card networkMap dev mac model =
     (let summary = identifyNetworkName networkMap dev;
          info = (\<lambda>n. \<lparr>NetworkName = n, MAC = mac, MappedNetwork = [], Model = model\<rparr>)
      in if summary = [] then map_option info (dev_Summary dev) else Some (info summary))"

fun vmware_generateNetworkInfos ::
  "(string \<rightharpoonup> string) \<Rightarrow> Device list \<Rightarrow> NetworkInfo list option" where
  "vmware_generateNetworkInfos m [] = Some []"
| "vmware_generateNetworkInfos m (d # ds) =
     (let add = (\<lambda>dev mac model. do {
            ni \<leftarrow> network_card m dev mac model;
            nis \<leftarrow> vmware_generateNetworkInfos m ds;
            Some (ni # nis) })
      in case d of
           VirtualVmxnet dev mac \<Rightarrow> add dev mac NetworkInterfaceModelVirtio
         | VirtualE1000e dev mac \<Rightarrow> add dev mac NetworkInterfaceModelE1000e
         | VirtualE1000 dev mac \<Rightarrow> add dev mac NetworkInterfaceModelE1000
         | VirtualVmxnet3 dev mac \<Rightarrow> add dev mac NetworkInterfaceModelVirtio
         | VirtualVmxnet2 dev mac \<Rightarrow> add dev mac NetworkInterfaceModelVirtio
         | VirtualPCNet32 dev mac \<Rightarrow> add dev mac NetworkInterfaceModelPcnet
         | _ \<Rightarrow> vmware_generateNetworkInfos m ds)"

section \<open>Firmware and machine\<close>

definition vmware_getFirmwareSettings :: "VMConfig \<Rightarrow> bool option \<Rightarrow> Firmware" where
  "vmware_getFirmwareSettings cfg tpmPresent =
     (let fw = NewFirmware False False False;
          fw = fw\<lparr>UEFI := strings_EqualFold (mo_Firmware cfg) ''efi''\<rparr>;
          fw = (case mo_BootOptions cfg of
                  Some enabled \<Rightarrow> fw\<lparr>SecureBoot := ptr_Deref enabled False\<rparr>
                | None \<Rightarrow> fw)
      in fw\<lparr>TPM := ptr_Deref tpmPresent False\<rparr>)"

text \<open>The machine for the properties of the source machine; a missing configuration is a panic.\<close>

definition vmware_machine ::
  "HarvesterConsts \<Rightarrow> vmware_Client \<Rightarrow> VirtualMachineImport \<Rightarrow> VMProperties \<Rightarrow> VirtualMachine option"
  where
  "vmware_machine hc c vm props =
     do {
       cfg \<leftarrow> mo_Config props;
       networkInfos \<leftarrow> vmware_generateNetworkInfos (vc_networkMapping c) (mo_Devices cfg);
       (let vmSpec = NewVirtualMachineSpec hc (imported_name vm)
             \<lparr>NumCPU = mo_NumCPU cfg, NumCoresPerSocket = mo_NumCoresPerSocket cfg,
              MemoryMB = word_of_int (sint (mo_MemoryMB cfg))\<rparr>;
           mappedNetwork = MapNetworks networkInfos (Mapping (vm_Spec vm));
           (networkConfig, interfaceConfig) =
             GenerateNetworkInterfaceConfigs mappedNetwork (GetDefaultNetworkInterfaceModel vm);
           fw = vmware_getFirmwareSettings cfg (mo_TpmPresent props);
           vmSpec = ApplyFirmwareSettings vmSpec fw;
           vmSpec = vmSpec\<lparr>Networks := networkConfig, Interfaces := interfaceConfig\<rparr>
        in Some \<lparr>kv_Meta = empty_meta\<lparr>Name := imported_name vm, Namespace := vm_Namespace vm\<rparr>,
                 kv_Spec = vmSpec, kv_Ready = False\<rparr>)
     }"

definition vmware_GenerateVirtualMachine ::
  "HarvesterConsts \<Rightarrow> 'x vsphere \<Rightarrow> vmware_Client \<Rightarrow> VirtualMachineImport \<Rightarrow>
   ('x, go_error + VirtualMachine) go" where
  "vmware_GenerateVirtualMachine hc vs c vm w =
     (case find_import vs c vm w of
        (Inl err, w) \<Rightarrow> Some (Inl (Wrapf ''error querying vm in GenerateVirtualMachine: '' err), w)
      | (Inr vmObj, w) \<Rightarrow>
          (case query (Properties vs vmObj) w of
             (Inl err, w) \<Rightarrow> Some (Inl err, w)
           | (Inr props, w) \<Rightarrow>
               do { newVM \<leftarrow> vmware_machine hc c vm props; Some (Inr newVM, w) }))"

section \<open>parseDeviceId\<close>

text \<open>
  The identifiers of an export lease: an optional path, a controller name that does not end
  in a digit, the bus number, a colon and the unit number.
\<close>

definition device_id :: "string \<Rightarrow> string \<Rightarrow> nat \<Rightarrow> nat \<Rightarrow> string" where
  "device_id path controller bus unit =
     path @ (if path = [] then [] else ''/'') @ controller @ show_nat bus @ '':'' @ show_nat unit"

lemma trailing_digits_append:
  assumes "\<forall>c \<in> set ds. is_digit c" "s = [] \<or> \<not> is_digit (last s)"
  shows "trailing_digits (s @ ds) = ds"
proof -
  have "takeWhile is_digit (rev ds @ rev s) = rev ds"
    using assms by (cases s rule: rev_cases) (simp_all add: takeWhile_append)
  then show ?thesis by (simp add: trailing_digits_def)
qed

lemma trailing_digits_are_digits: "\<forall>c \<in> set (trailing_digits s). is_digit c"
  by (auto simp: trailing_digits_def dest: set_takeWhileD)

lemma show_nat_no_special:
  "CHR ''/'' \<notin> set (show_nat n)" "CHR '':'' \<notin> set (show_nat n)"
  using show_nat_digits not_digit_sign by blast+

lemma ParseInt_show_nat32: "n < 2 ^ 31 \<Longrightarrow> strconv_ParseInt (show_nat n) 32 = NumOk (int n)"
  using ParseInt_show_nat [of n 32] by simp

lemma parseDeviceId_device_id:
  assumes "controller \<noteq> []" "\<not> is_digit (last controller)"
    and "CHR ''/'' \<notin> set controller" "CHR '':'' \<notin> set controller"
    and "bus < 2 ^ 31" "unit < 2 ^ 31"
  shows "parseDeviceId (device_id path controller bus unit) =
    Some (word_of_int (int bus), word_of_int (int unit))"
proof -
  let ?tail = "controller @ show_nat bus @ '':'' @ show_nat unit"
  have no: "CHR ''/'' \<notin> set ?tail" "CHR '':'' \<notin> set (controller @ show_nat bus)"
    using assms(3,4) show_nat_no_special by auto
  have tail: "after_last (CHR ''/'') (device_id path controller bus unit) = ?tail"
    using after_last_append [OF no(1), of path] after_last_id [OF no(1)]
    by (simp add: device_id_def)
  have split: "strings_Split ?tail (CHR '':'') = [controller @ show_nat bus, show_nat unit]"
    using Split_append_sep [OF no(2), of "show_nat unit"] show_nat_no_special(2)
    by (simp add: Split_no_sep)
  have "trailing_digits (controller @ show_nat bus) = show_nat bus"
    using assms(2) show_nat_digits by (intro trailing_digits_append) auto
  then show ?thesis
    using assms(5,6) unfolding parseDeviceId_def tail Let_def split
    by (simp add: ParseInt_show_nat32)
qed

text \<open>
  C37. The identifier of a lease entry that names a controller, its bus and a unit is read back as
  that bus and unit, with or without a path and whatever the kind of the controller.
\<close>

theorem parseDeviceId_roundtrip:
  assumes "controller \<noteq> []" "\<not> is_digit (last controller)"
    and "CHR ''/'' \<notin> set controller" "CHR '':'' \<notin> set controller"
    and "bus < 2 ^ 31" "unit < 2 ^ 31"
  shows "parseDeviceId (device_id path controller bus unit) =
    Some (word_of_int (int bus), word_of_int (int unit))"
  by (rule parseDeviceId_device_id [OF assms])

theorem parseDeviceId_roundtrip_witness:
  "parseDeviceId (device_id ''/vm-13010'' ''VirtualNVMEController'' 1 2) = Some (1, 2)"
  using parseDeviceId_roundtrip [of "''VirtualNVMEController''" 1 2 "''/vm-13010''"]
  by (simp add: is_digit_def char_code_def)

section \<open>The generated machine\<close>

lemma vmware_machine_shape:
  assumes "vmware_machine hc c vm props = Some v"
  shows "Name (kv_Meta v) = imported_name vm \<and> Namespace (kv_Meta v) = vm_Namespace vm \<and>
    Networks (kv_Spec v) \<noteq> [] \<and>
    map net_Name (Networks (kv_Spec v)) = map if_Name (Interfaces (kv_Spec v)) \<and>
      distinct (map net_Name (Networks (kv_Spec v)))"
proof -
  obtain nis where "GenerateNetworkInterfaceConfigs nis (GetDefaultNetworkInterfaceModel vm) =
      (Networks (kv_Spec v), Interfaces (kv_Spec v))"
    and "Name (kv_Meta v) = imported_name vm" "Namespace (kv_Meta v) = vm_Namespace vm"
    using assms by (auto simp: vmware_machine_def Let_def split: Option.bind_splits prod.splits)
  then show ?thesis
    using network_configs_shape [of nis "GetDefaultNetworkInterfaceModel vm"]
    unfolding split_def by (metis fst_conv snd_conv)
qed

end
