(* ===== verification/VmwareExport.thy ===== *)
theory VmwareExport
  imports VmwareMachine
begin

text \<open>
  \<open>ExportVirtualMachine\<close> of the vSphere client, in the order of the code: the lease, the
  capacity of the disks from the hardware configuration, the download of the VMDK files, and
  their conversion. Last, the table of operations of the client and the proof that it keeps the
  contract.
\<close>

section \<open>Capacities by bus and unit\<close>

fun controller_bus :: "Device list \<Rightarrow> (int32 \<rightharpoonup> int32) \<Rightarrow> int32 \<rightharpoonup> int32" where
  "controller_bus [] m = m"
| "controller_bus (VirtualController dev busNumber # ds) m =
     controller_bus ds (m(dev_Key dev \<mapsto> busNumber))"
| "controller_bus (d # ds) m = controller_bus ds m"

text \<open>The second loop: disks without a unit number or a known controller are left out.\<close>

fun disk_capacities ::
  "(int32 \<rightharpoonup> int32) \<Rightarrow> Device list \<Rightarrow> (int32 \<times> int32 \<rightharpoonup> int64) \<Rightarrow> int32 \<times> int32 \<rightharpoonup> int64" where
  "disk_capacities controllerBus [] m = m"
| "disk_capacities controllerBus (VirtualDisk dev capacityInKB # ds) m =
     (case dev_UnitNumber dev of
        None \<Rightarrow> disk_capacities controllerBus ds m
      | Some unit \<Rightarrow>
          (case controllerBus (dev_ControllerKey dev) of
             None \<Rightarrow> disk_capacities controllerBus ds m
           | Some bus \<Rightarrow> disk_capacities controllerBus ds (m((bus, unit) \<mapsto> capacityInKB))))"
| "disk_capacities controllerBus (d # ds) m = disk_capacities controllerBus ds m"

definition diskByBusUnit :: "Device list \<Rightarrow> int32 \<times> int32 \<rightharpoonup> int64" where
  "diskByBusUnit devices =
     disk_capacities (controller_bus devices Map.empty) devices Map.empty"

text \<open>The size of a lease entry; 0 asks for the fallback.\<close>

definition item_disk_size :: "(int32 \<times> int32 \<rightharpoonup> int64) \<Rightarrow> LeaseItem \<Rightarrow> int64" where
  "item_disk_size capacities i =
     (let diskSize =
            (case parseDeviceId (item_DeviceId i) of
               Some key \<Rightarrow> (case capacities key of Some kb \<Rightarrow> kb * 1024 | None \<Rightarrow> 0)
             | None \<Rightarrow> 0)
      in if diskSize = 0 then item_Size i else diskSize)"

text \<open>The path of a lease entry after the prefix test.\<close>

definition item_path :: "VirtualMachineImport \<Rightarrow> LeaseItem \<Rightarrow> string" where
  "item_path vm i =
     (if \<not> strings_HasPrefix (item_Path i) (VirtualMachineName (vm_Spec vm))
      then vm_Name vm @ ''-'' @ vm_Namespace vm @ ''-'' @ item_Path i
      else item_Path i)"

definition is_vmdk :: "LeaseItem \<Rightarrow> bool" where
  "is_vmdk i \<longleftrightarrow> strings_HasSuffix (item_Path i) ''.vmdk''"

definition lease_disk :: "VirtualMachineImport \<Rightarrow> (int32 \<times> int32 \<rightharpoonup> int64) \<Rightarrow> LeaseItem \<Rightarrow> DiskInfo" where
  "lease_disk vm capacities i =
     \<lparr>DiskName = item_path vm i, DiskSize = item_disk_size capacities i, DiskLocalPath = [],
      DiskRoute = [], DiskImage = [], DiskConditions = [],
      BusType = vmware_detectDiskBusType (item_DeviceId i) (GetDefaultDiskBusType vm)\<rparr>"

section \<open>Download and conversion\<close>

fun download_items ::
  "'x vsphere \<Rightarrow> string \<Rightarrow> string \<Rightarrow> (int32 \<times> int32 \<rightharpoonup> int64) \<Rightarrow> LeaseItem list \<Rightarrow>
   VirtualMachineImport \<Rightarrow> 'x go_world \<Rightarrow>
   (go_error option \<times> VirtualMachineImport) \<times> 'x go_world" where
  "download_items vs lease tmpPath capacities [] vm w = ((None, vm), w)"
| "download_items vs lease tmpPath capacities (i # is) vm w =
     (if is_vmdk i then
        (let di = lease_disk vm capacities i;
             i = i\<lparr>item_Path := item_path vm i\<rparr>;
             exportPath = filepath_Join [tmpPath, item_Path i]
         in case effect (\<lambda>_. EvLeaseDownload lease exportPath)
                   (LeaseDownload vs lease exportPath i) w of
              (Some err, w) \<Rightarrow> ((Some err, vm), w)
            | (None, w) \<Rightarrow>
                download_items vs lease tmpPath capacities is
                  (set_Disks (disks_of vm @ [di]) vm) w)
      else download_items vs lease tmpPath capacities is vm w)"

text \<open>The conversion loop ranges over all disks of the status, old ones included.\<close>

definition raw_name :: "string \<Rightarrow> string" where
  "raw_name name = BaseName name @ ''.img''"

fun convert_disks ::
  "'x system \<Rightarrow> string \<Rightarrow> nat \<Rightarrow> DiskInfo list \<Rightarrow> VirtualMachineImport \<Rightarrow> 'x go_world \<Rightarrow>
   (go_error option \<times> VirtualMachineImport) \<times> 'x go_world" where
  "convert_disks sys tmpPath i [] vm w = ((None, vm), w)"
| "convert_disks sys tmpPath i (d # ds) vm w =
     (let sourceFile = filepath_Join [tmpPath, DiskName d];
          rawDiskName = raw_name (DiskName d);
          destFile = filepath_Join [TempDir, rawDiskName]
      in case ConvertVMDKtoRAW sys sourceFile destFile w of
           (Some err, w) \<Rightarrow>
             ((Some (Errorf (''error during conversion of VMDK to RAW disk: '' @ Error err)), vm), w)
         | (None, w) \<Rightarrow>
             let vm = set_Disks ((disks_of vm)[i := ((disks_of vm) ! i)
                        \<lparr>DiskLocalPath := TempDir, DiskName := rawDiskName\<rparr>]) vm;
                 (_, w) = effect (\<lambda>_. EvFileRemove sourceFile) (os_Remove sys sourceFile) w
             in convert_disks sys tmpPath (Suc i) ds vm w)"

text \<open>What runs while the lease is held; the updater is told to stop only on success.\<close>

definition export_with_lease ::
  "'x system \<Rightarrow> 'x vsphere \<Rightarrow> VirtualMachineImport \<Rightarrow> string \<Rightarrow> string \<Rightarrow> string \<Rightarrow> LeaseItem list \<Rightarrow>
   ('x, go_error option \<times> VirtualMachineImport) go" where
  "export_with_lease sys vs vm vmObj lease tmpPath items w =
     (case query (Properties vs vmObj) w of
        (Inl err, w) \<Rightarrow>
          Some ((Some (Wrapf ''failed to retrieve VM hardware devices: '' err), vm), w)
      | (Inr props, w) \<Rightarrow>
          do {
            cfg \<leftarrow> mo_Config props;
            (case download_items vs lease tmpPath (diskByBusUnit (mo_Devices cfg)) items vm w of
               ((Some err, vm), w) \<Rightarrow> Some ((Some err, vm), w)
             | ((None, vm), w) \<Rightarrow>
                 let (_, w) = effect (\<lambda>_. EvUpdaterDone) (UpdaterDone vs lease) w;
                     (_, w) = effect (\<lambda>_. EvLeaseComplete) (LeaseComplete vs lease) w
                 in Some (convert_disks sys tmpPath 0 (disks_of vm) vm w))
          })"

definition vmware_ExportVirtualMachine ::
  "'x system \<Rightarrow> 'x vsphere \<Rightarrow> vmware_Client \<Rightarrow> VirtualMachineImport \<Rightarrow>
   ('x, go_error option \<times> VirtualMachineImport) go" where
  "vmware_ExportVirtualMachine sys vs c vm w =
     (let pattern = vm_Name vm @ ''-'' @ vm_Namespace vm @ ''-'' in
      case effect (\<lambda>r. EvMkdirTemp ''/tmp'' (case r of Inl _ \<Rightarrow> None | Inr p \<Rightarrow> Some p))
             (os_MkdirTemp sys ''/tmp'' pattern) w of
        (Inl err, w) \<Rightarrow>
          Some ((Some (Errorf (''error creating tmp dir in ExportVirtualMachine: '' @ Error err)), vm), w)
      | (Inr tmpPath, w) \<Rightarrow>
          (case find_import vs c vm w of
             (Inl err, w) \<Rightarrow>
               Some ((Some (Errorf (''error finding vm in ExportVirtualMachine: '' @ Error err)), vm), w)
           | (Inr vmObj, w) \<Rightarrow>
               (case effect (\<lambda>r. EvLeaseOpen vmObj (case r of Inl _ \<Rightarrow> False | Inr _ \<Rightarrow> True))
                       (LeaseExport vs vmObj) w of
                  (Inl err, w) \<Rightarrow>
                    Some ((Some (Errorf (''error generate export lease in ExportVirtualMachine: ''
                       @ Error err)), vm), w)
                | (Inr lease, w) \<Rightarrow>
                    (case query (LeaseWait vs lease) w of
                       (Inl err, w) \<Rightarrow> Some ((Some err, vm), w)
                     | (Inr items, w) \<Rightarrow>
                         (let (_, w) = effect (\<lambda>_. EvUpdaterStart) (StartUpdater vs lease) w in
                          do {
                            (r, w) \<leftarrow> export_with_lease sys vs vm vmObj lease tmpPath items w;
                            (let (_, w) = effect (\<lambda>_. EvRemoveAll tmpPath) (os_RemoveAll sys tmpPath) w
                             in Some (r, w))
                          })))))"

section \<open>The table of operations\<close>

definition vmware_Sanitize :: "VirtualMachineImport \<Rightarrow> VirtualMachineImport" where
  "vmware_Sanitize vm = set_ImportedName (strings_ToLower (VirtualMachineName (vm_Spec vm))) vm"

definition vmware_Cleanup ::
  "'x system \<Rightarrow> VirtualMachineImport \<Rightarrow> 'x go_world \<Rightarrow> go_error option \<times> 'x go_world" where
  "vmware_Cleanup sys vm w = RemoveTempImageFiles (os_Remove sys) (disks_of vm) w"

definition vmware_operations ::
  "HarvesterConsts \<Rightarrow> 'x system \<Rightarrow> 'x vsphere \<Rightarrow> vmware_Client \<Rightarrow> 'x VirtualMachineOperations" where
  "vmware_operations hc sys vs c =
     \<lparr>SanitizeVirtualMachineImport = (\<lambda>vm w. Some ((None, vmware_Sanitize vm), w)),
      ExportVirtualMachine = vmware_ExportVirtualMachine sys vs c,
      ShutdownGuest = (\<lambda>vm w. Some (vmware_ShutdownGuest vs c vm w)),
      PowerOff = (\<lambda>vm w. Some (vmware_PowerOff vs c vm w)),
      IsPowerOffSupported = True,
      IsPoweredOff = (\<lambda>vm w. Some (vmware_IsPoweredOff vs c vm w)),
      GenerateVirtualMachine = vmware_GenerateVirtualMachine hc vs c,
      PreFlightChecks = (\<lambda>vm w. Some (vmware_PreFlightChecks vs c vm w)),
      Cleanup = (\<lambda>vm w. Some (vmware_Cleanup sys vm w))\<rparr>"

definition vmware_NewOperations ::
  "HarvesterConsts \<Rightarrow> 'x system \<Rightarrow> 'x vsphere \<Rightarrow> string \<Rightarrow> string \<Rightarrow> Secret option \<Rightarrow>
   ('x, go_error + 'x VirtualMachineOperations) go" where
  "vmware_NewOperations hc sys vs endpoint dc secret w =
     do {
       (r, w) \<leftarrow> vmware_NewClient_impl sys vs endpoint dc secret w;
       Some (map_sum id (vmware_operations hc sys vs) r, w)
     }"

section \<open>Logs of the client\<close>

lemma generateNetworkList_log: "generateNetworkList vs s w = (r, w') \<Longrightarrow> log w' = log w"
  by (auto simp: generateNetworkList_def Let_def dest!: query_log split: prod.splits sum.splits)

lemma network_map_log:
  "GenerateNetworkMapByRef vs s w = (r, w') \<Longrightarrow> log w' = log w"
  "GenerateNetworkMapByName vs s w = (r', w') \<Longrightarrow> log w' = log w"
  by (auto simp: GenerateNetworkMapByRef_def GenerateNetworkMapByName_def
      dest!: generateNetworkList_log split: prod.splits sum.splits)

lemma find_import_log: "find_import vs c vm w = (r, w') \<Longrightarrow> log w' = log w"
  by (auto simp: find_import_def findVM_def dest: query_log)

lemma isPoweredOff_log: "isPoweredOff vs v w = (r, w') \<Longrightarrow> log w' = log w"
  by (auto simp: isPoweredOff_def dest!: query_log split: prod.splits sum.splits)

lemmas vmware_logs = network_map_log find_import_log isPoweredOff_log query_log


lemma vmware_connect_log: "vmware_connect vs e i u p dc certs w = (r, w') \<Longrightarrow> log w' = log w"
  by (auto simp: vmware_connect_def dest!: vmware_logs split: prod.splits sum.splits option.splits)

lemma vmware_NewClient_quiet: "quiet w (vmware_NewClient_impl sys vs endpoint dc secret w)"
  by (rule quietI)
    (auto simp: vmware_NewClient_impl_def write_ca_file_def
      dest!: vmware_connect_log effect_log query_log
      split: prod.splits sum.splits option.splits if_splits)

lemma vmware_shutdown_quiet:
  "vmware_ShutdownGuest vs c vm w = (r, w') \<Longrightarrow> quiet_log w w'"
  "vmware_PowerOff vs c vm w = (r, w') \<Longrightarrow> quiet_log w w'"
  "vmware_IsPoweredOff vs c vm w = (s, w') \<Longrightarrow> quiet_log w w'"
  by (auto simp: vmware_ShutdownGuest_def vmware_PowerOff_def vmware_IsPoweredOff_def
      dest!: find_import_log isPoweredOff_log effect_log
      split: prod.splits sum.splits if_splits)

lemma check_tools_log: "check_tools vs c vm w = (r, w') \<Longrightarrow> log w' = log w"
  by (auto simp: check_tools_def dest!: find_import_log isPoweredOff_log query_log
      split: prod.splits sum.splits if_splits)

lemma vmware_PreFlightChecks_log: "vmware_PreFlightChecks vs c vm w = (r, w') \<Longrightarrow> log w' = log w"
  by (auto simp: vmware_PreFlightChecks_def dest!: network_map_log check_tools_log
      split: prod.splits sum.splits option.splits if_splits)

lemma vmware_GenerateVirtualMachine_log:
  "vmware_GenerateVirtualMachine hc vs c vm w = Some (r, w') \<Longrightarrow> log w' = log w"
  by (auto simp: vmware_GenerateVirtualMachine_def dest!: find_import_log query_log
      split: prod.splits sum.splits Option.bind_splits)

section \<open>The export keeps the old disks\<close>

text \<open>
  Both loops keep everything of the import but the disks, and the conditions of the disks they
  find; the disks they add have no condition.
\<close>

lemma download_items_spec:
  "download_items vs lease tmp caps is vm w = ((err, vm'), w') \<Longrightarrow>
   quiet_log w w' \<and>
   (\<exists>n \<le> length (filter is_vmdk is).
      vm' = set_Disks (disks_of vm @ map (lease_disk vm caps) (take n (filter is_vmdk is))) vm \<and>
      (err = None \<longrightarrow> n = length (filter is_vmdk is)))"
proof (induction "is" arbitrary: vm w)
  case Nil
  then show ?case by auto
next
  case (Cons i "is")
  show ?case
  proof (cases "is_vmdk i")
    case False
    then show ?thesis using Cons by simp
  next
    case True
    let ?path = "filepath_Join [tmp, item_path vm i]"
    obtain r w1 where d: "effect (\<lambda>_. EvLeaseDownload lease ?path)
        (LeaseDownload vs lease ?path (i\<lparr>item_Path := item_path vm i\<rparr>)) w = (r, w1)"
      by fastforce
    show ?thesis
    proof (cases r)
      case (Some e)
      then show ?thesis using Cons.prems True d effect_log [OF d] by (auto simp: Let_def)
    next
      case None
      have same: "lease_disk (set_Disks ds vm) caps = lease_disk vm caps" for ds
        by (simp add: lease_disk_def item_path_def GetDefaultDiskBusType_def fun_eq_iff)
      have "download_items vs lease tmp caps is (set_Disks (disks_of vm @ [lease_disk vm caps i]) vm) w1
          = ((err, vm'), w')"
        using Cons.prems True d None by (simp add: Let_def)
      from Cons.IH [OF this] obtain es n where
        "log w' = log w1 @ es" "list_all (\<lambda>e. \<not> controller_event e) es"
        "n \<le> length (filter is_vmdk is)" "err = None \<longrightarrow> n = length (filter is_vmdk is)"
        "vm' = set_Disks (disks_of vm @ lease_disk vm caps i #
           map (lease_disk vm caps) (take n (filter is_vmdk is))) vm"
        by (auto simp: same)
      then show ?thesis
        using True effect_log [OF d] by (intro conjI exI [of _ "Suc n"]) auto
    qed
  qed
qed

lemma convert_disks_spec:
  "convert_disks sys tmp i ds vm w = ((err, vm'), w') \<Longrightarrow> drop i (disks_of vm) = ds \<Longrightarrow>
   quiet_log w w' \<and>
   (\<exists>n \<le> length ds. vm' = set_Disks (take i (disks_of vm) @
        map (\<lambda>d. d\<lparr>DiskLocalPath := TempDir, DiskName := raw_name (DiskName d)\<rparr>) (take n ds) @ drop n ds) vm
      \<and> (err = None \<longrightarrow> n = length ds))"
proof (induction ds arbitrary: i vm w)
  case Nil
  then show ?case by auto
next
  case (Cons d ds)
  let ?src = "filepath_Join [tmp, DiskName d]"
  let ?dst = "filepath_Join [TempDir, raw_name (DiskName d)]"
  let ?d = "d\<lparr>DiskLocalPath := TempDir, DiskName := raw_name (DiskName d)\<rparr>"
  note wb = write_back [OF Cons.prems(2)]
  obtain r w1 where c: "ConvertVMDKtoRAW sys ?src ?dst w = (r, w1)"
    by fastforce
  obtain r2 w2 where f: "effect (\<lambda>_. EvFileRemove ?src) (os_Remove sys ?src) w1 = (r2, w2)"
    by fastforce
  show ?case
  proof (cases r)
    case (Some e)
    then have "vm' = vm" "w' = w1" "err \<noteq> None" using Cons.prems(1) c by (auto simp: Let_def)
    then show ?thesis
      using ConvertVMDKtoRAW_log [OF c] Cons.prems(2)
      by (intro conjI exI [of _ 0]) (auto simp: append_take_drop_id [of i "disks_of vm"] simp flip: Cons.prems(2))
  next
    case None
    have "convert_disks sys tmp (Suc i) ds (set_Disks ((disks_of vm)[i := ?d]) vm) w2 = ((err, vm'), w')"
      using Cons.prems(1) c None f wb(2) by (simp add: Let_def)
    from Cons.IH [OF this] wb(4,5) [of ?d] obtain es n where
      "log w' = log w2 @ es" "list_all (\<lambda>e. \<not> controller_event e) es" "n \<le> length ds"
      "err = None \<longrightarrow> n = length ds"
      "vm' = set_Disks (take i (disks_of vm) @ ?d #
        map (\<lambda>d. d\<lparr>DiskLocalPath := TempDir, DiskName := raw_name (DiskName d)\<rparr>) (take n ds) @ drop n ds) vm"
      by auto
    then show ?thesis
      using ConvertVMDKtoRAW_log [OF c] effect_log [OF f] by (intro conjI exI [of _ "Suc n"]) auto
  qed
qed

lemma convert_disks_stored:
  "convert_disks sys tmp i ds vm w = ((None, vm'), w') \<Longrightarrow> drop i (disks_of vm) = ds \<Longrightarrow>
   \<exists>es. log w' = log w @ es \<and> list_all (stored es) (drop i (disks_of vm'))"
proof (induction ds arbitrary: i vm w)
  case Nil
  then show ?case by auto
next
  case (Cons d ds)
  let ?src = "filepath_Join [tmp, DiskName d]"
  let ?d = "d\<lparr>DiskLocalPath := TempDir, DiskName := raw_name (DiskName d)\<rparr>"
  note wb = write_back [OF Cons.prems(2)]
  obtain r w1 where c: "ConvertVMDKtoRAW sys ?src (filepath_Join [TempDir, DiskName ?d]) w = (r, w1)"
    by fastforce
  obtain r2 w2 where f: "effect (\<lambda>_. EvFileRemove ?src) (os_Remove sys ?src) w1 = (r2, w2)"
    by fastforce
  have r: "r = None"
    using Cons.prems(1) c by (cases r) (simp_all add: Let_def)
  let ?vm = "set_Disks ((disks_of vm)[i := ?d]) vm"
  have rest: "convert_disks sys tmp (Suc i) ds ?vm w2 = ((None, vm'), w')"
    using Cons.prems(1) c r f wb(2) by (simp add: Let_def)
  obtain es where es: "log w' = log w2 @ es" "list_all (stored es) (drop (Suc i) (disks_of vm'))"
    using Cons.IH [OF rest] wb(4) [of ?d] by auto
  have "disks_of vm' ! i = ?d \<and> i < length (disks_of vm')"
    using convert_disks_spec [OF rest] wb(1) wb(4,5) [of ?d]
    by (auto simp: nth_append min_def)
  then have "drop i (disks_of vm') = ?d # drop (Suc i) (disks_of vm')"
    by (metis Cons_nth_drop_Suc)
  moreover have "log w' = log w @ [EvConvert ?src (filepath_Join [TempDir, DiskName ?d]) True, EvFileRemove ?src] @ es"
    using es(1) effect_log [OF f] ConvertVMDKtoRAW_log [OF c] r by simp
  moreover have "stored ([EvConvert ?src (filepath_Join [TempDir, DiskName ?d]) True, EvFileRemove ?src] @ es) ?d"
    by (auto simp: stored_def)
  moreover have "list_all (stored ([EvConvert ?src (filepath_Join [TempDir, DiskName ?d]) True, EvFileRemove ?src] @ es))
      (drop (Suc i) (disks_of vm'))"
    using es(2) by (auto simp: list_all_iff stored_def)
  ultimately show ?case
    by (metis list.pred_inject(2))
qed

section \<open>The contract\<close>

text \<open>
  What the export makes of the import: it only changes the disks, and their number is that of
  the old disks plus the VMDK entries of the lease that were downloaded.
\<close>

lemma export_with_lease_spec:
  assumes "export_with_lease sys vs vm vmObj lease tmp items w = Some ((err, vm'), w')"
  shows "quiet_log w w' \<and> (\<exists>ds k. vm' = set_Disks ds vm \<and>
    map DiskConditions ds = map DiskConditions (disks_of vm) @ replicate k [])"
proof -
  obtain r w1 where q: "query (Properties vs vmObj) w = (r, w1)"
    by fastforce
  show ?thesis
  proof (cases r)
    case (Inl e)
    then show ?thesis
      using assms q query_log [OF q]
      by (auto simp: export_with_lease_def intro!: exI [of _ "disks_of vm"] exI [of _ "0::nat"])
  next
    case (Inr props)
    then obtain cfg err1 vm1 w2 where d: "download_items vs lease tmp
        (diskByBusUnit (mo_Devices cfg)) items vm w1 = ((err1, vm1), w2)"
      and cfg: "mo_Config props = Some cfg"
      using assms q by (auto simp: export_with_lease_def split: Option.bind_splits prod.splits)
    obtain n where n: "vm1 = set_Disks (disks_of vm @ map (lease_disk vm
        (diskByBusUnit (mo_Devices cfg))) (take n (filter is_vmdk items))) vm"
      and log: "quiet_log w w2"
      using download_items_spec [OF d] query_log [OF q] by auto
    have conds1: "\<exists>k. map DiskConditions (disks_of vm1) = map DiskConditions (disks_of vm) @ replicate k []"
      unfolding n by (auto simp: lease_disk_def map_replicate_const comp_def)
    show ?thesis
    proof (cases err1)
      case (Some e)
      then have "vm' = vm1" "w' = w2"
        using assms q Inr cfg d by (auto simp: export_with_lease_def)
      then show ?thesis using log conds1 n by auto
    next
      case None
      obtain u1 w3 where u: "effect (\<lambda>_. EvUpdaterDone) (UpdaterDone vs lease) w2 = (u1, w3)"
        by (metis surj_pair)
      obtain u2 w4 where l: "effect (\<lambda>_. EvLeaseComplete) (LeaseComplete vs lease) w3 = (u2, w4)"
        by fastforce
      have "convert_disks sys tmp 0 (disks_of vm1) vm1 w4 = ((err, vm'), w')"
        using assms q Inr cfg d None u l by (auto simp: export_with_lease_def)
      from convert_disks_spec [OF this] obtain m where
        m: "vm' = set_Disks (map (\<lambda>d. d\<lparr>DiskLocalPath := TempDir, DiskName := raw_name (DiskName d)\<rparr>)
          (take m (disks_of vm1)) @ drop m (disks_of vm1)) vm1" "quiet_log w4 w'"
        by auto
      have "map DiskConditions (disks_of vm') = map DiskConditions (disks_of vm1)"
        unfolding m(1) by (simp add: comp_def) (metis append_take_drop_id map_append)
      moreover have "quiet_log w w'"
        using log m(2) effect_log [OF u] effect_log [OF l] by auto
      moreover have "vm' = set_Disks (disks_of vm') vm"
        unfolding m(1) n by simp
      ultimately show ?thesis using conds1 by metis
    qed
  qed
qed

lemma vmware_export_spec:
  assumes "vmware_ExportVirtualMachine sys vs c vm w = Some ((err, vm'), w')"
  shows "quiet_log w w' \<and> (\<exists>ds k. vm' = set_Disks ds vm \<and>
    map DiskConditions ds = map DiskConditions (disks_of vm) @ replicate k [])"
proof -
  have same: "\<exists>ds k. vm = set_Disks ds vm \<and>
      map DiskConditions ds = map DiskConditions (disks_of vm) @ replicate k []"
    by (intro exI [of _ "disks_of vm"] exI [of _ "0::nat"]) simp
  show ?thesis
    using assms same
    by (auto simp: vmware_ExportVirtualMachine_def Let_def
        dest!: effect_log query_log find_import_log export_with_lease_spec
        split: prod.splits sum.splits Option.bind_splits)
qed

lemma vmware_export_files:
  assumes "vmware_ExportVirtualMachine sys vs c vm w = Some ((None, vm'), w')"
  shows "files_added w vm vm' w'"
proof -
  have run: "\<exists>es. log u' = log u @ es \<and> list_all (stored es) (disks_of vm')"
    if e: "export_with_lease sys vs vm vmObj lease tmp items u = Some ((None, vm'), u')"
    for vmObj lease tmp items u u'
  proof -
    obtain props and cfg :: VMConfig and vm1 u1 u2 u3 where
      q: "query (Properties vs vmObj) u = (Inr props, u1)" and
      d: "download_items vs lease tmp (diskByBusUnit (mo_Devices cfg)) items vm u1 = ((None, vm1), u2)" and
      c: "convert_disks sys tmp 0 (disks_of vm1) vm1 u3 = ((None, vm'), u')" and
      l: "log u3 = log u2 @ [EvUpdaterDone, EvLeaseComplete]"
      using e unfolding export_with_lease_def
      by (auto simp: Let_def dest!: effect_log split: sum.splits prod.splits Option.bind_splits option.splits)
    obtain es where "log u' = log u3 @ es" "list_all (stored es) (disks_of vm')"
      using convert_disks_stored [OF c] by auto
    moreover obtain fs where "log u3 = log u @ fs"
      using l download_items_spec [OF d] query_log [OF q] by auto
    ultimately show ?thesis
      by (intro exI [of _ "fs @ es"]) (simp add: list_all_iff)
  qed
  obtain vmObj lease tmp items u u' where x: "export_with_lease sys vs vm vmObj lease tmp items u = Some ((None, vm'), u')"
    and u: "\<exists>es. log u = log w @ es" "\<exists>es. log w' = log u' @ es"
    using assms
    by (auto simp: vmware_ExportVirtualMachine_def Let_def dest!: effect_log query_log find_import_log
        split: prod.splits sum.splits Option.bind_splits)
  obtain es where "log u' = log u @ es" "list_all (stored es) (disks_of vm')"
    using run [OF x] by blast
  moreover obtain fs gs where "log u = log w @ fs" "log w' = log u' @ gs"
    using u by blast
  ultimately show ?thesis
    by (auto simp: files_added_def list_all_iff dest: in_set_dropD)
qed

interpretation vmware_ops: vm_operations "vmware_operations hc sys vs c"
  for hc sys vs c
proof (unfold_locales, unfold vmware_operations_def VirtualMachineOperations.simps)
  fix w w' :: "'a go_world" and vm vm' v and err :: "go_error option"
  show "quiet w (Some ((None, vmware_Sanitize vm), w))"
    by (simp add: emits_Some)
  show "Some ((None, vmware_Sanitize vm), w) = Some ((err, vm'), w') \<Longrightarrow> \<exists>n. vm' = set_ImportedName n vm"
    by (auto simp: vmware_Sanitize_def)
  show "Some ((None, vmware_Sanitize vm), w) = Some ((None, vm'), w') \<Longrightarrow>
      strings_ToLower (imported_name vm') = imported_name vm'"
    by (auto simp: vmware_Sanitize_def)
  show "quiet w (vmware_ExportVirtualMachine sys vs c vm w)"
    by (rule quietI) (auto dest: vmware_export_spec)
  show "vmware_ExportVirtualMachine sys vs c vm w = Some ((err, vm'), w') \<Longrightarrow>
      \<exists>ds k. vm' = set_Disks ds vm \<and>
        map DiskConditions ds = map DiskConditions (disks_of vm) @ replicate k []"
    by (drule vmware_export_spec) (erule conjunct2)
  show "quiet w (Some (vmware_ShutdownGuest vs c vm w))"
    "quiet w (Some (vmware_PowerOff vs c vm w))" "quiet w (Some (vmware_IsPoweredOff vs c vm w))"
    by (rule quietI, auto dest: vmware_shutdown_quiet)+
  show "quiet w (vmware_GenerateVirtualMachine hc vs c vm w)"
    by (rule quietI) (auto dest: vmware_GenerateVirtualMachine_log)
  show "vmware_GenerateVirtualMachine hc vs c vm w = Some (Inr v, w') \<Longrightarrow>
      Name (kv_Meta v) = imported_name vm \<and> Namespace (kv_Meta v) = vm_Namespace vm \<and>
      Networks (kv_Spec v) \<noteq> [] \<and>
      map net_Name (Networks (kv_Spec v)) = map if_Name (Interfaces (kv_Spec v)) \<and>
      distinct (map net_Name (Networks (kv_Spec v)))"
  proof -
    assume "vmware_GenerateVirtualMachine hc vs c vm w = Some (Inr v, w')"
    then obtain props where "vmware_machine hc c vm props = Some v"
      by (auto simp: vmware_GenerateVirtualMachine_def split: prod.splits sum.splits Option.bind_splits)
    then show ?thesis by (rule vmware_machine_shape)
  qed
  show "quiet w (Some (vmware_PreFlightChecks vs c vm w))"
    by (rule quietI) (auto dest: vmware_PreFlightChecks_log)
  show "quiet w (Some (vmware_Cleanup sys vm w))"
    by (rule quietI) (auto simp: vmware_Cleanup_def list_all_iff dest!: RemoveTempImageFiles_log)
  show "vmware_ExportVirtualMachine sys vs c vm w = Some ((None, vm'), w') \<Longrightarrow> files_added w vm vm' w'"
    by (rule vmware_export_files)
  show "Some (vmware_Cleanup sys vm w) = Some (r, w') \<Longrightarrow> files_removed w vm w'" for r
    by (auto simp: vmware_Cleanup_def intro: RemoveTempImageFiles_removed)
qed

lemma vmware_NewOperations_ok:
  "vmware_NewOperations hc sys vs endpoint dc secret w = Some (Inr vmo, w') \<Longrightarrow> vm_operations vmo"
  by (auto simp: vmware_NewOperations_def vmware_ops.vm_operations_axioms map_sum_def
      split: Option.bind_splits sum.splits)

lemma vmware_NewOperations_quiet: "quiet w (vmware_NewOperations hc sys vs endpoint dc secret w)"
  unfolding vmware_NewOperations_def
  by (rule emits_bind [OF vmware_NewClient_quiet]) (simp add: emits_Some)

section \<open>The disks of a finished export\<close>

definition converted :: "DiskInfo \<Rightarrow> DiskInfo" where
  "converted d = d\<lparr>DiskLocalPath := TempDir, DiskName := raw_name (DiskName d)\<rparr>"

lemma export_with_lease_done:
  assumes "export_with_lease sys vs vm vmObj lease tmp items w = Some ((None, vm'), w')"
  obtains props cfg x x' where "Properties vs vmObj x = (Inr props, x')" "mo_Config props = Some cfg"
    "vm' = set_Disks (map converted
       (disks_of vm @ map (lease_disk vm (diskByBusUnit (mo_Devices cfg))) (filter is_vmdk items))) vm"
proof -
  obtain props w1 cfg vm1 w2 where q: "query (Properties vs vmObj) w = (Inr props, w1)"
    and cfg: "mo_Config props = Some cfg"
    and d: "download_items vs lease tmp (diskByBusUnit (mo_Devices cfg)) items vm w1 = ((None, vm1), w2)"
    using assms
    by (auto simp: export_with_lease_def split: Option.bind_splits prod.splits sum.splits option.splits)
  have vm1: "vm1 = set_Disks (disks_of vm @ map (lease_disk vm (diskByBusUnit (mo_Devices cfg)))
      (filter is_vmdk items)) vm"
    using download_items_spec [OF d] by auto
  have conv: "\<exists>w4. convert_disks sys tmp 0 (disks_of vm1) vm1 w4 = ((None, vm'), w')"
    using assms q cfg d
    by (auto simp: export_with_lease_def Let_def split: prod.splits)
  then have "vm' = set_Disks (map converted (disks_of vm1)) vm1"
    using convert_disks_spec [of sys tmp 0 "disks_of vm1" vm1]
    by (fastforce simp: converted_def [abs_def])
  moreover have "\<exists>x x'. Properties vs vmObj x = (Inr props, x')"
    using q by (auto simp: query_def split: prod.splits)
  ultimately show ?thesis
    using that cfg unfolding vm1 by auto
qed

text \<open>
  C19. A successful export from vSphere adds one disk for every VMDK entry of the lease, in the order
  of the lease, sized by the hardware configuration of the machine; every disk of the import then
  names the raw file of its VMDK in the directory the images are served from.
\<close>

theorem vmware_export_disks:
  fixes w :: "'x go_world"
  assumes "vmware_ExportVirtualMachine sys vs c vm w = Some ((None, vm'), w')"
  shows "\<exists>vmObj lease items props cfg (v :: 'x go_world) v' x x' y y' z z'.
    find_import vs c vm v = (Inr vmObj, v') \<and> LeaseExport vs vmObj x = (Inr lease, x') \<and>
    LeaseWait vs lease y = (Inr items, y') \<and>
    Properties vs vmObj z = (Inr props, z') \<and> mo_Config props = Some cfg \<and>
    vm' = set_Disks (map converted
       (disks_of vm @ map (lease_disk vm (diskByBusUnit (mo_Devices cfg))) (filter is_vmdk items))) vm"
proof -
  obtain vmObj lease tmp items and v v' v1 v2 v3 v4 v5 v6 :: "'x go_world" where
    found: "find_import vs c vm v = (Inr vmObj, v')"
    and lease: "effect (\<lambda>r. EvLeaseOpen vmObj (case r of Inl _ \<Rightarrow> False | Inr _ \<Rightarrow> True))
      (LeaseExport vs vmObj) v1 = (Inr lease, v2)"
    and wait: "query (LeaseWait vs lease) v3 = (Inr items, v4)"
    and run: "export_with_lease sys vs vm vmObj lease tmp items v5 = Some ((None, vm'), v6)"
    using assms
    by (auto simp: vmware_ExportVirtualMachine_def Let_def
        split: prod.splits sum.splits Option.bind_splits)
  obtain x x' where "LeaseExport vs vmObj x = (Inr lease, x')"
    using lease by (auto simp: effect_def split: prod.splits)
  moreover obtain y y' where "LeaseWait vs lease y = (Inr items, y')"
    using wait by (auto simp: query_def split: prod.splits)
  moreover obtain props cfg z z' where "Properties vs vmObj z = (Inr props, z')"
    "mo_Config props = Some cfg" "vm' = set_Disks (map converted
       (disks_of vm @ map (lease_disk vm (diskByBusUnit (mo_Devices cfg))) (filter is_vmdk items))) vm"
    by (rule export_with_lease_done [OF run])
  ultimately show ?thesis
    using found by blast
qed

section \<open>Capacities: a reference\<close>

fun controller_entry :: "Device \<Rightarrow> (int32 \<times> int32) option" where
  "controller_entry (VirtualController dev busNumber) = Some (dev_Key dev, busNumber)"
| "controller_entry d = None"

fun disk_entry :: "(int32 \<rightharpoonup> int32) \<Rightarrow> Device \<Rightarrow> ((int32 \<times> int32) \<times> int64) option" where
  "disk_entry bus (VirtualDisk dev kb) =
     (case (dev_UnitNumber dev, bus (dev_ControllerKey dev)) of
        (Some unit, Some b) \<Rightarrow> Some ((b, unit), kb)
      | _ \<Rightarrow> None)"
| "disk_entry bus d = None"

lemma controller_bus_reference:
  "controller_bus ds m = m ++ map_of (rev (List.map_filter controller_entry ds))"
proof (induction ds arbitrary: m)
  case (Cons d ds)
  then show ?case by (cases d) (simp_all add: List.map_filter_simps flip: fun_upd_def)
qed (simp add: List.map_filter_simps)

lemma disk_capacities_reference:
  "disk_capacities bus ds m = m ++ map_of (rev (List.map_filter (disk_entry bus) ds))"
proof (induction ds arbitrary: m)
  case (Cons d ds)
  then show ?case
    by (cases d) (simp_all add: List.map_filter_simps split: option.split flip: fun_upd_def)
qed (simp add: List.map_filter_simps)

text \<open>
  C25. The two loops over the devices compute one lookup table: the last controller with a key decides
  its bus, and the last disk with an address (bus, unit) decides its capacity, whatever the order
  of controllers and disks in the list. The kind of the controller is not part of the address.
\<close>

theorem diskByBusUnit_reference:
  "diskByBusUnit devices =
     map_of (rev (List.map_filter
       (disk_entry (map_of (rev (List.map_filter controller_entry devices)))) devices))"
  by (simp add: diskByBusUnit_def controller_bus_reference disk_capacities_reference)

text \<open>
  Two disks with the same bus and unit numbers behind different controllers, say SCSI 0:0 and
  NVMe 0:0, share one entry of the table: the first disk gets the capacity of the second.
\<close>

theorem diskByBusUnit_collision:
  "diskByBusUnit
     [VirtualController scsi b, VirtualController nvme b,
      VirtualDisk (d\<lparr>dev_ControllerKey := dev_Key scsi, dev_UnitNumber := Some u\<rparr>) kb1,
      VirtualDisk (e\<lparr>dev_ControllerKey := dev_Key nvme, dev_UnitNumber := Some u\<rparr>) kb2] (b, u) =
   Some kb2"
  by (simp add: diskByBusUnit_def)

end
