(* ===== verification/OvaEnvelope.thy ===== *)
theory OvaEnvelope
  imports NetworkMaps
begin

text \<open>
  Reading an OVF envelope, \<open>pkg/source/ova/client.go\<close>: capacities and quantities with their
  units, the bus of a disk controller, and \<open>parseEnvelope\<close>. The envelope records hold the
  fields the program reads; pointers are options, and a function that dereferences a nil pointer
  or indexes an empty slice returns \<open>None\<close>.

  The parameter \<open>pow\<close> is \<open>int64(math.Pow(float64(x), float64(y)))\<close>.
\<close>

section \<open>OVF data\<close>

datatype CIMResourceType =
    Processor | Memory | IdeController | ParallelScsiHba | EthernetAdapter | DiskDrive
  | OtherStorage | UsbController | CIMOther nat

record RASD =
  InstanceID :: string
  ResourceType :: "CIMResourceType option"
  ResourceSubType :: "string option"
  VirtualQuantity :: "64 word option"
  AllocationUnits :: "string option"
  AutomaticAllocation :: "bool option"
  Address :: "string option"
  Connection :: "string list"
  HostResource :: "string list"
  Parent :: "string option"

record VirtualDiskDesc =
  DiskID :: string
  FileRef :: "string option"
  Capacity :: string
  CapacityAllocationUnits :: "string option"

record ConfigEntry =
  cfg_Key :: string
  cfg_Value :: string

record OvfFile =
  file_ID :: string
  Href :: string

record VirtualHardwareSection =
  vh_Item :: "RASD list"
  vh_StorageItem :: "RASD list"
  vh_Config :: "ConfigEntry list"

record Envelope =
  env_References :: "OvfFile list"
  env_Disk :: "VirtualDiskDesc list option"
  env_VirtualHardware :: "VirtualHardwareSection list option"

section \<open>Units\<close>

definition unitToBytesMap :: "string \<Rightarrow> int64 option" where
  "unitToBytesMap u =
     (if u = ''kb'' \<or> u = ''kilobytes'' then Some (2 ^ 10)
      else if u = ''mb'' \<or> u = ''megabytes'' then Some (2 ^ 20)
      else if u = ''gb'' \<or> u = ''gigabytes'' then Some (2 ^ 30)
      else if u = ''tb'' \<or> u = ''terabytes'' then Some (2 ^ 40)
      else None)"

text \<open>
  The common part of \<open>parseCapacity\<close> and \<open>parseVirtualQuantity\<close>, which differ in how the
  base and the exponent of a power are read.
\<close>

definition scale_units ::
  "(string \<Rightarrow> num_result) \<Rightarrow> (string \<Rightarrow> num_result) \<Rightarrow> (int \<Rightarrow> int \<Rightarrow> int64) \<Rightarrow> string \<Rightarrow> int64 \<Rightarrow> int64"
  where
  "scale_units parseBase parseExp pow units b =
     (let c = strings_Fields units;
          b = (if length c = 3 \<and> c ! 0 = ''byte'' \<and> c ! 1 = ''*''
               then (let p = strings_Split (c ! 2) (CHR ''^'');
                         x = num_value (parseBase (p ! 0))
                     in if length p = 2
                        then b * pow x (num_value (parseExp (p ! 1)))
                        else b * word_of_int x)
               else b)
      in if length c = 1
         then (case unitToBytesMap (strings_ToLower (c ! 0)) of
                 Some multiplier \<Rightarrow> b * multiplier
               | None \<Rightarrow> b)
         else b)"

definition parseCapacity :: "(int \<Rightarrow> int \<Rightarrow> int64) \<Rightarrow> VirtualDiskDesc \<Rightarrow> int64" where
  "parseCapacity pow disk =
     (let b = word_of_int (num_value (strconv_ParseInt (Capacity disk) 64)) in
      case CapacityAllocationUnits disk of
        None \<Rightarrow> b
      | Some units \<Rightarrow>
          scale_units (\<lambda>s. strconv_ParseInt s 64) (\<lambda>s. strconv_ParseUint s 64) pow units b)"

definition parseVirtualQuantity :: "(int \<Rightarrow> int \<Rightarrow> int64) \<Rightarrow> RASD \<Rightarrow> int64 option" where
  "parseVirtualQuantity pow rasd =
     (case VirtualQuantity rasd of
        None \<Rightarrow> None
      | Some b \<Rightarrow> Some
          (case AllocationUnits rasd of
             None \<Rightarrow> b
           | Some units \<Rightarrow>
               scale_units (\<lambda>s. strconv_ParseInt s 32) (\<lambda>s. strconv_ParseInt s 32) pow units b))"

section \<open>Controllers and references\<close>

definition findResourceAllocationSettingData :: "VirtualHardwareSection \<Rightarrow> string \<Rightarrow> RASD option" where
  "findResourceAllocationSettingData vhs instanceID =
     find (\<lambda>item. InstanceID item = instanceID) (vh_Item vhs)"

definition resolveReference :: "Envelope \<Rightarrow> string \<Rightarrow> OvfFile option" where
  "resolveReference e fileId = find (\<lambda>ref. file_ID ref = fileId) (env_References e)"

text \<open>\<open>detectDiskBusType\<close>: \<open>None\<close> is the pair of the empty bus type and false.\<close>

definition ova_detectDiskBusType :: "RASD \<Rightarrow> DiskBus option" where
  "ova_detectDiskBusType rasd =
     (case ResourceSubType rasd of
        Some subtype \<Rightarrow>
          (let rst = strings_ToLower subtype; has = strings_Contains rst in
           if has ''scsi'' \<or> has ''buslogic'' \<or> has ''lsilogic'' then Some DiskBusSCSI
           else if has ''ahci'' \<or> has ''sata'' \<or> has ''ide'' then Some DiskBusSATA
           else if rst = ''virtio'' \<or> has ''nvme'' then Some DiskBusVirtio
           else if has ''usb'' then Some DiskBusUSB
           else None)
      | None \<Rightarrow>
          (case ResourceType rasd of
             Some IdeController \<Rightarrow> Some DiskBusSATA
           | Some ParallelScsiHba \<Rightarrow> Some DiskBusSCSI
           | Some OtherStorage \<Rightarrow> Some DiskBusVirtio
           | Some UsbController \<Rightarrow> Some DiskBusVirtio
           | _ \<Rightarrow> None))"

section \<open>parseEnvelope\<close>

text \<open>The values under construction: firmware, hardware, network cards, disks.\<close>

record OvfResult =
  ovf_fw :: Firmware
  ovf_hw :: Hardware
  ovf_nis :: "NetworkInfo list"
  ovf_dis :: "DiskInfo list"

text \<open>The bus of a disk: that of its controller when it is found and recognised.\<close>

definition disk_bus_of :: "VirtualHardwareSection \<Rightarrow> DiskBus \<Rightarrow> RASD \<Rightarrow> DiskBus" where
  "disk_bus_of vh defaultDiskBusType item =
     (case Parent item of
        None \<Rightarrow> defaultDiskBusType
      | Some parent \<Rightarrow>
          (case findResourceAllocationSettingData vh parent of
             None \<Rightarrow> defaultDiskBusType
           | Some parentItem \<Rightarrow>
               (case ova_detectDiskBusType parentItem of
                  Some detectedBusType \<Rightarrow> detectedBusType
                | None \<Rightarrow> defaultDiskBusType)))"

definition ovf_disk :: "(int \<Rightarrow> int \<Rightarrow> int64) \<Rightarrow> string \<Rightarrow> VirtualDiskDesc \<Rightarrow> DiskBus \<Rightarrow> DiskInfo" where
  "ovf_disk pow name disk busType =
     \<lparr>DiskName = name, DiskSize = parseCapacity pow disk, DiskLocalPath = [], DiskRoute = [],
      DiskImage = [], DiskConditions = [], BusType = busType\<rparr>"

text \<open>The loop over the disk section for one drive.\<close>

fun drive_disks ::
  "(int \<Rightarrow> int \<Rightarrow> int64) \<Rightarrow> Envelope \<Rightarrow> VirtualHardwareSection \<Rightarrow> DiskBus \<Rightarrow> RASD \<Rightarrow> string \<Rightarrow>
   VirtualDiskDesc list \<Rightarrow> DiskInfo list option" where
  "drive_disks pow e vh bus item diskId [] = Some []"
| "drive_disks pow e vh bus item diskId (disk # disks) =
     (if DiskID disk = diskId then
        do {
          fileRef \<leftarrow> FileRef disk;
          dis \<leftarrow> drive_disks pow e vh bus item diskId disks;
          Some (case resolveReference e fileRef of
                  Some ref \<Rightarrow> ovf_disk pow (Href ref) disk (disk_bus_of vh bus item) # dis
                | None \<Rightarrow> dis)
        }
      else drive_disks pow e vh bus item diskId disks)"

definition parse_drive ::
  "(int \<Rightarrow> int \<Rightarrow> int64) \<Rightarrow> Envelope \<Rightarrow> VirtualHardwareSection \<Rightarrow> DiskBus \<Rightarrow> VirtualDiskDesc list \<Rightarrow>
   RASD \<Rightarrow> DiskInfo list option" where
  "parse_drive pow e vh bus disks item =
     (case HostResource item of
        [] \<Rightarrow> None
      | r # _ \<Rightarrow> drive_disks pow e vh bus item (filepath_Base r) disks)"

definition card_model :: "string \<Rightarrow> RASD \<Rightarrow> string" where
  "card_model defaultInterfaceModel item =
     (case ResourceSubType item of
        None \<Rightarrow> defaultInterfaceModel
      | Some subtype \<Rightarrow>
          (let t = strings_ToLower subtype in
           if t = ''rtl8139'' then NetworkInterfaceModelRtl8139
           else if t = ''e1000'' then NetworkInterfaceModelE1000
           else if t = ''e1000e'' then NetworkInterfaceModelE1000e
           else if t = ''pcnet32'' then NetworkInterfaceModelPcnet
           else if t \<in> {''vmxnet'', ''vmxnet2'', ''vmxnet3'', ''virtio''}
           then NetworkInterfaceModelVirtio
           else defaultInterfaceModel))"

definition parse_card :: "string \<Rightarrow> RASD \<Rightarrow> NetworkInfo option" where
  "parse_card defaultInterfaceModel item =
     (let macAddress = (if ptr_Deref (AutomaticAllocation item) False
                        then (case Address item of Some a \<Rightarrow> a | None \<Rightarrow> []) else [])
      in case Connection item of
           [] \<Rightarrow> None
         | n # _ \<Rightarrow> Some \<lparr>NetworkName = n, MAC = macAddress, MappedNetwork = [],
                         Model = card_model defaultInterfaceModel item\<rparr>)"

text \<open>The switch on the resource type of an item.\<close>

definition parse_item ::
  "(int \<Rightarrow> int \<Rightarrow> int64) \<Rightarrow> Envelope \<Rightarrow> VirtualHardwareSection \<Rightarrow> string \<Rightarrow> DiskBus \<Rightarrow>
   VirtualDiskDesc list \<Rightarrow> RASD \<Rightarrow> OvfResult \<Rightarrow> OvfResult option" where
  "parse_item pow e vh defaultModel bus disks item r =
     (case ResourceType item of
        Some Processor \<Rightarrow>
          do { q \<leftarrow> VirtualQuantity item;
               Some (r\<lparr>ovf_hw := (ovf_hw r)\<lparr>NumCPU := ucast q\<rparr>\<rparr>) }
      | Some Memory \<Rightarrow>
          do { bytes \<leftarrow> parseVirtualQuantity pow item;
               Some (r\<lparr>ovf_hw := (ovf_hw r)\<lparr>MemoryMB := int64_div bytes (1024 * 1024)\<rparr>\<rparr>) }
      | Some EthernetAdapter \<Rightarrow>
          do { ni \<leftarrow> parse_card defaultModel item;
               Some (r\<lparr>ovf_nis := ovf_nis r @ [ni]\<rparr>) }
      | Some DiskDrive \<Rightarrow>
          do { dis \<leftarrow> parse_drive pow e vh bus disks item;
               Some (r\<lparr>ovf_dis := ovf_dis r @ dis\<rparr>) }
      | _ \<Rightarrow> Some r)"

text \<open>The firmware part of the loop body: the TPM device, then all configuration entries.\<close>

definition apply_config :: "ConfigEntry \<Rightarrow> Firmware \<Rightarrow> Firmware" where
  "apply_config cfg fw =
     (if cfg_Key cfg = ''bootOptions.efiSecureBootEnabled''
      then fw\<lparr>SecureBoot := parse_bool_value (cfg_Value cfg)\<rparr>
      else if cfg_Key cfg = ''firmware''
      then (if strings_ToLower (cfg_Value cfg) = ''efi'' then fw\<lparr>UEFI := True\<rparr> else fw)
      else if cfg_Key cfg = ''tpm.present'' \<or> cfg_Key cfg = ''tpm20.enabled''
      then fw\<lparr>TPM := parse_bool_value (cfg_Value cfg)\<rparr>
      else fw)"

definition item_firmware :: "VirtualHardwareSection \<Rightarrow> RASD \<Rightarrow> Firmware \<Rightarrow> Firmware" where
  "item_firmware vh item fw =
     (let fw = (if ResourceSubType item = Some ''vmware.vtpm'' then fw\<lparr>TPM := True\<rparr> else fw)
      in fold apply_config (vh_Config vh) fw)"

fun parse_items ::
  "(int \<Rightarrow> int \<Rightarrow> int64) \<Rightarrow> Envelope \<Rightarrow> VirtualHardwareSection \<Rightarrow> string \<Rightarrow> DiskBus \<Rightarrow>
   VirtualDiskDesc list \<Rightarrow> RASD list \<Rightarrow> OvfResult \<Rightarrow> OvfResult option" where
  "parse_items pow e vh m bus disks [] r = Some r"
| "parse_items pow e vh m bus disks (item # items) r =
     do {
       r \<leftarrow> parse_item pow e vh m bus disks item r;
       parse_items pow e vh m bus disks items (r\<lparr>ovf_fw := item_firmware vh item (ovf_fw r)\<rparr>)
     }"

fun parse_storage_items ::
  "(int \<Rightarrow> int \<Rightarrow> int64) \<Rightarrow> Envelope \<Rightarrow> VirtualHardwareSection \<Rightarrow> DiskBus \<Rightarrow>
   VirtualDiskDesc list \<Rightarrow> RASD list \<Rightarrow> OvfResult \<Rightarrow> OvfResult option" where
  "parse_storage_items pow e vh bus disks [] r = Some r"
| "parse_storage_items pow e vh bus disks (item # items) r =
     do {
       r \<leftarrow> (case ResourceType item of
               Some DiskDrive \<Rightarrow>
                 do { dis \<leftarrow> parse_drive pow e vh bus disks item;
                      Some (r\<lparr>ovf_dis := ovf_dis r @ dis\<rparr>) }
             | _ \<Rightarrow> Some r);
       parse_storage_items pow e vh bus disks items r
     }"

fun parse_hardware ::
  "(int \<Rightarrow> int \<Rightarrow> int64) \<Rightarrow> Envelope \<Rightarrow> string \<Rightarrow> DiskBus \<Rightarrow> VirtualDiskDesc list \<Rightarrow>
   VirtualHardwareSection list \<Rightarrow> OvfResult \<Rightarrow> OvfResult option" where
  "parse_hardware pow e m bus disks [] r = Some r"
| "parse_hardware pow e m bus disks (vh # vhs) r =
     do {
       r \<leftarrow> parse_items pow e vh m bus disks (vh_Item vh) r;
       r \<leftarrow> parse_storage_items pow e vh bus disks (vh_StorageItem vh) r;
       parse_hardware pow e m bus disks vhs r
     }"

definition parseEnvelope ::
  "(int \<Rightarrow> int \<Rightarrow> int64) \<Rightarrow> Envelope \<Rightarrow> string \<Rightarrow> DiskBus \<Rightarrow> OvfResult option" where
  "parseEnvelope pow e defaultInterfaceModel defaultDiskBusType =
     (let r = \<lparr>ovf_fw = NewFirmware False False False, ovf_hw = NewHardware 0 0 0,
               ovf_nis = [], ovf_dis = []\<rparr>
      in case env_VirtualHardware e of
           None \<Rightarrow> Some r
         | Some vhs \<Rightarrow>
             parse_hardware pow e defaultInterfaceModel defaultDiskBusType
               (ptr_Deref (env_Disk e) []) vhs r)"

section \<open>Capacities\<close>

lemma fields_from_word:
  "\<forall>c \<in> set u. \<not> is_space c \<Longrightarrow> fields_from cur (u @ s) = fields_from (cur @ u) s"
  by (induction u arbitrary: cur) auto

lemma Fields_word: "u \<noteq> [] \<Longrightarrow> \<forall>c \<in> set u. \<not> is_space c \<Longrightarrow> strings_Fields u = [u]"
  using fields_from_word [of u "[]" "[]"] by (simp add: strings_Fields_def)

lemma Fields_words:
  assumes "u \<noteq> []" "\<forall>c \<in> set u. \<not> is_space c"
  shows "strings_Fields (u @ '' '' @ s) = u # strings_Fields s"
  using assms fields_from_word [of u "[]" "'' '' @ s"]
  by (simp add: strings_Fields_def is_space_def char_code_def)

lemma digit_not_space: "is_digit c \<Longrightarrow> \<not> is_space c"
  by (auto simp: is_digit_def is_space_def)

lemma show_nat_no_space: "c \<in> set (show_nat n) \<Longrightarrow> \<not> is_space c"
  using show_nat_digits digit_not_space by blast

lemma ParseInt_show_nat64: "n < 2 ^ 63 \<Longrightarrow> strconv_ParseInt (show_nat n) 64 = NumOk (int n)"
  using ParseInt_show_nat [of n 64] by simp

lemma power_units_Fields:
  "strings_Fields (''byte * '' @ show_nat b @ ''^'' @ show_nat k) =
     [''byte'', ''*'', show_nat b @ ''^'' @ show_nat k]"
proof -
  have "strings_Fields (show_nat b @ ''^'' @ show_nat k) = [show_nat b @ ''^'' @ show_nat k]"
    using show_nat_no_space by (intro Fields_word) (auto simp: is_space_def char_code_def)
  then show ?thesis
    using Fields_words [of "''byte''" "''* '' @ show_nat b @ ''^'' @ show_nat k"]
      Fields_words [of "''*''" "show_nat b @ ''^'' @ show_nat k"]
    by (simp add: is_space_def char_code_def)
qed

lemma power_Split:
  "strings_Split (show_nat b @ ''^'' @ show_nat k) (CHR ''^'') = [show_nat b, show_nat k]"
proof -
  have no: "CHR ''^'' \<notin> set (show_nat n)" for n
    using show_nat_digits [of "CHR ''^''" n] by (auto simp: is_digit_def char_code_def)
  show ?thesis
    using Split_append_sep [OF no, of b "show_nat k"] by (simp add: Split_no_sep [OF no])
qed

text \<open>
  C38. The capacity of a disk in bytes, in the arithmetic of 64-bit integers: the number itself when no
  unit is given, times \<open>2 ^ 10\<close> to \<open>2 ^ 40\<close> for a named unit in any case (and unchanged for an unknown
  one), and times the power for units of the form \<open>byte * b^k\<close>.
\<close>

theorem parseCapacity_spec:
  assumes "n < 2 ^ 63" "b < 2 ^ 63" "k < 2 ^ 64" "u \<noteq> []" "\<forall>c \<in> set u. \<not> is_space c"
  shows "parseCapacity pow (d\<lparr>Capacity := show_nat n, CapacityAllocationUnits := None\<rparr>) = of_nat n \<and>
    parseCapacity pow (d\<lparr>Capacity := show_nat n, CapacityAllocationUnits := Some u\<rparr>) =
      of_nat n * (case unitToBytesMap (strings_ToLower u) of Some m \<Rightarrow> m | None \<Rightarrow> 1) \<and>
    parseCapacity pow (d\<lparr>Capacity := show_nat n,
        CapacityAllocationUnits := Some (''byte * '' @ show_nat b @ ''^'' @ show_nat k)\<rparr>) =
      of_nat n * pow (int b) (int k)"
proof -
  have k: "strconv_ParseUint (show_nat k) 64 = NumOk (int k)"
    using assms(3) by (intro ParseUint_show_nat) simp
  show ?thesis
    using assms(1,2) Fields_word [OF assms(4,5)]
    by (simp add: parseCapacity_def scale_units_def Let_def ParseInt_show_nat64 k
        power_units_Fields [simplified] power_Split [simplified] split: option.split)
qed

theorem parseCapacity_spec_witness:
  "parseCapacity (\<lambda>b k. word_of_int (b ^ nat k))
     \<lparr>DiskID = ''vmdisk1'', FileRef = None, Capacity = show_nat 8, CapacityAllocationUnits = Some ''GB''\<rparr> =
   8589934592"
proof -
  have "unitToBytesMap (strings_ToLower ''GB'') = Some (2 ^ 30)"
    by code_simp
  then show ?thesis
    using parseCapacity_spec [of 8 2 20 "''GB''" "\<lambda>b k. word_of_int (b ^ nat k)"
        "\<lparr>DiskID = ''vmdisk1'', FileRef = None, Capacity = [], CapacityAllocationUnits = None\<rparr>"]
    by (simp add: is_space_def char_code_def)
qed

section \<open>Malformed envelopes\<close>

text \<open>What the code dereferences or indexes without a check.\<close>

definition dangling :: "VirtualDiskDesc list \<Rightarrow> RASD \<Rightarrow> bool" where
  "dangling disks item =
     (case HostResource item of
        [] \<Rightarrow> True
      | r # _ \<Rightarrow> list_ex (\<lambda>d. DiskID d = filepath_Base r \<and> FileRef d = None) disks)"

definition malformed :: "VirtualDiskDesc list \<Rightarrow> RASD \<Rightarrow> bool" where
  "malformed disks item =
     (case ResourceType item of
        Some Processor \<Rightarrow> VirtualQuantity item = None
      | Some Memory \<Rightarrow> VirtualQuantity item = None
      | Some EthernetAdapter \<Rightarrow> Connection item = []
      | Some DiskDrive \<Rightarrow> dangling disks item
      | _ \<Rightarrow> False)"

definition malformed_storage :: "VirtualDiskDesc list \<Rightarrow> RASD \<Rightarrow> bool" where
  "malformed_storage disks item \<longleftrightarrow> ResourceType item = Some DiskDrive \<and> dangling disks item"

lemma drive_disks_None:
  "drive_disks pow e vh bus item i disks = None \<longleftrightarrow> list_ex (\<lambda>d. DiskID d = i \<and> FileRef d = None) disks"
  by (induction disks) (auto split: Option.bind_splits)

lemma parse_drive_None: "parse_drive pow e vh bus disks item = None \<longleftrightarrow> dangling disks item"
  by (simp add: parse_drive_def dangling_def drive_disks_None split: list.split)

lemma parse_item_None: "parse_item pow e vh m bus disks item r = None \<longleftrightarrow> malformed disks item"
  using parse_drive_None [of pow e vh bus disks item]
  by (auto simp: parse_item_def malformed_def parse_card_def parseVirtualQuantity_def Let_def
      split: option.splits CIMResourceType.splits Option.bind_splits list.splits)

lemma parse_items_None:
  "parse_items pow e vh m bus disks items r = None \<longleftrightarrow> list_ex (malformed disks) items"
proof (induction items arbitrary: r)
  case (Cons item items)
  then show ?case
    using parse_item_None [of pow e vh m bus disks item r] by (auto split: Option.bind_splits)
qed simp

lemma parse_storage_items_None:
  "parse_storage_items pow e vh bus disks items r = None \<longleftrightarrow> list_ex (malformed_storage disks) items"
proof (induction items arbitrary: r)
  case (Cons item items)
  then show ?case
    using parse_drive_None [of pow e vh bus disks item]
    by (auto simp: malformed_storage_def split: Option.bind_splits option.splits CIMResourceType.splits)
qed simp

lemma parse_hardware_None:
  "parse_hardware pow e m bus disks vhs r = None \<longleftrightarrow>
   list_ex (\<lambda>vh. list_ex (malformed disks) (vh_Item vh) \<or>
     list_ex (malformed_storage disks) (vh_StorageItem vh)) vhs"
proof (induction vhs arbitrary: r)
  case (Cons vh vhs)
  show ?case
    using Cons.IH parse_items_None [of pow e vh m bus disks "vh_Item vh" r]
      parse_storage_items_None [of pow e vh bus disks "vh_StorageItem vh"]
    by (auto split: Option.bind_splits)
qed simp

text \<open>
  C35. The reader of the envelope crashes on exactly these archives: a processor or memory item without
  a quantity, a network card without a connection, a disk drive without a host resource or whose disk
  description has no file reference.
\<close>

theorem parseEnvelope_panics:
  "parseEnvelope pow e m bus = None \<longleftrightarrow>
   (\<exists>vhs. env_VirtualHardware e = Some vhs \<and>
      list_ex (\<lambda>vh. list_ex (malformed (ptr_Deref (env_Disk e) [])) (vh_Item vh) \<or>
        list_ex (malformed_storage (ptr_Deref (env_Disk e) [])) (vh_StorageItem vh)) vhs)"
  by (simp add: parseEnvelope_def Let_def parse_hardware_None split: option.split)

end
