(* ===== verification/OvaClient.thy ===== *)
theory OvaClient
  imports OvaEnvelope Hypervisor Operations
begin

text \<open>
  The OVA client, \<open>pkg/source/ova/client.go\<close>: HTTP requests, the manifest and its checksums,
  extraction and conversion of the disks, and the operations of the client. The HTTP library,
  the archive reader and the hash functions are parameters.
\<close>

section \<open>What the client calls\<close>

record HttpClient =
  http_Timeout :: int64
  InsecureSkipVerify :: bool
  RootCAs :: "string option"

text \<open>A response: its status code, its status line and a handle for its body.\<close>

record HttpResponse =
  StatusCode :: int
  resp_Status :: string
  resp_Body :: string

record 'x ova_sdk =
  ParseRequestURI :: "string \<Rightarrow> go_error + string"
  http_NewRequest :: "string \<Rightarrow> string \<Rightarrow> go_error option"
  http_Do :: "HttpClient \<Rightarrow> string \<Rightarrow> string \<Rightarrow> (string \<times> string) option \<Rightarrow>
    ('x, go_error + HttpResponse) call"
  io_CopyBody :: "string \<Rightarrow> string \<Rightarrow> ('x, go_error option) call"
  archive_Open :: "string \<Rightarrow> string \<Rightarrow> ('x, go_error + string) call"
  importer_ReadOvf :: "string \<Rightarrow> string \<Rightarrow> ('x, go_error + string) call"
  importer_ReadEnvelope :: "string \<Rightarrow> go_error + Envelope"
  sha1_hex :: "string \<Rightarrow> string"
  sha256_hex :: "string \<Rightarrow> string"
  math_Pow :: "int \<Rightarrow> int \<Rightarrow> int64"

record ova_Client =
  oc_url :: string
  oc_secret :: "Secret option"
  oc_httpClient :: HttpClient
  oc_options :: OvaSourceOptions
  oc_workingDir :: string

section \<open>HTTP\<close>

text \<open>\<open>newHttpRequest\<close>: the credentials go along only when both are in the secret.\<close>

definition newHttpRequest ::
  "'x ova_sdk \<Rightarrow> string \<Rightarrow> string \<Rightarrow> Secret option \<Rightarrow> go_error + (string \<times> string) option" where
  "newHttpRequest sdk meth url secret =
     (case http_NewRequest sdk meth url of
        Some err \<Rightarrow> Inl err
      | None \<Rightarrow>
          Inr (case secret of
                 None \<Rightarrow> None
               | Some s \<Rightarrow>
                   (case (Data s ''username'', Data s ''password'') of
                      (Some username, Some password) \<Rightarrow> Some (username, password)
                    | _ \<Rightarrow> None)))"

definition newHttpClient :: "Secret option \<Rightarrow> OvaSourceOptions \<Rightarrow> HttpClient" where
  "newHttpClient secret options =
     (let cert = (case secret of None \<Rightarrow> None | Some s \<Rightarrow> Data s ''ca.crt'')
      in \<lparr>http_Timeout = GetHttpTimeout options, InsecureSkipVerify = (cert = None), RootCAs = cert\<rparr>)"

definition ova_NewClient_impl :: "string \<Rightarrow> Secret option \<Rightarrow> OvaSourceOptions \<Rightarrow> ova_Client" where
  "ova_NewClient_impl url secret options =
     \<lparr>oc_url = url, oc_secret = secret, oc_httpClient = newHttpClient secret options,
      oc_options = options, oc_workingDir = TempDir\<rparr>"

definition ova_Verify ::
  "'x ova_sdk \<Rightarrow> ova_Client \<Rightarrow> 'x go_world \<Rightarrow> go_error option \<times> 'x go_world" where
  "ova_Verify sdk c w =
     (case ParseRequestURI sdk (oc_url c) of
        Inl err \<Rightarrow> (Some (Wrapf ''error parsing URL: '' err), w)
      | Inr scheme \<Rightarrow>
          if scheme = ''http'' \<or> scheme = ''https'' then
            (case newHttpRequest sdk ''HEAD'' (oc_url c) (oc_secret c) of
               Inl err \<Rightarrow> (Some err, w)
             | Inr auth \<Rightarrow>
                 (case query (http_Do sdk (oc_httpClient c) ''HEAD'' (oc_url c) auth) w of
                    (Inl err, w) \<Rightarrow> (Some (Wrapf ''failed to make HEAD request: '' err), w)
                  | (Inr resp, w) \<Rightarrow>
                      if StatusCode resp < 200 \<or> 400 \<le> StatusCode resp
                      then (Some (Errorf (''failed HEAD request (code='' @ show_int (StatusCode resp)
                             @ ''): '' @ resp_Status resp)), w)
                      else (None, w)))
          else (Some (Errorf (''unsupported URL scheme '' @ go_quote scheme @ '': must be ''
             @ single_quoted ''http'' @ '' or '' @ single_quoted ''https'')), w))"

definition downloadArchive ::
  "'x system \<Rightarrow> 'x ova_sdk \<Rightarrow> ova_Client \<Rightarrow> string \<Rightarrow> 'x go_world \<Rightarrow> go_error option \<times> 'x go_world"
  where
  "downloadArchive sys sdk c dstPath w =
     (case newHttpRequest sdk ''GET'' (oc_url c) (oc_secret c) of
        Inl err \<Rightarrow> (Some err, w)
      | Inr auth \<Rightarrow>
          (case query (http_Do sdk (oc_httpClient c) ''GET'' (oc_url c) auth) w of
             (Inl err, w) \<Rightarrow> (Some (Wrapf ''failed to make GET request: '' err), w)
           | (Inr resp, w) \<Rightarrow>
               if StatusCode resp \<noteq> 200
               then (Some (Errorf (''failed GET request (code='' @ show_int (StatusCode resp)
                      @ ''): '' @ resp_Status resp)), w)
               else
                 (case effect (\<lambda>r. EvFileCreate dstPath (r = None)) (os_Create sys dstPath) w of
                    (Some err, w) \<Rightarrow>
                      (Some (Wrapf (''failed to create destination archive file '' @ go_quote dstPath
                         @ '': '') err), w)
                  | (None, w) \<Rightarrow>
                      (case effect (\<lambda>r. EvFileWrite dstPath (r = None))
                              (io_CopyBody sdk dstPath (resp_Body resp)) w of
                         (Some err, w) \<Rightarrow>
                           (Some (Wrapf (''failed to write archive file '' @ go_quote dstPath
                              @ '': '') err), w)
                       | (None, w) \<Rightarrow> (None, w)))))"

section \<open>The manifest\<close>

definition is_word_char :: "char \<Rightarrow> bool" where
  "is_word_char c \<longleftrightarrow> is_digit c \<or> (let n = char_code (lower_char c) in 97 \<le> n \<and> n \<le> 122) \<or> c = CHR ''_''"

definition is_hex_char :: "char \<Rightarrow> bool" where
  "is_hex_char c \<longleftrightarrow> is_digit c \<or> (let n = char_code (lower_char c) in 97 \<le> n \<and> n \<le> 102)"

text \<open>\<open>\s\<close> of a regular expression: unlike \<open>unicode.IsSpace\<close> it leaves out the vertical tab.\<close>

definition is_regex_space :: "char \<Rightarrow> bool" where
  "is_regex_space c \<longleftrightarrow> is_space c \<and> char_code c \<noteq> 11"

record Checksum =
  Algorithm :: string
  csum_Checksum :: string

text \<open>
  The submatches of \<open>^(\w+)\(([^)]+)\)\s*=\s*([a-fA-F0-9]+)$\<close>: no two neighbouring parts of the
  expression share a character, so the match is found by taking each part as long as possible.
\<close>

definition match_manifest_line :: "string \<Rightarrow> (string \<times> string \<times> string) option" where
  "match_manifest_line line =
     (let algo = takeWhile is_word_char line;
          r1 = dropWhile is_word_char line;
          name = takeWhile (\<lambda>c. c \<noteq> CHR '')'') (drop 1 r1);
          r2 = dropWhile (\<lambda>c. c \<noteq> CHR '')'') (drop 1 r1);
          r3 = dropWhile is_regex_space (drop 1 r2);
          csum = dropWhile is_regex_space (drop 1 r3)
      in if algo \<noteq> [] \<and> take 1 r1 = ''('' \<and> name \<noteq> [] \<and> take 1 r2 = '')'' \<and> take 1 r3 = ''='' \<and>
            csum \<noteq> [] \<and> list_all is_hex_char csum
         then Some (algo, name, csum) else None)"

text \<open>
  \<open>bufio.Scanner\<close> gives up on a line of 64 KiB. This is the one error of the scanner that is
  modelled: the manifest is given as its contents, so a reader that fails half-way does not occur.
\<close>

definition max_line :: int where "max_line = 65536"

fun manifest_loop :: "string list \<Rightarrow> (string \<rightharpoonup> Checksum) \<Rightarrow> go_error + (string \<rightharpoonup> Checksum)" where
  "manifest_loop [] csums = Inr csums"
| "manifest_loop (l # ls) csums =
     (if max_line \<le> int (length l) then Inl (ErrExternal ''bufio.Scanner: token too long'')
      else
        (let line = strings_TrimSpace l in
         case match_manifest_line line of
           None \<Rightarrow> manifest_loop ls csums
         | Some (algo, name, csum) \<Rightarrow>
             manifest_loop ls (csums(name \<mapsto> \<lparr>Algorithm = strings_TrimSpace algo,
               csum_Checksum = strings_TrimSpace csum\<rparr>))))"

definition readManifest :: "string \<Rightarrow> go_error + (string \<rightharpoonup> Checksum)" where
  "readManifest content = manifest_loop (strings_Split content (CHR 0x0A)) Map.empty"

definition readEnvelope ::
  "'x ova_sdk \<Rightarrow> string \<Rightarrow> 'x go_world \<Rightarrow> (go_error + Envelope) \<times> 'x go_world" where
  "readEnvelope sdk archivePath w =
     (case query (importer_ReadOvf sdk archivePath ''*.ovf'') w of
        (Inl err, w) \<Rightarrow>
          (Inl (Wrapf (''failed to read OVF from archive '' @ go_quote archivePath @ '': '') err), w)
      | (Inr content, w) \<Rightarrow>
          (case importer_ReadEnvelope sdk content of
             Inl err \<Rightarrow>
               (Inl (Wrapf (''failed to read envelope from archive '' @ go_quote archivePath @ '': '')
                  err), w)
           | Inr e \<Rightarrow> (Inr e, w)))"

section \<open>Extraction\<close>

text \<open>What the manifest says about a file: its checksum entry and the hash to compute.\<close>

definition manifest_hash ::
  "'x ova_sdk \<Rightarrow> string \<Rightarrow> string \<Rightarrow> go_error + (string \<times> (string \<Rightarrow> string))" where
  "manifest_hash sdk name mfContent =
     (case readManifest mfContent of
        Inl err \<Rightarrow> Inl (Wrapf ''failed to read manifest: '' err)
      | Inr mf \<Rightarrow>
          (case mf name of
             None \<Rightarrow> Inl (Errorf (''failed to find entry for '' @ go_quote name @ '' in manifest''))
           | Some csum \<Rightarrow>
               (let algo = strings_ToLower (Algorithm csum) in
                if algo = ''sha1'' then Inr (csum_Checksum csum, sha1_hex sdk)
                else if algo = ''sha256'' then Inr (csum_Checksum csum, sha256_hex sdk)
                else Inl (Errorf (''unsupported checksum algorithm '' @ go_quote (Algorithm csum)
                       @ '' in manifest'')))))"

text \<open>The part between the creation of the VMDK file and its removal.\<close>

definition write_check_convert ::
  "'x system \<Rightarrow> string \<Rightarrow> string \<Rightarrow> string \<Rightarrow> string \<Rightarrow> string \<Rightarrow> (string \<Rightarrow> string) \<Rightarrow> bool \<Rightarrow>
   'x go_world \<Rightarrow> go_error option \<times> 'x go_world" where
  "write_check_convert sys vmdk name content dstPath expected hash convert w =
     (case effect (\<lambda>r. EvFileWrite vmdk (r = None)) (os_Write sys vmdk content) w of
        (Some err, w) \<Rightarrow>
          (Some (Wrapf (''failed to write VMDK file '' @ go_quote name @ '': '') err), w)
      | (None, w) \<Rightarrow>
          if hash content \<noteq> expected
          then (Some (Errorf (''checksum mismatch for VMDK file '' @ go_quote name @ '': expected ''
                 @ go_quote expected @ '', got '' @ go_quote (hash content))), w)
          else if convert then
            (case ConvertVMDKtoRAW sys vmdk dstPath w of
               (Some err, w) \<Rightarrow>
                 (Some (Wrapf (''failed to convert VMDK file '' @ go_quote vmdk @ '' to RAW ''
                    @ go_quote dstPath @ '': '') err), w)
             | (None, w) \<Rightarrow> (None, w))
          else (None, w))"

definition extractAndConvertVMDKToRAW ::
  "'x system \<Rightarrow> 'x ova_sdk \<Rightarrow> ova_Client \<Rightarrow> string \<Rightarrow> string \<Rightarrow> string \<Rightarrow> bool \<Rightarrow> 'x go_world \<Rightarrow>
   go_error option \<times> 'x go_world" where
  "extractAndConvertVMDKToRAW sys sdk c archivePath name dstPath convert w =
     (case query (archive_Open sdk archivePath name) w of
        (Inl err, w) \<Rightarrow>
          (Some (Wrapf (''failed to open VMDK '' @ go_quote name @ '' from '' @ go_quote archivePath
             @ '': '') err), w)
      | (Inr content, w) \<Rightarrow>
          (case query (archive_Open sdk archivePath ''*.mf'') w of
             (Inl err, w) \<Rightarrow> (Some (Wrapf ''failed to open manifest: '' err), w)
           | (Inr mfContent, w) \<Rightarrow>
               (case manifest_hash sdk name mfContent of
                  Inl err \<Rightarrow> (Some err, w)
                | Inr (expected, hash) \<Rightarrow>
                    (let vmdk = filepath_Join [oc_workingDir c, name] in
                     case effect (\<lambda>r. EvFileCreate vmdk (r = None)) (os_Create sys vmdk) w of
                       (Some err, w) \<Rightarrow> (Some (Wrapf ''failed to create VMDK file: '' err), w)
                     | (None, w) \<Rightarrow>
                         (let (res, w) = write_check_convert sys vmdk name content dstPath
                                expected hash convert w;
                              (_, w) = effect (\<lambda>_. EvFileRemove vmdk) (os_Remove sys vmdk) w
                          in (res, w))))))"

section \<open>Operations\<close>

definition generateArchivePath :: "ova_Client \<Rightarrow> VirtualMachineImport \<Rightarrow> string" where
  "generateArchivePath c vmi = filepath_Join [oc_workingDir c, imported_name vmi] @ ''.ova''"

definition generateImageName :: "VirtualMachineImport \<Rightarrow> DiskInfo \<Rightarrow> string" where
  "generateImageName vmi di = imported_name vmi @ ''-'' @ BaseName (DiskName di) @ ''.img''"

definition generateImagePath :: "ova_Client \<Rightarrow> VirtualMachineImport \<Rightarrow> DiskInfo \<Rightarrow> string" where
  "generateImagePath c vmi di = filepath_Join [oc_workingDir c, generateImageName vmi di]"

text \<open>The loop over the disks of the envelope.\<close>

fun ova_export_disks ::
  "'x system \<Rightarrow> 'x ova_sdk \<Rightarrow> ova_Client \<Rightarrow> DiskInfo list \<Rightarrow> VirtualMachineImport \<Rightarrow> 'x go_world \<Rightarrow>
   (go_error option \<times> VirtualMachineImport) \<times> 'x go_world" where
  "ova_export_disks sys sdk c [] vmi w = ((None, vmi), w)"
| "ova_export_disks sys sdk c (di # dis) vmi w =
     (let tempImagePath = generateImagePath c vmi di in
      case extractAndConvertVMDKToRAW sys sdk c (generateArchivePath c vmi) (DiskName di)
             tempImagePath True w of
        (Some err, w) \<Rightarrow> ((Some err, vmi), w)
      | (None, w) \<Rightarrow>
          let di = di\<lparr>DiskName := filepath_Base tempImagePath,
                      DiskLocalPath := filepath_Dir tempImagePath\<rparr>
          in ova_export_disks sys sdk c dis (set_Disks (disks_of vmi @ [di]) vmi) w)"

definition ova_ExportVirtualMachine ::
  "'x system \<Rightarrow> 'x ova_sdk \<Rightarrow> ova_Client \<Rightarrow> VirtualMachineImport \<Rightarrow>
   ('x, go_error option \<times> VirtualMachineImport) go" where
  "ova_ExportVirtualMachine sys sdk c vmi w =
     (case downloadArchive sys sdk c (generateArchivePath c vmi) w of
        (Some err, w) \<Rightarrow> Some ((Some err, vmi), w)
      | (None, w) \<Rightarrow>
          (case readEnvelope sdk (generateArchivePath c vmi) w of
             (Inl err, w) \<Rightarrow> Some ((Some (Wrapf ''failed to read envelope: '' err), vmi), w)
           | (Inr e, w) \<Rightarrow>
               do {
                 r \<leftarrow> parseEnvelope (math_Pow sdk) e (GetDefaultNetworkInterfaceModel vmi)
                        (GetDefaultDiskBusType vmi);
                 Some (ova_export_disks sys sdk c (ovf_dis r) vmi w)
               }))"

definition ova_machine :: "HarvesterConsts \<Rightarrow> VirtualMachineImport \<Rightarrow> OvfResult \<Rightarrow> VirtualMachine" where
  "ova_machine hc vmi r =
     (let vmSpec = NewVirtualMachineSpec hc (imported_name vmi)
            \<lparr>NumCPU = NumCPU (ovf_hw r), NumCoresPerSocket = 1, MemoryMB = MemoryMB (ovf_hw r)\<rparr>;
          mappedNetwork = MapNetworks (ovf_nis r) (Mapping (vm_Spec vmi));
          (networkConfig, interfaceConfig) =
            GenerateNetworkInterfaceConfigs mappedNetwork (GetDefaultNetworkInterfaceModel vmi);
          vmSpec = ApplyFirmwareSettings vmSpec (ovf_fw r);
          vmSpec = vmSpec\<lparr>Networks := networkConfig, Interfaces := interfaceConfig\<rparr>
      in \<lparr>kv_Meta = empty_meta\<lparr>Name := imported_name vmi, Namespace := vm_Namespace vmi\<rparr>,
          kv_Spec = vmSpec, kv_Ready = False\<rparr>)"

definition ova_GenerateVirtualMachine ::
  "HarvesterConsts \<Rightarrow> 'x ova_sdk \<Rightarrow> ova_Client \<Rightarrow> VirtualMachineImport \<Rightarrow>
   ('x, go_error + VirtualMachine) go" where
  "ova_GenerateVirtualMachine hc sdk c vmi w =
     (case readEnvelope sdk (generateArchivePath c vmi) w of
        (Inl err, w) \<Rightarrow> Some (Inl (Wrapf ''failed to read envelope: '' err), w)
      | (Inr e, w) \<Rightarrow>
          do {
            r \<leftarrow> parseEnvelope (math_Pow sdk) e (GetDefaultNetworkInterfaceModel vmi)
                   (GetDefaultDiskBusType vmi);
            Some (Inr (ova_machine hc vmi r), w)
          })"

definition ova_Cleanup ::
  "'x system \<Rightarrow> ova_Client \<Rightarrow> VirtualMachineImport \<Rightarrow> 'x go_world \<Rightarrow> go_error option \<times> 'x go_world"
  where
  "ova_Cleanup sys c vmi w =
     (let path = generateArchivePath c vmi;
          (err, w) = effect (\<lambda>_. EvFileRemove path) (os_Remove sys path) w;
          errs = (case err of
            Some e \<Rightarrow> if \<not> os_IsNotExist e
              then [Wrapf ''failed to remove downloaded OVA archive: '' e] else []
          | None \<Rightarrow> []);
          (err, w) = RemoveTempImageFiles (os_Remove sys) (disks_of vmi) w;
          errs = (case err of Some e \<Rightarrow> errs @ [e] | None \<Rightarrow> errs)
      in if 0 < length errs then (Some (Joined errs), w) else (None, w))"

definition ova_Sanitize :: "VirtualMachineImport \<Rightarrow> VirtualMachineImport" where
  "ova_Sanitize vmi = set_ImportedName (strings_ToLower (VirtualMachineName (vm_Spec vmi))) vmi"

definition ova_operations ::
  "HarvesterConsts \<Rightarrow> 'x system \<Rightarrow> 'x ova_sdk \<Rightarrow> ova_Client \<Rightarrow> 'x VirtualMachineOperations" where
  "ova_operations hc sys sdk c =
     \<lparr>SanitizeVirtualMachineImport = (\<lambda>vmi w. Some ((None, ova_Sanitize vmi), w)),
      ExportVirtualMachine = ova_ExportVirtualMachine sys sdk c,
      ShutdownGuest = (\<lambda>vmi w. Some (None, w)),
      PowerOff = (\<lambda>vmi w. Some (None, w)),
      IsPowerOffSupported = False,
      IsPoweredOff = (\<lambda>vmi w. Some (Inr True, w)),
      GenerateVirtualMachine = ova_GenerateVirtualMachine hc sdk c,
      PreFlightChecks = (\<lambda>vmi w. Some (None, w)),
      Cleanup = (\<lambda>vmi w. Some (ova_Cleanup sys c vmi w))\<rparr>"

definition ova_NewOperations ::
  "HarvesterConsts \<Rightarrow> 'x system \<Rightarrow> 'x ova_sdk \<Rightarrow> string \<Rightarrow> Secret option \<Rightarrow> OvaSourceOptions \<Rightarrow>
   ('x, go_error + 'x VirtualMachineOperations) go" where
  "ova_NewOperations hc sys sdk url secret options w =
     Some (Inr (ova_operations hc sys sdk (ova_NewClient_impl url secret options)), w)"

section \<open>The manifest: printing and reading\<close>

text \<open>A line of a manifest, with any number of blanks around the equals sign.\<close>

definition manifest_line :: "nat \<Rightarrow> nat \<Rightarrow> string \<times> string \<times> string \<Rightarrow> string" where
  "manifest_line i j e =
     (case e of (algo, name, csum) \<Rightarrow>
        algo @ ''('' @ name @ '')'' @ replicate i (CHR '' '') @ ''='' @ replicate j (CHR '' '') @ csum)"

definition manifest_entry :: "string \<times> string \<times> string \<Rightarrow> bool" where
  "manifest_entry e =
     (case e of (algo, name, csum) \<Rightarrow>
        algo \<noteq> [] \<and> list_all is_word_char algo \<and>
        name \<noteq> [] \<and> CHR '')'' \<notin> set name \<and> CHR 0x0A \<notin> set name \<and>
        csum \<noteq> [] \<and> list_all is_hex_char csum)"

lemma word_char_cases:
  "is_word_char c \<Longrightarrow> \<not> is_space c \<and> c \<noteq> CHR ''('' \<and> c \<noteq> CHR 0x0A"
  by (auto simp: is_word_char_def is_digit_def is_space_def lower_char_def char_code_def Let_def
      split: if_splits)

lemma hex_char_word: "is_hex_char c \<Longrightarrow> is_word_char c"
  by (auto simp: is_hex_char_def is_word_char_def Let_def)

lemma TrimSpace_id:
  assumes "s \<noteq> []" "\<not> is_space (hd s)" "\<not> is_space (last s)"
  shows "strings_TrimSpace s = s"
proof -
  have *: "dropWhile is_space t = t" if "t \<noteq> []" "\<not> is_space (hd t)" for t
    using that by (cases t) auto
  show ?thesis
    using assms *[of s] *[of "rev s"] by (simp add: strings_TrimSpace_def hd_rev)
qed

lemma word_ends:
  assumes "s \<noteq> []" "list_all is_word_char s"
  shows "\<not> is_space (hd s)" "\<not> is_space (last s)"
  using assms word_char_cases [of "hd s"] word_char_cases [of "last s"] by (simp_all add: list_all_iff)

lemma TrimSpace_word: "s \<noteq> [] \<Longrightarrow> list_all is_word_char s \<Longrightarrow> strings_TrimSpace s = s"
  by (simp add: TrimSpace_id word_ends)

lemma dropWhile_blanks: "t \<noteq> [] \<Longrightarrow> \<not> is_regex_space (hd t) \<Longrightarrow>
   dropWhile is_regex_space (replicate n (CHR '' '') @ t) = t"
  by (induction n; cases t) (auto simp: is_regex_space_def is_space_def char_code_def)

lemma match_manifest_line_parts:
  assumes "algo \<noteq> []" "list_all is_word_char algo" "name \<noteq> []" "CHR '')'' \<notin> set name"
    and "csum \<noteq> []" "list_all is_hex_char csum"
    and "dropWhile is_regex_space r = CHR ''='' # s" "dropWhile is_regex_space s = csum"
  shows "match_manifest_line (algo @ CHR ''('' # name @ CHR '')'' # r) = Some (algo, name, csum)"
proof -
  have "\<not> is_word_char (CHR ''('')"
    using word_char_cases by blast
  then have a: "takeWhile is_word_char (algo @ CHR ''('' # t) = algo"
    "dropWhile is_word_char (algo @ CHR ''('' # t) = CHR ''('' # t" for t
    using assms(2) by (simp_all add: list_all_iff takeWhile_append dropWhile_append)
  have n: "takeWhile (\<lambda>c. c \<noteq> CHR '')'') (name @ CHR '')'' # r) = name"
    "dropWhile (\<lambda>c. c \<noteq> CHR '')'') (name @ CHR '')'' # r) = CHR '')'' # r"
    using assms(4) by (auto simp: takeWhile_append dropWhile_append)
  show ?thesis
    using assms by (simp add: match_manifest_line_def Let_def a n del: dropWhile_eq_Nil_conv)
qed

lemma match_manifest_line_print:
  assumes "manifest_entry (algo, name, csum)"
  shows "match_manifest_line (manifest_line i j (algo, name, csum)) = Some (algo, name, csum)"
proof -
  note e = assms [unfolded manifest_entry_def, simplified]
  have "\<not> is_regex_space (hd csum)"
    using e word_ends(1) [of csum] hex_char_word by (auto simp: is_regex_space_def list_all_iff)
  then have "dropWhile is_regex_space (replicate j (CHR '' '') @ csum) = csum"
    using e by (intro dropWhile_blanks) auto
  moreover have "dropWhile is_regex_space (replicate i (CHR '' '') @ CHR ''='' # replicate j (CHR '' '') @ csum) =
      CHR ''='' # replicate j (CHR '' '') @ csum"
    by (intro dropWhile_blanks) (auto simp: is_regex_space_def is_space_def char_code_def)
  ultimately show ?thesis
    using e match_manifest_line_parts by (simp add: manifest_line_def)
qed

lemma manifest_line_trim:
  assumes "manifest_entry e"
  shows "strings_TrimSpace (manifest_line i j e) = manifest_line i j e"
proof -
  obtain algo name csum where e: "e = (algo, name, csum)" by (cases e)
  then have "list_all is_word_char csum" "list_all is_word_char algo" "csum \<noteq> []" "algo \<noteq> []"
    using assms hex_char_word by (auto simp: manifest_entry_def list_all_iff)
  then show ?thesis
    using word_ends [of algo] word_ends [of csum] by (intro TrimSpace_id) (simp_all add: e manifest_line_def)
qed

lemma manifest_loop_print:
  assumes "list_all (\<lambda>(i, j, e). manifest_entry e \<and> int (length (manifest_line i j e)) < max_line) es"
  shows "manifest_loop (map (\<lambda>(i, j, e). manifest_line i j e) es) m =
    Inr (foldl (\<lambda>m (i, j, algo, name, csum). m(name \<mapsto> \<lparr>Algorithm = algo, csum_Checksum = csum\<rparr>)) m es)"
  using assms
proof (induction es arbitrary: m)
  case (Cons x es)
  obtain i j algo name csum where x: "x = (i, j, algo, name, csum)" by (cases x)
  have "list_all is_word_char csum" "list_all is_word_char algo" "csum \<noteq> []" "algo \<noteq> []"
    using Cons.prems hex_char_word by (auto simp: x manifest_entry_def list_all_iff)
  then show ?case
    using Cons by (simp add: x Let_def match_manifest_line_print manifest_line_trim TrimSpace_word not_le
        flip: fun_upd_def)
qed simp

lemma Split_Join:
  "xs \<noteq> [] \<Longrightarrow> list_all (\<lambda>x. sep \<notin> set x) xs \<Longrightarrow> strings_Split (strings_Join xs [sep]) sep = xs"
  by (induction xs "[sep]" rule: strings_Join.induct) (simp_all add: Split_no_sep Split_append_sep)

lemma manifest_line_one: "manifest_entry e \<Longrightarrow> CHR 0x0A \<notin> set (manifest_line i j e)"
  using word_char_cases hex_char_word
  by (auto simp: manifest_entry_def manifest_line_def list_all_iff)

text \<open>
  C27. A manifest that is written in one line per file, with or without blanks around the equals sign, is
  read back as the map from the file names to their algorithm and checksum; of two lines for the
  same file the later one counts. The condition on the length of a line is that of the scanner.
\<close>

theorem readManifest_roundtrip:
  assumes "list_all (\<lambda>(i, j, e). manifest_entry e \<and> int (length (manifest_line i j e)) < max_line) es"
    and "es \<noteq> []"
  shows "readManifest (strings_Join (map (\<lambda>(i, j, e). manifest_line i j e) es) [CHR 0x0A]) =
    Inr (map_of (rev (map (\<lambda>(i, j, algo, name, csum). (name, \<lparr>Algorithm = algo, csum_Checksum = csum\<rparr>)) es)))"
proof -
  have fold: "foldl (\<lambda>m (i, j, algo, name, csum). m(name \<mapsto> \<lparr>Algorithm = algo, csum_Checksum = csum\<rparr>)) m es =
      m ++ map_of (rev (map (\<lambda>(i, j, algo, name, csum). (name, \<lparr>Algorithm = algo, csum_Checksum = csum\<rparr>)) es))"
    for m and es :: "(nat \<times> nat \<times> string \<times> string \<times> string) list"
    by (induction es arbitrary: m) auto
  have "strings_Split (strings_Join (map (\<lambda>(i, j, e). manifest_line i j e) es) [CHR 0x0A]) (CHR 0x0A) =
      map (\<lambda>(i, j, e). manifest_line i j e) es"
    using assms by (intro Split_Join) (auto simp: list_all_iff dest: manifest_line_one)
  then show ?thesis
    using manifest_loop_print [OF assms(1), of Map.empty] by (simp add: readManifest_def fold)
qed

theorem readManifest_roundtrip_witness:
  "readManifest (strings_Join [manifest_line 0 1 (''SHA256'', ''box.ovf'', ''ab12''),
     manifest_line 1 1 (''SHA1'', ''box-disk1.vmdk'', ''00ff'')] [CHR 0x0A]) =
   Inr [''box.ovf'' \<mapsto> \<lparr>Algorithm = ''SHA256'', csum_Checksum = ''ab12''\<rparr>,
        ''box-disk1.vmdk'' \<mapsto> \<lparr>Algorithm = ''SHA1'', csum_Checksum = ''00ff''\<rparr>]"
  using readManifest_roundtrip [of "[(0, 1, ''SHA256'', ''box.ovf'', ''ab12''),
      (1, 1, ''SHA1'', ''box-disk1.vmdk'', ''00ff'')]"]
  by (simp add: manifest_entry_def manifest_line_def is_word_char_def is_hex_char_def is_digit_def
      lower_char_def char_code_def max_line_def fun_upd_twist)

end
