(* ===== verification/OvaContract.thy ===== *)
theory OvaContract
  imports OvaClient
begin

text \<open>
  The OVA client keeps the contract of the operations, and the facts about its parts: manifest
  lines, checksums, the disks of an envelope, units.
\<close>

section \<open>Logs\<close>

lemma downloadArchive_quiet: "downloadArchive sys sdk c p w = (r, w') \<Longrightarrow> quiet_log w w'"
  by (auto simp: downloadArchive_def dest!: query_log effect_log
      split: sum.splits prod.splits option.splits if_splits)

lemma readEnvelope_log: "readEnvelope sdk p w = (r, w') \<Longrightarrow> log w' = log w"
  by (auto simp: readEnvelope_def dest!: query_log split: sum.splits prod.splits)

lemma ova_Verify_log: "ova_Verify sdk c w = (r, w') \<Longrightarrow> log w' = log w"
  by (auto simp: ova_Verify_def dest!: query_log split: sum.splits prod.splits if_splits)

lemma write_check_convert_log:
  assumes "write_check_convert sys vmdk name content dst expected hash convert w = (r, w')"
  shows "\<exists>es. log w' = log w @ es \<and> list_all (\<lambda>e. \<not> controller_event e) es \<and>
    (r = None \<longrightarrow> hash content = expected) \<and>
    (\<forall>s t ok. EvConvert s t ok \<in> set es \<longrightarrow>
       hash content = expected \<and> s = vmdk \<and> t = dst \<and> convert)"
  using assms
  by (auto simp: write_check_convert_def dest!: effect_log ConvertVMDKtoRAW_log
      split: prod.splits option.splits if_splits)

lemma extract_log:
  assumes "extractAndConvertVMDKToRAW sys sdk c archive name dst convert w = (r, w')"
  obtains "log w' = log w" "r \<noteq> None"
  | "log w' = log w @ [EvFileCreate (filepath_Join [oc_workingDir c, name]) False]" "r \<noteq> None"
  | es content mf expected hash x x' y y' where
      "archive_Open sdk archive name x = (Inr content, x')"
      "archive_Open sdk archive ''*.mf'' y = (Inr mf, y')"
      "manifest_hash sdk name mf = Inr (expected, hash)"
      "log w' = log w @ EvFileCreate (filepath_Join [oc_workingDir c, name]) True # es @
         [EvFileRemove (filepath_Join [oc_workingDir c, name])]"
      "list_all (\<lambda>e. \<not> controller_event e) es"
      "r = None \<longrightarrow> hash content = expected"
      "\<forall>s t ok. EvConvert s t ok \<in> set es \<longrightarrow> hash content = expected \<and> t = dst"
proof -
  let ?vmdk = "filepath_Join [oc_workingDir c, name]"
  obtain a w1 where a: "query (archive_Open sdk archive name) w = (a, w1)"
    by fastforce
  obtain m w2 where m: "query (archive_Open sdk archive ''*.mf'') w1 = (m, w2)"
    by fastforce
  obtain f w3 where f: "effect (\<lambda>r. EvFileCreate ?vmdk (r = None)) (os_Create sys ?vmdk) w2 = (f, w3)"
    by fastforce
  note logs = query_log [OF a] query_log [OF m] effect_log [OF f]
  show thesis
  proof (cases "(\<exists>e. a = Inl e) \<or> (\<exists>e. m = Inl e) \<or> (\<exists>mf e. m = Inr mf \<and> manifest_hash sdk name mf = Inl e)")
    case True
    then have "log w' = log w" "r \<noteq> None"
      using assms a m logs
      by (auto simp: extractAndConvertVMDKToRAW_def split: sum.splits prod.splits)
    then show thesis by (rule that(1))
  next
    case False
    then obtain content mf expected hash where
      c: "a = Inr content" "m = Inr mf" "manifest_hash sdk name mf = Inr (expected, hash)"
      by (metis obj_sumE surj_pair)
    show thesis
    proof (cases f)
      case (Some e)
      then show thesis
        using that(2) assms a m f c logs by (auto simp: extractAndConvertVMDKToRAW_def Let_def)
    next
      case None
      obtain res w4 where wc: "write_check_convert sys ?vmdk name content dst expected hash convert w3 = (res, w4)"
        by fastforce
      obtain x w5 where rm: "effect (\<lambda>_. EvFileRemove ?vmdk) (os_Remove sys ?vmdk) w4 = (x, w5)"
        by fastforce
      have r: "r = res" "w' = w5"
        using assms a m f c None wc rm by (auto simp: extractAndConvertVMDKToRAW_def Let_def)
      obtain x x' y y' where "archive_Open sdk archive name x = (Inr content, x')"
        "archive_Open sdk archive ''*.mf'' y = (Inr mf, y')"
        using a m c by (auto simp: query_def split: prod.splits)
      note opened = this
      obtain es where es: "log w4 = log w3 @ es" "list_all (\<lambda>e. \<not> controller_event e) es"
        "res = None \<longrightarrow> hash content = expected"
        "\<forall>s t ok. EvConvert s t ok \<in> set es \<longrightarrow> hash content = expected \<and> t = dst"
        using write_check_convert_log [OF wc] by blast
      show thesis
        by (rule that(3) [OF opened c(3) _ es(2) _ es(4)])
          (use es effect_log [OF rm] logs r None in auto)
    qed
  qed
qed

lemma extract_quiet:
  "extractAndConvertVMDKToRAW sys sdk c archive name dst convert w = (r, w') \<Longrightarrow> quiet_log w w'"
  by (erule extract_log) auto

lemma ova_export_disks_spec:
  "ova_export_disks sys sdk c dis vmi w = ((err, vmi'), w') \<Longrightarrow>
   quiet_log w w' \<and> (\<exists>n \<le> length dis. vmi' = set_Disks (disks_of vmi @
      map (\<lambda>di. di\<lparr>DiskName := filepath_Base (generateImagePath c vmi di),
                   DiskLocalPath := filepath_Dir (generateImagePath c vmi di)\<rparr>) (take n dis)) vmi \<and>
      (err = None \<longrightarrow> n = length dis))"
proof (induction dis arbitrary: vmi w)
  case Nil
  then show ?case by auto
next
  case (Cons di dis)
  let ?path = "generateImagePath c vmi di"
  let ?di = "di\<lparr>DiskName := filepath_Base ?path, DiskLocalPath := filepath_Dir ?path\<rparr>"
  obtain r w1 where x: "extractAndConvertVMDKToRAW sys sdk c (generateArchivePath c vmi) (DiskName di)
      ?path True w = (r, w1)"
    by fastforce
  note q = extract_quiet [OF x]
  show ?case
  proof (cases r)
    case (Some e)
    then show ?thesis using Cons.prems x q by (auto simp: Let_def intro!: exI [of _ "0::nat"])
  next
    case None
    have same: "generateImagePath c (set_Disks ds vmi) = generateImagePath c vmi" for ds
      by (simp add: generateImagePath_def generateImageName_def fun_eq_iff)
    have "ova_export_disks sys sdk c dis (set_Disks (disks_of vmi @ [?di]) vmi) w1 = ((err, vmi'), w')"
      using Cons.prems x None by (simp add: Let_def)
    from Cons.IH [OF this] obtain es n where
      "log w' = log w1 @ es" "list_all (\<lambda>e. \<not> controller_event e) es" "n \<le> length dis"
      "err = None \<longrightarrow> n = length dis"
      "vmi' = set_Disks (disks_of vmi @ ?di # map (\<lambda>di. di\<lparr>DiskName := filepath_Base (generateImagePath c vmi di),
                   DiskLocalPath := filepath_Dir (generateImagePath c vmi di)\<rparr>) (take n dis)) vmi"
      by (auto simp: same)
    then show ?thesis
      using q by (intro conjI exI [of _ "Suc n"]) auto
  qed
qed

section \<open>Disks of an envelope\<close>

lemma drive_disks_conditions:
  "drive_disks pow e vh bus item diskId disks = Some dis \<Longrightarrow> \<forall>d \<in> set dis. DiskConditions d = []"
  by (induction disks arbitrary: dis)
    (auto simp: ovf_disk_def split: if_splits Option.bind_splits option.splits)

lemma parse_drive_conditions:
  "parse_drive pow e vh bus disks item = Some dis \<Longrightarrow> \<forall>d \<in> set dis. DiskConditions d = []"
  by (auto simp: parse_drive_def dest: drive_disks_conditions split: list.splits)

definition no_conditions :: "OvfResult \<Rightarrow> bool" where
  "no_conditions r \<longleftrightarrow> (\<forall>d \<in> set (ovf_dis r). DiskConditions d = [])"

lemma parse_item_conditions:
  "parse_item pow e vh m bus disks item r = Some r' \<Longrightarrow> no_conditions r \<Longrightarrow> no_conditions r'"
  using parse_drive_conditions
  by (fastforce simp: parse_item_def no_conditions_def
      split: option.splits CIMResourceType.splits Option.bind_splits)

lemma parse_items_conditions:
  "parse_items pow e vh m bus disks items r = Some r' \<Longrightarrow> no_conditions r \<Longrightarrow> no_conditions r'"
proof (induction items arbitrary: r)
  case (Cons item items)
  then obtain r1 where r1: "parse_item pow e vh m bus disks item r = Some r1"
    by (auto split: Option.bind_splits)
  then have "no_conditions (r1\<lparr>ovf_fw := item_firmware vh item (ovf_fw r1)\<rparr>)"
    using parse_item_conditions [OF r1] Cons.prems(2) by (simp add: no_conditions_def)
  then show ?case using Cons r1 by simp
qed simp

lemma parse_storage_items_conditions:
  "parse_storage_items pow e vh bus disks items r = Some r' \<Longrightarrow> no_conditions r \<Longrightarrow> no_conditions r'"
proof (induction items arbitrary: r)
  case (Cons item items)
  show ?case
  proof (cases "ResourceType item = Some DiskDrive")
    case True
    then obtain dis where dis: "parse_drive pow e vh bus disks item = Some dis"
      using Cons.prems(1) by (auto split: Option.bind_splits)
    then have "no_conditions (r\<lparr>ovf_dis := ovf_dis r @ dis\<rparr>)"
      using parse_drive_conditions [OF dis] Cons.prems(2) by (auto simp: no_conditions_def)
    then show ?thesis using Cons.IH Cons.prems(1) True dis by simp
  next
    case False
    then show ?thesis
      using Cons by (cases "ResourceType item") (auto split: CIMResourceType.splits)
  qed
qed simp

lemma parse_hardware_conditions:
  "parse_hardware pow e m bus disks vhs r = Some r' \<Longrightarrow> no_conditions r \<Longrightarrow> no_conditions r'"
  by (induction vhs arbitrary: r)
    (auto split: Option.bind_splits dest: parse_items_conditions parse_storage_items_conditions)

lemma parseEnvelope_conditions: "parseEnvelope pow e m bus = Some r \<Longrightarrow> no_conditions r"
  by (auto simp: parseEnvelope_def Let_def no_conditions_def split: option.splits
      dest!: parse_hardware_conditions)

section \<open>The contract\<close>

lemma no_conditions_map:
  "\<forall>d \<in> set ds. DiskConditions d = [] \<Longrightarrow> map DiskConditions ds = replicate (length ds) []"
  by (induction ds) auto

lemma ova_export_spec:
  assumes "ova_ExportVirtualMachine sys sdk c vm w = Some ((err, vm'), w')"
  shows "quiet_log w w' \<and> (\<exists>ds k. vm' = set_Disks ds vm \<and>
    map DiskConditions ds = map DiskConditions (disks_of vm) @ replicate k [])"
proof -
  have same: "\<exists>ds k. vm = set_Disks ds vm \<and>
      map DiskConditions ds = map DiskConditions (disks_of vm) @ replicate k []"
    by (intro exI [of _ "disks_of vm"] exI [of _ "0::nat"]) simp
  obtain r w1 where d: "downloadArchive sys sdk c (generateArchivePath c vm) w = (r, w1)"
    by fastforce
  obtain e w2 where e: "readEnvelope sdk (generateArchivePath c vm) w1 = (e, w2)"
    by fastforce
  note logs = downloadArchive_quiet [OF d] readEnvelope_log [OF e]
  show ?thesis
  proof (cases "r \<noteq> None \<or> (\<exists>x. e = Inl x)")
    case True
    then have "vm' = vm \<and> quiet_log w w'"
      using assms d e logs by (cases r) (auto simp: ova_ExportVirtualMachine_def)
    then show ?thesis using same by simp
  next
    case False
    then obtain env res where p: "parseEnvelope (math_Pow sdk) env (GetDefaultNetworkInterfaceModel vm)
        (GetDefaultDiskBusType vm) = Some res"
      and x: "ova_export_disks sys sdk c (ovf_dis res) vm w2 = ((err, vm'), w')"
      using assms d e by (cases e) (auto simp: ova_ExportVirtualMachine_def split: Option.bind_splits)
    obtain n where n: "vm' = set_Disks (disks_of vm @
        map (\<lambda>di. di\<lparr>DiskName := filepath_Base (generateImagePath c vm di),
          DiskLocalPath := filepath_Dir (generateImagePath c vm di)\<rparr>) (take n (ovf_dis res))) vm"
      and q: "quiet_log w2 w'"
      using ova_export_disks_spec [OF x] by auto
    have "\<forall>d \<in> set (take n (ovf_dis res)). DiskConditions d = []"
      using parseEnvelope_conditions [OF p] by (auto simp: no_conditions_def dest: in_set_takeD)
    then have "map DiskConditions (disks_of vm') =
        map DiskConditions (disks_of vm) @ replicate (length (take n (ovf_dis res))) []"
      using no_conditions_map [of "take n (ovf_dis res)"] unfolding n by (simp add: comp_def)
    moreover have "vm' = set_Disks (disks_of vm') vm"
      unfolding n by simp
    moreover have "quiet_log w w'"
      using q logs by auto
    ultimately show ?thesis by blast
  qed
qed

lemma ova_machine_shape:
  "Name (kv_Meta (ova_machine hc vm r)) = imported_name vm \<and>
   Namespace (kv_Meta (ova_machine hc vm r)) = vm_Namespace vm \<and>
   Networks (kv_Spec (ova_machine hc vm r)) \<noteq> [] \<and>
   map net_Name (Networks (kv_Spec (ova_machine hc vm r))) =
   map if_Name (Interfaces (kv_Spec (ova_machine hc vm r))) \<and>
      distinct (map net_Name (Networks (kv_Spec (ova_machine hc vm r))))"
  using network_configs_shape [of "MapNetworks (ovf_nis r) (Mapping (vm_Spec vm))"
      "GetDefaultNetworkInterfaceModel vm"]
  by (cases "GenerateNetworkInterfaceConfigs (MapNetworks (ovf_nis r) (Mapping (vm_Spec vm)))
      (GetDefaultNetworkInterfaceModel vm)") (auto simp: ova_machine_def Let_def)

lemma ova_Cleanup_quiet: "ova_Cleanup sys c vm w = (r, w') \<Longrightarrow> quiet_log w w'"
  by (auto simp: ova_Cleanup_def Let_def list_all_iff dest!: effect_log RemoveTempImageFiles_log
      split: prod.splits option.splits if_splits)

text \<open>The images of a finished export lie where they are served from.\<close>

lemma extract_stores:
  assumes "extractAndConvertVMDKToRAW sys sdk c archive name dst True w = (None, w')"
  shows "\<exists>es src. log w' = log w @ es \<and> EvConvert src dst True \<in> set es"
  using assms
  by (auto simp: extractAndConvertVMDKToRAW_def write_check_convert_def Let_def
      dest!: query_log effect_log ConvertVMDKtoRAW_log
      split: sum.splits prod.splits option.splits if_splits)

lemma BaseName_plain:
  assumes "filepath_Base p \<noteq> ''/''"
  shows "CHR ''/'' \<notin> set (BaseName p)"
proof -
  have "CHR ''/'' \<notin> set (filepath_Base p)"
    using assms after_last_no_sep by (auto simp: filepath_Base_def Let_def split: if_splits)
  then show ?thesis
    by (auto simp: BaseName_def strings_TrimSuffix_def Let_def dest: in_set_takeD)
qed

lemma image_path_plain:
  assumes "oc_workingDir c = TempDir" "CHR ''/'' \<notin> set (generateImageName vmi di)"
  shows "filepath_Join [TempDir, filepath_Base (generateImagePath c vmi di)] = generateImagePath c vmi di"
proof -
  have "4 \<le> length (generateImageName vmi di)"
    by (simp add: generateImageName_def)
  then have n: "generateImageName vmi di \<notin> {[], ''.'', ''..''}"
    by auto
  then have "generateImagePath c vmi di = TempDir @ ''/'' @ generateImageName vmi di"
    using Join_TempDir [OF assms(2)] assms(1) by (simp add: generateImagePath_def)
  then show ?thesis
    using Base_TempDir [OF assms(2)] Join_TempDir [OF assms(2)] n by simp
qed

lemma image_path_slash:
  assumes "oc_workingDir c = TempDir" "CHR ''/'' \<notin> set (imported_name vmi)" "filepath_Base (DiskName di) = ''/''"
  shows "filepath_Base (generateImagePath c vmi di) = ''.img''"
proof -
  let ?n = "imported_name vmi @ ''-''"
  have "generateImageName vmi di = ?n @ ''/.img''"
    using assms(3) by (simp add: generateImageName_def BaseName_def filepath_Ext_def after_last_def
        strings_TrimSuffix_def strings_HasSuffix_def)
  moreover have "strings_Split (''/tmp/vm-import-controller/'' @ ?n @ ''/.img'') (CHR ''/'') =
      [[], ''tmp'', ''vm-import-controller'', ?n, ''.img'']"
    using Split_append_sep [of "CHR ''/''" ?n "''.img''"] assms(2) by simp
  moreover have "?n \<notin> {[], ''.'', ''..''}"
    by (cases "imported_name vmi") auto
  ultimately have "generateImagePath c vmi di = ''/tmp/vm-import-controller/'' @ ?n @ CHR ''/'' # ''.img''"
    using assms(1) by (simp add: generateImagePath_def filepath_Join_def filepath_Clean_def TempDir_def
        tmpDir_def strings_HasPrefix_def)
  then show ?thesis
    by (simp add: filepath_Base_def after_last_def)
qed

lemma ova_export_disks_stored:
  assumes "oc_workingDir c = TempDir" "CHR ''/'' \<notin> set (imported_name vmi)"
  shows "ova_export_disks sys sdk c dis vmi w = ((None, vmi'), w') \<Longrightarrow> files_added w vmi vmi' w'"
  using assms(2)
proof (induction dis arbitrary: vmi w)
  case Nil
  then show ?case by (simp add: files_added_def)
next
  case (Cons di dis)
  let ?path = "generateImagePath c vmi di"
  let ?di = "di\<lparr>DiskName := filepath_Base ?path, DiskLocalPath := filepath_Dir ?path\<rparr>"
  let ?vmi = "set_Disks (disks_of vmi @ [?di]) vmi"
  obtain w1 where x: "extractAndConvertVMDKToRAW sys sdk c (generateArchivePath c vmi) (DiskName di)
      ?path True w = (None, w1)"
    and rest: "ova_export_disks sys sdk c dis ?vmi w1 = ((None, vmi'), w')"
    using Cons.prems(1) by (auto simp: Let_def split: prod.splits option.splits)
  obtain es src where es: "log w1 = log w @ es" "EvConvert src ?path True \<in> set es"
    using extract_stores [OF x] by blast
  have d: "stored es ?di \<or> DiskName ?di = ''.img''"
  proof (cases "filepath_Base (DiskName di) = ''/''")
    case True
    then show ?thesis using image_path_slash [OF assms(1) Cons.prems(2)] by simp
  next
    case False
    then have "CHR ''/'' \<notin> set (generateImageName vmi di)"
      using Cons.prems(2) BaseName_plain [of "DiskName di"] by (simp add: generateImageName_def)
    then have "filepath_Join [TempDir, DiskName ?di] = ?path"
      using image_path_plain [OF assms(1)] by simp
    then show ?thesis
      using es(2) unfolding stored_def by metis
  qed
  obtain fs where fs: "log w' = log w1 @ fs"
    "list_all (\<lambda>d. stored fs d \<or> DiskName d = ''.img'') (drop (Suc (length (disks_of vmi))) (disks_of vmi'))"
    using Cons.IH [OF rest] Cons.prems(2) by (auto simp: files_added_def)
  obtain more where "disks_of vmi' = disks_of vmi @ ?di # more"
    using ova_export_disks_spec [OF rest] by auto
  then show ?case
    using es(1) fs d unfolding files_added_def by (intro exI [of _ "es @ fs"]) (auto simp: list_all_iff)
qed

lemma NewClient_workingDir: "oc_workingDir (ova_NewClient_impl url secret options) = TempDir"
  by (simp add: ova_NewClient_impl_def)

lemma ova_export_stores:
  assumes "ova_ExportVirtualMachine sys sdk c vm w = Some ((None, vm'), w')"
    and "oc_workingDir c = TempDir" "CHR ''/'' \<notin> set (imported_name vm)"
  shows "files_added w vm vm' w'"
proof -
  obtain w1 e w2 and res :: OvfResult where
    d: "downloadArchive sys sdk c (generateArchivePath c vm) w = (None, w1)" and
    e: "readEnvelope sdk (generateArchivePath c vm) w1 = (Inr e, w2)" and
    x: "ova_export_disks sys sdk c (ovf_dis res) vm w2 = ((None, vm'), w')"
    using assms(1) by (auto simp: ova_ExportVirtualMachine_def
        split: prod.splits option.splits sum.splits Option.bind_splits)
  obtain es where "log w2 = log w @ es"
    using downloadArchive_quiet [OF d] readEnvelope_log [OF e] by auto
  then show ?thesis
    using ova_export_disks_stored [OF assms(2,3) x]
    unfolding files_added_def by (auto simp: list_all_iff)
qed

interpretation ova_ops: vm_operations "ova_operations hc sys sdk (ova_NewClient_impl url secret options)"
  for hc sys sdk url secret options
proof (unfold_locales, unfold ova_operations_def VirtualMachineOperations.simps)
  let ?c = "ova_NewClient_impl url secret options"
  fix w w' :: "'a go_world" and vm vm' v and err :: "go_error option"
  show "quiet w (Some ((None, ova_Sanitize vm), w))" "quiet w (Some (Inr True, w))"
    by (simp_all add: emits_Some)
  show "quiet w (Some (None, w))" "quiet w (Some (None, w))" "quiet w (Some (None, w))"
    by (simp_all add: emits_Some)
  show "Some ((None, ova_Sanitize vm), w) = Some ((err, vm'), w') \<Longrightarrow> \<exists>n. vm' = set_ImportedName n vm"
    by (auto simp: ova_Sanitize_def)
  show "Some ((None, ova_Sanitize vm), w) = Some ((None, vm'), w') \<Longrightarrow>
      strings_ToLower (imported_name vm') = imported_name vm'"
    by (auto simp: ova_Sanitize_def)
  show "quiet w (ova_ExportVirtualMachine sys sdk ?c vm w)"
    by (rule quietI) (auto dest: ova_export_spec)
  show "ova_ExportVirtualMachine sys sdk ?c vm w = Some ((err, vm'), w') \<Longrightarrow>
      \<exists>ds k. vm' = set_Disks ds vm \<and>
        map DiskConditions ds = map DiskConditions (disks_of vm) @ replicate k []"
    by (drule ova_export_spec) (erule conjunct2)
  show "quiet w (ova_GenerateVirtualMachine hc sdk ?c vm w)"
    by (rule quietI)
      (auto simp: ova_GenerateVirtualMachine_def dest!: readEnvelope_log
        split: prod.splits sum.splits Option.bind_splits)
  show "ova_GenerateVirtualMachine hc sdk ?c vm w = Some (Inr v, w') \<Longrightarrow>
      Name (kv_Meta v) = imported_name vm \<and> Namespace (kv_Meta v) = vm_Namespace vm \<and>
      Networks (kv_Spec v) \<noteq> [] \<and>
      map net_Name (Networks (kv_Spec v)) = map if_Name (Interfaces (kv_Spec v)) \<and>
      distinct (map net_Name (Networks (kv_Spec v)))"
  proof -
    assume "ova_GenerateVirtualMachine hc sdk ?c vm w = Some (Inr v, w')"
    then obtain r where "v = ova_machine hc vm r"
      by (auto simp: ova_GenerateVirtualMachine_def split: prod.splits sum.splits Option.bind_splits)
    then show ?thesis using ova_machine_shape by blast
  qed
  show "quiet w (Some (ova_Cleanup sys ?c vm w))"
    by (rule quietI) (auto dest: ova_Cleanup_quiet)
  show "ova_ExportVirtualMachine sys sdk ?c vm w = Some ((None, vm'), w') \<Longrightarrow>
      CHR ''/'' \<notin> set (imported_name vm) \<Longrightarrow> files_added w vm vm' w'"
    by (rule ova_export_stores [OF _ NewClient_workingDir])
  show "Some (ova_Cleanup sys ?c vm w) = Some (r, w') \<Longrightarrow> files_removed w vm w'" for r
    by (auto simp: ova_Cleanup_def files_removed_def Let_def dest!: effect_log RemoveTempImageFiles_log
        split: prod.splits option.splits if_splits)
qed

lemma ova_NewOperations_ok:
  "ova_NewOperations hc sys sdk url secret options w = Some (Inr vmo, w') \<Longrightarrow> vm_operations vmo"
  by (auto simp: ova_NewOperations_def ova_ops.vm_operations_axioms)

lemma ova_NewOperations_quiet: "quiet w (ova_NewOperations hc sys sdk url secret options w)"
  by (simp add: ova_NewOperations_def emits_Some)

section \<open>Checksums\<close>

text \<open>
  C17. No disk image of an archive is converted, and no extraction succeeds, before the extracted bytes
  have the checksum that the manifest of the archive gives for the file; and once the VMDK file has
  been created, its removal is the last thing the extraction does, on every path.
\<close>

theorem ova_extract_verified:
  assumes "extractAndConvertVMDKToRAW sys sdk c archive name dst convert w = (r, w')"
  shows "\<exists>es. log w' = log w @ es \<and>
    (EvFileCreate (filepath_Join [oc_workingDir c, name]) True \<in> set es \<longrightarrow>
       last es = EvFileRemove (filepath_Join [oc_workingDir c, name])) \<and>
    (r = None \<or> (\<exists>s t ok. EvConvert s t ok \<in> set es) \<longrightarrow>
       (\<exists>content mf expected hash x x' y y'.
          archive_Open sdk archive name x = (Inr content, x') \<and>
          archive_Open sdk archive ''*.mf'' y = (Inr mf, y') \<and>
          manifest_hash sdk name mf = Inr (expected, hash) \<and> hash content = expected))"
  using assms
proof (cases rule: extract_log)
  case (3 es content mf expected hash x x' y y')
  let ?es = "EvFileCreate (filepath_Join [oc_workingDir c, name]) True # es @
    [EvFileRemove (filepath_Join [oc_workingDir c, name])]"
  have "hash content = expected" if "r = None \<or> (\<exists>s t ok. EvConvert s t ok \<in> set ?es)"
    using that 3(6,7) by auto
  then show ?thesis
    using 3(1-4) by (intro exI [of _ ?es] conjI impI) (simp_all, blast+)
qed auto

section \<open>Cleanup\<close>

text \<open>
  The cleanup of an OVA import tries to remove the archive and every disk image, whatever fails; files
  that are already gone are no errors, and all other errors are reported together.
\<close>

theorem ova_Cleanup_spec:
  "ova_Cleanup (sys\<lparr>os_Remove := \<lambda>p x. (f p, x)\<rparr>) c vmi w =
     (let path = generateArchivePath c vmi;
          images = List.map_filter (removal_error f) (image_paths (disks_of vmi));
          errs = (case f path of
              Some e \<Rightarrow> if os_IsNotExist e then [] else [Wrapf ''failed to remove downloaded OVA archive: '' e]
            | None \<Rightarrow> []) @ (if images = [] then [] else [Joined images])
      in (if errs = [] then None else Some (Joined errs),
          w\<lparr>log := log w @ map EvFileRemove (path # image_paths (disks_of vmi))\<rparr>))"
  by (simp add: ova_Cleanup_def RemoveTempImageFiles_def remove_loop_stateless effect_def Let_def
      removal_error_def [abs_def] split: option.split)

end
