(* ===== verification/OpenstackClient.thy ===== *)
theory OpenstackClient
  imports Hypervisor Operations NetworkMaps
begin

text \<open>
  The OpenStack client, \<open>pkg/source/openstack/client.go\<close>: connecting, finding the server,
  shutting it down, its firmware and networks, and the KubeVirt machine made from it. The
  OpenStack SDK is a parameter. A decoded JSON value is the datatype \<open>json\<close>; a failed type
  assertion without a second result is a panic.
\<close>

section \<open>What the client calls\<close>

datatype json = JString string | JList "json list" | JMap "(string \<times> json) list" | JOther

record Server =
  srv_ID :: string
  srv_Name :: string
  srv_Description :: string
  srv_Status :: string
  AttachedVolumes :: "string list"
  Addresses :: "(string \<times> json) list"
  Flavor :: "string \<rightharpoonup> json"

text \<open>All pages of a list: whether they are empty, and what is extracted from them.\<close>

record 'a Pages =
  IsEmpty :: "go_error + bool"
  Extracted :: "go_error + 'a list"

record FlavorObj =
  VCPUs :: int64
  RAM :: int64

text \<open>The two readings of a volume: its bootable flag and its image metadata.\<close>

record VolumeInfo =
  Bootable :: "go_error + string"
  VolumeImageMetadata :: "go_error + (string \<rightharpoonup> string)"

record GlanceImage =
  glance_ID :: string
  glance_Status :: string
  glance_Properties :: "string \<rightharpoonup> json"

record Snapshot =
  snap_ID :: string
  snap_Size :: int64

record CinderVolume =
  cinder_ID :: string
  cinder_Size :: int64

record 'x openstack_sdk =
  uuid_Parse :: "string \<Rightarrow> string option"
  ost_NewClient :: "string \<Rightarrow> ('x, go_error + string) call"
  ost_Authenticate :: "string \<Rightarrow> string option \<Rightarrow> string \<times> string \<times> string \<times> string \<Rightarrow>
    ('x, go_error option) call"
  ost_NewService :: "string \<Rightarrow> string \<Rightarrow> string \<Rightarrow> ('x, go_error option) call"
  ost_Microversions :: "string \<Rightarrow> ('x, go_error + (string \<Rightarrow> go_error + bool)) call"
  servers_List :: "string \<Rightarrow> string option \<Rightarrow> ('x, go_error + Server Pages) call"
  servers_Get :: "string \<Rightarrow> string option \<Rightarrow> string \<Rightarrow> ('x, go_error + Server) call"
  servers_Stop :: "string \<Rightarrow> string \<Rightarrow> ('x, go_error option) call"
  networks_List :: "string \<Rightarrow> string \<Rightarrow> ('x, go_error + string Pages) call"
  flavors_Get :: "string \<Rightarrow> string \<Rightarrow> ('x, go_error + FlavorObj) call"
  volumes_Get :: "string \<Rightarrow> string \<Rightarrow> ('x, VolumeInfo) call"
  images_Get :: "string \<Rightarrow> string \<Rightarrow> ('x, go_error + GlanceImage) call"
  images_Delete :: "string \<Rightarrow> string \<Rightarrow> ('x, go_error option) call"
  snapshots_Create :: "string \<Rightarrow> string \<Rightarrow> string \<Rightarrow> ('x, go_error + Snapshot) call"
  snapshots_Wait :: "string \<Rightarrow> string \<Rightarrow> ('x, go_error option) call"
  snapshots_Delete :: "string \<Rightarrow> string \<Rightarrow> ('x, go_error option) call"
  volumes_Create :: "string \<Rightarrow> string \<Rightarrow> int64 \<Rightarrow> ('x, go_error + CinderVolume) call"
  volumes_Wait :: "string \<Rightarrow> string \<Rightarrow> ('x, go_error option) call"
  volumes_Delete :: "string \<Rightarrow> string \<Rightarrow> ('x, go_error option) call"
  volumes_UploadImage :: "string \<Rightarrow> string \<Rightarrow> string \<Rightarrow> ('x, go_error + string) call"
  imagedata_Download :: "string \<Rightarrow> string \<Rightarrow> ('x, go_error + string) call"
  io_CopyImage :: "string \<Rightarrow> string \<Rightarrow> ('x, go_error option) call"
  time_Sleep :: "int64 \<Rightarrow> ('x, unit) call"
  map_order :: "string list \<Rightarrow> string list"

record openstack_Client =
  osc_session :: string
  osc_microversion :: "string option"
  osc_options :: OpenstackSourceOptions

definition computeMicroversion :: string where "computeMicroversion = ''2.19''"
definition annotationDescription :: string where
  "annotationDescription = ''field.cattle.io/description''"

section \<open>Connecting\<close>

text \<open>The four service clients, with the microversion negotiated after the compute one.\<close>

definition openstack_services ::
  "'x openstack_sdk \<Rightarrow> string \<Rightarrow> string \<Rightarrow> OpenstackSourceOptions \<Rightarrow> 'x go_world \<Rightarrow>
   (go_error + openstack_Client) \<times> 'x go_world" where
  "openstack_services sdk session region options w =
     (case query (ost_NewService sdk session ''volumev3'' region) w of
        (Some err, w) \<Rightarrow> (Inl (Errorf (''error generating storage client: '' @ Error err)), w)
      | (None, w) \<Rightarrow>
     (case query (ost_NewService sdk session ''compute'' region) w of
        (Some err, w) \<Rightarrow> (Inl (Errorf (''error generating compute client: '' @ Error err)), w)
      | (None, w) \<Rightarrow>
     (case query (ost_Microversions sdk session) w of
        (Inl err, w) \<Rightarrow>
          (Inl (Errorf (''failed to fetch supported microversions from compute client: ''
             @ Error err)), w)
      | (Inr isSupported, w) \<Rightarrow>
          let microversion = (if isSupported computeMicroversion = Inr True
                then Some computeMicroversion else None) in
     (case query (ost_NewService sdk session ''image'' region) w of
        (Some err, w) \<Rightarrow> (Inl (Errorf (''error generating image client: '' @ Error err)), w)
      | (None, w) \<Rightarrow>
     (case query (ost_NewService sdk session ''network'' region) w of
        (Some err, w) \<Rightarrow> (Inl (Errorf (''error generating network client: '' @ Error err)), w)
      | (None, w) \<Rightarrow>
          (Inr \<lparr>osc_session = session, osc_microversion = microversion, osc_options = options\<rparr>, w))))))"

definition openstack_connect ::
  "'x openstack_sdk \<Rightarrow> string \<Rightarrow> string \<Rightarrow> string option \<Rightarrow> string \<times> string \<times> string \<times> string \<Rightarrow>
   OpenstackSourceOptions \<Rightarrow> 'x go_world \<Rightarrow> (go_error + openstack_Client) \<times> 'x go_world" where
  "openstack_connect sdk endpoint region customCA auth options w =
     (case query (ost_NewClient sdk endpoint) w of
        (Inl err, w) \<Rightarrow> (Inl (Errorf (''error generating new client: '' @ Error err)), w)
      | (Inr session, w) \<Rightarrow>
          (case query (ost_Authenticate sdk session customCA auth) w of
             (Some err, w) \<Rightarrow> (Inl (Errorf (''error authenticated client: '' @ Error err)), w)
           | (None, w) \<Rightarrow> openstack_services sdk session region options w))"

definition openstack_NewClient_impl ::
  "'x openstack_sdk \<Rightarrow> string \<Rightarrow> string \<Rightarrow> Secret option \<Rightarrow> OpenstackSourceOptions \<Rightarrow>
   ('x, go_error + openstack_Client) go" where
  "openstack_NewClient_impl sdk endpoint region secret options w =
     (case secret of
        None \<Rightarrow> None
      | Some s \<Rightarrow>
          let missing = (\<lambda>k. Some (Inl (Errorf (''no '' @ k @ '' provided in secret '' @ secret_Name s)), w))
          in case Data s ''username'' of
               None \<Rightarrow> missing ''username''
             | Some username \<Rightarrow>
             (case Data s ''password'' of
               None \<Rightarrow> missing ''password''
             | Some password \<Rightarrow>
             (case Data s ''project_name'' of
               None \<Rightarrow> missing ''project_name''
             | Some projectName \<Rightarrow>
             (case Data s ''domain_name'' of
               None \<Rightarrow> missing ''domain_name''
             | Some domainName \<Rightarrow>
                 Some (openstack_connect sdk endpoint region (Data s ''ca_cert'')
                   (username, password, projectName, domainName) options w)))))"

text \<open>\<open>Verify\<close> and the network part of \<open>PreFlightChecks\<close>.\<close>

definition openstack_Verify ::
  "'x openstack_sdk \<Rightarrow> openstack_Client \<Rightarrow> 'x go_world \<Rightarrow> go_error option \<times> 'x go_world" where
  "openstack_Verify sdk c w =
     (case query (servers_List sdk (osc_session c) None) w of
        (Inl err, w) \<Rightarrow> (Some (Errorf (''error generating all pages: '' @ Error err)), w)
      | (Inr allPg, w) \<Rightarrow>
          (case IsEmpty allPg of
             Inl err \<Rightarrow> (Some (Errorf (''error checking if pages were empty: '' @ Error err)), w)
           | Inr ok \<Rightarrow>
               if ok then (None, w)
               else (case Extracted allPg of
                       Inl err \<Rightarrow> (Some (Errorf (''error extracting servers: '' @ Error err)), w)
                     | Inr allServers \<Rightarrow> (None, w))))"

fun check_networks ::
  "'x openstack_sdk \<Rightarrow> openstack_Client \<Rightarrow> NetworkMapping list \<Rightarrow> 'x go_world \<Rightarrow>
   go_error option \<times> 'x go_world" where
  "check_networks sdk c [] w = (None, w)"
| "check_networks sdk c (nm # nms) w =
     (case query (networks_List sdk (osc_session c) (SourceNetwork nm)) w of
        (Inl err, w) \<Rightarrow>
          (Some (Errorf (''error while generating all pages during querying source network ''
             @ single_quoted (SourceNetwork nm) @ '': '' @ Error err)), w)
      | (Inr allPgs, w) \<Rightarrow>
          (case IsEmpty allPgs of
             Inl err \<Rightarrow>
               (Some (Errorf (''error while checking if pages were empty during querying source network ''
                  @ single_quoted (SourceNetwork nm) @ '': '' @ Error err)), w)
           | Inr ok \<Rightarrow>
               if ok then (Some (Errorf (''source network '' @ single_quoted (SourceNetwork nm) @ '' not found'')), w)
               else check_networks sdk c nms w))"

definition openstack_PreFlightChecks ::
  "'x openstack_sdk \<Rightarrow> openstack_Client \<Rightarrow> VirtualMachineImport \<Rightarrow> 'x go_world \<Rightarrow>
   go_error option \<times> 'x go_world" where
  "openstack_PreFlightChecks sdk c vm w = check_networks sdk c (Mapping (vm_Spec vm)) w"

section \<open>Finding the server\<close>

text \<open>
  \<open>checkOrGetUUID\<close>: the servers whose name is exactly the input are counted, and the first is
  taken without a test that there is one.
\<close>

definition checkOrGetUUID ::
  "'x openstack_sdk \<Rightarrow> openstack_Client \<Rightarrow> string \<Rightarrow> ('x, go_error + string) go" where
  "checkOrGetUUID sdk c input w =
     (case uuid_Parse sdk input of
        Some parsedUUID \<Rightarrow> Some (Inr parsedUUID, w)
      | None \<Rightarrow>
          (case query (servers_List sdk (osc_session c) (Some input)) w of
             (Inl err, w) \<Rightarrow>
               Some (Inl (Errorf (''error generating all pages in checkorgetuuid :'' @ Error err)), w)
           | (Inr allPg, w) \<Rightarrow>
               (case IsEmpty allPg of
                  Inl err \<Rightarrow>
                    Some (Inl (Errorf (''error checking if pages were empty in checkorgetuuid: ''
                      @ Error err)), w)
                | Inr ok \<Rightarrow>
                    if ok then Some (Inl (Errorf (''noServerFound: '' @ input)), w)
                    else
                      (case Extracted allPg of
                         Inl err \<Rightarrow>
                           Some (Inl (Errorf (''error extracting servers in checkorgetuuid:''
                             @ Error err)), w)
                       | Inr allServers \<Rightarrow>
                           (let filteredServers = filter (\<lambda>v. srv_Name v = input) allServers in
                            if 1 < length filteredServers
                            then Some (Inl (Errorf (''notUniqueName: '' @ input)), w)
                            else (case filteredServers of
                                    [] \<Rightarrow> None
                                  | s # _ \<Rightarrow> Some (Inr (srv_ID s), w)))))))"

definition openstack_findVM ::
  "'x openstack_sdk \<Rightarrow> openstack_Client \<Rightarrow> string \<Rightarrow> ('x, go_error + Server) go" where
  "openstack_findVM sdk c name w =
     do {
       (r, w) \<leftarrow> checkOrGetUUID sdk c name w;
       (case r of
          Inl err \<Rightarrow> Some (Inl err, w)
        | Inr parsedUUID \<Rightarrow>
            Some (query (servers_Get sdk (osc_session c) (osc_microversion c) parsedUUID) w))
     }"

definition openstack_IsPoweredOff ::
  "'x openstack_sdk \<Rightarrow> openstack_Client \<Rightarrow> VirtualMachineImport \<Rightarrow> ('x, go_error + bool) go" where
  "openstack_IsPoweredOff sdk c vm w =
     do {
       (r, w) \<leftarrow> openstack_findVM sdk c (VirtualMachineName (vm_Spec vm)) w;
       (case r of
          Inl err \<Rightarrow> Some (Inl err, w)
        | Inr s \<Rightarrow> Some (Inr (srv_Status s = ''SHUTOFF''), w))
     }"

definition openstack_ShutdownGuest ::
  "'x openstack_sdk \<Rightarrow> openstack_Client \<Rightarrow> VirtualMachineImport \<Rightarrow> ('x, go_error option) go" where
  "openstack_ShutdownGuest sdk c vm w =
     do {
       (r, w) \<leftarrow> checkOrGetUUID sdk c (VirtualMachineName (vm_Spec vm)) w;
       (case r of
          Inl err \<Rightarrow> Some (Some err, w)
        | Inr serverUUID \<Rightarrow>
            do {
              (p, w) \<leftarrow> openstack_IsPoweredOff sdk c vm w;
              (case p of
                 Inl err \<Rightarrow> Some (Some err, w)
               | Inr ok \<Rightarrow>
                   if \<not> ok
                   then Some (effect (\<lambda>_. EvServerStop serverUUID)
                          (servers_Stop sdk (osc_session c) serverUUID) w)
                   else Some (None, w))
            })
     }"

definition openstack_Sanitize ::
  "'x openstack_sdk \<Rightarrow> openstack_Client \<Rightarrow> VirtualMachineImport \<Rightarrow>
   ('x, go_error option \<times> VirtualMachineImport) go" where
  "openstack_Sanitize sdk c vm w =
     (let lower = (\<lambda>n. set_ImportedName (strings_ToLower n) vm) in
      case uuid_Parse sdk (VirtualMachineName (vm_Spec vm)) of
        Some parsedUUID \<Rightarrow>
          do {
            (r, w) \<leftarrow> openstack_findVM sdk c parsedUUID w;
            (case r of
               Inl err \<Rightarrow> Some ((Some err, vm), w)
             | Inr vmObj \<Rightarrow> Some ((None, lower (srv_Name vmObj)), w))
          }
      | None \<Rightarrow> Some ((None, lower (VirtualMachineName (vm_Spec vm))), w))"

section \<open>Networks\<close>

text \<open>One address entry; the MAC address must be a string.\<close>

definition address_info :: "string \<Rightarrow> string \<Rightarrow> json \<Rightarrow> (go_error + NetworkInfo) option" where
  "address_info network model v =
     (case v of
        JMap entries \<Rightarrow>
          (case map_of entries ''OS-EXT-IPS-MAC:mac_addr'' of
             Some (JString mac) \<Rightarrow>
               Some (Inr \<lparr>NetworkName = network, MAC = mac, MappedNetwork = [], Model = model\<rparr>)
           | _ \<Rightarrow> None)
      | _ \<Rightarrow> Some (Inl (Errorf ''error asserting network array element into map[string]string'')))"

fun address_infos ::
  "string \<Rightarrow> string \<Rightarrow> json list \<Rightarrow> (go_error + NetworkInfo list) option" where
  "address_infos network model [] = Some (Inr [])"
| "address_infos network model (v # vs) =
     do {
       r \<leftarrow> address_info network model v;
       (case r of
          Inl err \<Rightarrow> Some (Inl err)
        | Inr ni \<Rightarrow> do { rest \<leftarrow> address_infos network model vs; Some (map_sum id ((#) ni) rest) })
     }"

fun all_infos :: "string \<Rightarrow> (string \<times> json) list \<Rightarrow> (go_error + NetworkInfo list) option" where
  "all_infos model [] = Some (Inr [])"
| "all_infos model ((network, values) # info) =
     (case values of
        JList valArr \<Rightarrow>
          do {
            r \<leftarrow> address_infos network model valArr;
            (case r of
               Inl err \<Rightarrow> Some (Inl err)
             | Inr nis \<Rightarrow> do { rest \<leftarrow> all_infos model info; Some (map_sum id ((@) nis) rest) })
          }
      | _ \<Rightarrow> Some (Inl (Errorf ''error asserting interface []interface'')))"

text \<open>
  The map from MAC addresses to interfaces, in which a later interface wins, read back in the
  order \<open>order\<close> in which Go iterates over its keys.
\<close>

definition mac_map :: "NetworkInfo list \<Rightarrow> string \<rightharpoonup> NetworkInfo" where
  "mac_map nis = foldl (\<lambda>m v. m(MAC v \<mapsto> v)) Map.empty nis"

definition unique_networks :: "(string list \<Rightarrow> string list) \<Rightarrow> NetworkInfo list \<Rightarrow> NetworkInfo list" where
  "unique_networks order nis = List.map_filter (mac_map nis) (order (remdups (map MAC nis)))"

definition openstack_generateNetworkInfos ::
  "(string list \<Rightarrow> string list) \<Rightarrow> (string \<times> json) list \<Rightarrow> string \<Rightarrow> (go_error + NetworkInfo list) option"
  where
  "openstack_generateNetworkInfos order info defaultInterfaceModel =
     map_option (map_sum id (unique_networks order)) (all_infos defaultInterfaceModel info)"

section \<open>Firmware\<close>

text \<open>The image of the last bootable volume; the empty string if there is none.\<close>

fun boot_image ::
  "'x openstack_sdk \<Rightarrow> openstack_Client \<Rightarrow> string list \<Rightarrow> string \<Rightarrow> 'x go_world \<Rightarrow>
   (go_error + string) \<times> 'x go_world" where
  "boot_image sdk c [] imageID w = (Inr imageID, w)"
| "boot_image sdk c (v # vs) imageID w =
     (let (resp, w) = query (volumes_Get sdk (osc_session c) v) w in
      case Bootable resp of
        Inl err \<Rightarrow>
          (Inl (Errorf (''error extracting volume info for volume '' @ v @ '': '' @ Error err)), w)
      | Inr bootable \<Rightarrow>
          if bootable = ''true'' then
            (case VolumeImageMetadata resp of
               Inl err \<Rightarrow>
                 (Inl (Errorf (''error extracting volume status for volume '' @ v @ '': '' @ Error err)), w)
             | Inr metadata \<Rightarrow>
                 boot_image sdk c vs (case metadata ''image_id'' of Some i \<Rightarrow> i | None \<Rightarrow> []) w)
          else boot_image sdk c vs imageID w)"

definition image_firmware :: "(string \<rightharpoonup> json) \<Rightarrow> Firmware option" where
  "image_firmware properties =
     (let fw = NewFirmware False False False in
      do {
        fw \<leftarrow> (case properties ''hw_firmware_type'' of
                 Some (JString t) \<Rightarrow> Some (if t = ''uefi'' then fw\<lparr>UEFI := True\<rparr> else fw)
               | Some _ \<Rightarrow> None
               | None \<Rightarrow> Some fw);
        (let fw = (if properties ''hw_tpm_model'' \<noteq> None then fw\<lparr>TPM := True\<rparr> else fw);
             fw = (if properties ''os_secure_boot'' \<in> {Some (JString ''required''), Some (JString ''optional'')}
                   then fw\<lparr>SecureBoot := True\<rparr> else fw)
         in Some fw)
      })"

definition openstack_getFirmwareSettings ::
  "'x openstack_sdk \<Rightarrow> openstack_Client \<Rightarrow> Server \<Rightarrow> ('x, go_error + Firmware) go" where
  "openstack_getFirmwareSettings sdk c inst w =
     (case boot_image sdk c (AttachedVolumes inst) [] w of
        (Inl err, w) \<Rightarrow> Some (Inl err, w)
      | (Inr imageID, w) \<Rightarrow>
          (case query (images_Get sdk (osc_session c) imageID) w of
             (Inl err, w) \<Rightarrow>
               Some (Inl (Errorf (''error getting image details for image '' @ imageID @ '': ''
                 @ Error err)), w)
           | (Inr imageInfo, w) \<Rightarrow>
               do { fw \<leftarrow> image_firmware (glance_Properties imageInfo); Some (Inr fw, w) }))"

section \<open>The machine\<close>

definition openstack_machine ::
  "HarvesterConsts \<Rightarrow> VirtualMachineImport \<Rightarrow> Server \<Rightarrow> FlavorObj \<Rightarrow> Firmware \<Rightarrow> NetworkInfo list \<Rightarrow>
   VirtualMachine" where
  "openstack_machine hc vm vmObj flavor fw networkInfos =
     (let meta = empty_meta\<lparr>Name := imported_name vm, Namespace := vm_Namespace vm\<rparr>;
          meta = (if srv_Description vmObj \<noteq> []
                  then meta\<lparr>Annotations := (Annotations meta)(annotationDescription \<mapsto> srv_Description vmObj)\<rparr>
                  else meta);
          vmSpec = NewVirtualMachineSpec hc (imported_name vm)
            \<lparr>NumCPU = ucast (VCPUs flavor), NumCoresPerSocket = 1, MemoryMB = RAM flavor\<rparr>;
          mappedNetwork = MapNetworks networkInfos (Mapping (vm_Spec vm));
          (networkConfig, interfaceConfig) =
            GenerateNetworkInterfaceConfigs mappedNetwork (GetDefaultNetworkInterfaceModel vm);
          vmSpec = ApplyFirmwareSettings vmSpec fw;
          vmSpec = vmSpec\<lparr>Networks := networkConfig, Interfaces := interfaceConfig\<rparr>
      in \<lparr>kv_Meta = meta, kv_Spec = vmSpec, kv_Ready = False\<rparr>)"

definition openstack_GenerateVirtualMachine ::
  "HarvesterConsts \<Rightarrow> 'x openstack_sdk \<Rightarrow> openstack_Client \<Rightarrow> VirtualMachineImport \<Rightarrow>
   ('x, go_error + VirtualMachine) go" where
  "openstack_GenerateVirtualMachine hc sdk c vm w =
     do {
       (r, w) \<leftarrow> openstack_findVM sdk c (VirtualMachineName (vm_Spec vm)) w;
       (case r of
          Inl err \<Rightarrow>
            Some (Inl (Errorf (''error finding VM in GenerateVirtualMachine: '' @ Error err)), w)
        | Inr vmObj \<Rightarrow>
            (case Flavor vmObj ''id'' of
               Some (JString flavorID) \<Rightarrow>
                 (case query (flavors_Get sdk (osc_session c) flavorID) w of
                    (Inl err, w) \<Rightarrow> Some (Inl (Wrapf ''error looking up flavor: '' err), w)
                  | (Inr flavorObj, w) \<Rightarrow>
                      do {
                        (f, w) \<leftarrow> openstack_getFirmwareSettings sdk c vmObj w;
                        (case f of
                           Inl err \<Rightarrow>
                             Some (Inl (Wrapf ''error getting firware settings: '' err), w)
                         | Inr fw \<Rightarrow>
                             do {
                               n \<leftarrow> openstack_generateNetworkInfos (map_order sdk) (Addresses vmObj)
                                      (GetDefaultNetworkInterfaceModel vm);
                               (case n of
                                  Inl err \<Rightarrow> Some (Inl err, w)
                                | Inr networkInfos \<Rightarrow>
                                    Some (Inr (openstack_machine hc vm vmObj flavorObj fw networkInfos), w))
                             })
                      })
             | _ \<Rightarrow> None))
     }"

end
