(* ===== verification/OpenstackExport.thy ===== *)
theory OpenstackExport
  imports OpenstackClient
begin

text \<open>
  \<open>ExportVirtualMachine\<close> of the OpenStack client: for every attached volume a snapshot, a
  volume made from it and an image uploaded from that, the wait for the image, and the download;
  what was created is deleted on every path. Then the table of operations and the contract.
\<close>

section \<open>The resources of one export\<close>

text \<open>The three local variables the deferred cleanup looks at.\<close>

record Resources =
  res_image :: string
  res_volume :: "string option"
  res_snapshot :: "string option"

definition no_resources :: Resources where
  "no_resources = \<lparr>res_image = [], res_volume = None, res_snapshot = None\<rparr>"

definition release ::
  "'x openstack_sdk \<Rightarrow> openstack_Client \<Rightarrow> Resources \<Rightarrow> 'x go_world \<Rightarrow> 'x go_world" where
  "release sdk c r w =
     (let w = (if 0 < length (res_image r)
               then snd (effect (\<lambda>_. EvGlanceDelete (res_image r))
                      (images_Delete sdk (osc_session c) (res_image r)) w)
               else w);
          w = (case res_volume r of
                 Some v \<Rightarrow> snd (effect (\<lambda>_. EvVolumeDelete v) (volumes_Delete sdk (osc_session c) v) w)
               | None \<Rightarrow> w)
      in case res_snapshot r of
           Some s \<Rightarrow> snd (effect (\<lambda>_. EvSnapshotDelete s) (snapshots_Delete sdk (osc_session c) s) w)
         | None \<Rightarrow> w)"

section \<open>Waiting for the image\<close>

text \<open>The retry loop, for the number of attempts that are left.\<close>

fun wait_active ::
  "'x openstack_sdk \<Rightarrow> openstack_Client \<Rightarrow> string \<Rightarrow> nat \<Rightarrow> 'x go_world \<Rightarrow> bool \<times> 'x go_world" where
  "wait_active sdk c imageID 0 w = (False, w)"
| "wait_active sdk c imageID (Suc n) w =
     (let (r, w) = query (images_Get sdk (osc_session c) imageID) w;
          active = (case r of Inl _ \<Rightarrow> False | Inr img \<Rightarrow> glance_Status img = ''active'')
      in if active then (True, w)
         else
           (let delay = UploadImageRetryDelay (osc_options c) * time_Second;
                (_, w) = effect (\<lambda>_. EvSleep (sint delay)) (time_Sleep sdk delay) w
            in wait_active sdk c imageID n w))"

definition retry_count :: "openstack_Client \<Rightarrow> nat" where
  "retry_count c = nat (sint (UploadImageRetryCount (osc_options c)))"

section \<open>One volume\<close>

definition generateRawImageFileName :: "string \<Rightarrow> nat \<Rightarrow> string" where
  "generateRawImageFileName vmName index = vmName @ ''-'' @ show_nat index @ ''.img''"

definition writeRawImageFile ::
  "'x system \<Rightarrow> 'x openstack_sdk \<Rightarrow> string \<Rightarrow> string \<Rightarrow> 'x go_world \<Rightarrow> go_error option \<times> 'x go_world"
  where
  "writeRawImageFile sys sdk name src w =
     (case effect (\<lambda>r. EvFileCreate name (r = None)) (os_Create sys name) w of
        (Some err, w) \<Rightarrow> (Some (Errorf (''error creating raw image file: '' @ Error err)), w)
      | (None, w) \<Rightarrow> effect (\<lambda>r. EvFileWrite name (r = None)) (io_CopyImage sdk name src) w)"

text \<open>The disk that a successful export adds.\<close>

definition exported_disk :: "VirtualMachineImport \<Rightarrow> nat \<Rightarrow> int64 \<Rightarrow> DiskInfo" where
  "exported_disk vm index sz =
     \<lparr>DiskName = generateRawImageFileName (imported_name vm) index, DiskSize = sz,
      DiskLocalPath = TempDir, DiskRoute = [], DiskImage = [], DiskConditions = [],
      BusType = GetDefaultDiskBusType vm\<rparr>"

text \<open>From the active image to the file: download, write.\<close>

definition download_image ::
  "'x system \<Rightarrow> 'x openstack_sdk \<Rightarrow> openstack_Client \<Rightarrow> VirtualMachineImport \<Rightarrow> nat \<Rightarrow> string \<Rightarrow>
   'x go_world \<Rightarrow> go_error option \<times> 'x go_world" where
  "download_image sys sdk c vm index imageID w =
     (case query (imagedata_Download sdk (osc_session c) imageID) w of
        (Inl err, w) \<Rightarrow> (Some (Wrapf (''error downloading image '' @ imageID @ '': '') err), w)
      | (Inr contents, w) \<Rightarrow>
          let rawImageFileName = generateRawImageFileName (imported_name vm) index in
          (case writeRawImageFile sys sdk (filepath_Join [TempDir, rawImageFileName]) contents w of
             (Some err, w) \<Rightarrow>
               (Some (Wrapf (''error downloading RAW image '' @ rawImageFileName @ '': '') err), w)
           | (None, w) \<Rightarrow> (None, w)))"

text \<open>From the uploaded image to the file: wait, then download.\<close>

definition fetch_image ::
  "'x system \<Rightarrow> 'x openstack_sdk \<Rightarrow> openstack_Client \<Rightarrow> VirtualMachineImport \<Rightarrow> nat \<Rightarrow> string \<Rightarrow>
   'x go_world \<Rightarrow> go_error option \<times> 'x go_world" where
  "fetch_image sys sdk c vm index imageID w =
     (let (isImageActive, w) = wait_active sdk c imageID (retry_count c) w in
      if \<not> isImageActive
      then (Some (Errorf (''timeout waiting for status '' @ go_quote ''active'' @ '' of image '' @ imageID)), w)
      else download_image sys sdk c vm index imageID w)"

text \<open>From the snapshot to the uploaded image, with the resources held at the end.\<close>

definition upload_volume ::
  "'x openstack_sdk \<Rightarrow> openstack_Client \<Rightarrow> string \<Rightarrow> string \<Rightarrow> 'x go_world \<Rightarrow>
   ((go_error + int64) \<times> Resources) \<times> 'x go_world" where
  "upload_volume sdk c imageName av w =
     (let s = osc_session c; held = no_resources in
      case effect (\<lambda>r. EvSnapshotCreate av (case r of Inl _ \<Rightarrow> None | Inr sn \<Rightarrow> Some (snap_ID sn)))
             (snapshots_Create sdk s imageName av) w of
        (Inl err, w) \<Rightarrow> ((Inl err, held), w)
      | (Inr snapshot, w) \<Rightarrow>
     (let held = held\<lparr>res_snapshot := Some (snap_ID snapshot)\<rparr> in
      case query (snapshots_Wait sdk s (snap_ID snapshot)) w of
        (Some err, w) \<Rightarrow>
          ((Inl (Wrapf (''timeout waiting for snapshot '' @ snap_ID snapshot @ '' to be available: '')
              err), held), w)
      | (None, w) \<Rightarrow>
     (case effect (\<lambda>r. EvVolumeCreate (snap_ID snapshot)
                    (case r of Inl _ \<Rightarrow> None | Inr v \<Rightarrow> Some (cinder_ID v)))
             (volumes_Create sdk s (snap_ID snapshot) (snap_Size snapshot)) w of
        (Inl err, w) \<Rightarrow> ((Inl err, held), w)
      | (Inr volume, w) \<Rightarrow>
     (let held = held\<lparr>res_volume := Some (cinder_ID volume)\<rparr> in
      case query (volumes_Wait sdk s (cinder_ID volume)) w of
        (Some err, w) \<Rightarrow>
          ((Inl (Wrapf (''timeout waiting for volume '' @ cinder_ID volume @ '' to be available: '')
              err), held), w)
      | (None, w) \<Rightarrow>
     (case effect (\<lambda>r. EvImageUpload (cinder_ID volume)
                    (case r of Inl _ \<Rightarrow> None | Inr i \<Rightarrow> Some i))
             (volumes_UploadImage sdk s (cinder_ID volume) imageName) w of
        (Inl err, w) \<Rightarrow> ((Inl (Wrapf ''error while uploading image: '' err), held), w)
      | (Inr imageID, w) \<Rightarrow> ((Inr (cinder_Size volume), held\<lparr>res_image := imageID\<rparr>), w))))))"

text \<open>\<open>exportFn\<close> with its deferred cleanup.\<close>

definition exportFn ::
  "'x system \<Rightarrow> 'x openstack_sdk \<Rightarrow> openstack_Client \<Rightarrow> nat \<Rightarrow> string \<Rightarrow> VirtualMachineImport \<Rightarrow>
   'x go_world \<Rightarrow> (go_error option \<times> VirtualMachineImport) \<times> 'x go_world" where
  "exportFn sys sdk c index av vm w =
     (let imageName = ''import-controller-'' @ VirtualMachineName (vm_Spec vm) @ ''-'' @ show_nat index;
          ((up, held), w) = upload_volume sdk c imageName av w
      in case up of
           Inl err \<Rightarrow> ((Some err, vm), release sdk c held w)
         | Inr sz \<Rightarrow>
             (case fetch_image sys sdk c vm index (res_image held) w of
                (Some err, w) \<Rightarrow> ((Some err, vm), release sdk c held w)
              | (None, w) \<Rightarrow>
                  ((None, set_Disks (disks_of vm @ [exported_disk vm index sz]) vm),
                   release sdk c held w)))"

fun export_volumes ::
  "'x system \<Rightarrow> 'x openstack_sdk \<Rightarrow> openstack_Client \<Rightarrow> nat \<Rightarrow> string list \<Rightarrow> VirtualMachineImport \<Rightarrow>
   'x go_world \<Rightarrow> (go_error option \<times> VirtualMachineImport) \<times> 'x go_world" where
  "export_volumes sys sdk c index [] vm w = ((None, vm), w)"
| "export_volumes sys sdk c index (av # avs) vm w =
     (case exportFn sys sdk c index av vm w of
        ((Some err, vm), w) \<Rightarrow> ((Some err, vm), w)
      | ((None, vm), w) \<Rightarrow> export_volumes sys sdk c (Suc index) avs vm w)"

definition openstack_ExportVirtualMachine ::
  "'x system \<Rightarrow> 'x openstack_sdk \<Rightarrow> openstack_Client \<Rightarrow> VirtualMachineImport \<Rightarrow>
   ('x, go_error option \<times> VirtualMachineImport) go" where
  "openstack_ExportVirtualMachine sys sdk c vm w =
     do {
       (r, w) \<leftarrow> openstack_findVM sdk c (VirtualMachineName (vm_Spec vm)) w;
       (case r of
          Inl err \<Rightarrow> Some ((Some err, vm), w)
        | Inr vmObj \<Rightarrow> Some (export_volumes sys sdk c 0 (AttachedVolumes vmObj) vm w))
     }"

section \<open>The table of operations\<close>

definition openstack_Cleanup ::
  "'x system \<Rightarrow> VirtualMachineImport \<Rightarrow> 'x go_world \<Rightarrow> go_error option \<times> 'x go_world" where
  "openstack_Cleanup sys vm w = RemoveTempImageFiles (os_Remove sys) (disks_of vm) w"

definition openstack_operations ::
  "HarvesterConsts \<Rightarrow> 'x system \<Rightarrow> 'x openstack_sdk \<Rightarrow> openstack_Client \<Rightarrow> 'x VirtualMachineOperations"
  where
  "openstack_operations hc sys sdk c =
     \<lparr>SanitizeVirtualMachineImport = openstack_Sanitize sdk c,
      ExportVirtualMachine = openstack_ExportVirtualMachine sys sdk c,
      ShutdownGuest = openstack_ShutdownGuest sdk c,
      PowerOff = (\<lambda>vm w. Some (Some (Errorf ''powering off is not supported by OpenStack''), w)),
      IsPowerOffSupported = False,
      IsPoweredOff = openstack_IsPoweredOff sdk c,
      GenerateVirtualMachine = openstack_GenerateVirtualMachine hc sdk c,
      PreFlightChecks = (\<lambda>vm w. Some (openstack_PreFlightChecks sdk c vm w)),
      Cleanup = (\<lambda>vm w. Some (openstack_Cleanup sys vm w))\<rparr>"

definition openstack_NewOperations ::
  "HarvesterConsts \<Rightarrow> 'x system \<Rightarrow> 'x openstack_sdk \<Rightarrow> string \<Rightarrow> string \<Rightarrow> Secret option \<Rightarrow>
   OpenstackSourceOptions \<Rightarrow> ('x, go_error + 'x VirtualMachineOperations) go" where
  "openstack_NewOperations hc sys sdk endpoint region secret options w =
     do {
       (r, w) \<leftarrow> openstack_NewClient_impl sdk endpoint region secret options w;
       Some (map_sum id (openstack_operations hc sys sdk) r, w)
     }"

section \<open>Logs\<close>

lemma check_networks_log: "check_networks sdk c nms w = (r, w') \<Longrightarrow> log w' = log w"
  by (induction nms arbitrary: w) (auto dest!: query_log split: prod.splits sum.splits if_splits)

lemma openstack_connect_log:
  "openstack_connect sdk e r ca auth opts w = (x, w') \<Longrightarrow> log w' = log w"
  by (auto simp: openstack_connect_def openstack_services_def Let_def dest!: query_log
      split: prod.splits sum.splits option.splits)

lemma checkOrGetUUID_log: "checkOrGetUUID sdk c n w = Some (r, w') \<Longrightarrow> log w' = log w"
  by (auto simp: checkOrGetUUID_def Let_def dest!: query_log
      split: prod.splits sum.splits option.splits if_splits list.splits)

lemma openstack_findVM_log: "openstack_findVM sdk c n w = Some (r, w') \<Longrightarrow> log w' = log w"
  by (auto simp: openstack_findVM_def dest!: query_log checkOrGetUUID_log
      split: Option.bind_splits sum.splits)

lemma openstack_IsPoweredOff_log: "openstack_IsPoweredOff sdk c vm w = Some (r, w') \<Longrightarrow> log w' = log w"
  by (auto simp: openstack_IsPoweredOff_def dest!: openstack_findVM_log
      split: Option.bind_splits sum.splits)

lemma boot_image_log: "boot_image sdk c vs i w = (r, w') \<Longrightarrow> log w' = log w"
  by (induction vs arbitrary: i w)
    (auto simp: Let_def dest!: query_log split: prod.splits sum.splits if_splits)

lemma openstack_getFirmwareSettings_log:
  "openstack_getFirmwareSettings sdk c s w = Some (r, w') \<Longrightarrow> log w' = log w"
  by (auto simp: openstack_getFirmwareSettings_def dest!: query_log boot_image_log
      split: prod.splits sum.splits Option.bind_splits)

end
