(* ===== verification/OpenstackContract.thy ===== *)
theory OpenstackContract
  imports OpenstackExport "HOL-Library.Multiset"
begin

text \<open>
  The OpenStack client keeps the contract of the operations, and what its export leaves behind:
  the log of one export is the creation of at most one snapshot, volume and image, what is done
  with them, and their deletion.
\<close>

section \<open>The log of one export\<close>

definition release_events :: "Resources \<Rightarrow> event list" where
  "release_events r =
     (if res_image r = [] then [] else [EvGlanceDelete (res_image r)]) @
     (case res_volume r of None \<Rightarrow> [] | Some v \<Rightarrow> [EvVolumeDelete v]) @
     (case res_snapshot r of None \<Rightarrow> [] | Some s \<Rightarrow> [EvSnapshotDelete s])"

lemma release_log: "log (release sdk c r w) = log w @ release_events r"
  by (auto simp: release_def release_events_def Let_def split: option.splits)

text \<open>The resources that the events of an upload create are the ones held.\<close>

definition held_by :: "event list \<Rightarrow> Resources \<Rightarrow> bool" where
  "held_by es r \<longleftrightarrow>
     (\<forall>a s. EvSnapshotCreate a (Some s) \<in> set es \<longrightarrow> res_snapshot r = Some s) \<and>
     (\<forall>s v. EvVolumeCreate s (Some v) \<in> set es \<longrightarrow> res_volume r = Some v) \<and>
     (\<forall>v i. EvImageUpload v (Some i) \<in> set es \<longrightarrow> res_image r = i)"

lemma upload_volume_log:
  assumes "upload_volume sdk c n av w = ((up, held), w')"
  shows "\<exists>es. log w' = log w @ es \<and> list_all (\<lambda>e. \<not> controller_event e) es \<and> held_by es held"
  using assms
  by (auto simp: upload_volume_def Let_def no_resources_def held_by_def
      dest!: query_log effect_log split: prod.splits sum.splits option.splits)

text \<open>Sleeping and writing the file.\<close>

fun fetch_event :: "event \<Rightarrow> bool" where
  "fetch_event (EvSleep d) = True"
| "fetch_event (EvFileCreate n ok) = True"
| "fetch_event (EvFileWrite n ok) = True"
| "fetch_event e = False"

lemma wait_active_log:
  "wait_active sdk c i n w = (b, w') \<Longrightarrow>
   \<exists>k \<le> n. log w' = log w @ replicate k (EvSleep (sint (UploadImageRetryDelay (osc_options c) * time_Second)))
      \<and> (b \<longrightarrow> k < n) \<and> (\<not> b \<longrightarrow> k = n)"
proof (induction n arbitrary: w)
  case 0
  then show ?case by simp
next
  case (Suc n)
  let ?d = "UploadImageRetryDelay (osc_options c) * time_Second"
  obtain r w1 where q: "query (images_Get sdk (osc_session c) i) w = (r, w1)"
    by fastforce
  obtain u w2 where s: "effect (\<lambda>_. EvSleep (sint ?d)) (time_Sleep sdk ?d) w1 = (u, w2)"
    by (metis surj_pair)
  show ?case
  proof (cases "\<exists>img. r = Inr img \<and> glance_Status img = ''active''")
    case True
    then have "b" "w' = w1" using Suc.prems q by auto
    then show ?thesis using query_log [OF q] by (intro exI [of _ 0]) simp
  next
    case False
    then have "wait_active sdk c i n w2 = (b, w')"
      using Suc.prems q s by (cases r) (auto simp: Let_def)
    from Suc.IH [OF this] obtain k where "k \<le> n" "log w' = log w2 @ replicate k (EvSleep (sint ?d))"
      "b \<longrightarrow> k < n" "\<not> b \<longrightarrow> k = n"
      by blast
    then show ?thesis
      using query_log [OF q] effect_log [OF s] by (intro exI [of _ "Suc k"]) auto
  qed
qed

lemma writeRawImageFile_log:
  "writeRawImageFile sys sdk n src w = (r, w') \<Longrightarrow> \<exists>es. log w' = log w @ es \<and> list_all fetch_event es"
  by (auto simp: writeRawImageFile_def dest!: effect_log split: prod.splits option.splits)

lemma fetch_image_log:
  assumes "fetch_image sys sdk c vm index i w = (r, w')"
  shows "\<exists>es. log w' = log w @ es \<and> list_all fetch_event es"
proof -
  obtain b w1 where b: "wait_active sdk c i (retry_count c) w = (b, w1)"
    by fastforce
  obtain k where k: "log w1 = log w @ replicate k (EvSleep (sint (UploadImageRetryDelay (osc_options c) * time_Second)))"
    using wait_active_log [OF b] by blast
  show ?thesis
    using assms b k
    by (auto simp: fetch_image_def download_image_def Let_def list_all_iff dest!: query_log writeRawImageFile_log
        split: if_splits prod.splits sum.splits option.splits)
qed

lemma fetch_event_quiet: "list_all fetch_event es \<Longrightarrow> list_all (\<lambda>e. \<not> controller_event e) es"
  by (erule list.pred_mono_strong) (metis controller_event.simps fetch_event.elims(2))

lemma fetch_event_held: "list_all fetch_event es \<Longrightarrow> held_by (as @ es) r = held_by as r"
  by (auto simp: held_by_def list_all_iff)

lemma exportFn_log:
  assumes "exportFn sys sdk c index av vm w = ((err, vm'), w')"
  shows "\<exists>es held. log w' = log w @ es @ release_events held \<and> held_by es held \<and>
    list_all (\<lambda>e. \<not> controller_event e) es \<and>
    (vm' = vm \<and> err \<noteq> None \<or>
     err = None \<and> (\<exists>size. vm' = set_Disks (disks_of vm @ [exported_disk vm index size]) vm))"
proof -
  let ?n = "''import-controller-'' @ VirtualMachineName (vm_Spec vm) @ ''-'' @ show_nat index"
  obtain up held w1 where u: "upload_volume sdk c ?n av w = ((up, held), w1)"
    by (metis surj_pair)
  obtain es where es: "log w1 = log w @ es" "list_all (\<lambda>e. \<not> controller_event e) es" "held_by es held"
    using upload_volume_log [OF u] by blast
  show ?thesis
  proof (cases up)
    case (Inl e)
    then have "w' = release sdk c held w1" "err = Some e" "vm' = vm"
      using assms u by (auto simp: exportFn_def)
    then show ?thesis
      using es by (intro exI [of _ es] exI [of _ held]) (simp add: release_log)
  next
    case (Inr size)
    obtain r w2 where f: "fetch_image sys sdk c vm index (res_image held) w1 = (r, w2)"
      by fastforce
    obtain fs where fs: "log w2 = log w1 @ fs" "list_all fetch_event fs"
      using fetch_image_log [OF f] by blast
    have "w' = release sdk c held w2"
      and "vm' = vm \<and> err \<noteq> None \<or>
        err = None \<and> vm' = set_Disks (disks_of vm @ [exported_disk vm index size]) vm"
      using assms u Inr f by (cases r; auto simp: exportFn_def)+
    then show ?thesis
      using es fs fetch_event_quiet [OF fs(2)] fetch_event_held [OF fs(2)]
      by (intro exI [of _ "es @ fs"] exI [of _ held]) (auto simp: release_log)
  qed
qed

lemma release_events_quiet: "list_all (\<lambda>e. \<not> controller_event e) (release_events r)"
  by (auto simp: release_events_def split: option.splits)

lemma export_volumes_spec:
  "export_volumes sys sdk c index avs vm w = ((err, vm'), w') \<Longrightarrow>
   quiet_log w w' \<and> (\<exists>ds. vm' = set_Disks (disks_of vm @ ds) vm \<and> length ds \<le> length avs \<and>
     map DiskName ds = map (\<lambda>i. generateRawImageFileName (imported_name vm) (index + i)) [0..<length ds] \<and>
     map DiskConditions ds = replicate (length ds) [] \<and>
     (err = None \<longrightarrow> length ds = length avs))"
proof (induction avs arbitrary: index vm w)
  case Nil
  then show ?case by auto
next
  case (Cons av avs)
  obtain e vm1 w1 where x: "exportFn sys sdk c index av vm w = ((e, vm1), w1)"
    by (metis surj_pair)
  obtain es held where es: "log w1 = log w @ es @ release_events held"
    "list_all (\<lambda>e. \<not> controller_event e) es"
    "vm1 = vm \<and> e \<noteq> None \<or> e = None \<and> (\<exists>size. vm1 = set_Disks (disks_of vm @ [exported_disk vm index size]) vm)"
    using exportFn_log [OF x] by blast
  show ?case
  proof (cases e)
    case (Some a)
    then show ?thesis
      using Cons.prems x es release_events_quiet [of held] by (auto intro!: exI [of _ "[]"])
  next
    case None
    then obtain size where vm1: "vm1 = set_Disks (disks_of vm @ [exported_disk vm index size]) vm"
      using es(3) by auto
    have "export_volumes sys sdk c (Suc index) avs vm1 w1 = ((err, vm'), w')"
      using Cons.prems x None by simp
    from Cons.IH [OF this] obtain fs ds where
      fs: "log w' = log w1 @ fs" "list_all (\<lambda>e. \<not> controller_event e) fs"
      and ds: "vm' = set_Disks (disks_of vm @ exported_disk vm index size # ds) vm"
        "length ds \<le> length avs" "err = None \<longrightarrow> length ds = length avs"
        "map DiskName ds = map (\<lambda>i. generateRawImageFileName (imported_name vm) (Suc index + i)) [0..<length ds]"
        "map DiskConditions ds = replicate (length ds) []"
      unfolding vm1 by auto
    have "map DiskName (exported_disk vm index size # ds) =
        map (\<lambda>i. generateRawImageFileName (imported_name vm) (index + i)) [0..<Suc (length ds)]"
      using ds(4) by (simp add: exported_disk_def upt_conv_Cons map_Suc_upt [symmetric] del: upt_Suc)
    then show ?thesis
      using es fs ds release_events_quiet [of held]
      by (intro conjI exI [of _ "exported_disk vm index size # ds"]) (auto simp: exported_disk_def)
  qed
qed

text \<open>A successful export has written the image of every volume.\<close>

lemma fetch_image_stores:
  assumes "fetch_image sys sdk c vm index i w = (None, w')"
  shows "\<exists>es. log w' = log w @ es \<and> stored es (exported_disk vm index sz)"
proof -
  obtain b w1 where b: "wait_active sdk c i (retry_count c) w = (b, w1)"
    by fastforce
  show ?thesis
    using assms b wait_active_log [OF b]
    by (auto simp: fetch_image_def download_image_def writeRawImageFile_def stored_def exported_disk_def Let_def
        dest!: query_log effect_log split: if_splits prod.splits sum.splits option.splits)
qed

lemma exportFn_stores:
  assumes "exportFn sys sdk c index av vm w = ((None, vm'), w')"
  shows "\<exists>es sz. log w' = log w @ es \<and> vm' = set_Disks (disks_of vm @ [exported_disk vm index sz]) vm \<and>
    stored es (exported_disk vm index sz)"
proof -
  let ?n = "''import-controller-'' @ VirtualMachineName (vm_Spec vm) @ ''-'' @ show_nat index"
  obtain sz held w1 w2 where u: "upload_volume sdk c ?n av w = ((Inr sz, held), w1)"
    and f: "fetch_image sys sdk c vm index (res_image held) w1 = (None, w2)"
    and r: "w' = release sdk c held w2" "vm' = set_Disks (disks_of vm @ [exported_disk vm index sz]) vm"
    using assms by (auto simp: exportFn_def Let_def split: prod.splits sum.splits option.splits)
  obtain es where "log w2 = log w1 @ es" "stored es (exported_disk vm index sz)"
    using fetch_image_stores [OF f] by blast
  then show ?thesis
    using upload_volume_log [OF u] r by (auto simp: release_log)
qed

lemma export_volumes_stored:
  "export_volumes sys sdk c index avs vm w = ((None, vm'), w') \<Longrightarrow> files_added w vm vm' w'"
proof (induction avs arbitrary: index vm w)
  case Nil
  then show ?case by (simp add: files_added_def)
next
  case (Cons av avs)
  obtain vm1 w1 where x: "exportFn sys sdk c index av vm w = ((None, vm1), w1)"
    and rest: "export_volumes sys sdk c (Suc index) avs vm1 w1 = ((None, vm'), w')"
    using Cons.prems by (auto split: prod.splits option.splits)
  obtain es sz where es: "log w1 = log w @ es" "vm1 = set_Disks (disks_of vm @ [exported_disk vm index sz]) vm"
    "stored es (exported_disk vm index sz)"
    using exportFn_stores [OF x] by blast
  obtain fs where fs: "log w' = log w1 @ fs"
    "list_all (\<lambda>d. stored fs d \<or> DiskName d = ''.img'') (drop (Suc (length (disks_of vm))) (disks_of vm'))"
    using Cons.IH [OF rest] es(2) by (auto simp: files_added_def)
  obtain more where "disks_of vm' = disks_of vm @ exported_disk vm index sz # more"
    using export_volumes_spec [OF rest] es(2) by auto
  then show ?case
    using es fs unfolding files_added_def by (intro exI [of _ "es @ fs"]) (auto simp: list_all_iff)
qed

section \<open>The contract\<close>

lemma openstack_Sanitize_spec:
  assumes "openstack_Sanitize sdk c vm w = Some ((err, vm'), w')"
  shows "log w' = log w \<and> (\<exists>n. vm' = set_ImportedName n vm) \<and>
    (err = None \<longrightarrow> strings_ToLower (imported_name vm') = imported_name vm')"
proof -
  have "\<exists>n. vm = set_ImportedName n vm"
    by (rule exI [of _ "imported_name vm"]) (simp add: set_ImportedName_def)
  then show ?thesis
    using assms
    by (auto simp: openstack_Sanitize_def Let_def dest!: openstack_findVM_log
        split: option.splits Option.bind_splits sum.splits)
qed

lemma openstack_export_spec:
  assumes "openstack_ExportVirtualMachine sys sdk c vm w = Some ((err, vm'), w')"
  shows "quiet_log w w' \<and> (\<exists>ds k. vm' = set_Disks ds vm \<and>
    map DiskConditions ds = map DiskConditions (disks_of vm) @ replicate k [])"
proof -
  have same: "\<exists>ds k. vm = set_Disks ds vm \<and>
      map DiskConditions ds = map DiskConditions (disks_of vm) @ replicate k []"
    by (intro exI [of _ "disks_of vm"] exI [of _ "0::nat"]) simp
  obtain r w1 where f: "openstack_findVM sdk c (VirtualMachineName (vm_Spec vm)) w = Some (r, w1)"
    using assms by (auto simp: openstack_ExportVirtualMachine_def split: Option.bind_splits)
  show ?thesis
  proof (cases r)
    case (Inl e)
    then have "vm' = vm \<and> w' = w1"
      using assms f by (simp add: openstack_ExportVirtualMachine_def)
    then show ?thesis using openstack_findVM_log [OF f] same by simp
  next
    case (Inr vmObj)
    then have x: "export_volumes sys sdk c 0 (AttachedVolumes vmObj) vm w1 = ((err, vm'), w')"
      using assms f by (simp add: openstack_ExportVirtualMachine_def)
    obtain es ds where "log w' = log w1 @ es" "list_all (\<lambda>e. \<not> controller_event e) es"
      "vm' = set_Disks (disks_of vm @ ds) vm" "map DiskConditions ds = replicate (length ds) []"
      using export_volumes_spec [OF x] by blast
    then show ?thesis
      using openstack_findVM_log [OF f]
      by (intro conjI exI [of _ es] exI [of _ "disks_of vm @ ds"] exI [of _ "length ds"]) auto
  qed
qed

lemma openstack_machine_shape:
  "Name (kv_Meta (openstack_machine hc vm s f fw nis)) = imported_name vm \<and>
   Namespace (kv_Meta (openstack_machine hc vm s f fw nis)) = vm_Namespace vm \<and>
   Networks (kv_Spec (openstack_machine hc vm s f fw nis)) \<noteq> [] \<and>
   map net_Name (Networks (kv_Spec (openstack_machine hc vm s f fw nis))) =
   map if_Name (Interfaces (kv_Spec (openstack_machine hc vm s f fw nis))) \<and>
      distinct (map net_Name (Networks (kv_Spec (openstack_machine hc vm s f fw nis))))"
  using network_configs_shape [of "MapNetworks nis (Mapping (vm_Spec vm))"
      "GetDefaultNetworkInterfaceModel vm"]
  by (cases "GenerateNetworkInterfaceConfigs (MapNetworks nis (Mapping (vm_Spec vm)))
      (GetDefaultNetworkInterfaceModel vm)") (auto simp: openstack_machine_def Let_def)

lemma openstack_GenerateVirtualMachine_spec:
  assumes "openstack_GenerateVirtualMachine hc sdk c vm w = Some (r, w')"
  shows "log w' = log w \<and> (\<forall>v. r = Inr v \<longrightarrow>
    (\<exists>s f fw nis. v = openstack_machine hc vm s f fw nis))"
  using assms
  by (auto simp: openstack_GenerateVirtualMachine_def
      dest!: openstack_findVM_log query_log openstack_getFirmwareSettings_log
      split: Option.bind_splits sum.splits option.splits json.splits prod.splits)

lemma openstack_ShutdownGuest_quiet:
  "openstack_ShutdownGuest sdk c vm w = Some (r, w') \<Longrightarrow> quiet_log w w'"
  by (auto simp: openstack_ShutdownGuest_def
      dest!: checkOrGetUUID_log openstack_IsPoweredOff_log effect_log
      split: Option.bind_splits sum.splits if_splits)

interpretation openstack_ops: vm_operations "openstack_operations hc sys sdk c"
  for hc sys sdk c
proof (unfold_locales, unfold openstack_operations_def VirtualMachineOperations.simps)
  fix w w' :: "'a go_world" and vm vm' v and err :: "go_error option"
  show "quiet w (openstack_Sanitize sdk c vm w)"
    by (rule quietI) (auto dest: openstack_Sanitize_spec)
  show "openstack_Sanitize sdk c vm w = Some ((err, vm'), w') \<Longrightarrow> \<exists>n. vm' = set_ImportedName n vm"
    by (auto dest: openstack_Sanitize_spec)
  show "openstack_Sanitize sdk c vm w = Some ((None, vm'), w') \<Longrightarrow>
      strings_ToLower (imported_name vm') = imported_name vm'"
    by (auto dest: openstack_Sanitize_spec)
  show "quiet w (openstack_ExportVirtualMachine sys sdk c vm w)"
    by (rule quietI) (auto dest: openstack_export_spec)
  show "openstack_ExportVirtualMachine sys sdk c vm w = Some ((err, vm'), w') \<Longrightarrow>
      \<exists>ds k. vm' = set_Disks ds vm \<and>
        map DiskConditions ds = map DiskConditions (disks_of vm) @ replicate k []"
    by (drule openstack_export_spec) (erule conjunct2)
  show "quiet w (openstack_ShutdownGuest sdk c vm w)"
    by (rule quietI) (rule openstack_ShutdownGuest_quiet)
  show "quiet w (Some (Some (Errorf ''powering off is not supported by OpenStack''), w))"
    by (simp add: emits_Some)
  show "quiet w (openstack_IsPoweredOff sdk c vm w)"
    by (rule quietI) (auto dest: openstack_IsPoweredOff_log)
  show "quiet w (openstack_GenerateVirtualMachine hc sdk c vm w)"
    by (rule quietI) (auto dest: openstack_GenerateVirtualMachine_spec)
  show "openstack_GenerateVirtualMachine hc sdk c vm w = Some (Inr v, w') \<Longrightarrow>
      Name (kv_Meta v) = imported_name vm \<and> Namespace (kv_Meta v) = vm_Namespace vm \<and>
      Networks (kv_Spec v) \<noteq> [] \<and>
      map net_Name (Networks (kv_Spec v)) = map if_Name (Interfaces (kv_Spec v)) \<and>
      distinct (map net_Name (Networks (kv_Spec v)))"
  proof -
    assume "openstack_GenerateVirtualMachine hc sdk c vm w = Some (Inr v, w')"
    then obtain s f fw nis where "v = openstack_machine hc vm s f fw nis"
      by (blast dest: openstack_GenerateVirtualMachine_spec)
    then show ?thesis using openstack_machine_shape by blast
  qed
  show "quiet w (Some (openstack_PreFlightChecks sdk c vm w))"
    by (rule quietI) (auto simp: openstack_PreFlightChecks_def dest: check_networks_log)
  show "quiet w (Some (openstack_Cleanup sys vm w))"
    by (rule quietI) (auto simp: openstack_Cleanup_def list_all_iff dest!: RemoveTempImageFiles_log)
  show "openstack_ExportVirtualMachine sys sdk c vm w = Some ((None, vm'), w') \<Longrightarrow> files_added w vm vm' w'"
    by (auto simp: openstack_ExportVirtualMachine_def files_added_def
        dest!: openstack_findVM_log export_volumes_stored split: Option.bind_splits sum.splits)
  show "Some (openstack_Cleanup sys vm w) = Some (r, w') \<Longrightarrow> files_removed w vm w'" for r
    by (auto simp: openstack_Cleanup_def intro: RemoveTempImageFiles_removed)
qed

lemma openstack_NewOperations_ok:
  "openstack_NewOperations hc sys sdk e r s opts w = Some (Inr vmo, w') \<Longrightarrow> vm_operations vmo"
  by (auto simp: openstack_NewOperations_def openstack_ops.vm_operations_axioms map_sum_def
      split: Option.bind_splits sum.splits)

lemma openstack_NewOperations_quiet: "quiet w (openstack_NewOperations hc sys sdk e r s opts w)"
  by (rule quietI)
    (auto simp: openstack_NewOperations_def openstack_NewClient_impl_def Let_def
      dest!: openstack_connect_log split: Option.bind_splits option.splits)

section \<open>Nothing is left behind\<close>

text \<open>Whatever the events create on the OpenStack side they also ask to delete.\<close>

definition cleans_up :: "event list \<Rightarrow> bool" where
  "cleans_up es \<longleftrightarrow>
     (\<forall>a s. EvSnapshotCreate a (Some s) \<in> set es \<longrightarrow> EvSnapshotDelete s \<in> set es) \<and>
     (\<forall>s v. EvVolumeCreate s (Some v) \<in> set es \<longrightarrow> EvVolumeDelete v \<in> set es) \<and>
     (\<forall>v i. EvImageUpload v (Some i) \<in> set es \<longrightarrow> i = [] \<or> EvGlanceDelete i \<in> set es)"

lemma cleans_up_Nil [simp]: "cleans_up []"
  by (simp add: cleans_up_def)

lemma cleans_up_append: "cleans_up es \<Longrightarrow> cleans_up fs \<Longrightarrow> cleans_up (es @ fs)"
  by (auto simp: cleans_up_def)

lemma held_cleans_up: "held_by es r \<Longrightarrow> cleans_up (es @ release_events r)"
  by (auto simp: held_by_def cleans_up_def release_events_def split: option.splits)

lemma export_volumes_cleans_up:
  "export_volumes sys sdk c index avs vm w = (r, w') \<Longrightarrow> \<exists>es. log w' = log w @ es \<and> cleans_up es"
proof (induction avs arbitrary: index vm w)
  case (Cons av avs)
  obtain e vm1 w1 where x: "exportFn sys sdk c index av vm w = ((e, vm1), w1)"
    by (metis surj_pair)
  then obtain es where es: "log w1 = log w @ es" "cleans_up es"
    using exportFn_log [OF x] held_cleans_up by blast
  show ?case
  proof (cases e)
    case None
    then have "export_volumes sys sdk c (Suc index) avs vm1 w1 = (r, w')"
      using Cons.prems x by simp
    from Cons.IH [OF this] show ?thesis
      using es cleans_up_append by auto
  qed (use Cons.prems x es in auto)
qed auto

text \<open>
  C18. An export from OpenStack leaves nothing behind: on every path, failed ones included, each
  snapshot, volume and image it created is asked to be deleted before the export returns.
\<close>

theorem openstack_export_cleans_up:
  "case openstack_ExportVirtualMachine sys sdk c vm w of
     None \<Rightarrow> True
   | Some (r, w') \<Rightarrow> \<exists>es. log w' = log w @ es \<and> cleans_up es"
  by (auto simp: openstack_ExportVirtualMachine_def dest!: openstack_findVM_log
      dest: export_volumes_cleans_up split: option.splits Option.bind_splits sum.splits)

text \<open>
  The wait on the states of the outside: the state after \<open>n\<close> rounds, each of them one look at the image
  and one sleep; whether the look of round \<open>k\<close> finds the image active; the state after that look.
\<close>

definition poll_delay :: "openstack_Client \<Rightarrow> int64" where
  "poll_delay c = UploadImageRetryDelay (osc_options c) * time_Second"

definition polled ::
  "'x openstack_sdk \<Rightarrow> openstack_Client \<Rightarrow> string \<Rightarrow> 'x go_world \<Rightarrow> nat \<Rightarrow> 'x go_world" where
  "polled sdk c i w n =
     w\<lparr>ext := ((\<lambda>x. snd (time_Sleep sdk (poll_delay c) (snd (images_Get sdk (osc_session c) i x)))) ^^ n) (ext w),
       log := log w @ replicate n (EvSleep (sint (poll_delay c)))\<rparr>"

definition active_at ::
  "'x openstack_sdk \<Rightarrow> openstack_Client \<Rightarrow> string \<Rightarrow> 'x go_world \<Rightarrow> nat \<Rightarrow> bool" where
  "active_at sdk c i w k \<longleftrightarrow>
     (case fst (images_Get sdk (osc_session c) i (ext (polled sdk c i w k))) of
        Inl err \<Rightarrow> False
      | Inr img \<Rightarrow> glance_Status img = ''active'')"

definition looked ::
  "'x openstack_sdk \<Rightarrow> openstack_Client \<Rightarrow> string \<Rightarrow> 'x go_world \<Rightarrow> nat \<Rightarrow> 'x go_world" where
  "looked sdk c i w k =
     (polled sdk c i w k)\<lparr>ext := snd (images_Get sdk (osc_session c) i (ext (polled sdk c i w k)))\<rparr>"

lemma polled_0 [simp]: "polled sdk c i w 0 = w"
  by (simp add: polled_def)

lemma polled_Suc: "polled sdk c i (polled sdk c i w 1) n = polled sdk c i w (Suc n)"
  by (simp add: polled_def funpow_Suc_right del: funpow.simps)

lemma find_upt_Suc: "find P [0..<Suc n] = (if P 0 then Some 0 else map_option Suc (find (\<lambda>k. P (Suc k)) [0..<n]))"
proof -
  have "find P (map Suc ks) = map_option Suc (find (\<lambda>k. P (Suc k)) ks)" for ks
    by (induction ks) simp_all
  then show ?thesis
    by (simp add: upt_conv_Cons map_Suc_upt [symmetric] del: upt_Suc)
qed

lemma wait_active_eq:
  "wait_active sdk c i n w =
     (case find (active_at sdk c i w) [0..<n] of
        None \<Rightarrow> (False, polled sdk c i w n)
      | Some k \<Rightarrow> (True, looked sdk c i w k))"
proof (induction n arbitrary: w)
  case 0
  then show ?case by simp
next
  case (Suc n)
  have later: "active_at sdk c i (polled sdk c i w 1) = (\<lambda>k. active_at sdk c i w (Suc k))"
    "looked sdk c i (polled sdk c i w 1) k = looked sdk c i w (Suc k)" for k
    by (simp_all add: active_at_def looked_def polled_Suc [simplified] fun_eq_iff)
  have step: "wait_active sdk c i (Suc n) w =
      (if active_at sdk c i w 0 then (True, looked sdk c i w 0) else wait_active sdk c i n (polled sdk c i w 1))"
    by (simp add: active_at_def looked_def polled_def poll_delay_def query_def effect_def Let_def
        split: prod.split sum.split)
  show ?case
    unfolding step find_upt_Suc Suc.IH later
    by (simp add: polled_Suc [simplified] split: option.split)
qed

text \<open>
  C36. The wait for an uploaded image: of the looks at the image, as many as the options of the source say
  and one in each round, the first that finds it active ends the wait, after one sleep of the configured
  delay for each look before it, and only then is the image downloaded. A look that fails counts like one
  at an image that is not active. If no look finds it active, the export fails with a timeout after
  that many looks and sleeps, and nothing is downloaded.
\<close>

theorem fetch_image_waits:
  "fetch_image sys sdk c vm index i w =
     (case find (active_at sdk c i w) [0..<nat (sint (UploadImageRetryCount (osc_options c)))] of
        None \<Rightarrow>
          (Some (Errorf (''timeout waiting for status '' @ go_quote ''active'' @ '' of image '' @ i)),
           polled sdk c i w (nat (sint (UploadImageRetryCount (osc_options c)))))
      | Some k \<Rightarrow> download_image sys sdk c vm index i (looked sdk c i w k))"
  by (simp add: fetch_image_def wait_active_eq retry_count_def split: option.split)

lemma raw_file_name_inject: "generateRawImageFileName n i = generateRawImageFileName n j \<longleftrightarrow> i = j"
  by (simp add: generateRawImageFileName_def)

text \<open>
  The disks of an export from OpenStack are named after the imported machine and the index of the
  attached volume, in the order of the volumes; the names are pairwise different, and a successful
  export has one disk for each volume.
\<close>

theorem openstack_export_names:
  "case openstack_ExportVirtualMachine sys sdk c vm w of
     None \<Rightarrow> True
   | Some ((err, vm'), w') \<Rightarrow>
       (\<exists>ds. vm' = set_Disks (disks_of vm @ ds) vm \<and>
          map DiskName ds = map (generateRawImageFileName (imported_name vm)) [0..<length ds] \<and>
          distinct (map DiskName ds) \<and>
          (case err of
             Some e \<Rightarrow> True
           | None \<Rightarrow> \<exists>s v u. openstack_findVM sdk c (VirtualMachineName (vm_Spec vm)) v = Some (Inr s, u) \<and>
               length ds = length (AttachedVolumes s)))"
proof -
  have exported: "\<exists>ds. vm' = set_Disks (disks_of vm @ ds) vm \<and>
      map DiskName ds = map (generateRawImageFileName (imported_name vm)) [0..<length ds] \<and>
      distinct (map DiskName ds) \<and> (err = None \<longrightarrow> length ds = length avs)"
    if x: "export_volumes sys sdk c 0 avs vm u = ((err, vm'), w')" for avs u err vm' w'
  proof -
    obtain ds where ds: "vm' = set_Disks (disks_of vm @ ds) vm" "err = None \<longrightarrow> length ds = length avs"
      "map DiskName ds = map (generateRawImageFileName (imported_name vm)) [0..<length ds]"
      using export_volumes_spec [OF x] by auto
    have "distinct (map DiskName ds)"
      unfolding ds(3) by (simp add: distinct_map inj_on_def raw_file_name_inject)
    then show ?thesis using ds by blast
  qed
  show ?thesis
  proof (cases "openstack_findVM sdk c (VirtualMachineName (vm_Spec vm)) w")
    case None
    then show ?thesis by (simp add: openstack_ExportVirtualMachine_def)
  next
    case (Some p)
    obtain r u where p: "p = (r, u)" by fastforce
    show ?thesis
    proof (cases r)
      case (Inl e)
      then show ?thesis
        using Some p by (simp add: openstack_ExportVirtualMachine_def exI [of _ "[]"])
    next
      case (Inr s)
      obtain err vm' w' where x: "export_volumes sys sdk c 0 (AttachedVolumes s) vm u = ((err, vm'), w')"
        by (metis surj_pair)
      then show ?thesis
        using exported [OF x] Some p Inr
        by (fastforce simp: openstack_ExportVirtualMachine_def split: option.split)
    qed
  qed
qed

section \<open>Finding the server\<close>

text \<open>
  C34. The lookup of a server by name crashes exactly when the list that OpenStack returns is not empty but
  holds no server with precisely that name, which its name filter (a regular expression) allows.
\<close>

theorem checkOrGetUUID_panics:
  "checkOrGetUUID sdk c input w = None \<longleftrightarrow>
   uuid_Parse sdk input = None \<and>
   (\<exists>pg servers x. servers_List sdk (osc_session c) (Some input) (ext w) = (Inr pg, x) \<and>
      IsEmpty pg = Inr False \<and> Extracted pg = Inr servers \<and> input \<notin> srv_Name ` set servers)"
  by (auto simp: checkOrGetUUID_def query_def Let_def filter_empty_conv image_iff filter_eq_Cons_iff
      split: option.splits prod.splits sum.splits list.splits if_splits)

section \<open>Networks\<close>

lemma map_sum_Inr: "map_sum f g z = Inr b \<longleftrightarrow> (\<exists>a. z = Inr a \<and> g a = b)"
  by (cases z) auto

lemma find_sound: "find P xs = Some x \<Longrightarrow> P x"
  by (induction xs) (auto split: if_splits)

lemma mac_map_find: "mac_map nis k = find (\<lambda>n. MAC n = k) (rev nis)"
  unfolding mac_map_def by (induction nis rule: rev_induct) auto

text \<open>
  C26. An interface that OpenStack reports once per address appears once: the interfaces have pairwise
  different MAC addresses, and they are the last entries reported for each MAC address, in the order
  in which Go happens to iterate over its map.
\<close>

theorem openstack_networks_unique:
  assumes "\<And>xs. mset (order xs) = mset xs"
    and "openstack_generateNetworkInfos order info model = Some (Inr nis)"
  shows "\<exists>reported. all_infos model info = Some (Inr reported) \<and>
    distinct (map MAC nis) \<and> MAC ` set nis = MAC ` set reported \<and>
    list_all (\<lambda>ni. find (\<lambda>n. MAC n = MAC ni) (rev reported) = Some ni) nis"
proof -
  obtain reported where r: "all_infos model info = Some (Inr reported)" "nis = unique_networks order reported"
    using assms(2) by (auto simp: openstack_generateNetworkInfos_def map_sum_Inr)
  let ?macs = "order (remdups (map MAC reported))"
  have macs: "set ?macs = MAC ` set reported" "distinct ?macs"
    using mset_eq_setD [OF assms(1), of "remdups (map MAC reported)"]
      mset_eq_imp_distinct_iff [OF assms(1), of "remdups (map MAC reported)"]
    by simp_all
  have found: "\<exists>ni. find (\<lambda>n. MAC n = k) (rev reported) = Some ni \<and> MAC ni = k" if "k \<in> set ?macs" for k
  proof (cases "find (\<lambda>n. MAC n = k) (rev reported)")
    case None
    then show ?thesis using that macs(1) by (auto simp: find_None_iff)
  next
    case (Some ni)
    then show ?thesis using find_sound [OF Some] by simp
  qed
  have "map MAC (List.map_filter (mac_map reported) ks) = ks \<and>
      list_all (\<lambda>ni. find (\<lambda>n. MAC n = MAC ni) (rev reported) = Some ni) (List.map_filter (mac_map reported) ks)"
    if "set ks \<subseteq> set ?macs" for ks
    using that
  proof (induction ks)
    case (Cons k ks)
    obtain ni where "find (\<lambda>n. MAC n = k) (rev reported) = Some ni" "MAC ni = k"
      using found [of k] Cons.prems by auto
    then show ?case
      using Cons by (simp add: List.map_filter_simps mac_map_find)
  qed (simp add: List.map_filter_simps)
  from this [of ?macs] have nis: "map MAC nis = ?macs"
    and last: "list_all (\<lambda>ni. find (\<lambda>n. MAC n = MAC ni) (rev reported) = Some ni) nis"
    by (simp_all add: r(2) unique_networks_def)
  have "MAC ` set nis = set ?macs"
    unfolding nis [symmetric] by simp
  with macs(1) have "MAC ` set nis = MAC ` set reported" by (rule trans [rotated])
  moreover have "distinct (map MAC nis)"
    unfolding nis by (rule macs(2))
  ultimately show ?thesis
    using r(1) last by blast
qed

theorem openstack_networks_unique_witness:
  "\<exists>reported. all_infos ''virtio'' [(''net'', JList [JMap [(''OS-EXT-IPS-MAC:mac_addr'', JString ''aa'')],
      JMap [(''OS-EXT-IPS-MAC:mac_addr'', JString ''aa'')]])] = Some (Inr reported) \<and>
    distinct (map MAC [\<lparr>NetworkName = ''net'', MAC = ''aa'', MappedNetwork = [], Model = ''virtio''\<rparr>]) \<and>
    MAC ` set [\<lparr>NetworkName = ''net'', MAC = ''aa'', MappedNetwork = [], Model = ''virtio''\<rparr>] =
      MAC ` set reported \<and>
    list_all (\<lambda>ni. find (\<lambda>n. MAC n = MAC ni) (rev reported) = Some ni)
      [\<lparr>NetworkName = ''net'', MAC = ''aa'', MappedNetwork = [], Model = ''virtio''\<rparr>]"
  by (rule openstack_networks_unique [where order = rev])
    (simp_all add: openstack_generateNetworkInfos_def address_info_def unique_networks_def mac_map_def
      List.map_filter_simps)

end
