(* ===== verification/Program.thy ===== *)
theory Program
  imports ServedImages ImportCompletion VmwareExport OvaContract OpenstackContract
begin

text \<open>
  The program put together: the handler of the import controller with the constructors of the
  three clients. The remaining fields of the handler and the records of the operating system
  and the SDKs are the outside world and stay arbitrary.
\<close>

definition link ::
  "'x virtualMachineHandler \<Rightarrow> 'x system \<Rightarrow> 'x vsphere \<Rightarrow> 'x ova_sdk \<Rightarrow> 'x openstack_sdk \<Rightarrow>
   'x virtualMachineHandler" where
  "link h sys vs oa os =
     h\<lparr>vmware_NewClient := vmware_NewOperations (harvester h) sys vs,
       ova_NewClient := ova_NewOperations (harvester h) sys oa,
       openstack_NewClient := openstack_NewOperations (harvester h) sys os\<rparr>"

interpretation program: import_handler "link h sys vs oa os"
  for h sys vs oa os
  by (rule import_handler.intro)
    (auto simp: link_def vmware_NewOperations_quiet ova_NewOperations_quiet
      openstack_NewOperations_quiet
      intro: vmware_NewOperations_ok ova_NewOperations_ok openstack_NewOperations_ok)

end
