(* ===== verification/SourceControllers.thy ===== *)
theory SourceControllers
  imports VmwareExport OvaContract OpenstackContract Conditions
begin

text \<open>
  The controllers of the source resources, \<open>pkg/controllers/migration/vmware.go\<close>, \<open>ova.go\<close> and
  \<open>openstack.go\<close>: a source that is not ready is verified with a fresh client, and the verdict is
  written to its status and conditions. The three handlers share the shape of the code; what
  differs is the source, its secret and its client.
\<close>

record 'x sourceHandler =
  sh_secret_Get :: "string \<Rightarrow> string \<Rightarrow> ('x, go_error + Secret) call"
  sh_Now :: "('x, int) call"
  sh_Format :: "int \<Rightarrow> string"
  sh_UpdateVmware :: "VmwareSource \<Rightarrow> ('x, VmwareSource option \<times> go_error option) call"
  sh_UpdateOva :: "OvaSource \<Rightarrow> ('x, OvaSource option \<times> go_error option) call"
  sh_UpdateOpenstack :: "OpenstackSource \<Rightarrow> ('x, OpenstackSource option \<times> go_error option) call"

definition source_condition ::
  "'x sourceHandler \<Rightarrow> Cond \<Rightarrow> ConditionStatus \<Rightarrow> 'x go_world \<Rightarrow> Condition \<times> 'x go_world" where
  "source_condition h c st w =
     (let (t1, w) = query (sh_Now h) w; (t2, w) = query (sh_Now h) w
      in (\<lparr>cond_Type = c, cond_Status = st, LastUpdateTime = sh_Format h t1,
           LastTransitionTime = sh_Format h t2, Reason = [], Message = []\<rparr>, w))"

text \<open>The two branches after \<open>client.Verify\<close>.\<close>

definition verdict ::
  "'x sourceHandler \<Rightarrow> go_error option \<Rightarrow> SourceStatus \<Rightarrow> 'x go_world \<Rightarrow> SourceStatus \<times> 'x go_world"
  where
  "verdict h err s w =
     (if err \<noteq> None then
        (let (c1, w) = source_condition h ClusterErrorCondition ConditionTrue w;
             (c2, w) = source_condition h ClusterReadyCondition ConditionFalse w
         in (s\<lparr>source_Conditions := MergeConditions (source_Conditions s) [c1, c2],
               source_Status := ClusterNotReady\<rparr>, w))
      else
        (let (c1, w) = source_condition h ClusterReadyCondition ConditionTrue w;
             (c2, w) = source_condition h ClusterErrorCondition ConditionFalse w
         in (s\<lparr>source_Conditions := MergeConditions (source_Conditions s) [c1, c2],
               source_Status := ClusterReady\<rparr>, w)))"

text \<open>The lookup of the secret; a nil reference would be dereferenced.\<close>

definition lookup_secret ::
  "'x sourceHandler \<Rightarrow> string \<Rightarrow> SecretRef option \<Rightarrow> ('x, go_error + Secret) go" where
  "lookup_secret h what ref w =
     (case ref of
        None \<Rightarrow> None
      | Some r \<Rightarrow>
          (case query (sh_secret_Get h (secretref_Namespace r) (secretref_Name r)) w of
             (Inl err, w) \<Rightarrow> Some (Inl (Wrapf (''failed to lookup secret for '' @ what @ '': '') err), w)
           | (Inr s, w) \<Rightarrow> Some (Inr s, w)))"

definition no_client :: "string \<Rightarrow> go_error \<Rightarrow> go_error" where
  "no_client what err = Wrapf (''failed to generate client for '' @ what @ '': '') err"

definition source_name :: "string \<Rightarrow> ObjectMeta \<Rightarrow> string" where
  "source_name kind m = kind @ '' migration '' @ NamespacedName m"

definition vmware_OnSourceChange ::
  "'x sourceHandler \<Rightarrow> 'x system \<Rightarrow> 'x vsphere \<Rightarrow> VmwareSource option \<Rightarrow>
   ('x, VmwareSource option \<times> go_error option) go" where
  "vmware_OnSourceChange h sys vs src w =
     (case src of
        None \<Rightarrow> Some ((None, None), w)
      | Some v \<Rightarrow>
          if DeletionTimestamp (vmware_Meta v) \<noteq> None then Some ((None, None), w)
          else if source_Status (vmware_Status v) \<noteq> ClusterReady then
            (let what = source_name (vmware_Kind v) (vmware_Meta v) in
             do {
               (r, w) \<leftarrow> lookup_secret h what (VmwareSource_SecretReference v) w;
               (case r of
                  Inl err \<Rightarrow> Some ((None, Some err), w)
                | Inr secret \<Rightarrow>
                    do {
                      (c, w) \<leftarrow> vmware_NewClient_impl sys vs (vmware_Endpoint v)
                                 (vmware_Datacenter v) (Some secret) w;
                      (case c of
                         Inl err \<Rightarrow> Some ((None, Some (no_client what err)), w)
                       | Inr client \<Rightarrow>
                           (let (err, w) = vmware_Verify vs client w;
                                (st, w) = verdict h err (vmware_Status v) w;
                                v = v\<lparr>vmware_Status := st\<rparr>
                            in Some (effect (\<lambda>_. EvUpdateVmwareSource v) (sh_UpdateVmware h v) w)))
                    })
             })
          else Some ((None, None), w))"

definition ova_OnSourceChange ::
  "'x sourceHandler \<Rightarrow> 'x ova_sdk \<Rightarrow> OvaSource option \<Rightarrow>
   ('x, OvaSource option \<times> go_error option) go" where
  "ova_OnSourceChange h sdk src w =
     (case src of
        None \<Rightarrow> Some ((None, None), w)
      | Some s \<Rightarrow>
          if DeletionTimestamp (ova_Meta s) \<noteq> None then Some ((None, None), w)
          else if source_Status (ova_Status s) \<noteq> ClusterReady then
            (let what = source_name (ova_Kind s) (ova_Meta s) in
             do {
               (r, w) \<leftarrow> (if OvaSource_HasSecret s
                          then do { (r, w) \<leftarrow> lookup_secret h what (OvaSource_SecretReference s) w;
                                    Some (map_sum id Some r, w) }
                          else Some (Inr None, w));
               (case r of
                  Inl err \<Rightarrow> Some ((None, Some err), w)
                | Inr secret \<Rightarrow>
                    (case OvaSource_GetOptions s of
                       OvaOptions options \<Rightarrow>
                         (let client = ova_NewClient_impl (ova_Url s) secret options;
                              (err, w) = ova_Verify sdk client w;
                              (st, w) = verdict h err (ova_Status s) w;
                              s = s\<lparr>ova_Status := st\<rparr>
                          in Some (effect (\<lambda>_. EvUpdateOvaSource s) (sh_UpdateOva h s) w))
                     | _ \<Rightarrow> None))
             })
          else Some ((None, None), w))"

definition openstack_OnSourceChange ::
  "'x sourceHandler \<Rightarrow> 'x openstack_sdk \<Rightarrow> OpenstackSource option \<Rightarrow>
   ('x, OpenstackSource option \<times> go_error option) go" where
  "openstack_OnSourceChange h sdk src w =
     (case src of
        None \<Rightarrow> Some ((None, None), w)
      | Some s \<Rightarrow>
          if DeletionTimestamp (openstack_Meta s) \<noteq> None then Some ((None, None), w)
          else if source_Status (openstack_Status s) \<noteq> ClusterReady then
            (let what = source_name (openstack_Kind s) (openstack_Meta s) in
             do {
               (r, w) \<leftarrow> lookup_secret h what (OpenstackSource_SecretReference s) w;
               (case r of
                  Inl err \<Rightarrow> Some ((None, Some err), w)
                | Inr secret \<Rightarrow>
                    (case OpenstackSource_GetOptions s of
                       OpenstackOptions options \<Rightarrow>
                         do {
                           (c, w) \<leftarrow> openstack_NewClient_impl sdk (openstack_Endpoint s)
                                      (openstack_Region s) (Some secret) options w;
                           (case c of
                              Inl err \<Rightarrow> Some ((None, Some (no_client what err)), w)
                            | Inr client \<Rightarrow>
                                (let (err, w) = openstack_Verify sdk client w;
                                     (st, w) = verdict h err (openstack_Status s) w;
                                     s = s\<lparr>openstack_Status := st\<rparr>
                                 in Some (effect (\<lambda>_. EvUpdateOpenstackSource s)
                                      (sh_UpdateOpenstack h s) w)))
                         }
                     | _ \<Rightarrow> None))
             })
          else Some ((None, None), w))"

section \<open>The verdict\<close>

text \<open>A status whose two conditions agree with it.\<close>

definition consistent :: "SourceStatus \<Rightarrow> bool" where
  "consistent s \<longleftrightarrow>
     (source_Status s = ClusterReady \<or> source_Status s = ClusterNotReady) \<and>
     (\<forall>st. ConditionExists (source_Conditions s) ClusterReadyCondition st \<longleftrightarrow>
        st = (if source_Status s = ClusterReady then ConditionTrue else ConditionFalse)) \<and>
     (\<forall>st. ConditionExists (source_Conditions s) ClusterErrorCondition st \<longleftrightarrow>
        st = (if source_Status s = ClusterReady then ConditionFalse else ConditionTrue))"

lemma source_condition_spec:
  "source_condition h c st w = (cnd, w') \<Longrightarrow>
   cond_Type cnd = c \<and> cond_Status cnd = st \<and> log w' = log w"
  by (auto simp: source_condition_def Let_def dest!: query_log split: prod.splits)

lemma verdict_spec:
  assumes "verdict h err s w = (s', w')"
  shows "consistent s'" "source_Status s' = ClusterReady \<longleftrightarrow> err = None" "log w' = log w"
    "k \<notin> {ClusterReadyCondition, ClusterErrorCondition} \<Longrightarrow>
     ConditionExists (source_Conditions s') k st = ConditionExists (source_Conditions s) k st"
  using assms
  by (auto simp: verdict_def consistent_def Let_def dest!: source_condition_spec
      split: if_splits prod.splits)

section \<open>What the controllers write\<close>

text \<open>
  A new status: it replaces one that was not ready, its conditions agree with it, conditions of other
  types are those of the old one, and it is ready only if some verification succeeded.
\<close>

definition judged :: "bool \<Rightarrow> SourceStatus \<Rightarrow> SourceStatus \<Rightarrow> bool" where
  "judged verified s s' \<longleftrightarrow>
     source_Status s \<noteq> ClusterReady \<and> consistent s' \<and> (source_Status s' = ClusterReady \<longrightarrow> verified) \<and>
     (\<forall>k st. k \<notin> {ClusterReadyCondition, ClusterErrorCondition} \<longrightarrow>
        ConditionExists (source_Conditions s') k st = ConditionExists (source_Conditions s) k st)"

fun vmware_update :: "'x vsphere \<Rightarrow> VmwareSource \<Rightarrow> event \<Rightarrow> bool" where
  "vmware_update vs v (EvUpdateVmwareSource v') \<longleftrightarrow>
     v' = v\<lparr>vmware_Status := vmware_Status v'\<rparr> \<and> DeletionTimestamp (vmware_Meta v) = None \<and>
     judged (\<exists>c u u'. vmware_Verify vs c (u :: 'x go_world) = (None, u'))
       (vmware_Status v) (vmware_Status v')"
| "vmware_update vs v ev \<longleftrightarrow> \<not> controller_event ev"

fun ova_update :: "'x ova_sdk \<Rightarrow> OvaSource \<Rightarrow> event \<Rightarrow> bool" where
  "ova_update sdk s (EvUpdateOvaSource s') \<longleftrightarrow>
     s' = s\<lparr>ova_Status := ova_Status s'\<rparr> \<and> DeletionTimestamp (ova_Meta s) = None \<and>
     judged (\<exists>c u u'. ova_Verify sdk c (u :: 'x go_world) = (None, u') \<and> oc_url c = ova_Url s)
       (ova_Status s) (ova_Status s')"
| "ova_update sdk s ev \<longleftrightarrow> \<not> controller_event ev"

fun openstack_update :: "'x openstack_sdk \<Rightarrow> OpenstackSource \<Rightarrow> event \<Rightarrow> bool" where
  "openstack_update sdk s (EvUpdateOpenstackSource s') \<longleftrightarrow>
     s' = s\<lparr>openstack_Status := openstack_Status s'\<rparr> \<and> DeletionTimestamp (openstack_Meta s) = None \<and>
     judged (\<exists>c u u'. openstack_Verify sdk c (u :: 'x go_world) = (None, u'))
       (openstack_Status s) (openstack_Status s')"
| "openstack_update sdk s ev \<longleftrightarrow> \<not> controller_event ev"

lemma verdict_judged:
  assumes "verdict h err s w = (s', w')" "source_Status s \<noteq> ClusterReady" "err = None \<Longrightarrow> verified"
  shows "judged verified s s'" "log w' = log w"
  using verdict_spec [OF assms(1)] assms(2,3) by (auto simp: judged_def)

lemma lookup_secret_log: "lookup_secret h what ref w = Some (r, w') \<Longrightarrow> log w' = log w"
  by (auto simp: lookup_secret_def dest!: query_log split: option.splits prod.splits sum.splits)

lemma lookup_secret_emits: "emits P w (lookup_secret h what ref w)"
  by (auto simp: emits_def dest!: lookup_secret_log)

lemma vmware_update_quiet: "\<not> controller_event ev \<Longrightarrow> vmware_update vs v ev"
  by (cases ev) simp_all

lemma emits_effect_last: "P (ev (fst (effect ev f w))) \<Longrightarrow> emits P w (Some (effect ev f w))"
  by (auto simp: emits_def effect_def split: prod.splits)

lemma vmware_verdict_update:
  assumes "DeletionTimestamp (vmware_Meta v) = None" "source_Status (vmware_Status v) \<noteq> ClusterReady"
    and "vmware_Verify vs c u = (err, u1)" "verdict h err (vmware_Status v) u1 = (st, u2)"
  shows "emits (vmware_update vs v) u (Some (effect (\<lambda>_. EvUpdateVmwareSource (v\<lparr>vmware_Status := st\<rparr>))
      (sh_UpdateVmware h (v\<lparr>vmware_Status := st\<rparr>)) u2))"
proof (rule emits_log_cong [OF emits_effect_last])
  have "judged (\<exists>c u u'. vmware_Verify vs c (u :: 'a go_world) = (None, u')) (vmware_Status v) st"
    by (rule verdict_judged(1) [OF assms(4,2)]) (use assms(3) in blast)
  then show "vmware_update vs v (EvUpdateVmwareSource (v\<lparr>vmware_Status := st\<rparr>))"
    using assms(1) by simp
  show "log u2 = log u"
    using verdict_judged(2) [OF assms(4,2), of True] query_log [OF assms(3) [unfolded vmware_Verify_def]] by simp
qed

lemma vmware_OnSourceChange_update:
  "emits (vmware_update vs v) w (vmware_OnSourceChange h sys vs (Some v) w)"
proof (cases "DeletionTimestamp (vmware_Meta v) = None \<and> source_Status (vmware_Status v) \<noteq> ClusterReady")
  case False
  then show ?thesis by (auto simp: vmware_OnSourceChange_def emits_Some)
next
  case True
  have client: "emits (vmware_update vs v) u (vmware_NewClient_impl sys vs e d secret u)"
    for u :: "'a go_world" and e d secret
    by (rule emits_mono [OF vmware_NewClient_quiet vmware_update_quiet])
  show ?thesis
    using True unfolding vmware_OnSourceChange_def
    by (auto simp: Let_def emits_Some intro!: emits_bind_sum [OF lookup_secret_emits] emits_bind_sum [OF client]
        vmware_verdict_update split: prod.split)
qed

lemma ova_verdict_update:
  assumes "DeletionTimestamp (ova_Meta s) = None" "source_Status (ova_Status s) \<noteq> ClusterReady"
    and "ova_Verify sdk c u = (err, u1)" "verdict h err (ova_Status s) u1 = (st, u2)" "oc_url c = ova_Url s"
  shows "emits (ova_update sdk s) u (Some (effect (\<lambda>_. EvUpdateOvaSource (s\<lparr>ova_Status := st\<rparr>))
      (sh_UpdateOva h (s\<lparr>ova_Status := st\<rparr>)) u2))"
proof (rule emits_log_cong [OF emits_effect_last])
  have "judged (\<exists>c u u'. ova_Verify sdk c (u :: 'a go_world) = (None, u') \<and> oc_url c = ova_Url s)
      (ova_Status s) st"
    by (rule verdict_judged(1) [OF assms(4,2)]) (use assms(3,5) in blast)
  then show "ova_update sdk s (EvUpdateOvaSource (s\<lparr>ova_Status := st\<rparr>))"
    using assms(1) by simp
  show "log u2 = log u"
    using verdict_judged(2) [OF assms(4,2), of True] ova_Verify_log [OF assms(3)] by simp
qed

lemma ova_OnSourceChange_update:
  "emits (ova_update sdk s) w (ova_OnSourceChange h sdk (Some s) w)"
proof (cases "DeletionTimestamp (ova_Meta s) = None \<and> source_Status (ova_Status s) \<noteq> ClusterReady")
  case False
  then show ?thesis by (auto simp: ova_OnSourceChange_def emits_Some)
next
  case True
  then show ?thesis
    unfolding ova_OnSourceChange_def
    by (auto simp: Let_def emits_Some ova_NewClient_impl_def map_sum_def
        intro!: emits_bind [OF lookup_secret_emits] ova_verdict_update
        split: prod.split SourceOptions.split sum.split)
qed

lemma openstack_verdict_update:
  assumes "DeletionTimestamp (openstack_Meta s) = None" "source_Status (openstack_Status s) \<noteq> ClusterReady"
    and "openstack_Verify sdk c u = (err, u1)" "verdict h err (openstack_Status s) u1 = (st, u2)"
  shows "emits (openstack_update sdk s) u
    (Some (effect (\<lambda>_. EvUpdateOpenstackSource (s\<lparr>openstack_Status := st\<rparr>))
      (sh_UpdateOpenstack h (s\<lparr>openstack_Status := st\<rparr>)) u2))"
proof (rule emits_log_cong [OF emits_effect_last])
  have "judged (\<exists>c u u'. openstack_Verify sdk c (u :: 'a go_world) = (None, u')) (openstack_Status s) st"
    by (rule verdict_judged(1) [OF assms(4,2)]) (use assms(3) in blast)
  then show "openstack_update sdk s (EvUpdateOpenstackSource (s\<lparr>openstack_Status := st\<rparr>))"
    using assms(1) by simp
  have "log u1 = log u"
    using assms(3) by (auto simp: openstack_Verify_def dest!: query_log split: prod.splits sum.splits if_splits)
  then show "log u2 = log u"
    using verdict_judged(2) [OF assms(4,2), of True] by simp
qed

lemma openstack_OnSourceChange_update:
  "emits (openstack_update sdk s) w (openstack_OnSourceChange h sdk (Some s) w)"
proof (cases "DeletionTimestamp (openstack_Meta s) = None \<and> source_Status (openstack_Status s) \<noteq> ClusterReady")
  case False
  then show ?thesis by (auto simp: openstack_OnSourceChange_def emits_Some)
next
  case True
  have client: "emits (openstack_update sdk s) u (openstack_NewClient_impl sdk e r secret options u)"
    for u :: "'a go_world" and e r secret options
    by (auto simp: openstack_NewClient_impl_def Let_def emits_def dest!: openstack_connect_log
        split: option.splits)
  show ?thesis
    using True unfolding openstack_OnSourceChange_def
    by (auto simp: Let_def emits_Some intro!: emits_bind_sum [OF lookup_secret_emits] emits_bind_sum [OF client]
        openstack_verdict_update split: prod.split SourceOptions.split)
qed

text \<open>
  C20. The controllers of the sources only ever write the status of the source they were called for, and
  only when it is not ready and not being deleted: the new status agrees with its two conditions,
  keeps the conditions of other types, and is ready only if the verification of the source, by a
  client of its kind, succeeded.
\<close>

theorem source_controllers_judge:
  "emits (vmware_update vs v) w (vmware_OnSourceChange h sys vs (Some v) w) \<and>
   emits (ova_update sdk s) w (ova_OnSourceChange h sdk (Some s) w) \<and>
   emits (openstack_update osdk os) w (openstack_OnSourceChange h osdk (Some os) w)"
  by (intro conjI vmware_OnSourceChange_update ova_OnSourceChange_update openstack_OnSourceChange_update)

end
