(* ===== verification/Example.thy ===== *)
theory Example
  imports Program SourceControllers
begin

text \<open>
  A concrete world in which an import succeeds: an OVA archive with one disk and one network
  card on a server that answers every request, in a cluster that accepts every object. The state
  of the outside is a number: 0 when all is well, 1 when the target cluster cannot import the
  images, 2 when they are gone, 3 when the source machine stays powered on. The witnesses of the
  properties are evaluated in it.
\<close>

definition ex_consts :: HarvesterConsts where
  "ex_consts = \<lparr>LabelVMName = ''harvesterhci.io/vmName'', AnnotationImageID = ''harvesterhci.io/imageId'',
     AnnotationStorageClassName = ''harvesterhci.io/storageClassName'',
     CSIProvisionerLonghorn = ''driver.longhorn.io'', DataEngineTypeV1 = ''v1''\<rparr>"

definition ex_source :: OvaSource where
  "ex_source = \<lparr>ova_Kind = ''OvaSource'', ova_APIVersion = expectedAPIVersion,
     ova_Meta = empty_meta\<lparr>Name := ''src''\<rparr>,
     ova_Url = ''http://files/box.ova'', ova_Options = \<lparr>HttpTimeoutSeconds = None\<rparr>,
     ova_Credentials = None, ova_Status = \<lparr>source_Status = ClusterReady, source_Conditions = []\<rparr>\<rparr>"

definition ex_image :: VirtualMachineImage where
  "ex_image = \<lparr>img_Meta = empty_meta\<lparr>Name := ''image-1'', Namespace := ''default''\<rparr>, DisplayName = [],
     URL = [], SourceType = ''download'', Backend = VMIBackendBackingImage,
     TargetStorageClassName = [],
     img_Conditions = [\<lparr>imgcond_Type = ImageImported, imgcond_Status = ConditionTrue, imgcond_Reason = []\<rparr>],
     img_Size = 1024, img_StorageClassName = ''lh-image-1''\<rparr>"

definition ex_failed_image :: VirtualMachineImage where
  "ex_failed_image = ex_image\<lparr>img_Conditions :=
     [\<lparr>imgcond_Type = ImageImported, imgcond_Status = ConditionFalse, imgcond_Reason = ''ImportFailed''\<rparr>]\<rparr>"

definition ex_vm :: VirtualMachine where
  "ex_vm = \<lparr>kv_Meta = empty_meta, kv_Spec = NewVirtualMachineSpec ex_consts [] (NewHardware 1 1 1),
     kv_Ready = True\<rparr>"

definition ex_handler :: "nat virtualMachineHandler" where
  "ex_handler = \<lparr>
     vmware_Get = (\<lambda>ns n x. (Inl (ErrNotFound n), x)),
     ova_Get = (\<lambda>ns n x. if n = ''src'' then (Inr ex_source, x) else (Inl (ErrNotFound n), x)),
     openstack_Get = (\<lambda>ns n x. (Inl (ErrNotFound n), x)),
     secret_Get = (\<lambda>ns n x. (Inl (ErrNotFound n), x)),
     importVM_UpdateStatus = (\<lambda>vm x. ((Some vm, None), x)),
     importVM_EnqueueAfter = (\<lambda>ns n d x. x),
     vmi_Get = (\<lambda>ns n x.
       if n \<noteq> ''image-1'' \<or> x = 2 then (Inl (ErrNotFound n), x)
       else (Inr (if x = 1 then ex_failed_image else ex_image), x)),
     vmi_List = (\<lambda>ns k v x. (Inr [], x)),
     vmi_Create = (\<lambda>img x. (Inr ex_image, x)),
     vmi_Update = (\<lambda>img x. (None, x)),
     vmi_Delete = (\<lambda>ns n x. (None, x)),
     kubevirt_Get = (\<lambda>ns n x. (Inr ex_vm, x)),
     kubevirt_Create = (\<lambda>v x. (None, x)),
     pvc_Get = (\<lambda>ns n x. (Inl (ErrNotFound n), x)),
     pvc_Create = (\<lambda>p x. (None, x)),
     sc_Get = (\<lambda>n x. (Inl (ErrNotFound n), x)),
     nadCache_Get = (\<lambda>ns n x. (None, x)),
     time_Now = (\<lambda>x. (1000000000000, x)),
     time_Format = (\<lambda>t. ''t''),
     time_Parse = (\<lambda>s. Inr 0),
     MustFormatValue = (\<lambda>s. s),
     IsDNS1123Label = (\<lambda>s. if CHR ''/'' \<in> set s then [''a valid label''] else []),
     svcAddress = [],
     harvester = ex_consts,
     vmware_NewClient = (\<lambda>e d s w. None),
     ova_NewClient = (\<lambda>u s opts w. None),
     openstack_NewClient = (\<lambda>e r s opts w. None)\<rparr>"

definition ex_system :: "nat system" where
  "ex_system = \<lparr>os_MkdirTemp = (\<lambda>d p x. (Inr (d @ ''/'' @ p), x)), os_RemoveAll = (\<lambda>p x. (None, x)),
     os_Remove = (\<lambda>p x. (None, x)), os_CreateTemp = (\<lambda>d p x. (Inr (d @ ''/'' @ p), x)),
     os_Create = (\<lambda>p x. (None, x)), os_Write = (\<lambda>p c x. (None, x)),
     cmd_StderrPipe = (\<lambda>c args x. (None, x)), cmd_StdoutPipe = (\<lambda>c args x. (None, x)),
     cmd_Start = (\<lambda>c args x. (None, x)), cmd_ReadStderr = (\<lambda>c args x. ([], x)),
     cmd_ReadStdout = (\<lambda>c args x. (Inr [], x)), cmd_Wait = (\<lambda>c args x. (None, x))\<rparr>"

definition ex_rasd :: "string \<Rightarrow> CIMResourceType \<Rightarrow> RASD" where
  "ex_rasd i t = \<lparr>InstanceID = i, ResourceType = Some t, ResourceSubType = None, VirtualQuantity = None,
     AllocationUnits = None, AutomaticAllocation = None, Address = None, Connection = [],
     HostResource = [], Parent = None\<rparr>"

definition ex_envelope :: Envelope where
  "ex_envelope = \<lparr>env_References = [\<lparr>file_ID = ''file1'', Href = ''box-disk1.vmdk''\<rparr>],
     env_Disk = Some [\<lparr>DiskID = ''vmdisk1'', FileRef = Some ''file1'', Capacity = ''8'',
        CapacityAllocationUnits = Some ''GB''\<rparr>],
     env_VirtualHardware = Some [\<lparr>vh_Item =
        [(ex_rasd ''1'' Processor)\<lparr>VirtualQuantity := Some 2\<rparr>,
         (ex_rasd ''2'' Memory)\<lparr>VirtualQuantity := Some 2048, AllocationUnits := Some ''MB''\<rparr>,
         (ex_rasd ''3'' ParallelScsiHba)\<lparr>ResourceSubType := Some ''lsilogic''\<rparr>,
         (ex_rasd ''4'' DiskDrive)\<lparr>HostResource := [''ovf:/disk/vmdisk1''], Parent := Some ''3''\<rparr>,
         (ex_rasd ''5'' EthernetAdapter)\<lparr>Connection := [''VM Network'']\<rparr>],
        vh_StorageItem = [], vh_Config = []\<rparr>]\<rparr>"

definition ex_ova :: "nat ova_sdk" where
  "ex_ova = \<lparr>ParseRequestURI = (\<lambda>u. Inr ''http''), http_NewRequest = (\<lambda>m u. None),
     http_Do = (\<lambda>c m u a x. (Inr \<lparr>StatusCode = 200, resp_Status = ''OK'', resp_Body = ''body''\<rparr>, x)),
     io_CopyBody = (\<lambda>d b x. (None, x)),
     archive_Open = (\<lambda>a n x. if n = ''*.mf'' then (Inr ''SHA256(box-disk1.vmdk)= ab12'', x)
                            else (Inr ''vmdk-bytes'', x)),
     importer_ReadOvf = (\<lambda>a n x. (Inr ''ovf'', x)),
     importer_ReadEnvelope = (\<lambda>c. Inr ex_envelope),
     sha1_hex = (\<lambda>c. ''00''), sha256_hex = (\<lambda>c. ''ab12''),
     math_Pow = (\<lambda>a b. word_of_int (a ^ nat b))\<rparr>"

text \<open>The SDKs this import does not use.\<close>

definition ex_vsphere :: "nat vsphere" where
  "ex_vsphere = \<lparr>url_Parse = (\<lambda>u. None), SetRootCAs = (\<lambda>f x. (None, x)),
     vim25_NewClient = (\<lambda>e i x. (Inr ''session'', x)), Login = (\<lambda>s u p x. (None, x)),
     Logout = (\<lambda>s x. (None, x)), CreateContainerView = (\<lambda>s x. (Inr ''view'', x)),
     RetrieveNetworks = (\<lambda>s v x. (Inr [(''network-7'', ''VM Network'')], x)),
     DestroyView = (\<lambda>s v x. ((), x)), FindDatacenter = (\<lambda>s d x. (None, x)),
     FindVirtualMachine = (\<lambda>s p x. (Inr ''vm-42'', x)), PowerState = (\<lambda>v x. (Inr (if x = 3 then ''poweredOn'' else ''poweredOff''), x)),
     IsToolsRunning = (\<lambda>v x. (Inr True, x)), vs_ShutdownGuest = (\<lambda>v x. (None, x)),
     vs_PowerOff = (\<lambda>v x. (None, x)),
     Properties = (\<lambda>v x. (Inr \<lparr>mo_Config = None, mo_TpmPresent = None\<rparr>, x)),
     LeaseExport = (\<lambda>v x. (Inr ''lease'', x)), LeaseWait = (\<lambda>l x. (Inr [], x)),
     StartUpdater = (\<lambda>l x. ((), x)), UpdaterDone = (\<lambda>l x. ((), x)),
     LeaseDownload = (\<lambda>l p i x. (None, x)), LeaseComplete = (\<lambda>l x. (None, x))\<rparr>"

definition ex_server :: Server where
  "ex_server = \<lparr>srv_ID = ''11111111-2222'', srv_Name = ''box'', srv_Description = [],
     srv_Status = ''SHUTOFF'', AttachedVolumes = [''vol-1''], Addresses = [],
     Flavor = [''id'' \<mapsto> JString ''small'']\<rparr>"

definition ex_openstack :: "nat openstack_sdk" where
  "ex_openstack = \<lparr>uuid_Parse = (\<lambda>s. None), ost_NewClient = (\<lambda>e x. (Inr ''session'', x)),
     ost_Authenticate = (\<lambda>s ca a x. (None, x)), ost_NewService = (\<lambda>s k r x. (None, x)),
     ost_Microversions = (\<lambda>s x. (Inr (\<lambda>v. Inr True), x)),
     servers_List = (\<lambda>s n x. (Inr \<lparr>IsEmpty = Inr False, Extracted = Inr [ex_server]\<rparr>, x)),
     servers_Get = (\<lambda>s m i x. (Inr ex_server, x)), servers_Stop = (\<lambda>s i x. (None, x)),
     networks_List = (\<lambda>s n x. (Inr \<lparr>IsEmpty = Inr False, Extracted = Inr [n]\<rparr>, x)),
     flavors_Get = (\<lambda>s i x. (Inr \<lparr>VCPUs = 2, RAM = 2048\<rparr>, x)),
     volumes_Get = (\<lambda>s v x. (\<lparr>Bootable = Inr ''true'', VolumeImageMetadata = Inr Map.empty\<rparr>, x)),
     images_Get = (\<lambda>s i x. (Inr \<lparr>glance_ID = i, glance_Status = ''active'', glance_Properties = Map.empty\<rparr>, x)),
     images_Delete = (\<lambda>s i x. (None, x)),
     snapshots_Create = (\<lambda>s n v x. (Inr \<lparr>snap_ID = ''snap-1'', snap_Size = 10\<rparr>, x)),
     snapshots_Wait = (\<lambda>s i x. (None, x)), snapshots_Delete = (\<lambda>s i x. (None, x)),
     volumes_Create = (\<lambda>s n z x. (Inr \<lparr>cinder_ID = ''vol-2'', cinder_Size = z\<rparr>, x)),
     volumes_Wait = (\<lambda>s i x. (None, x)), volumes_Delete = (\<lambda>s i x. (None, x)),
     volumes_UploadImage = (\<lambda>s v n x. (Inr ''img-1'', x)),
     imagedata_Download = (\<lambda>s i x. (Inr ''contents'', x)), io_CopyImage = (\<lambda>d c x. (None, x)),
     time_Sleep = (\<lambda>d x. ((), x)), map_order = (\<lambda>ks. ks)\<rparr>"

definition ex_program :: "nat virtualMachineHandler" where
  "ex_program = link ex_handler ex_system ex_vsphere ex_ova ex_openstack"

definition ex_spec :: VirtualMachineImportSpec where
  "ex_spec = \<lparr>SourceCluster = \<lparr>ref_APIVersion = ''migration.harvesterhci.io/v1beta1'',
       ref_Kind = ''OvaSource'', ref_Namespace = ''default'', ref_Name = ''src''\<rparr>,
     VirtualMachineName = ''Box'', Folder = [],
     Mapping = [\<lparr>SourceNetwork = ''VM Network'', DestinationNetwork = ''default/vlan1'',
                NetworkInterfaceModel = None\<rparr>],
     DefaultNetworkInterfaceModel = None, StorageClassName = [], DefaultDiskBusType = None,
     ForcePowerOff = None, GracefulShutdownTimeoutSeconds = 0, SkipPreflight = None\<rparr>"

text \<open>A fresh import of that archive, and the import in a given status.\<close>

definition ex_import :: VirtualMachineImport where
  "ex_import = \<lparr>vm_Kind = ''VirtualMachineImport'', vm_APIVersion = ''migration.harvesterhci.io/v1beta1'',
     vm_Meta = empty_meta\<lparr>Name := ''box-import'', Namespace := ''default'', UID := ''u1''\<rparr>,
     vm_Spec = ex_spec,
     vm_Status = \<lparr>Status = StatusUnset, DiskImportStatus = [], ImportConditions = [],
       NewVirtualMachine = [], ImportedVirtualMachineName = []\<rparr>\<rparr>"

definition ex_world :: "nat \<Rightarrow> event list \<Rightarrow> nat go_world" where
  "ex_world m es = \<lparr>ext = m, log = es\<rparr>"

lemmas ex_defs = ex_program_def ex_handler_def ex_system_def ex_ova_def ex_vsphere_def
  ex_openstack_def ex_import_def ex_spec_def ex_world_def ex_source_def ex_consts_def ex_image_def
  ex_server_def

section \<open>An import of the archive\<close>

definition ex_client :: ova_Client where
  "ex_client = ova_NewClient_impl ''http://files/box.ova'' None \<lparr>HttpTimeoutSeconds = None\<rparr>"

definition ex_vmo :: "nat VirtualMachineOperations" where
  "ex_vmo = ova_operations ex_consts ex_system ex_ova ex_client"

lemma ex_handler_sel [simp]:
  "ova_Get ex_program ns n = (\<lambda>x. if n = ''src'' then (Inr ex_source, x) else (Inl (ErrNotFound n), x))"
  "importVM_UpdateStatus ex_program = (\<lambda>vm x. ((Some vm, None), x))"
  "time_Now ex_program = (\<lambda>x. (1000000000000, x))" "time_Format ex_program = (\<lambda>t. ''t'')"
  "time_Parse ex_program = (\<lambda>s. Inr 0)"
  "IsDNS1123Label ex_program = (\<lambda>s. if CHR ''/'' \<in> set s then [''a valid label''] else [])"
  "vmi_Get ex_program = (\<lambda>ns n x.
     if n \<noteq> ''image-1'' \<or> x = 2 then (Inl (ErrNotFound n), x)
     else (Inr (if x = 1 then ex_failed_image else ex_image), x))"
  "vmi_List ex_program = (\<lambda>ns k v x. (Inr [], x))"
  "vmi_Create ex_program = (\<lambda>img x. (Inr ex_image, x))"
  "vmi_Delete ex_program = (\<lambda>ns n x. (None, x))"
  "nadCache_Get ex_program = (\<lambda>ns n x. (None, x))"
  "kubevirt_Get ex_program = (\<lambda>ns n x. (Inr ex_vm, x))"
  "kubevirt_Create ex_program = (\<lambda>v x. (None, x))"
  "pvc_Get ex_program = (\<lambda>ns n x. (Inl (ErrNotFound n), x))"
  "pvc_Create ex_program = (\<lambda>p x. (None, x))"
  "vmi_Update ex_program = (\<lambda>img x. (None, x))"
  "harvester ex_program = ex_consts"
  by (simp_all add: ex_program_def link_def ex_handler_def)

lemma ex_world_calls [simp]:
  "query f (ex_world m es) = (case f m of (r, x) \<Rightarrow> (r, ex_world x es))"
  "effect ev f (ex_world m es) = (case f m of (r, x) \<Rightarrow> (r, ex_world x (es @ [ev r])))"
  "notify e g (ex_world m es) = ex_world (g m) (es @ [e])"
  "mark e (ex_world m es) = ex_world m (es @ [e])"
  "log (ex_world m es) = es"
  by (simp_all add: query_def effect_def notify_def mark_def ex_world_def)

lemma ex_generateVMO [simp]:
  assumes "vm_Spec vm = ex_spec"
  shows "generateVMO ex_program vm (ex_world m es) = Some (Inr ex_vmo, ex_world m es)"
proof -
  have "strings_ToLower ''OvaSource'' = KindOvaSource" by code_simp
  then show ?thesis
    using assms
    by (simp add: generateVMO_def generateSource_def Let_def ex_spec_def kind_defs ex_source_def
        source_defs ex_vmo_def ex_client_def ova_NewOperations_def ex_program_def link_def ex_handler_def)
qed

lemma ex_vmo_sel [simp]:
  "SanitizeVirtualMachineImport ex_vmo vm w = Some ((None, ova_Sanitize vm), w)"
  "ExportVirtualMachine ex_vmo = ova_ExportVirtualMachine ex_system ex_ova ex_client"
  "ShutdownGuest ex_vmo vm w = Some (None, w)" "PowerOff ex_vmo vm w = Some (None, w)"
  "IsPowerOffSupported ex_vmo = False" "IsPoweredOff ex_vmo vm w = Some (Inr True, w)"
  "GenerateVirtualMachine ex_vmo = ova_GenerateVirtualMachine ex_consts ex_ova ex_client"
  "PreFlightChecks ex_vmo vm w = Some (None, w)"
  "Cleanup ex_vmo vm w = Some (ova_Cleanup ex_system ex_client vm w)"
  by (simp_all add: ex_vmo_def ova_operations_def)

definition ex_cond :: "Cond \<Rightarrow> Condition" where
  "ex_cond c = \<lparr>cond_Type = c, cond_Status = ConditionTrue, LastUpdateTime = ''t'',
     LastTransitionTime = ''t'', Reason = [], Message = []\<rparr>"

lemma ex_new_condition [simp]:
  "new_condition ex_program c [] (ex_world m es) = (ex_cond c, ex_world m es)"
  by (simp add: new_condition_def ex_cond_def)

lemma ex_UpdateStatus [simp]:
  "UpdateStatus ex_program vm (ex_world m es) = ((Some vm, None), ex_world m (es @ [EvUpdateStatus vm]))"
  by (simp add: UpdateStatus_def)

text \<open>What the export of the archive yields.\<close>

definition ex_disk :: DiskInfo where
  "ex_disk = \<lparr>DiskName = ''box-box-disk1.img'', DiskSize = 8589934592, DiskLocalPath = tmpDir,
     DiskRoute = [], DiskImage = [], DiskConditions = [], BusType = DiskBusSCSI\<rparr>"

definition ex_export_log :: "event list" where
  "ex_export_log =
     [EvFileCreate (tmpDir @ ''/box.ova'') True, EvFileWrite (tmpDir @ ''/box.ova'') True,
      EvFileCreate (tmpDir @ ''/box-disk1.vmdk'') True, EvFileWrite (tmpDir @ ''/box-disk1.vmdk'') True,
      EvConvert (tmpDir @ ''/box-disk1.vmdk'') (tmpDir @ ''/box-box-disk1.img'') True,
      EvFileRemove (tmpDir @ ''/box-disk1.vmdk'')]"

lemma ex_parse:
  "parseEnvelope (math_Pow ex_ova) ex_envelope NetworkInterfaceModelVirtio DiskBusVirtio =
   Some \<lparr>ovf_fw = NewFirmware False False False, ovf_hw = NewHardware 2 0 2048,
     ovf_nis = [\<lparr>NetworkName = ''VM Network'', MAC = [], MappedNetwork = [], Model = NetworkInterfaceModelVirtio\<rparr>],
     ovf_dis = [ex_disk\<lparr>DiskName := ''box-disk1.vmdk'', DiskLocalPath := []\<rparr>]\<rparr>"
  by code_simp

lemma ex_paths:
  "filepath_Join [TempDir, ''box''] @ ''.ova'' = tmpDir @ ''/box.ova''"
  "filepath_Join [TempDir, ''box-disk1.vmdk''] = tmpDir @ ''/box-disk1.vmdk''"
  "filepath_Join [TempDir, ''box'' @ ''-'' @ BaseName ''box-disk1.vmdk'' @ ''.img''] =
     tmpDir @ ''/box-box-disk1.img''"
  "filepath_Base (tmpDir @ ''/box-box-disk1.img'') = ''box-box-disk1.img''"
  "filepath_Dir (tmpDir @ ''/box-box-disk1.img'') = tmpDir"
  by code_simp+

lemma ex_manifest:
  "manifest_hash ex_ova ''box-disk1.vmdk'' ''SHA256(box-disk1.vmdk)= ab12'' =
   Inr (''ab12'', sha256_hex ex_ova)"
proof -
  have line: "match_manifest_line (strings_TrimSpace ''SHA256(box-disk1.vmdk)= ab12'') =
      Some (''SHA256'', ''box-disk1.vmdk'', ''ab12'')"
    "strings_Split ''SHA256(box-disk1.vmdk)= ab12'' (CHR 0x0A) = [''SHA256(box-disk1.vmdk)= ab12'']"
    "strings_TrimSpace ''SHA256'' = ''SHA256''" "strings_TrimSpace ''ab12'' = ''ab12''"
    "strings_ToLower ''SHA256'' = ''sha256''"
    by code_simp+
  show ?thesis
    by (simp add: manifest_hash_def readManifest_def line Let_def max_line_def)
qed

lemma ex_ova_sel [simp]:
  "http_NewRequest ex_ova = (\<lambda>m u. None)"
  "http_Do ex_ova = (\<lambda>c m u a x. (Inr \<lparr>StatusCode = 200, resp_Status = ''OK'', resp_Body = ''body''\<rparr>, x))"
  "io_CopyBody ex_ova = (\<lambda>d b x. (None, x))"
  "archive_Open ex_ova = (\<lambda>a n x.
     if n = ''*.mf'' then (Inr ''SHA256(box-disk1.vmdk)= ab12'', x) else (Inr ''vmdk-bytes'', x))"
  "importer_ReadOvf ex_ova = (\<lambda>a n x. (Inr ''ovf'', x))"
  "importer_ReadEnvelope ex_ova = (\<lambda>c. Inr ex_envelope)"
  "sha256_hex ex_ova = (\<lambda>c. ''ab12'')"
  "os_Create ex_system = (\<lambda>p x. (None, x))" "os_Write ex_system = (\<lambda>p c x. (None, x))"
  "os_Remove ex_system = (\<lambda>p x. (None, x))" "runCommand ex_system = (\<lambda>c args x. (None, x))"
  by (simp_all add: ex_ova_def ex_system_def runCommand_def fun_eq_iff)

lemma ex_extract:
  "extractAndConvertVMDKToRAW ex_system ex_ova ex_client a ''box-disk1.vmdk'' dst True (ex_world m es) =
   (None, ex_world m (es @ [EvFileCreate (tmpDir @ ''/box-disk1.vmdk'') True,
      EvFileWrite (tmpDir @ ''/box-disk1.vmdk'') True,
      EvConvert (tmpDir @ ''/box-disk1.vmdk'') dst True, EvFileRemove (tmpDir @ ''/box-disk1.vmdk'')]))"
  by (simp add: extractAndConvertVMDKToRAW_def write_check_convert_def ConvertVMDKtoRAW_def Let_def
      ex_manifest ex_client_def ova_NewClient_impl_def ex_paths)

lemma ex_export [simp]:
  assumes "vm_Spec vm = ex_spec" "imported_name vm = ''box''"
  shows "ova_ExportVirtualMachine ex_system ex_ova ex_client vm (ex_world m es) =
    Some ((None, set_Disks (disks_of vm @ [ex_disk]) vm), ex_world m (es @ ex_export_log))"
proof -
  have model: "GetDefaultNetworkInterfaceModel vm = NetworkInterfaceModelVirtio"
    "GetDefaultDiskBusType vm = DiskBusVirtio"
    by (simp_all add: assms GetDefaultNetworkInterfaceModel_def GetDefaultDiskBusType_def ex_spec_def)
  have paths: "generateArchivePath ex_client vm = tmpDir @ ''/box.ova''"
    "generateImagePath ex_client vm (ex_disk\<lparr>DiskName := ''box-disk1.vmdk'', DiskLocalPath := []\<rparr>) =
       tmpDir @ ''/box-box-disk1.img''"
    by (simp_all only: generateArchivePath_def generateImagePath_def generateImageName_def assms
        ex_client_def ova_NewClient_impl_def ova_Client.simps DiskInfo.simps ex_disk_def ex_paths)
  have client: "newHttpRequest ex_ova k u s = Inr None" if "s = None" for k u s
    by (simp add: newHttpRequest_def that)
  have "downloadArchive ex_system ex_ova ex_client (tmpDir @ ''/box.ova'') (ex_world m es) =
      (None, ex_world m (es @ [EvFileCreate (tmpDir @ ''/box.ova'') True,
         EvFileWrite (tmpDir @ ''/box.ova'') True]))"
    by (simp add: downloadArchive_def client ex_client_def ova_NewClient_impl_def)
  then show ?thesis
    by (simp add: ova_ExportVirtualMachine_def paths(1) model ex_parse readEnvelope_def ex_extract
        paths(2) [unfolded ex_disk_def, simplified] ex_paths ex_export_log_def ex_disk_def Let_def)
qed

end
