(* ===== verification/ExampleRun.thy ===== *)
theory ExampleRun
  imports Example ImportProgress
begin

text \<open>
  The import of the example archive, reconciliation by reconciliation, up to the running
  machine; and the branch in which the target cluster fails to import the image. The objects
  are those the controller writes.
\<close>

definition ex1 :: VirtualMachineImport where "ex1 = set_Status VirtualMachineImportValid ex_import"
definition ex2 :: VirtualMachineImport where
  "ex2 = set_Status SourceReady (set_ImportedName ''box'' ex1)"
definition ex3 :: VirtualMachineImport where
  "ex3 = set_Conds [ex_cond VirtualMachineShutdownGuest] ex2"
definition ex4 :: VirtualMachineImport where
  "ex4 = set_Conds [ex_cond VirtualMachineShutdownGuest, ex_cond VirtualMachinePoweredOff] ex2"
definition ex5 :: VirtualMachineImport where
  "ex5 = set_Status DisksExported (set_Conds [ex_cond VirtualMachineShutdownGuest,
     ex_cond VirtualMachinePoweredOff, ex_cond VirtualMachineExported] (set_Disks [ex_disk] ex2))"

definition ex_disk_with :: "Cond list \<Rightarrow> DiskInfo" where
  "ex_disk_with cs = ex_disk\<lparr>DiskImage := ''image-1'', DiskConditions := map ex_cond cs\<rparr>"

definition ex6 :: VirtualMachineImport where
  "ex6 = set_Status DiskImagesSubmitted
     (set_Disks [ex_disk_with [VirtualMachineImageSubmitted]] ex5)"
definition ex7 :: VirtualMachineImport where
  "ex7 = set_Status DiskImagesReady
     (set_Disks [ex_disk_with [VirtualMachineImageSubmitted, VirtualMachineImageReady]] ex5)"
definition ex8 :: VirtualMachineImport where "ex8 = set_Status VirtualMachineCreated ex7"
definition ex9 :: VirtualMachineImport where "ex9 = set_Status VirtualMachineRunning ex7"
definition ex7_failed :: VirtualMachineImport where
  "ex7_failed = set_Status DiskImagesFailed
     (set_Disks [ex_disk_with [VirtualMachineImageSubmitted, VirtualMachineImageFailed]] ex5)"

lemmas ex_object_defs = ex1_def ex2_def ex3_def ex4_def ex5_def ex6_def ex7_def ex8_def ex9_def
  ex7_failed_def

lemma ex_import_sel [simp]:
  "vm_Spec ex_import = ex_spec" "conds_of ex_import = []" "disks_of ex_import = []"
  "status_of ex_import = StatusUnset" "DeletionTimestamp (vm_Meta ex_import) = None"
  "vm_Namespace ex_import = ''default''" "vm_Name ex_import = ''box-import''"
  by (simp_all add: ex_import_def empty_meta_def)

lemma ex_cond_sel [simp]:
  "cond_Type (ex_cond c) = c" "cond_Status (ex_cond c) = ConditionTrue"
  by (simp_all add: ex_cond_def)

lemma ex_merge [simp]:
  "AddOrUpdateCondition [] (ex_cond c) = [ex_cond c]"
  "c \<noteq> d \<Longrightarrow> AddOrUpdateCondition [ex_cond c] (ex_cond d) = [ex_cond c, ex_cond d]"
  "c \<noteq> e \<Longrightarrow> d \<noteq> e \<Longrightarrow>
   AddOrUpdateCondition [ex_cond c, ex_cond d] (ex_cond e) = [ex_cond c, ex_cond d, ex_cond e]"
  by (simp_all add: AddOrUpdateCondition_def overwrite_def)

lemma ex_write1:
  "OnVirtualMachineChange ex_program (Some ex_import) (ex_world m es) =
   Some ((Some ex1, None), ex_world m (es @ [EvUpdateStatus ex1]))"
proof -
  have kind: "strings_ToLower ''OvaSource'' = KindOvaSource" by code_simp
  have source: "generateSource ex_program ex_import (ex_world m es) = (Inr (OvaSrc ex_source), ex_world m es)"
    by (simp add: generateSource_def Let_def ex_spec_def kind) (simp add: kind_defs)
  have spec: "check_spec ex_program ex_import (ex_world m es) = (None, ex_world m es)"
    by (simp add: check_spec_def ex_spec_def destination_parts_def)
  have "preFlightChecks ex_program ex_import (ex_world m es) = Some (None, ex_world m es)"
    using kind by (simp add: preFlightChecks_def Let_def source spec)
      (simp add: ex_spec_def ex_source_def source_defs expectedAPIVersion_def SkipPreflightChecks_def)
  then show ?thesis
    by (simp add: OnVirtualMachineChange_def reconcile_status_def reconcilePreFlightChecks_def ex1_def)
qed

lemma ex_write2:
  "OnVirtualMachineChange ex_program (Some ex1) (ex_world m es) =
   Some ((Some ex2, None), ex_world m (es @ [EvUpdateStatus ex2]))"
proof -
  have "strings_ToLower ''Box'' = ''box''" by code_simp
  then show ?thesis
    by (simp add: OnVirtualMachineChange_def reconcile_status_def sanitizeVirtualMachineImport_def
        abortMigrationIfNecessary_def ex1_def ex2_def ova_Sanitize_def ex_spec_def)
qed

lemma ex_write3:
  "OnVirtualMachineChange ex_program (Some ex2) (ex_world m es) =
   Some ((Some ex3, None), ex_world m (es @ [EvShutdownGuest ex2, EvUpdateStatus ex3]))"
  by (simp add: OnVirtualMachineChange_def reconcile_status_def runVirtualMachineExport_def
      triggerExport_def triggerShutdownGuest_def put_condition_def settle_def Let_def
      abortMigrationIfNecessary_def ex1_def ex2_def ex3_def)

lemma ex_write4:
  "OnVirtualMachineChange ex_program (Some ex3) (ex_world m es) =
   Some ((Some ex4, None), ex_world m (es @ [EvUpdateStatus ex4]))"
  by (simp add: OnVirtualMachineChange_def reconcile_status_def runVirtualMachineExport_def
      triggerExport_def awaitPoweredOff_def put_condition_def settle_def Let_def
      abortMigrationIfNecessary_def ex1_def ex2_def ex3_def ex4_def)

lemma ex_write5:
  "OnVirtualMachineChange ex_program (Some ex4) (ex_world m es) =
   Some ((Some ex5, None), ex_world m (es @ EvExport ex4 # ex_export_log @ [EvUpdateStatus ex5]))"
proof -
  have "set_Status DisksExported (set_Conds cs (set_Disks ds v)) =
      set_Status DisksExported (set_Conds cs (set_Disks ds (set_Conds cs' v)))" for cs cs' ds v
    by (simp add: set_Status_def set_Conds_def set_Disks_def)
  then show ?thesis
    by (simp add: OnVirtualMachineChange_def reconcile_status_def runVirtualMachineExport_def
        triggerExport_def exportDisks_def put_condition_def settle_def Let_def
        abortMigrationIfNecessary_def ex1_def ex2_def ex4_def ex5_def)
qed

definition ex_new_image :: VirtualMachineImage where
  "ex_new_image = new_image ex_program ex5 ex_disk"

lemma ex_disk_sel [simp]: "DiskConditions ex_disk = []" "DiskImage ex_disk = []"
  by (simp_all add: ex_disk_def)

lemma ex5_sel [simp]: "status_of ex5 = DisksExported" "disks_of ex5 = [ex_disk]"
  "vm_Spec ex5 = ex_spec" "vm_Meta ex5 = vm_Meta ex_import" "imported_name ex5 = ''box''"
  by (simp_all add: ex5_def ex2_def ex1_def)

lemma ex_write6:
  "OnVirtualMachineChange ex_program (Some ex5) (ex_world m es) =
   Some ((Some ex6, None), ex_world m (es @ [EvImageCreate ex_new_image, EvUpdateStatus ex6]))"
proof -
  have "checkAndCreateVirtualMachineImage ex_program ex5 ex_disk (ex_world m es) =
      (Inr ex_image, ex_world m (es @ [EvImageCreate ex_new_image]))"
    by (simp add: checkAndCreateVirtualMachineImage_def Let_def ex_new_image_def ex_spec_def)
  then show ?thesis
    by (simp add: OnVirtualMachineChange_def reconcile_status_def reconcileDiskImageStatus_def
        createVirtualMachineImages_def Let_def ex6_def ex_disk_with_def ex_image_def)
qed

lemma ex6_sel [simp]: "status_of ex6 = DiskImagesSubmitted" "vm_Meta ex6 = vm_Meta ex_import"
  "disks_of ex6 = [ex_disk_with [VirtualMachineImageSubmitted]]"
  by (simp_all add: ex6_def)

lemma ex_follow:
  "reconcileVMIStatus ex_program ex6 (ex_world m es) =
   (if m = 2 then ((Some (Errorf (''error quering vmi in reconcileVMIStatus: '' @ ''image-1'')), ex6),
       ex_world m es)
    else ((None, set_Disks [ex_disk_with [VirtualMachineImageSubmitted,
       if m = 1 then VirtualMachineImageFailed else VirtualMachineImageReady]] ex6), ex_world m es))"
  by (simp add: reconcileVMIStatus_def ex_disk_with_def apply_image_condition_def Let_def
      ex_image_def ex_failed_image_def)

lemma ex_write7:
  "OnVirtualMachineChange ex_program (Some ex6) (ex_world 0 es) =
   Some ((Some ex7, None), ex_world 0 (es @ [EvUpdateStatus ex7]))"
proof -
  have "set_Status DiskImagesReady (set_Disks ds ex6) = set_Status DiskImagesReady (set_Disks ds ex5)" for ds
    by (simp add: ex6_def set_Status_def set_Disks_def)
  then show ?thesis
    by (simp add: OnVirtualMachineChange_def reconcile_status_def followImages_def ex_follow
        evaluate_dropWhile disk_clean_def ex_disk_with_def ex7_def)
qed

lemma ex_write7_failed:
  "OnVirtualMachineChange ex_program (Some ex6) (ex_world 1 es) =
   Some ((Some ex7_failed, None), ex_world 1 (es @ [EvUpdateStatus ex7_failed]))"
proof -
  have "set_Status DiskImagesFailed (set_Disks ds ex6) = set_Status DiskImagesFailed (set_Disks ds ex5)" for ds
    by (simp add: ex6_def set_Status_def set_Disks_def)
  then show ?thesis
    by (simp add: OnVirtualMachineChange_def reconcile_status_def followImages_def ex_follow
        evaluate_dropWhile disk_clean_def disk_broken_def ex_disk_with_def ex7_failed_def)
qed

definition ex_machine :: VirtualMachine where
  "ex_machine = patch_vm ex7 (ova_machine ex_consts ex7
     \<lparr>ovf_fw = NewFirmware False False False, ovf_hw = NewHardware 2 0 2048,
      ovf_nis = [\<lparr>NetworkName = ''VM Network'', MAC = [], MappedNetwork = [],
        Model = NetworkInterfaceModelVirtio\<rparr>],
      ovf_dis = [ex_disk\<lparr>DiskName := ''box-disk1.vmdk'', DiskLocalPath := []\<rparr>]\<rparr>)"

lemma ex7_sel [simp]: "status_of ex7 = DiskImagesReady" "vm_Meta ex7 = vm_Meta ex_import"
  "vm_Spec ex7 = ex_spec"
  "disks_of ex7 = [ex_disk_with [VirtualMachineImageSubmitted, VirtualMachineImageReady]]"
  by (simp_all add: ex7_def)

lemma ex_write8:
  "OnVirtualMachineChange ex_program (Some ex7) (ex_world 0 es) =
   Some ((Some ex8, None), ex_world 0 (es @ [EvPVCCreate (new_pvc ex_program ex7
     (ex_disk_with [VirtualMachineImageSubmitted, VirtualMachineImageReady]) ex_image),
     EvVMCreate ex_machine, EvUpdateStatus ex8]))"
proof -
  have model: "GetDefaultNetworkInterfaceModel ex7 = NetworkInterfaceModelVirtio"
    "GetDefaultDiskBusType ex7 = DiskBusVirtio"
    by (simp_all add: GetDefaultNetworkInterfaceModel_def GetDefaultDiskBusType_def ex_spec_def)
  have pvc: "findAndCreatePVC ex_program ex7 (ex_world 0 es) = (None, ex_world 0 (es @
      [EvPVCCreate (new_pvc ex_program ex7
        (ex_disk_with [VirtualMachineImageSubmitted, VirtualMachineImageReady]) ex_image)]))"
    by (simp add: findAndCreatePVC_def Let_def ex_disk_with_def) (simp add: ex_image_def)
  have "createIfMissing ex_program ex_machine (ex_world 0 l) =
      (None, ex_world 0 (l @ [EvVMCreate ex_machine]))" for l
    by (simp add: createIfMissing_def Let_def ex_vm_def empty_meta_def)
  then show ?thesis
    using pvc
    by (simp add: OnVirtualMachineChange_def reconcile_status_def createMachine_def
        createVirtualMachine_def ova_GenerateVirtualMachine_def readEnvelope_def model ex_parse
        ex8_def flip: ex_machine_def)
qed

lemma ex_write9:
  "OnVirtualMachineChange ex_program (Some ex8) (ex_world 0 es) =
   Some ((Some ex9, None), ex_world 0 (es @ [EvUpdateStatus ex9]))"
  by (simp add: OnVirtualMachineChange_def reconcile_status_def reconcileVirtualMachineStatus_def
      checkVirtualMachine_def ex_vm_def ex8_def ex9_def)

text \<open>The resubmission of the failed image, and what follows it.\<close>

definition ex8_again :: VirtualMachineImport where
  "ex8_again = set_Status SourceReady
     (set_Disks [ex_disk_with [VirtualMachineImageSubmitted]] ex5)"

lemma ex_write8_failed:
  "OnVirtualMachineChange ex_program (Some ex7_failed) (ex_world m es) =
   Some ((Some ex8_again, None),
     ex_world m (es @ [EvImageDelete ''default'' ''image-1'', EvUpdateStatus ex8_again]))"
proof -
  have "set_Status SourceReady (set_Disks ds ex7_failed) = set_Status SourceReady (set_Disks ds ex5)" for ds
    by (simp add: ex7_failed_def set_Status_def set_Disks_def)
  then show ?thesis
    by (simp add: OnVirtualMachineChange_def reconcile_status_def triggerResubmit_def
        cleanupAndResubmit_def Let_def ex7_failed_def ex8_again_def ex_disk_with_def)
qed

section \<open>Runs\<close>

lemma writesI:
  "OnVirtualMachineChange h (Some vm) w = Some (r, w') \<Longrightarrow> log w' = log w @ es \<Longrightarrow>
   EvUpdateStatus vm' \<in> set es \<Longrightarrow> writes h vm vm'"
  unfolding writes_def by blast

lemma ex_fresh: "fresh ex_import"
  by (simp add: fresh_def)

lemmas ex_write_intros =
  writesI [OF ex_write1 [where m = 0 and es = "[]"]] writesI [OF ex_write2 [where m = 0 and es = "[]"]]
  writesI [OF ex_write3 [where m = 0 and es = "[]"]] writesI [OF ex_write4 [where m = 0 and es = "[]"]]
  writesI [OF ex_write5 [where m = 0 and es = "[]"]] writesI [OF ex_write6 [where m = 0 and es = "[]"]]
  writesI [OF ex_write7 [where es = "[]"]] writesI [OF ex_write8 [where es = "[]"]]
  writesI [OF ex_write9 [where es = "[]"]] writesI [OF ex_write7_failed [where es = "[]"]]
  writesI [OF ex_write8_failed [where m = 0 and es = "[]"]]

lemma ex_writes:
  "writes ex_program ex_import ex1" "writes ex_program ex1 ex2" "writes ex_program ex2 ex3"
  "writes ex_program ex3 ex4" "writes ex_program ex4 ex5" "writes ex_program ex5 ex6"
  "writes ex_program ex6 ex7" "writes ex_program ex7 ex8" "writes ex_program ex8 ex9"
  "writes ex_program ex6 ex7_failed" "writes ex_program ex7_failed ex8_again"
  by (rule ex_write_intros, simp only: ex_world_calls append_Nil, simp; fail)+

lemma ex_runs:
  "runs ex_program ex_import" "runs ex_program ex1" "runs ex_program ex2" "runs ex_program ex3"
  "runs ex_program ex4" "runs ex_program ex5" "runs ex_program ex6" "runs ex_program ex7"
  "runs ex_program ex8" "runs ex_program ex9" "runs ex_program ex7_failed"
  "runs ex_program ex8_again"
  using run_start [OF ex_fresh] ex_writes run_step by metis+

lemma ex_later:
  "later ex_program ex5 ex6" "later ex_program ex7_failed ex8_again"
  by (rule later_step [OF later_refl], rule ex_writes)+

text \<open>The program in a cluster that has lost the image for good.\<close>

definition ex_lost_program :: "nat virtualMachineHandler" where
  "ex_lost_program = link (ex_handler\<lparr>vmi_Get := (\<lambda>ns n x. (Inl (ErrNotFound n), x))\<rparr>)
     ex_system ex_vsphere ex_ova ex_openstack"

end
