(* ===== verification/ClientExamples.thy ===== *)
theory ClientExamples
  imports ExampleRun
begin

text \<open>
  Witnesses of the properties of the source clients: the extraction of the disk of the example
  archive, and an export from a vSphere server that leases one disk and an nvram file. Then the end
  of the example import: its last reconciliation, and its source gone.
\<close>

section \<open>The archive\<close>

theorem ova_extract_verified_witness:
  "\<exists>x x' y y' content mf expected hash.
     archive_Open ex_ova ''box.ova'' ''box-disk1.vmdk'' x = (Inr content, x') \<and>
     archive_Open ex_ova ''box.ova'' ''*.mf'' y = (Inr mf, y') \<and>
     manifest_hash ex_ova ''box-disk1.vmdk'' mf = Inr (expected, hash) \<and> hash content = expected"
proof -
  obtain es where "None = (None :: go_error option) \<or> (\<exists>s t ok. EvConvert s t ok \<in> set es) \<longrightarrow>
      (\<exists>content mf expected hash x x' y y'.
        archive_Open ex_ova ''box.ova'' ''box-disk1.vmdk'' x = (Inr content, x') \<and>
        archive_Open ex_ova ''box.ova'' ''*.mf'' y = (Inr mf, y') \<and>
        manifest_hash ex_ova ''box-disk1.vmdk'' mf = Inr (expected, hash) \<and> hash content = expected)"
    using ova_extract_verified [OF ex_extract [of "''box.ova''" "''box.img''" 0 "[]"]] by (elim exE conjE)
  then show ?thesis by (rule mp [THEN exE]) (rule disjI1, rule refl, blast)
qed

section \<open>An export from vSphere\<close>

definition ex_device :: "int32 \<Rightarrow> int32 \<Rightarrow> int32 option \<Rightarrow> VirtualDevice" where
  "ex_device k c u = \<lparr>dev_Key = k, dev_ControllerKey = c, dev_UnitNumber = u, dev_Backing = OtherBacking,
     dev_Summary = None\<rparr>"

definition ex_config :: VMConfig where
  "ex_config = \<lparr>mo_Devices = [VirtualController (ex_device 1000 100 None) 0,
       VirtualDisk (ex_device 2000 1000 (Some 0)) 4],
     mo_NumCPU = 2, mo_NumCoresPerSocket = 1, mo_MemoryMB = 2048, mo_Firmware = ''bios'',
     mo_BootOptions = None\<rparr>"

definition ex_items :: "LeaseItem list" where
  "ex_items =
     [\<lparr>item_DeviceId = ''/vm-42/VirtualLsiLogicController0:0'', item_Path = ''Box-disk-0.vmdk'', item_Size = 7\<rparr>,
      \<lparr>item_DeviceId = ''/vm-42/nvram'', item_Path = ''Box.nvram'', item_Size = 8\<rparr>]"

definition ex_lease :: "nat vsphere" where
  "ex_lease = ex_vsphere\<lparr>
     Properties := (\<lambda>v x. (Inr \<lparr>mo_Config = Some ex_config, mo_TpmPresent = None\<rparr>, x)),
     LeaseWait := (\<lambda>l x. (Inr ex_items, x))\<rparr>"

definition ex_vc :: vmware_Client where
  "ex_vc = \<lparr>vc_session = ''session'', vc_tmpCerts = [], vc_dc = ''dc'', vc_networkMapping = Map.empty\<rparr>"

definition ex_raw_disk :: DiskInfo where
  "ex_raw_disk = \<lparr>DiskName = ''Box-disk-0.img'', DiskSize = 4096, DiskLocalPath = TempDir,
     DiskRoute = [], DiskImage = [], DiskConditions = [], BusType = DiskBusSCSI\<rparr>"

lemma ex_lease_sel [simp]:
  "FindVirtualMachine ex_lease = (\<lambda>s p x. (Inr ''vm-42'', x))"
  "FindDatacenter ex_lease = (\<lambda>s d x. (None, x))"
  "LeaseExport ex_lease = (\<lambda>v x. (Inr ''lease'', x))" "StartUpdater ex_lease = (\<lambda>l x. ((), x))"
  "UpdaterDone ex_lease = (\<lambda>l x. ((), x))" "LeaseDownload ex_lease = (\<lambda>l p i x. (None, x))"
  "LeaseComplete ex_lease = (\<lambda>l x. (None, x))"
  "Properties ex_lease = (\<lambda>v x. (Inr \<lparr>mo_Config = Some ex_config, mo_TpmPresent = None\<rparr>, x))"
  by (simp_all add: ex_lease_def ex_vsphere_def)

lemma ex_lease_disks:
  "map (lease_disk ex_import (diskByBusUnit (mo_Devices ex_config))) (filter is_vmdk ex_items) =
   [ex_raw_disk\<lparr>DiskName := ''Box-disk-0.vmdk'', DiskLocalPath := []\<rparr>]"
  by code_simp

lemma ex_lease_paths:
  "filter is_vmdk ex_items = [hd ex_items]" "item_path ex_import (hd ex_items) = ''Box-disk-0.vmdk''"
  "filepath_Join [''/tmp/box-import-default-'', ''Box-disk-0.vmdk''] = ''/tmp/box-import-default-/Box-disk-0.vmdk''"
  "filepath_Join [TempDir, ''Box-disk-0.img''] = tmpDir @ ''/Box-disk-0.img''"
  "raw_name ''Box-disk-0.vmdk'' = ''Box-disk-0.img''"
  by code_simp+

lemma ex_lease_system [simp]:
  "os_MkdirTemp ex_system = (\<lambda>d p x. (Inr (d @ ''/'' @ p), x))" "os_RemoveAll ex_system = (\<lambda>p x. (None, x))"
  "LeaseWait ex_lease = (\<lambda>l x. (Inr ex_items, x))"
  by (simp_all add: ex_system_def ex_lease_def)

lemma ex_download:
  "download_items ex_lease l ''/tmp/box-import-default-'' (diskByBusUnit (mo_Devices ex_config)) ex_items
     ex_import (ex_world m es) =
   ((None, set_Disks [ex_raw_disk\<lparr>DiskName := ''Box-disk-0.vmdk'', DiskLocalPath := []\<rparr>] ex_import),
    ex_world m (es @ [EvLeaseDownload l ''/tmp/box-import-default-/Box-disk-0.vmdk'']))"
proof -
  obtain i j where items: "ex_items = [i, j]" "is_vmdk i" "\<not> is_vmdk j"
    using ex_lease_paths(1) by (simp add: ex_items_def split: if_splits)
  have d: "lease_disk ex_import (diskByBusUnit (mo_Devices ex_config)) i =
      ex_raw_disk\<lparr>DiskName := ''Box-disk-0.vmdk'', DiskLocalPath := []\<rparr>"
    using ex_lease_disks by (simp add: items)
  show ?thesis
    using ex_lease_paths(2) by (simp add: items Let_def d ex_lease_paths(3))
qed

lemma ex_vmware_export:
  "vmware_ExportVirtualMachine ex_system ex_lease ex_vc ex_import (ex_world m es) =
   Some ((None, set_Disks [ex_raw_disk] ex_import), ex_world m (es @
     [EvMkdirTemp ''/tmp'' (Some ''/tmp/box-import-default-''), EvLeaseOpen ''vm-42'' True, EvUpdaterStart,
      EvLeaseDownload ''lease'' ''/tmp/box-import-default-/Box-disk-0.vmdk'', EvUpdaterDone,
      EvLeaseComplete,
      EvConvert ''/tmp/box-import-default-/Box-disk-0.vmdk'' (tmpDir @ ''/Box-disk-0.img'') True,
      EvFileRemove ''/tmp/box-import-default-/Box-disk-0.vmdk'', EvRemoveAll ''/tmp/box-import-default-'']))"
  by (simp add: vmware_ExportVirtualMachine_def find_import_def findVM_def export_with_lease_def
      ex_download ConvertVMDKtoRAW_def ex_lease_paths Let_def) (simp add: ex_raw_disk_def)

theorem vmware_export_disks_witness:
  "[ex_raw_disk] = map converted
     (map (lease_disk ex_import (diskByBusUnit (mo_Devices ex_config))) (filter is_vmdk ex_items))"
proof -
  have "set_Disks [ex_raw_disk] ex_import = set_Disks (map converted (disks_of ex_import @
      map (lease_disk ex_import (diskByBusUnit (mo_Devices ex_config))) (filter is_vmdk ex_items))) ex_import"
    using vmware_export_disks [OF ex_vmware_export [of 0 "[]"]] by (elim exE conjE) (clarsimp simp: fun_eq_iff)
  then have "disks_of (set_Disks [ex_raw_disk] ex_import) = disks_of (set_Disks (map converted (disks_of ex_import @
      map (lease_disk ex_import (diskByBusUnit (mo_Devices ex_config))) (filter is_vmdk ex_items))) ex_import)"
    by (rule arg_cong)
  then show ?thesis by simp
qed

theorem vmware_preflight_sound_witness:
  "\<exists>networks. last (strings_Split ''VM Network'' (CHR ''/'')) \<in> snd ` set (networks :: (string \<times> string) list) \<and>
     (\<exists>view x x'. RetrieveNetworks ex_vsphere ''session'' view x = (Inr networks, x'))"
proof -
  have "generateNetworkList ex_vsphere ''session'' (ex_world 0 []) = (Inr [(''network-7'', ''VM Network'')], ex_world 0 [])"
    by (simp add: generateNetworkList_def ex_vsphere_def)
  moreover have "unknown_network (network_map_by_name [(''network-7'', ''VM Network'')]) (Mapping ex_spec) = None"
    by code_simp
  ultimately have "vmware_PreFlightChecks ex_vsphere ex_vc ex_import (ex_world 0 []) = (None, ex_world 0 [])"
    by (simp add: vmware_PreFlightChecks_def GenerateNetworkMapByName_def ex_vc_def check_tools_def
        find_import_def findVM_def isPoweredOff_def ex_vsphere_def)
  from vmware_preflight_sound [OF this] show ?thesis
    by (auto simp: ex_vc_def ex_spec_def)
qed

theorem vmware_path_network_dropped_witness:
  "unknown_network [''VM Network'' \<mapsto> ''network-7'']
     [\<lparr>SourceNetwork = ''/dc/network/VM Network'', DestinationNetwork = ''default/vlan1'', NetworkInterfaceModel = None\<rparr>]
     = None"
  using vmware_path_network_dropped [where n = "''VM Network''" and networkMap = "[''VM Network'' \<mapsto> ''network-7'']"
      and path = "''/dc/network''"
      and nm = "\<lparr>SourceNetwork = [], DestinationNetwork = ''default/vlan1'', NetworkInterfaceModel = None\<rparr>"]
  by simp

section \<open>The end of the import\<close>

definition ex_finish_log :: "event list" where
  "ex_finish_log = [EvImageUpdate (released ex9 ex_image), EvCleanup ex9,
     EvFileRemove (generateArchivePath ex_client ex9),
     EvFileRemove (filepath_Join [TempDir, ''box-box-disk1.img''])]"

lemma ex9_sel [simp]: "status_of ex9 = VirtualMachineRunning" "vm_Meta ex9 = vm_Meta ex_import"
  "vm_Spec ex9 = ex_spec"
  "disks_of ex9 = [ex_disk_with [VirtualMachineImageSubmitted, VirtualMachineImageReady]]"
  by (simp_all add: ex9_def)

lemma ex_finish:
  "OnVirtualMachineChange ex_program (Some ex9) (ex_world 0 es) =
   Some ((None, None), ex_world 0 (es @ ex_finish_log))"
proof -
  have tidy: "tidyUpObjects ex_program ex9 (ex_world 0 l) =
      (None, ex_world 0 (l @ [EvImageUpdate (released ex9 ex_image)]))" for l
    by (simp add: tidyUpObjects_def ex_disk_with_def Let_def flip: released_def)
  have files: "ova_Cleanup ex_system ex_client ex9 (ex_world 0 l) = (None, ex_world 0 (l @
      [EvFileRemove (generateArchivePath ex_client ex9),
       EvFileRemove (filepath_Join [TempDir, ''box-box-disk1.img''])]))" for l
    by (simp add: ova_Cleanup_def RemoveTempImageFiles_def Let_def ex_disk_with_def)
      (simp add: ex_disk_def)
  show ?thesis
    by (simp add: OnVirtualMachineChange_def reconcile_status_def finishImport_def tidy
        finalCleanup_def triggerCleanup_def files ex_finish_log_def)
qed

text \<open>The same import, referring to a source that does not exist.\<close>

definition ex_lost_source :: "VirtualMachineImport \<Rightarrow> VirtualMachineImport" where
  "ex_lost_source vm = vm\<lparr>vm_Spec := ex_spec\<lparr>SourceCluster :=
     (SourceCluster ex_spec)\<lparr>ref_Name := ''gone''\<rparr>\<rparr>\<rparr>"

lemma ex_lost_source:
  "generateSource ex_program (ex_lost_source ex1) (ex_world m es) = (Inl (ErrNotFound ''gone''), ex_world m es)"
proof -
  have "strings_ToLower ''OvaSource'' = KindOvaSource" by code_simp
  then show ?thesis
    by (simp add: generateSource_def ex_lost_source_def ex_spec_def Let_def) (simp add: kind_defs)
qed

end
