(* ===== verification/Cooperation.thy ===== *)
theory Cooperation
  imports ExampleRun ImportCompletion ServedImages
begin

text \<open>
  The example archive in a cluster that imports every image at once: a world that cooperates, in
  which the import is completed.
\<close>

definition ex_happy :: "nat virtualMachineHandler" where
  "ex_happy = link (ex_handler\<lparr>vmi_Get := (\<lambda>ns n x. (Inr ex_image, x))\<rparr>)
     ex_system ex_vsphere ex_ova ex_openstack"

lemma world_cases: obtains m es where "w = ex_world m es"
  by (cases w) (simp add: ex_world_def)

lemma ex_happy_sel [simp]:
  "importVM_UpdateStatus ex_happy = (\<lambda>vm x. ((Some vm, None), x))"
  "vmi_List ex_happy = (\<lambda>ns k v x. (Inr [], x))" "vmi_Create ex_happy = (\<lambda>img x. (Inr ex_image, x))"
  "vmi_Get ex_happy = (\<lambda>ns n x. (Inr ex_image, x))"
  "pvc_Get ex_happy = (\<lambda>ns n x. (Inl (ErrNotFound n), x))" "pvc_Create ex_happy = (\<lambda>p x. (None, x))"
  "kubevirt_Get ex_happy = (\<lambda>ns n x. (Inr ex_vm, x))" "kubevirt_Create ex_happy = (\<lambda>v x. (None, x))"
  "nadCache_Get ex_happy = (\<lambda>ns n x. (None, x))"
  "IsDNS1123Label ex_happy = (\<lambda>s. if CHR ''/'' \<in> set s then [''a valid label''] else [])"
  by (simp_all add: ex_happy_def link_def ex_handler_def)

lemma ex_happy_cluster: "cluster_cooperates ex_happy ex_import"
  by (simp add: cluster_cooperates_def imported_image_def ex_image_def ex_spec_def)

lemma ex_willing: "willing ex_import ''box'' False ex_vmo"
proof -
  have lower: "strings_ToLower ''Box'' = ''box''" by code_simp
  have model: "GetDefaultNetworkInterfaceModel vm = NetworkInterfaceModelVirtio"
    "GetDefaultDiskBusType vm = DiskBusVirtio" if "vm_Spec vm = ex_spec" for vm
    using that by (simp_all add: GetDefaultNetworkInterfaceModel_def GetDefaultDiskBusType_def ex_spec_def)
  have export: "\<exists>v u. ova_ExportVirtualMachine ex_system ex_ova ex_client vm w = Some ((None, v), u) \<and> disks_of v \<noteq> []"
    if "vm_Spec vm = ex_spec" "imported_name vm = ''box''" for vm w
    by (rule world_cases [of w]) (simp add: ex_export [OF that])
  have generate: "\<exists>v u. ova_GenerateVirtualMachine ex_consts ex_ova ex_client vm w = Some (Inr v, u)"
    if "vm_Spec vm = ex_spec" for vm w
    by (rule world_cases [of w])
      (simp add: ova_GenerateVirtualMachine_def readEnvelope_def model [OF that] ex_parse)
  show ?thesis
    using lower export generate
    by (auto simp: willing_def same_import_def ova_Sanitize_def) (simp_all add: ex_spec_def)
qed

lemma ex_happy_source: "source_cooperates ex_happy ex_import ''box'' False"
proof -
  have kind: "strings_ToLower ''OvaSource'' = KindOvaSource"
    and lower: "strings_ToLower ''ovasource'' = ''ovasource''"
    by code_simp+
  have get: "ova_Get ex_happy ''default'' ''src'' = (\<lambda>x. (Inr ex_source, x))"
    by (simp add: ex_happy_def link_def ex_handler_def)
  have source: "generateSource ex_happy vm w = (Inr (OvaSrc ex_source), w)" if "vm_Spec vm = ex_spec" for vm w
    using that kind
    by (simp add: generateSource_def Let_def ex_spec_def get query_def) (simp add: kind_defs)
  have client: "ova_NewClient ex_happy = ova_NewOperations ex_consts ex_system ex_ova"
    by (simp add: ex_happy_def link_def ex_handler_def)
  have vmo: "generateVMO ex_happy vm w = Some (Inr ex_vmo, w)" if "vm_Spec vm = ex_spec" for vm w
    using that lower
    by (simp add: generateVMO_def source newClientFor_def Let_def kind_defs ex_source_def source_defs client
        ex_vmo_def ex_client_def ova_NewOperations_def)
  have spec: "\<exists>w'. check_spec ex_happy ex_import w = (None, w')" for w
    by (simp add: check_spec_def ex_spec_def destination_parts_def query_def)
  show ?thesis
    using source vmo spec ex_willing
    by (auto simp: source_cooperates_def same_import_def)
      (simp_all add: ex_spec_def ex_source_def source_defs expectedAPIVersion_def)
qed

end
