(* ===== verification/SourceCache.thy ===== *)
theory SourceCache
  imports Example
begin

text \<open>
  The source controllers and the cache of the informer. A handler receives the object of the cache
  itself, not a copy of it; the three handlers write the verdict of the verification into that
  object before they pass it to \<open>UpdateStatus\<close> (\<open>vmware.go\<close>, \<open>ova.go\<close> and
  \<open>openstack.go\<close> under \<open>pkg/controllers/migration\<close>; the handler of imports works on a
  deep copy). The cache is an explicit store here, so that the change survives a failed write. The
  objects of the cluster are a second store: writes reach it when they succeed, and the watch carries
  new versions of its objects into the cache.
\<close>

section \<open>The store\<close>

text \<open>The object that the handler was called with and passes to \<open>UpdateStatus\<close> is one object:
  after the call it is what was written last.\<close>

fun assigned :: "event \<Rightarrow> SourceInterface \<Rightarrow> SourceInterface" where
  "assigned (EvUpdateVmwareSource v) s = VmwareSrc v"
| "assigned (EvUpdateOvaSource v) s = OvaSrc v"
| "assigned (EvUpdateOpenstackSource v) s = OpenstackSrc v"
| "assigned ev s = s"

definition source_OnSourceChange ::
  "'x sourceHandler \<Rightarrow> 'x system \<Rightarrow> 'x vsphere \<Rightarrow> 'x ova_sdk \<Rightarrow> 'x openstack_sdk \<Rightarrow>
   SourceInterface \<Rightarrow> ('x, go_error option) go" where
  "source_OnSourceChange h sys vs sdk osdk s w =
     (case s of
        VmwareSrc v \<Rightarrow> do { ((r, err), w) \<leftarrow> vmware_OnSourceChange h sys vs (Some v) w; Some (err, w) }
      | OvaSrc v \<Rightarrow> do { ((r, err), w) \<leftarrow> ova_OnSourceChange h sdk (Some v) w; Some (err, w) }
      | OpenstackSrc v \<Rightarrow> do { ((r, err), w) \<leftarrow> openstack_OnSourceChange h osdk (Some v) w; Some (err, w) })"

definition source_sync ::
  "'x sourceHandler \<Rightarrow> 'x system \<Rightarrow> 'x vsphere \<Rightarrow> 'x ova_sdk \<Rightarrow> 'x openstack_sdk \<Rightarrow>
   (string \<rightharpoonup> SourceInterface) \<Rightarrow> string \<Rightarrow>
   ('x, go_error option \<times> (string \<rightharpoonup> SourceInterface)) go" where
  "source_sync h sys vs sdk osdk cache key w =
     (case cache key of
        None \<Rightarrow> Some ((None, cache), w)
      | Some s \<Rightarrow>
          do {
            (err, w') \<leftarrow> source_OnSourceChange h sys vs sdk osdk s w;
            Some ((err, cache(key \<mapsto> fold assigned (drop (length (log w)) (log w')) s)), w')
          })"

section \<open>A source that is ready\<close>

lemma source_OnSourceChange_ready:
  "ClusterStatus s = ClusterReady \<Longrightarrow> source_OnSourceChange h sys vs sdk osdk s w = Some (None, w)"
  by (cases s) (auto simp: source_OnSourceChange_def vmware_OnSourceChange_def ova_OnSourceChange_def
      openstack_OnSourceChange_def VmwareSource_ClusterStatus_def OvaSource_ClusterStatus_def
      OpenstackSource_ClusterStatus_def)

lemma source_sync_ready:
  "cache key = Some s \<Longrightarrow> ClusterStatus s = ClusterReady \<Longrightarrow>
   source_sync h sys vs sdk osdk cache key w = Some ((None, cache), w)"
  by (simp add: source_sync_def source_OnSourceChange_ready fun_upd_idem)

section \<open>The cluster, the cache and the watch\<close>

text \<open>
  The objects in the cluster and in the cache of the informer, by key. A write that fails leaves the
  object of the cluster alone; one that succeeds stores the object that was passed, under a new
  resource version. The watch delivers the object of the cluster when its version is not the
  one in the cache.
\<close>

record 'x cache_system =
  sys_world :: "'x go_world"
  in_cluster :: "string \<rightharpoonup> SourceInterface"
  in_cache :: "string \<rightharpoonup> SourceInterface"

definition source_Meta :: "SourceInterface \<Rightarrow> ObjectMeta" where
  "source_Meta s = (case s of VmwareSrc v \<Rightarrow> vmware_Meta v | OvaSrc v \<Rightarrow> ova_Meta v | OpenstackSrc v \<Rightarrow> openstack_Meta v)"

definition set_Version :: "string \<Rightarrow> SourceInterface \<Rightarrow> SourceInterface" where
  "set_Version rv s =
     (case s of
        VmwareSrc v \<Rightarrow> VmwareSrc (v\<lparr>vmware_Meta := (vmware_Meta v)\<lparr>ResourceVersion := rv\<rparr>\<rparr>)
      | OvaSrc v \<Rightarrow> OvaSrc (v\<lparr>ova_Meta := (ova_Meta v)\<lparr>ResourceVersion := rv\<rparr>\<rparr>)
      | OpenstackSrc v \<Rightarrow> OpenstackSrc (v\<lparr>openstack_Meta := (openstack_Meta v)\<lparr>ResourceVersion := rv\<rparr>\<rparr>))"

fun source_write :: "event \<Rightarrow> bool" where
  "source_write (EvUpdateVmwareSource v) = True"
| "source_write (EvUpdateOvaSource v) = True"
| "source_write (EvUpdateOpenstackSource v) = True"
| "source_write ev = False"

definition cluster_after ::
  "string \<Rightarrow> string \<Rightarrow> go_error option \<Rightarrow> event list \<Rightarrow> SourceInterface \<Rightarrow>
   (string \<rightharpoonup> SourceInterface) \<Rightarrow> (string \<rightharpoonup> SourceInterface)" where
  "cluster_after key rv err es s cluster =
     (if err = None \<and> list_ex source_write es then cluster(key \<mapsto> set_Version rv (fold assigned es s))
      else cluster)"

text \<open>
  The steps while nobody else changes the object of \<open>key\<close>: the handler is called for some source, the
  watch delivers an object or the removal of one, something else in the cluster or outside changes.
  Not among them: a new list of the informer, which follows only if its watch can not be resumed, and a
  restart of the process.
\<close>

inductive cache_step ::
  "'x sourceHandler \<Rightarrow> 'x system \<Rightarrow> 'x vsphere \<Rightarrow> 'x ova_sdk \<Rightarrow> 'x openstack_sdk \<Rightarrow> string \<Rightarrow>
   'x cache_system \<Rightarrow> 'x cache_system \<Rightarrow> bool" for h sys vs sdk osdk key where
  HandlerCalled: "in_cache c k = Some s \<Longrightarrow>
    source_sync h sys vs sdk osdk (in_cache c) k (sys_world c) = Some ((err, cache'), w') \<Longrightarrow>
    cache_step h sys vs sdk osdk key c
      (c\<lparr>sys_world := w', in_cache := cache',
         in_cluster := cluster_after k rv err (drop (length (log (sys_world c))) (log w')) s (in_cluster c)\<rparr>)"
| WatchDelivers: "in_cluster c k = Some s \<Longrightarrow>
    map_option (ResourceVersion \<circ> source_Meta) (in_cache c k) \<noteq> Some (ResourceVersion (source_Meta s)) \<Longrightarrow>
    cache_step h sys vs sdk osdk key c (c\<lparr>in_cache := (in_cache c)(k \<mapsto> s)\<rparr>)"
| WatchRemoves: "in_cluster c k = None \<Longrightarrow>
    cache_step h sys vs sdk osdk key c (c\<lparr>in_cache := (in_cache c)(k := None)\<rparr>)"
| OthersWrite: "k \<noteq> key \<Longrightarrow> cache_step h sys vs sdk osdk key c (c\<lparr>in_cluster := (in_cluster c)(k := s)\<rparr>)"
| OutsideChanges: "cache_step h sys vs sdk osdk key c (c\<lparr>sys_world := (sys_world c)\<lparr>ext := x\<rparr>\<rparr>)"

inductive_cases cache_stepE: "cache_step h sys vs sdk osdk key c d"

text \<open>
  The verification of a source: its secret is found, a client can be made, and the client finds the
  source in order.
\<close>

definition client_verifies :: "(('e + 'c) \<times> 'w) option \<Rightarrow> ('c \<Rightarrow> 'w \<Rightarrow> go_error option \<times> 'w) \<Rightarrow> bool" where
  "client_verifies client verify =
     (case client of
        Some (Inr c, w) \<Rightarrow> fst (verify c w) = None
      | _ \<Rightarrow> False)"

definition source_verifies ::
  "'x sourceHandler \<Rightarrow> 'x system \<Rightarrow> 'x vsphere \<Rightarrow> 'x ova_sdk \<Rightarrow> 'x openstack_sdk \<Rightarrow>
   SourceInterface \<Rightarrow> 'x go_world \<Rightarrow> bool" where
  "source_verifies h sys vs sdk osdk s w =
     (case s of
        VmwareSrc v \<Rightarrow>
          (case lookup_secret h (source_name (vmware_Kind v) (vmware_Meta v)) (VmwareSource_SecretReference v) w of
             Some (Inr secret, w) \<Rightarrow>
               client_verifies (vmware_NewClient_impl sys vs (vmware_Endpoint v) (vmware_Datacenter v) (Some secret) w)
                 (vmware_Verify vs)
           | _ \<Rightarrow> False)
      | OvaSrc v \<Rightarrow>
          (case (if OvaSource_HasSecret v
                 then map_option (\<lambda>(r, w). (map_sum id Some r, w))
                   (lookup_secret h (source_name (ova_Kind v) (ova_Meta v)) (OvaSource_SecretReference v) w)
                 else Some (Inr None, w)) of
             Some (Inr secret, w) \<Rightarrow>
               (case OvaSource_GetOptions v of
                  OvaOptions options \<Rightarrow> fst (ova_Verify sdk (ova_NewClient_impl (ova_Url v) secret options) w) = None
                | _ \<Rightarrow> False)
           | _ \<Rightarrow> False)
      | OpenstackSrc v \<Rightarrow>
          (case lookup_secret h (source_name (openstack_Kind v) (openstack_Meta v))
                  (OpenstackSource_SecretReference v) w of
             Some (Inr secret, w) \<Rightarrow>
               (case OpenstackSource_GetOptions v of
                  OpenstackOptions options \<Rightarrow>
                    client_verifies (openstack_NewClient_impl osdk (openstack_Endpoint v) (openstack_Region v)
                      (Some secret) options w) (openstack_Verify osdk)
                | _ \<Rightarrow> False)
           | _ \<Rightarrow> False))"

lemma assigned_quiet: "\<not> controller_event ev \<Longrightarrow> assigned ev s = s"
  by (cases ev) simp_all

lemma fold_assigned_quiet: "list_all (\<lambda>e. \<not> controller_event e) es \<Longrightarrow> fold assigned es s = s"
  by (induction es arbitrary: s) (simp_all add: assigned_quiet)

text \<open>
  A handler that verifies its source and returns an error has passed the source, with the status ready, to
  an update that failed: there is no other error after the verification.
\<close>

lemma vmware_ready:
  assumes "vmware_OnSourceChange h sys vs (Some v) w = Some ((r, Some err), w')"
    and "source_verifies h sys vs sdk osdk (VmwareSrc v) w"
  shows "\<exists>st es. log w' = log w @ es @ [EvUpdateVmwareSource (v\<lparr>vmware_Status := st\<rparr>)] \<and>
    source_Status st = ClusterReady \<and> list_all (\<lambda>e. \<not> controller_event e) es"
proof -
  obtain secret w1 where lookup: "lookup_secret h (source_name (vmware_Kind v) (vmware_Meta v))
      (VmwareSource_SecretReference v) w = Some (Inr secret, w1)"
    using assms(2) by (auto simp: source_verifies_def split: option.splits prod.splits sum.splits)
  obtain c w2 where client: "vmware_NewClient_impl sys vs (vmware_Endpoint v) (vmware_Datacenter v) (Some secret) w1 =
      Some (Inr c, w2)" "fst (vmware_Verify vs c w2) = None"
    using assms(2) lookup
    by (auto simp: source_verifies_def client_verifies_def split: option.splits prod.splits sum.splits)
  obtain w3 where verify: "vmware_Verify vs c w2 = (None, w3)"
    using client(2) by (cases "vmware_Verify vs c w2") simp
  obtain st w4 where st: "verdict h None (vmware_Status v) w3 = (st, w4)"
    by fastforce
  have "effect (\<lambda>_. EvUpdateVmwareSource (v\<lparr>vmware_Status := st\<rparr>)) (sh_UpdateVmware h (v\<lparr>vmware_Status := st\<rparr>)) w4 =
      ((r, Some err), w')"
    using assms(1) lookup client(1) verify st by (auto simp: vmware_OnSourceChange_def Let_def split: if_splits)
  then have "log w' = log w4 @ [EvUpdateVmwareSource (v\<lparr>vmware_Status := st\<rparr>)]"
    by (auto dest: effect_log)
  moreover have "log w1 = log w" "log w4 = log w2" "source_Status st = ClusterReady"
    using lookup_secret_log [OF lookup] query_log [OF verify [unfolded vmware_Verify_def]] verdict_spec(2,3) [OF st]
    by simp_all
  moreover obtain es where "log w2 = log w1 @ es" "list_all (\<lambda>e. \<not> controller_event e) es"
    using vmware_NewClient_quiet [of w1 sys vs] client(1) unfolding emits_def by blast
  ultimately show ?thesis
    by auto
qed

lemma ova_ready:
  assumes "ova_OnSourceChange h sdk (Some v) w = Some ((r, Some err), w')"
    and "source_verifies h sys vs sdk osdk (OvaSrc v) w"
  shows "\<exists>st. log w' = log w @ [EvUpdateOvaSource (v\<lparr>ova_Status := st\<rparr>)] \<and> source_Status st = ClusterReady"
proof -
  obtain secret w1 options where lookup: "(if OvaSource_HasSecret v
         then map_option (\<lambda>(r, w). (map_sum id Some r, w))
           (lookup_secret h (source_name (ova_Kind v) (ova_Meta v)) (OvaSource_SecretReference v) w)
         else Some (Inr None, w)) = Some (Inr secret, w1)"
    and options: "OvaSource_GetOptions v = OvaOptions options"
    and verify: "fst (ova_Verify sdk (ova_NewClient_impl (ova_Url v) secret options) w1) = None"
    using assms(2)
    by (simp add: source_verifies_def split: option.splits prod.splits sum.splits SourceOptions.splits if_splits)
  obtain w2 where w2: "ova_Verify sdk (ova_NewClient_impl (ova_Url v) secret options) w1 = (None, w2)"
    using verify by (cases "ova_Verify sdk (ova_NewClient_impl (ova_Url v) secret options) w1") simp
  obtain st w3 where st: "verdict h None (ova_Status v) w2 = (st, w3)"
    by fastforce
  have "effect (\<lambda>_. EvUpdateOvaSource (v\<lparr>ova_Status := st\<rparr>)) (sh_UpdateOva h (v\<lparr>ova_Status := st\<rparr>)) w3 =
      ((r, Some err), w')"
    using assms(1) lookup options w2 st
    by (auto simp: ova_OnSourceChange_def Let_def split: if_splits Option.bind_splits option.splits prod.splits)
  then have "log w' = log w3 @ [EvUpdateOvaSource (v\<lparr>ova_Status := st\<rparr>)]"
    by (auto dest: effect_log)
  moreover have "log w1 = log w"
    using lookup by (auto dest: lookup_secret_log split: if_splits)
  ultimately show ?thesis
    using ova_Verify_log [OF w2] verdict_spec(2,3) [OF st] by auto
qed

lemma openstack_ready:
  assumes "openstack_OnSourceChange h osdk (Some v) w = Some ((r, Some err), w')"
    and "source_verifies h sys vs sdk osdk (OpenstackSrc v) w"
  shows "\<exists>st. log w' = log w @ [EvUpdateOpenstackSource (v\<lparr>openstack_Status := st\<rparr>)] \<and>
    source_Status st = ClusterReady"
proof -
  obtain secret w1 where lookup: "lookup_secret h (source_name (openstack_Kind v) (openstack_Meta v))
      (OpenstackSource_SecretReference v) w = Some (Inr secret, w1)"
    using assms(2) by (auto simp: source_verifies_def split: option.splits prod.splits sum.splits)
  obtain options c w2 where options: "OpenstackSource_GetOptions v = OpenstackOptions options"
    and client: "openstack_NewClient_impl osdk (openstack_Endpoint v) (openstack_Region v) (Some secret) options w1 =
      Some (Inr c, w2)" "fst (openstack_Verify osdk c w2) = None"
    using assms(2) lookup
    by (auto simp: source_verifies_def client_verifies_def split: option.splits prod.splits sum.splits SourceOptions.splits)
  obtain w3 where verify: "openstack_Verify osdk c w2 = (None, w3)"
    using client(2) by (cases "openstack_Verify osdk c w2") simp
  obtain st w4 where st: "verdict h None (openstack_Status v) w3 = (st, w4)"
    by fastforce
  have "effect (\<lambda>_. EvUpdateOpenstackSource (v\<lparr>openstack_Status := st\<rparr>))
      (sh_UpdateOpenstack h (v\<lparr>openstack_Status := st\<rparr>)) w4 = ((r, Some err), w')"
    using assms(1) lookup options client(1) verify st by (auto simp: openstack_OnSourceChange_def Let_def split: if_splits)
  then have "log w' = log w4 @ [EvUpdateOpenstackSource (v\<lparr>openstack_Status := st\<rparr>)]"
    by (auto dest: effect_log)
  moreover have "log w3 = log w2"
    using verify by (auto simp: openstack_Verify_def dest!: query_log split: prod.splits sum.splits if_splits)
  moreover have "log w2 = log w1"
    using client(1) by (auto simp: openstack_NewClient_impl_def Let_def dest!: openstack_connect_log split: option.splits)
  ultimately show ?thesis
    using lookup_secret_log [OF lookup] verdict_spec(2,3) [OF st] by auto
qed

lemma source_meta_status [simp]:
  "source_Meta (VmwareSrc (v\<lparr>vmware_Status := st\<rparr>)) = source_Meta (VmwareSrc v)"
  "source_Meta (OvaSrc (o'\<lparr>ova_Status := st\<rparr>)) = source_Meta (OvaSrc o')"
  "source_Meta (OpenstackSrc (os\<lparr>openstack_Status := st\<rparr>)) = source_Meta (OpenstackSrc os)"
  by (simp_all add: source_Meta_def)

lemma failed_write_leaves_ready:
  assumes "source_sync h sys vs sdk osdk cache key w = Some ((Some err, cache'), w')"
    and "cache key = Some s" "source_verifies h sys vs sdk osdk s w"
  shows "\<exists>t. cache' key = Some t \<and> ClusterStatus t = ClusterReady \<and> source_Meta t = source_Meta s"
proof -
  have cache': "cache' key = Some (fold assigned (drop (length (log w)) (log w')) s)"
    using assms(1,2) by (auto simp: source_sync_def split: Option.bind_splits)
  have call: "source_OnSourceChange h sys vs sdk osdk s w = Some (Some err, w')"
    using assms(1,2) by (auto simp: source_sync_def split: Option.bind_splits)
  show ?thesis
  proof (cases s)
    case (VmwareSrc v)
    then obtain r where "vmware_OnSourceChange h sys vs (Some v) w = Some ((r, Some err), w')"
      using call by (auto simp: source_OnSourceChange_def split: Option.bind_splits)
    from vmware_ready [OF this assms(3) [unfolded VmwareSrc]] show ?thesis
      using cache' VmwareSrc
      by (auto simp: fold_assigned_quiet VmwareSource_ClusterStatus_def)
  next
    case (OvaSrc v)
    then obtain r where "ova_OnSourceChange h sdk (Some v) w = Some ((r, Some err), w')"
      using call by (auto simp: source_OnSourceChange_def split: Option.bind_splits)
    from ova_ready [OF this assms(3) [unfolded OvaSrc]] show ?thesis
      using cache' OvaSrc by (auto simp: OvaSource_ClusterStatus_def)
  next
    case (OpenstackSrc v)
    then obtain r where "openstack_OnSourceChange h osdk (Some v) w = Some ((r, Some err), w')"
      using call by (auto simp: source_OnSourceChange_def split: Option.bind_splits)
    from openstack_ready [OF this assms(3) [unfolded OpenstackSrc]] show ?thesis
      using cache' OpenstackSrc by (auto simp: OpenstackSource_ClusterStatus_def)
  qed
qed

section \<open>A verdict that is lost\<close>

text \<open>The cached object is ready and has the version of the object in the cluster, which is not.\<close>

definition verdict_stuck :: "string \<Rightarrow> SourceInterface \<Rightarrow> 'x cache_system \<Rightarrow> bool" where
  "verdict_stuck key s c \<longleftrightarrow>
     in_cluster c key = Some s \<and>
     (\<exists>t. in_cache c key = Some t \<and> ClusterStatus t = ClusterReady \<and>
        ResourceVersion (source_Meta t) = ResourceVersion (source_Meta s))"

lemma source_sync_other:
  "source_sync h sys vs sdk osdk cache k w = Some ((err, cache'), w') \<Longrightarrow> key \<noteq> k \<Longrightarrow> cache' key = cache key"
  by (auto simp: source_sync_def split: option.splits Option.bind_splits)

lemma verdict_stuck_call:
  "verdict_stuck key s c \<Longrightarrow>
   source_sync h sys vs sdk osdk (in_cache c) key w = Some ((None, in_cache c), w)"
  by (auto simp: verdict_stuck_def source_sync_ready)

lemma verdict_stuck_step:
  assumes "cache_step h sys vs sdk osdk key c d" "verdict_stuck key s c"
  shows "verdict_stuck key s d"
  using assms(1)
proof cases
  case (HandlerCalled k t err cache' w' rv)
  show ?thesis
  proof (cases "k = key")
    case True
    then have "err = None" "cache' = in_cache c" "w' = sys_world c"
      using HandlerCalled(3) verdict_stuck_call [OF assms(2), of h sys vs sdk osdk "sys_world c"] by auto
    then show ?thesis
      using assms(2) HandlerCalled(1) by (simp add: verdict_stuck_def cluster_after_def)
  next
    case False
    then show ?thesis
      using assms(2) HandlerCalled(1) source_sync_other [OF HandlerCalled(3), of key]
      by (simp add: verdict_stuck_def cluster_after_def)
  qed
next
  case (WatchDelivers k t)
  then show ?thesis
    using assms(2) by (cases "k = key") (auto simp: verdict_stuck_def)
next
  case (WatchRemoves k)
  then show ?thesis
    using assms(2) by (cases "k = key") (auto simp: verdict_stuck_def)
qed (use assms(2) in \<open>auto simp: verdict_stuck_def\<close>)

lemma verdict_stuck_steps:
  assumes "(cache_step h sys vs sdk osdk key)\<^sup>*\<^sup>* c d" "verdict_stuck key s c"
  shows "verdict_stuck key s d"
  using assms by (induction rule: rtranclp_induct) (blast intro: verdict_stuck_step)+

text \<open>
  C31. The source controllers change the object of the cache in place. Let the object of a source in the
  cache be the one in the cluster, not ready, let the verification of the source succeed, and let the
  handler return an error: then the update of the status has failed. From then on, whatever steps follow while
  nobody else changes this source, be they calls of the handlers, deliveries of the watch or changes elsewhere,
  the object in the cluster stays what it was, not ready, while the one in the cache is ready; and
  every call of the handler for it returns at once without an error and writes nothing.
\<close>

theorem verdict_lost:
  assumes "in_cluster c key = Some s" "in_cache c key = Some s" "ClusterStatus s \<noteq> ClusterReady"
    and "source_verifies h sys vs sdk osdk s (sys_world c)"
    and "source_sync h sys vs sdk osdk (in_cache c) key (sys_world c) = Some ((Some err, cache'), w')"
    and "(cache_step h sys vs sdk osdk key)\<^sup>*\<^sup>* (c\<lparr>sys_world := w', in_cache := cache'\<rparr>) d"
  shows "in_cluster d key = Some s \<and>
    (\<exists>t. in_cache d key = Some t \<and> ClusterStatus t = ClusterReady) \<and>
    source_sync h sys vs sdk osdk (in_cache d) key (sys_world d) = Some ((None, in_cache d), sys_world d)"
proof -
  have "verdict_stuck key s (c\<lparr>sys_world := w', in_cache := cache'\<rparr>)"
    using failed_write_leaves_ready [OF assms(5,2,4)] assms(1) by (auto simp: verdict_stuck_def)
  then have "verdict_stuck key s d"
    by (rule verdict_stuck_steps [OF assms(6)])
  then show ?thesis
    using verdict_stuck_call [of key s d] by (auto simp: verdict_stuck_def)
qed

text \<open>
  A conflict is another matter: then the cluster has another version, which the watch delivers, and the
  source is verified again.
\<close>

lemma conflict_refreshed:
  assumes "in_cluster c key = Some s" "in_cache c key = Some t"
    and "ResourceVersion (source_Meta t) \<noteq> ResourceVersion (source_Meta s)"
  shows "cache_step h sys vs sdk osdk key c (c\<lparr>in_cache := (in_cache c)(key \<mapsto> s)\<rparr>)"
  using assms by (intro WatchDelivers) auto

section \<open>A write that fails\<close>

definition ex_timeout :: "nat sourceHandler" where
  "ex_timeout = \<lparr>sh_secret_Get = (\<lambda>ns n x. (Inl (ErrNotFound n), x)), sh_Now = (\<lambda>x. (0, x)),
     sh_Format = (\<lambda>t. ''t''), sh_UpdateVmware = (\<lambda>v x. ((None, Some (ErrExternal ''timeout'')), x)),
     sh_UpdateOva = (\<lambda>s x. ((None, Some (ErrExternal ''timeout'')), x)),
     sh_UpdateOpenstack = (\<lambda>s x. ((None, Some (ErrExternal ''timeout'')), x))\<rparr>"

definition ex_new_source :: OvaSource where
  "ex_new_source = ex_source\<lparr>ova_Status := \<lparr>source_Status = ClusterNotReady, source_Conditions = []\<rparr>\<rparr>"

definition ex_judged_source :: OvaSource where
  "ex_judged_source = ex_source\<lparr>ova_Status := \<lparr>source_Status = ClusterReady, source_Conditions =
     [\<lparr>cond_Type = ClusterReadyCondition, cond_Status = ConditionTrue, LastUpdateTime = ''t'',
        LastTransitionTime = ''t'', Reason = [], Message = []\<rparr>,
      \<lparr>cond_Type = ClusterErrorCondition, cond_Status = ConditionFalse, LastUpdateTime = ''t'',
        LastTransitionTime = ''t'', Reason = [], Message = []\<rparr>]\<rparr>\<rparr>"

lemma ex_timeout_call:
  "ova_OnSourceChange ex_timeout ex_ova (Some ex_new_source) \<lparr>ext = 0, log = []\<rparr> =
   Some ((None, Some (ErrExternal ''timeout'')), \<lparr>ext = 0, log = [EvUpdateOvaSource ex_judged_source]\<rparr>)"
  by (simp add: ova_OnSourceChange_def ex_new_source_def ex_source_def empty_meta_def OvaSource_HasSecret_def
      OvaSource_SecretReference_def OvaSource_GetOptions_def ova_NewClient_impl_def ova_Verify_def verdict_def
      source_condition_def query_def effect_def ex_timeout_def ex_ova_def ex_judged_source_def
      newHttpRequest_def AddOrUpdateCondition_def overwrite_def Let_def)

lemma ex_timeout_sync:
  "source_sync ex_timeout ex_system ex_vsphere ex_ova ex_openstack [''src'' \<mapsto> OvaSrc ex_new_source] ''src''
     \<lparr>ext = 0, log = []\<rparr> =
   Some ((Some (ErrExternal ''timeout''), [''src'' \<mapsto> OvaSrc ex_judged_source]),
     \<lparr>ext = 0, log = [EvUpdateOvaSource ex_judged_source]\<rparr>)"
  by (simp add: source_sync_def source_OnSourceChange_def ex_timeout_call)

definition ex_cached :: "nat cache_system" where
  "ex_cached = \<lparr>sys_world = \<lparr>ext = 0, log = []\<rparr>, in_cluster = [''src'' \<mapsto> OvaSrc ex_new_source],
     in_cache = [''src'' \<mapsto> OvaSrc ex_new_source]\<rparr>"

definition ex_lost :: "nat cache_system" where
  "ex_lost = \<lparr>sys_world = \<lparr>ext = 0, log = [EvUpdateOvaSource ex_judged_source]\<rparr>,
     in_cluster = [''src'' \<mapsto> OvaSrc ex_new_source], in_cache = [''src'' \<mapsto> OvaSrc ex_judged_source]\<rparr>"

text \<open>The handler is called again, and the outside changes.\<close>

lemma ex_lost_steps:
  "(cache_step ex_timeout ex_system ex_vsphere ex_ova ex_openstack ''src'')\<^sup>*\<^sup>* ex_lost
     (ex_lost\<lparr>sys_world := (sys_world ex_lost)\<lparr>ext := 7\<rparr>\<rparr>)"
proof (rule converse_rtranclp_into_rtranclp)
  have "source_sync ex_timeout ex_system ex_vsphere ex_ova ex_openstack (in_cache ex_lost) ''src'' (sys_world ex_lost) =
      Some ((None, in_cache ex_lost), sys_world ex_lost)"
    by (rule source_sync_ready [of _ _ "OvaSrc ex_judged_source"])
      (simp_all add: ex_lost_def ex_judged_source_def OvaSource_ClusterStatus_def)
  from HandlerCalled [OF _ this]
  show "cache_step ex_timeout ex_system ex_vsphere ex_ova ex_openstack ''src'' ex_lost ex_lost"
    by (simp add: ex_lost_def cluster_after_def)
  show "(cache_step ex_timeout ex_system ex_vsphere ex_ova ex_openstack ''src'')\<^sup>*\<^sup>* ex_lost
      (ex_lost\<lparr>sys_world := (sys_world ex_lost)\<lparr>ext := 7\<rparr>\<rparr>)"
    by (rule r_into_rtranclp, rule OutsideChanges)
qed

lemma ex_verifies: "source_verifies h ex_system ex_vsphere ex_ova ex_openstack (OvaSrc ex_new_source) \<lparr>ext = 0, log = []\<rparr>"
  by (simp add: source_verifies_def ex_new_source_def ex_source_def OvaSource_HasSecret_def OvaSource_SecretReference_def
      OvaSource_GetOptions_def ova_NewClient_impl_def ova_Verify_def newHttpRequest_def query_def ex_ova_def)

lemma verdict_lost_witness:
  "\<exists>d :: nat cache_system. ext (sys_world d) = 7 \<and> in_cluster d ''src'' = Some (OvaSrc ex_new_source) \<and>
     ClusterStatus (OvaSrc ex_new_source) \<noteq> ClusterReady \<and>
     (\<exists>t. in_cache d ''src'' = Some t \<and> ClusterStatus t = ClusterReady) \<and>
     source_sync ex_timeout ex_system ex_vsphere ex_ova ex_openstack (in_cache d) ''src'' (sys_world d) =
       Some ((None, in_cache d), sys_world d)"
proof -
  let ?d = "ex_lost\<lparr>sys_world := (sys_world ex_lost)\<lparr>ext := 7\<rparr>\<rparr>"
  have new: "ClusterStatus (OvaSrc ex_new_source) \<noteq> ClusterReady"
    by (simp add: ex_new_source_def OvaSource_ClusterStatus_def)
  have "in_cluster ?d ''src'' = Some (OvaSrc ex_new_source) \<and>
     (\<exists>t. in_cache ?d ''src'' = Some t \<and> ClusterStatus t = ClusterReady) \<and>
     source_sync ex_timeout ex_system ex_vsphere ex_ova ex_openstack (in_cache ?d) ''src'' (sys_world ?d) =
       Some ((None, in_cache ?d), sys_world ?d)"
  proof (rule verdict_lost [OF _ _ new])
    show "in_cluster ex_cached ''src'' = Some (OvaSrc ex_new_source)" "in_cache ex_cached ''src'' = Some (OvaSrc ex_new_source)"
      "source_verifies ex_timeout ex_system ex_vsphere ex_ova ex_openstack (OvaSrc ex_new_source) (sys_world ex_cached)"
      by (simp_all add: ex_cached_def ex_verifies)
    show "source_sync ex_timeout ex_system ex_vsphere ex_ova ex_openstack (in_cache ex_cached) ''src'' (sys_world ex_cached) =
        Some ((Some (ErrExternal ''timeout''), in_cache ex_lost), sys_world ex_lost)"
      by (simp add: ex_cached_def ex_lost_def ex_timeout_sync)
    show "(cache_step ex_timeout ex_system ex_vsphere ex_ova ex_openstack ''src'')\<^sup>*\<^sup>*
        (ex_cached\<lparr>sys_world := sys_world ex_lost, in_cache := in_cache ex_lost\<rparr>) ?d"
      using ex_lost_steps by (simp add: ex_cached_def ex_lost_def)
  qed
  then show ?thesis
    using new by (intro exI [of _ ?d]) simp
qed

end
