(* ===== verification/GeneratedTypes.thy ===== *)
theory GeneratedTypes
  imports Events
begin

text \<open>
  The generated declarations of the API group: \<open>zz_generated_register.go\<close> (the group version and
  its scheme), \<open>zz_generated_list_types.go\<close> (constructors), and of
  \<open>pkg/generated/controllers/migration.harvesterhci.io\<close> the files \<open>interface.go\<close> and
  \<open>factory.go\<close> (the typed controllers and their factory). The resource names, scheme and
  factories of the libraries are the records \<open>apimachinery\<close>, \<open>scheme_lib\<close> and
  \<open>factory_lib\<close> of parameters.
\<close>

section \<open>The API group\<close>

record GroupKind =
  gk_Group :: string
  gk_Kind :: string

record GroupVersionResource =
  gvr_Group :: string
  gvr_Version :: string
  gvr_Resource :: string

record GroupResource =
  gr_Group :: string
  gr_Resource :: string

text \<open>The methods of these structs.\<close>

record apimachinery =
  WithKind :: "GroupVersion \<Rightarrow> string \<Rightarrow> GroupVersionKind"
  ToAPIVersionAndKind :: "GroupVersionKind \<Rightarrow> string \<times> string"
  to_GroupKind :: "GroupVersionKind \<Rightarrow> GroupKind"
  WithResource :: "GroupVersion \<Rightarrow> string \<Rightarrow> GroupVersionResource"
  to_GroupResource :: "GroupVersionResource \<Rightarrow> GroupResource"

definition GroupName :: string where
  "GroupName = ''migration.harvesterhci.io''"

definition OpenstackSourceResourceName :: string where
  "OpenstackSourceResourceName = ''openstacksources''"
definition OvaSourceResourceName :: string where
  "OvaSourceResourceName = ''ovasources''"
definition VirtualMachineImportResourceName :: string where
  "VirtualMachineImportResourceName = ''virtualmachineimports''"
definition VmwareSourceResourceName :: string where
  "VmwareSourceResourceName = ''vmwaresources''"

definition SchemeGroupVersion :: GroupVersion where
  "SchemeGroupVersion = \<lparr>gv_Group = GroupName, gv_Version = ''v1beta1''\<rparr>"

definition group_Kind :: "apimachinery \<Rightarrow> string \<Rightarrow> GroupKind" where
  "group_Kind lib kind = to_GroupKind lib (WithKind lib SchemeGroupVersion kind)"

definition group_Resource :: "apimachinery \<Rightarrow> string \<Rightarrow> GroupResource" where
  "group_Resource lib resource = to_GroupResource lib (WithResource lib SchemeGroupVersion resource)"

section \<open>The scheme\<close>

text \<open>A scheme builder runs the functions it was made of on a scheme.\<close>

record 'x scheme_lib =
  AddKnownTypes :: "GroupVersion \<Rightarrow> KnownType list \<Rightarrow> 'x \<Rightarrow> 'x"
  AddToGroupVersion :: "GroupVersion \<Rightarrow> 'x \<Rightarrow> 'x"
  SchemeBuilder_AddToScheme ::
    "('x go_world \<Rightarrow> go_error option \<times> 'x go_world) list \<Rightarrow> 'x go_world \<Rightarrow> go_error option \<times> 'x go_world"

definition known_types :: "KnownType list" where
  "known_types =
     [OpenstackSourceType, OpenstackSourceListType, OvaSourceType, OvaSourceListType,
      VirtualMachineImportType, VirtualMachineImportListType, VmwareSourceType, VmwareSourceListType]"

definition addKnownTypes :: "'x scheme_lib \<Rightarrow> 'x go_world \<Rightarrow> go_error option \<times> 'x go_world" where
  "addKnownTypes lib w =
     (let w = notify (EvStart (KnownTypesAdded SchemeGroupVersion known_types))
                (AddKnownTypes lib SchemeGroupVersion known_types) w;
          w = notify (EvStart (GroupVersionAdded SchemeGroupVersion))
                (AddToGroupVersion lib SchemeGroupVersion) w
      in (None, w))"

definition AddToScheme :: "'x scheme_lib \<Rightarrow> 'x go_world \<Rightarrow> go_error option \<times> 'x go_world" where
  "AddToScheme lib w = SchemeBuilder_AddToScheme lib [addKnownTypes lib] w"

text \<open>A library whose scheme builder runs its functions in order, up to the first error.\<close>

fun run_builder ::
  "('x go_world \<Rightarrow> go_error option \<times> 'x go_world) list \<Rightarrow> 'x go_world \<Rightarrow> go_error option \<times> 'x go_world"
  where
  "run_builder [] w = (None, w)"
| "run_builder (f # fs) w = (case f w of (Some err, w) \<Rightarrow> (Some err, w) | (None, w) \<Rightarrow> run_builder fs w)"

definition ex_scheme :: "nat scheme_lib" where
  "ex_scheme = \<lparr>AddKnownTypes = (\<lambda>gv ts x. x), AddToGroupVersion = (\<lambda>gv x. x),
     SchemeBuilder_AddToScheme = run_builder\<rparr>"

lemma ex_AddToScheme: "AddToScheme ex_scheme w =
    (None, w\<lparr>log := log w @ [EvStart (KnownTypesAdded SchemeGroupVersion known_types),
       EvStart (GroupVersionAdded SchemeGroupVersion)]\<rparr>)"
  by (simp add: AddToScheme_def ex_scheme_def addKnownTypes_def notify_def Let_def)

section \<open>Constructors\<close>

definition NewOpenstackSource ::
  "apimachinery \<Rightarrow> string \<Rightarrow> string \<Rightarrow> OpenstackSource \<Rightarrow> OpenstackSource" where
  "NewOpenstackSource lib namespace name obj =
     (let (apiVersion, kind) = ToAPIVersionAndKind lib (WithKind lib SchemeGroupVersion ''OpenstackSource'')
      in obj\<lparr>openstack_APIVersion := apiVersion, openstack_Kind := kind,
           openstack_Meta := (openstack_Meta obj)\<lparr>Name := name, Namespace := namespace\<rparr>\<rparr>)"

definition NewOvaSource :: "apimachinery \<Rightarrow> string \<Rightarrow> string \<Rightarrow> OvaSource \<Rightarrow> OvaSource" where
  "NewOvaSource lib namespace name obj =
     (let (apiVersion, kind) = ToAPIVersionAndKind lib (WithKind lib SchemeGroupVersion ''OvaSource'')
      in obj\<lparr>ova_APIVersion := apiVersion, ova_Kind := kind,
           ova_Meta := (ova_Meta obj)\<lparr>Name := name, Namespace := namespace\<rparr>\<rparr>)"

definition NewVirtualMachineImport ::
  "apimachinery \<Rightarrow> string \<Rightarrow> string \<Rightarrow> VirtualMachineImport \<Rightarrow> VirtualMachineImport" where
  "NewVirtualMachineImport lib namespace name obj =
     (let (apiVersion, kind) =
            ToAPIVersionAndKind lib (WithKind lib SchemeGroupVersion ''VirtualMachineImport'')
      in obj\<lparr>vm_APIVersion := apiVersion, vm_Kind := kind,
           vm_Meta := (vm_Meta obj)\<lparr>Name := name, Namespace := namespace\<rparr>\<rparr>)"

definition NewVmwareSource :: "apimachinery \<Rightarrow> string \<Rightarrow> string \<Rightarrow> VmwareSource \<Rightarrow> VmwareSource" where
  "NewVmwareSource lib namespace name obj =
     (let (apiVersion, kind) = ToAPIVersionAndKind lib (WithKind lib SchemeGroupVersion ''VmwareSource'')
      in obj\<lparr>vmware_APIVersion := apiVersion, vmware_Kind := kind,
           vmware_Meta := (vmware_Meta obj)\<lparr>Name := name, Namespace := namespace\<rparr>\<rparr>)"

section \<open>Typed controllers\<close>

text \<open>
  \<open>generic.NewController\<close> is a constructor: the kind a controller watches, the plural name of
  the resource, whether it is namespaced, and the factory it takes its shared controller from.
\<close>

datatype 'f typed_controller = NewController GroupVersionKind string bool 'f

fun controller_kind :: "'f typed_controller \<Rightarrow> GroupVersionKind" where
  "controller_kind (NewController kind resource namespaced f) = kind"

record 'f version_struct =
  version_controllerFactory :: 'f

record 'f group_struct =
  group_controllerFactory :: 'f

definition version_New :: "'f \<Rightarrow> 'f version_struct" where
  "version_New f = \<lparr>version_controllerFactory = f\<rparr>"

definition version_OpenstackSource :: "'f version_struct \<Rightarrow> 'f typed_controller" where
  "version_OpenstackSource v = NewController
     \<lparr>gvk_Group = ''migration.harvesterhci.io'', gvk_Version = ''v1beta1'', gvk_Kind = ''OpenstackSource''\<rparr>
     ''openstacksources'' True (version_controllerFactory v)"

definition version_OvaSource :: "'f version_struct \<Rightarrow> 'f typed_controller" where
  "version_OvaSource v = NewController
     \<lparr>gvk_Group = ''migration.harvesterhci.io'', gvk_Version = ''v1beta1'', gvk_Kind = ''OvaSource''\<rparr>
     ''ovasources'' True (version_controllerFactory v)"

definition version_VirtualMachineImport :: "'f version_struct \<Rightarrow> 'f typed_controller" where
  "version_VirtualMachineImport v = NewController
     \<lparr>gvk_Group = ''migration.harvesterhci.io'', gvk_Version = ''v1beta1'', gvk_Kind = ''VirtualMachineImport''\<rparr>
     ''virtualmachineimports'' True (version_controllerFactory v)"

definition version_VmwareSource :: "'f version_struct \<Rightarrow> 'f typed_controller" where
  "version_VmwareSource v = NewController
     \<lparr>gvk_Group = ''migration.harvesterhci.io'', gvk_Version = ''v1beta1'', gvk_Kind = ''VmwareSource''\<rparr>
     ''vmwaresources'' True (version_controllerFactory v)"

definition group_New :: "'f \<Rightarrow> 'f group_struct" where
  "group_New f = \<lparr>group_controllerFactory = f\<rparr>"

definition group_V1beta1 :: "'f group_struct \<Rightarrow> 'f version_struct" where
  "group_V1beta1 g = version_New (group_controllerFactory g)"

lemmas accessor_defs = version_New_def version_OpenstackSource_def version_OvaSource_def
  version_VirtualMachineImport_def version_VmwareSource_def group_New_def group_V1beta1_def

section \<open>The factory\<close>

text \<open>
  \<open>generic.Factory\<close> (\<open>'g\<close>), its options (\<open>'p\<close>) and the shared controller factory
  (\<open>'f\<close>) are types of the libraries.
\<close>

record ('g, 'p, 'f, 'cfg, 'x) factory_lib =
  generic_NewFactory :: "'cfg \<Rightarrow> 'p option \<Rightarrow> ('x, 'g option \<times> go_error option) call"
  generic_ControllerFactory :: "'g \<Rightarrow> 'f"
  namespace_options :: "string \<Rightarrow> 'p"
  NewSharedControllerFactoryWithAgent :: "string \<Rightarrow> 'f \<Rightarrow> 'f"

text \<open>The embedded pointer, which is nil when the generic factory could not be made.\<close>

record 'g Factory_struct =
  embedded_Factory :: "'g option"

definition NewFactoryFromConfigWithOptions ::
  "('g, 'p, 'f, 'cfg, 'x) factory_lib \<Rightarrow> 'cfg \<Rightarrow> 'p option \<Rightarrow> 'x \<Rightarrow>
   ('g Factory_struct \<times> go_error option) \<times> 'x" where
  "NewFactoryFromConfigWithOptions lib config opts x =
     (let ((f, err), x) = generic_NewFactory lib config opts x
      in ((\<lparr>embedded_Factory = f\<rparr>, err), x))"

definition NewFactoryFromConfig ::
  "('g, 'p, 'f, 'cfg, 'x) factory_lib \<Rightarrow> 'cfg \<Rightarrow> 'x \<Rightarrow> ('g Factory_struct \<times> go_error option) \<times> 'x" where
  "NewFactoryFromConfig lib config x = NewFactoryFromConfigWithOptions lib config None x"

definition NewFactoryFromConfigWithNamespace ::
  "('g, 'p, 'f, 'cfg, 'x) factory_lib \<Rightarrow> 'cfg \<Rightarrow> string \<Rightarrow> 'x \<Rightarrow>
   ('g Factory_struct \<times> go_error option) \<times> 'x" where
  "NewFactoryFromConfigWithNamespace lib config namespace x =
     NewFactoryFromConfigWithOptions lib config (Some (namespace_options lib namespace)) x"

text \<open>The variants that panic on an error.\<close>

definition NewFactoryFromConfigOrDie ::
  "('g, 'p, 'f, 'cfg, 'x) factory_lib \<Rightarrow> 'cfg \<Rightarrow> 'x \<Rightarrow> ('g Factory_struct \<times> 'x) option" where
  "NewFactoryFromConfigOrDie lib config x =
     (case NewFactoryFromConfig lib config x of
        ((f, Some err), x) \<Rightarrow> None
      | ((f, None), x) \<Rightarrow> Some (f, x))"

definition NewFactoryFromConfigWithOptionsOrDie ::
  "('g, 'p, 'f, 'cfg, 'x) factory_lib \<Rightarrow> 'cfg \<Rightarrow> 'p option \<Rightarrow> 'x \<Rightarrow> ('g Factory_struct \<times> 'x) option" where
  "NewFactoryFromConfigWithOptionsOrDie lib config opts x =
     (case NewFactoryFromConfigWithOptions lib config opts x of
        ((f, Some err), x) \<Rightarrow> None
      | ((f, None), x) \<Rightarrow> Some (f, x))"

text \<open>A nil embedded factory is a nil dereference.\<close>

definition Factory_Migration ::
  "('g, 'p, 'f, 'cfg, 'x) factory_lib \<Rightarrow> 'g Factory_struct \<Rightarrow> 'f group_struct option" where
  "Factory_Migration lib c =
     map_option (\<lambda>g. group_New (generic_ControllerFactory lib g)) (embedded_Factory c)"

definition Factory_WithAgent ::
  "('g, 'p, 'f, 'cfg, 'x) factory_lib \<Rightarrow> string \<Rightarrow> 'g Factory_struct \<Rightarrow> 'f group_struct option" where
  "Factory_WithAgent lib userAgent c =
     map_option (\<lambda>g. group_New (NewSharedControllerFactoryWithAgent lib userAgent
       (generic_ControllerFactory lib g))) (embedded_Factory c)"

section \<open>The declarations agree\<close>

text \<open>
  The kind each controller watches is the kind of the group version by which its objects are
  made, its resource name is the declared one, and its type and list type are in the scheme.
\<close>

fun object_type :: "string \<Rightarrow> (KnownType \<times> KnownType) option" where
  "object_type kind =
     (if kind = ''OpenstackSource'' then Some (OpenstackSourceType, OpenstackSourceListType)
      else if kind = ''OvaSource'' then Some (OvaSourceType, OvaSourceListType)
      else if kind = ''VirtualMachineImport'' then Some (VirtualMachineImportType, VirtualMachineImportListType)
      else if kind = ''VmwareSource'' then Some (VmwareSourceType, VmwareSourceListType)
      else None)"

definition controllers_of :: "'f group_struct \<Rightarrow> (string \<times> 'f typed_controller) list" where
  "controllers_of g =
     [(OpenstackSourceResourceName, version_OpenstackSource (group_V1beta1 g)),
      (OvaSourceResourceName, version_OvaSource (group_V1beta1 g)),
      (VirtualMachineImportResourceName, version_VirtualMachineImport (group_V1beta1 g)),
      (VmwareSourceResourceName, version_VmwareSource (group_V1beta1 g))]"

lemma controllers_agree:
  assumes "\<And>gv k. WithKind lib gv k = \<lparr>gvk_Group = gv_Group gv, gvk_Version = gv_Version gv, gvk_Kind = k\<rparr>"
    and "(resource, c) \<in> set (controllers_of g)"
  shows "\<exists>kind t l. c = NewController (WithKind lib SchemeGroupVersion kind) resource True
       (group_controllerFactory g) \<and> object_type kind = Some (t, l) \<and> {t, l} \<subseteq> set known_types"
  using assms(2)
  by (auto simp: controllers_of_def accessor_defs assms(1) SchemeGroupVersion_def GroupName_def
      OpenstackSourceResourceName_def OvaSourceResourceName_def VirtualMachineImportResourceName_def
      VmwareSourceResourceName_def known_types_def)

end
