(* ===== verification/Startup.thy ===== *)
theory Startup
  imports TempFiles GeneratedTypes
begin

text \<open>
  The start of the process: the scheme and the log level of \<open>main.go\<close>, the custom resource
  definitions of \<open>pkg/crd/crd.go\<close>, \<open>Start\<close> and \<open>Register\<close> of
  \<open>pkg/controllers/controllers.go\<close>, the four \<open>Register\<close> functions of
  \<open>pkg/controllers/migration\<close>, and the two goroutines that \<open>main\<close> waits for: the
  controllers, and the file server of \<open>pkg/server/server.go\<close>.

  The client libraries are the record \<open>wrangler\<close> of parameters. The goroutines are a step
  relation: each step is a call that returns, and steps of different goroutines interleave.
\<close>

record 'x wrangler =
  wr_scheme :: "'x scheme_lib"
  wr_AddToScheme :: "string \<Rightarrow> ('x, go_error option) call"
  wr_Getenv :: "string \<Rightarrow> ('x, string) call"
  wr_WithColumn :: "CRD \<Rightarrow> string \<Rightarrow> string \<Rightarrow> CRD"
  wr_NewFactoryFromClient :: "('x, go_error option) call"
  wr_BatchCreateCRDs :: "CRD list \<Rightarrow> ('x, go_error option) call"
  wr_NewSharedClientFactory :: "('x, go_error option) call"
  wr_NewFactory :: "Factory \<Rightarrow> ('x, go_error option) call"
  wr_start_All :: "int \<Rightarrow> Factory list \<Rightarrow> ('x, go_error option) call"
  wr_ClientConfig :: "('x, go_error option) call"
  wr_Stat :: "('x, go_error option) call"
  wr_Mkdir :: "string \<Rightarrow> ('x, go_error option) call"

text \<open>\<open>if err != nil { return err }\<close>.\<close>

definition if_ok ::
  "go_error option \<times> 'x go_world \<Rightarrow> ('x go_world \<Rightarrow> go_error option \<times> 'x go_world) \<Rightarrow>
   go_error option \<times> 'x go_world" where
  "if_ok r f = (case r of (Some err, w) \<Rightarrow> (Some err, w) | (None, w) \<Rightarrow> f w)"

text \<open>A call of the libraries that is recorded together with its success.\<close>

definition started ::
  "(bool \<Rightarrow> start_event) \<Rightarrow> ('x, go_error option) call \<Rightarrow> 'x go_world \<Rightarrow>
   go_error option \<times> 'x go_world" where
  "started ev f w = effect (\<lambda>r. EvStart (ev (r = None))) f w"

section \<open>\<open>init\<close> of main.go\<close>

text \<open>\<open>log.Fatalf\<close> ends the process: \<open>Some\<close> is its message.\<close>

definition main_init :: "'x wrangler \<Rightarrow> 'x go_world \<Rightarrow> go_error option \<times> 'x go_world" where
  "main_init lib w =
     (case AddToScheme (wr_scheme lib) w of
        (Some err, w) \<Rightarrow> (Some (Wrapf ''failed to add source scheme, '' err), w)
      | (None, w) \<Rightarrow>
     (case started (SchemeAdded ''harvesterv1beta1'') (wr_AddToScheme lib ''harvesterv1beta1'') w of
        (Some err, w) \<Rightarrow> (Some (Wrapf ''failed to add harvesterv1beta1 scheme, '' err), w)
      | (None, w) \<Rightarrow>
     (case started (SchemeAdded ''kubevirtv1'') (wr_AddToScheme lib ''kubevirtv1'') w of
        (Some err, w) \<Rightarrow> (Some (Wrapf ''failed to add kubevirtv1 scheme, '' err), w)
      | (None, w) \<Rightarrow>
          (let (debug, w) = query (wr_Getenv lib ''DEBUG'') w
           in (None, if debug = ''true'' \<or> debug = ''TRUE'' then mark (EvStart DebugLevel) w else w)))))"

section \<open>Custom resource definitions\<close>

definition newCRD :: "string \<Rightarrow> SchemaObject \<Rightarrow> (CRD \<Rightarrow> CRD) option \<Rightarrow> CRD" where
  "newCRD crdGroup obj customize =
     (let crd = \<lparr>crd_Group = crdGroup, crd_Version = ''v1beta1'', crd_Status = True,
                 crd_NonNamespace = False, crd_SchemaObject = obj, crd_Columns = []\<rparr>
      in case customize of Some f \<Rightarrow> f crd | None \<Rightarrow> crd)"

definition crd_List :: "'x wrangler \<Rightarrow> CRD list" where
  "crd_List lib =
     [newCRD ''migration.harvesterhci.io'' VmwareSourceObject
        (Some (\<lambda>c. wr_WithColumn lib c ''Status'' ''.status.status'')),
      newCRD ''migration.harvesterhci.io'' OvaSourceObject
        (Some (\<lambda>c. wr_WithColumn lib c ''Status'' ''.status.status'')),
      newCRD ''migration.harvesterhci.io'' OpenstackSourceObject
        (Some (\<lambda>c. wr_WithColumn lib c ''Status'' ''.status.status'')),
      newCRD ''migration.harvesterhci.io'' VirtualMachineImportObject
        (Some (\<lambda>c. wr_WithColumn lib c ''Status'' ''.status.importStatus''))]"

definition crd_Create :: "'x wrangler \<Rightarrow> 'x go_world \<Rightarrow> go_error option \<times> 'x go_world" where
  "crd_Create lib w =
     if_ok (query (wr_NewFactoryFromClient lib) w) (\<lambda>w.
       started (BatchCreated (crd_List lib)) (wr_BatchCreateCRDs lib (crd_List lib)) w)"

section \<open>Registration of the handlers\<close>

definition RegisterVmwareController :: "Controller \<Rightarrow> Controller \<Rightarrow> 'x go_world \<Rightarrow> 'x go_world" where
  "RegisterVmwareController source secret w =
     (let vHandler = VmwareSourceChange source secret
      in mark (EvStart (Registered source ''vmware-source-change'' vHandler)) w)"

definition RegisterOvaController :: "Controller \<Rightarrow> Controller \<Rightarrow> 'x go_world \<Rightarrow> 'x go_world" where
  "RegisterOvaController source secret w =
     (let handler = OvaSourceChange source secret
      in mark (EvStart (Registered source ''ova-source-change'' handler)) w)"

definition RegisterOpenstackController :: "Controller \<Rightarrow> Controller \<Rightarrow> 'x go_world \<Rightarrow> 'x go_world"
  where
  "RegisterOpenstackController source secret w =
     (let oHandler = OpenstackSourceChange source secret
      in mark (EvStart (Registered source ''openstack-source-change'' oHandler)) w)"

definition vmImportControllerName :: string where
  "vmImportControllerName = ''virtualmachine-import-controller''"

definition RegisterVMImportController ::
  "Controller \<Rightarrow> Controller \<Rightarrow> Controller \<Rightarrow> Controller \<Rightarrow> Controller \<Rightarrow> Controller \<Rightarrow> Controller \<Rightarrow>
   Controller \<Rightarrow> Cache \<Rightarrow> Cache \<Rightarrow> 'x go_world \<Rightarrow> 'x go_world" where
  "RegisterVMImportController vmware openstack ova secret importVM vmi kubevirt pvc scCache nadCache w =
     (let vmHandler = \<lparr>hc_vmware = vmware, hc_ova = ova, hc_openstack = openstack, hc_secret = secret,
            hc_importVM = importVM, hc_vmi = vmi, hc_kubevirt = kubevirt, hc_pvc = pvc,
            hc_sc = scCache, hc_nadCache = nadCache\<rparr>;
          w = mark (EvStart (Watched ''virtualmachineimage-change'' (ReconcileImage vmHandler) importVM vmi)) w;
          w = mark (EvStart (Registered importVM vmImportControllerName (VirtualMachineChange vmHandler))) w
      in mark (EvStart (RegisteredRemove importVM vmImportControllerName (VirtualMachineRemove vmHandler))) w)"

section \<open>\<open>Register\<close> and \<open>Start\<close>\<close>

text \<open>The accessors of the generated factories, as in
  \<open>migrationFactory.Migration().V1beta1().VmwareSource()\<close>.\<close>

definition vmware_controller :: Controller where
  "vmware_controller = TypedController MigrationFactory ''VmwareSource''"
definition ova_controller :: Controller where
  "ova_controller = TypedController MigrationFactory ''OvaSource''"
definition openstack_controller :: Controller where
  "openstack_controller = TypedController MigrationFactory ''OpenstackSource''"
definition import_controller :: Controller where
  "import_controller = TypedController MigrationFactory ''VirtualMachineImport''"
definition secret_controller :: Controller where
  "secret_controller = TypedController CoreFactory ''Secret''"
definition pvc_controller :: Controller where
  "pvc_controller = TypedController CoreFactory ''PersistentVolumeClaim''"
definition vmi_controller :: Controller where
  "vmi_controller = TypedController HarvesterFactory ''VirtualMachineImage''"
definition vm_controller :: Controller where
  "vm_controller = TypedController KubevirtFactory ''VirtualMachine''"
definition sc_cache :: Cache where
  "sc_cache = CacheOf (TypedController StorageFactory ''StorageClass'')"
definition nad_cache :: Cache where
  "nad_cache = CacheOf (TypedController CniFactory ''NetworkAttachmentDefinition'')"

text \<open>The factories take the shared controller factory; KubeVirt's takes the shared cache too.\<close>

definition newFactory ::
  "'x wrangler \<Rightarrow> Factory \<Rightarrow> bool \<Rightarrow> 'x go_world \<Rightarrow> go_error option \<times> 'x go_world" where
  "newFactory lib f cache w = started (FactoryMade f cache) (wr_NewFactory lib f) w"

definition controller_options :: factory_options where
  "controller_options = \<lparr>backoff_base = 5, backoff_max = 5 * 60 * 1000, DefaultWorkers = 5\<rparr>"

definition Register :: "'x wrangler \<Rightarrow> 'x go_world \<Rightarrow> go_error option \<times> 'x go_world" where
  "Register lib w =
     if_ok (query (wr_NewSharedClientFactory lib) w) (\<lambda>w.
     let w = mark (EvStart (ControllerFactory controller_options)) w in
     if_ok (newFactory lib MigrationFactory False w) (\<lambda>w.
     if_ok (newFactory lib CoreFactory False w) (\<lambda>w.
     if_ok (newFactory lib HarvesterFactory False w) (\<lambda>w.
     if_ok (newFactory lib KubevirtFactory True w) (\<lambda>w.
     if_ok (newFactory lib StorageFactory False w) (\<lambda>w.
     if_ok (newFactory lib CniFactory False w) (\<lambda>w.
     let w = RegisterVmwareController vmware_controller secret_controller w;
         w = RegisterOvaController ova_controller secret_controller w;
         w = RegisterOpenstackController openstack_controller secret_controller w;
         w = RegisterVMImportController vmware_controller openstack_controller ova_controller
               secret_controller import_controller vmi_controller vm_controller pvc_controller
               sc_cache nad_cache w;
         factories = [MigrationFactory, CoreFactory, HarvesterFactory, KubevirtFactory,
                      StorageFactory, CniFactory]
     in started (StartedAll 1 factories) (wr_start_All lib 1 factories) w)))))))"

text \<open>\<open>Start\<close> up to its wait for \<open>ctx.Done()\<close>.\<close>

definition Start :: "'x wrangler \<Rightarrow> 'x go_world \<Rightarrow> go_error option \<times> 'x go_world" where
  "Start lib w = if_ok (crd_Create lib w) (Register lib)"

section \<open>The order of the start\<close>

text \<open>
  What a complete start records. A start that fails records an initial part of it, the last
  call of which failed.
\<close>

definition import_clients :: handler_clients where
  "import_clients =
     \<lparr>hc_vmware = TypedController MigrationFactory ''VmwareSource'',
      hc_ova = TypedController MigrationFactory ''OvaSource'',
      hc_openstack = TypedController MigrationFactory ''OpenstackSource'',
      hc_secret = TypedController CoreFactory ''Secret'',
      hc_importVM = TypedController MigrationFactory ''VirtualMachineImport'',
      hc_vmi = TypedController HarvesterFactory ''VirtualMachineImage'',
      hc_kubevirt = TypedController KubevirtFactory ''VirtualMachine'',
      hc_pvc = TypedController CoreFactory ''PersistentVolumeClaim'',
      hc_sc = CacheOf (TypedController StorageFactory ''StorageClass''),
      hc_nadCache = CacheOf (TypedController CniFactory ''NetworkAttachmentDefinition'')\<rparr>"

definition start_script :: "'x wrangler \<Rightarrow> (bool \<Rightarrow> start_event) list" where
  "start_script lib =
     (let secret = hc_secret import_clients; kinds = [MigrationFactory, CoreFactory, HarvesterFactory,
            KubevirtFactory, StorageFactory, CniFactory]
      in [BatchCreated (crd_List lib), \<lambda>_. ControllerFactory controller_options] @
         map (\<lambda>f. FactoryMade f (f = KubevirtFactory)) kinds @
         [\<lambda>_. Registered (hc_vmware import_clients) ''vmware-source-change''
            (VmwareSourceChange (hc_vmware import_clients) secret),
          \<lambda>_. Registered (hc_ova import_clients) ''ova-source-change''
            (OvaSourceChange (hc_ova import_clients) secret),
          \<lambda>_. Registered (hc_openstack import_clients) ''openstack-source-change''
            (OpenstackSourceChange (hc_openstack import_clients) secret),
          \<lambda>_. Watched ''virtualmachineimage-change'' (ReconcileImage import_clients)
            (hc_importVM import_clients) (hc_vmi import_clients),
          \<lambda>_. Registered (hc_importVM import_clients) vmImportControllerName
            (VirtualMachineChange import_clients),
          \<lambda>_. RegisteredRemove (hc_importVM import_clients) vmImportControllerName
            (VirtualMachineRemove import_clients),
          StartedAll 1 kinds])"

text \<open>\<open>follows s w r\<close>: the computation with result \<open>r\<close>, started in \<open>w\<close>, records the script
  \<open>s\<close> to its end if it succeeds, and an initial part of it if it fails.\<close>

definition follows ::
  "(bool \<Rightarrow> start_event) list \<Rightarrow> 'x go_world \<Rightarrow> go_error option \<times> 'x go_world \<Rightarrow> bool" where
  "follows s w r \<longleftrightarrow>
     (case r of
        (None, w') \<Rightarrow> log w' = log w @ map (\<lambda>ev. EvStart (ev True)) s
      | (Some err, w') \<Rightarrow>
          \<exists>n < length s. \<exists>last \<in> {[], [EvStart ((s ! n) False)]}.
            log w' = log w @ map (\<lambda>ev. EvStart (ev True)) (take n s) @ last)"

lemma follows_cong: "log v = log w \<Longrightarrow> follows s v r \<Longrightarrow> follows s w r"
  by (simp add: follows_def split: prod.splits option.splits)

lemma follows_step:
  assumes "log v = log w @ [EvStart (ev True)]" "follows s v r"
  shows "follows (ev # s) w r"
proof -
  obtain err w' where r: "r = (err, w')"
    by (cases r)
  show ?thesis
  proof (cases err)
    case None
    then show ?thesis using assms by (simp add: follows_def r)
  next
    case (Some e)
    with assms obtain n last where "n < length s" "last \<in> {[], [EvStart ((s ! n) False)]}"
        "log w' = log v @ map (\<lambda>ev. EvStart (ev True)) (take n s) @ last"
      unfolding follows_def r by (simp only: prod.case option.case) blast
    with assms(1) Some show ?thesis
      unfolding follows_def r by (auto intro!: exI [of _ "Suc n"])
  qed
qed

lemma follows_started:
  assumes "\<And>v. follows s v (f v)"
  shows "follows (ev # s) w (if_ok (started ev g w) f)"
proof (cases "started ev g w")
  case (Pair r v)
  then have v: "log v = log w @ [EvStart (ev (r = None))]"
    by (auto simp: started_def dest: effect_log)
  show ?thesis
  proof (cases r)
    case None
    then show ?thesis using v Pair by (simp add: if_ok_def follows_step [OF _ assms])
  next
    case (Some e)
    then show ?thesis using v Pair by (auto simp: if_ok_def follows_def intro!: exI [of _ 0])
  qed
qed

lemma follows_last: "follows [ev] w (started ev g w)"
  by (cases "started ev g w") (auto simp: follows_def started_def dest!: effect_log split: option.splits)

lemma follows_query:
  assumes "s \<noteq> []" "\<And>v. follows s v (f v)"
  shows "follows s w (if_ok (query g w) f)"
proof (cases "query g w")
  case (Pair r v)
  then have v: "log v = log w"
    by (rule query_log)
  show ?thesis
  proof (cases r)
    case None
    then show ?thesis using Pair by (simp add: if_ok_def follows_cong [OF v assms(2)])
  next
    case (Some e)
    then show ?thesis using v Pair assms(1) by (auto simp: if_ok_def follows_def intro!: exI [of _ 0])
  qed
qed

lemma follows_mark: "follows s (mark (EvStart e) w) r \<Longrightarrow> follows ((\<lambda>_. e) # s) w r"
  by (erule follows_step [rotated]) simp

lemmas follows_rules = follows_started follows_last follows_query follows_mark

lemma crd_Create_follows:
  "s \<noteq> [] \<Longrightarrow> (\<And>v. follows s v (f v)) \<Longrightarrow>
   follows (BatchCreated (crd_List lib) # s) w (if_ok (crd_Create lib w) f)"
proof -
  assume s: "s \<noteq> []" and f: "\<And>v. follows s v (f v)"
  have "if_ok (crd_Create lib w) f =
      if_ok (query (wr_NewFactoryFromClient lib) w) (\<lambda>w.
        if_ok (started (BatchCreated (crd_List lib)) (wr_BatchCreateCRDs lib (crd_List lib)) w) f)"
    by (simp add: crd_Create_def if_ok_def split: prod.split option.split)
  then show ?thesis
    using f by (simp add: follows_query follows_started)
qed

lemma Start_follows: "follows (start_script lib) w (Start lib w)"
  unfolding Start_def start_script_def Let_def append_Cons append_Nil list.map
  by (rule crd_Create_follows, simp)
    (simp add: Register_def newFactory_def RegisterVmwareController_def RegisterOvaController_def
      RegisterOpenstackController_def RegisterVMImportController_def Let_def import_clients_def
      vmware_controller_def ova_controller_def openstack_controller_def import_controller_def
      secret_controller_def pvc_controller_def vmi_controller_def vm_controller_def sc_cache_def
      nad_cache_def follows_rules)

section \<open>The goroutines of \<open>main\<close>\<close>

text \<open>
  \<open>main\<close> waits for an \<open>errgroup\<close> of two goroutines, which share the context of the
  group: \<open>controllers.Start\<close> and \<open>server.NewServer\<close>. \<open>newServer\<close> waits for a second
  group: \<open>ListenAndServe\<close>, and a goroutine that waits for the context of the \<^emph>\<open>first\<close> group and
  then calls \<open>Shutdown\<close>. The context of the second group is discarded.

  What the relation takes from the documentation of the libraries: \<open>Wait\<close> returns once every
  function of its group has returned, with the first error that is not nil; that first error
  cancels the context of the group; so does a signal. \<open>ListenAndServe\<close> always returns an
  error, and \<open>ErrServerClosed\<close> only once \<open>Shutdown\<close> has been called.
\<close>

definition ErrServerClosed :: go_error where
  "ErrServerClosed = Errorf ''http: Server closed''"

record http_server =
  http_Addr :: string
  http_ReadHeaderTimeout :: int
  http_Dir :: string

datatype start_goroutine = StartCalled | StartWaits | StartReturned "go_error option"

datatype shutdown_goroutine = ShutdownWaits | ShutdownCalled | ShutdownReturned "go_error option"

text \<open>A server that runs: its settings (durations in nanoseconds), the result of \<open>ListenAndServe\<close> once it has
  returned, the goroutine that shuts it down, and the first error of their group.\<close>

datatype server_goroutine =
    ServerCalled
  | Serving http_server "go_error option" shutdown_goroutine "go_error option"
  | ServerReturned "go_error option"

datatype process_exit = MainReturned | LogFatal go_error

record 'x process =
  process_world :: "'x go_world"
  ctx_Done :: bool
  start_goroutine :: start_goroutine
  server_goroutine :: server_goroutine
  group_err :: "go_error option"
  process_exit :: "process_exit option"

definition first_error :: "go_error option \<Rightarrow> go_error option \<Rightarrow> go_error option" where
  "first_error e e' = (if e = None then e' else e)"

text \<open>A function of the first group returns.\<close>

definition group_return :: "go_error option \<Rightarrow> 'x process \<Rightarrow> 'x process" where
  "group_return err p =
     p\<lparr>group_err := first_error (group_err p) err, ctx_Done := ctx_Done p \<or> err \<noteq> None\<rparr>"

text \<open>\<open>init\<close> and \<open>main\<close> up to the start of the goroutines.\<close>

definition process_at :: "'x go_world \<Rightarrow> process_exit option \<Rightarrow> 'x process" where
  "process_at w ex = \<lparr>process_world = w, ctx_Done = False, start_goroutine = StartCalled,
     server_goroutine = ServerCalled, group_err = None, process_exit = ex\<rparr>"

definition main_process :: "'x wrangler \<Rightarrow> 'x go_world \<Rightarrow> 'x process" where
  "main_process lib w =
     (case main_init lib w of
        (Some err, w) \<Rightarrow> process_at w (Some (LogFatal err))
      | (None, w) \<Rightarrow>
          (case query (wr_ClientConfig lib) w of
             (Some err, w) \<Rightarrow> process_at w (Some (LogFatal err))
           | (None, w) \<Rightarrow> process_at w None))"

text \<open>\<open>controllers.Start\<close>: what it does before it waits, and its return.\<close>

definition start_returns :: "go_error option \<Rightarrow> 'x process \<Rightarrow> 'x process" where
  "start_returns err p = group_return err (p\<lparr>start_goroutine := StartReturned err\<rparr>)"

definition start_runs :: "'x wrangler \<Rightarrow> 'x process \<Rightarrow> 'x process" where
  "start_runs lib p =
     (case Start lib (process_world p) of
        (Some err, w) \<Rightarrow> start_returns (Some err) (p\<lparr>process_world := w\<rparr>)
      | (None, w) \<Rightarrow> p\<lparr>process_world := w, start_goroutine := StartWaits\<rparr>)"

text \<open>\<open>server.NewServer\<close>: the directory, the settings of the server, and its return.\<close>

definition newServer :: "string \<Rightarrow> server_goroutine" where
  "newServer path =
     Serving \<lparr>http_Addr = CHR '':'' # show_int DefaultPort, http_ReadHeaderTimeout = 10 * 1000000000,
              http_Dir = path\<rparr> None ShutdownWaits None"

definition server_returns :: "go_error option \<Rightarrow> 'x process \<Rightarrow> 'x process" where
  "server_returns err p = group_return err (p\<lparr>server_goroutine := ServerReturned err\<rparr>)"

definition NewServer :: "'x wrangler \<Rightarrow> 'x process \<Rightarrow> 'x process" where
  "NewServer lib p =
     (case createTempDir (wr_Stat lib) (wr_Mkdir lib) (process_world p) of
        (Some err, w) \<Rightarrow> server_returns (Some err) (p\<lparr>process_world := w\<rparr>)
      | (None, w) \<Rightarrow> p\<lparr>process_world := w, server_goroutine := newServer tmpDir\<rparr>)"

text \<open>
  The steps the process owes: each is a call that returns without anything from outside.
  \<open>ListenAndServe\<close> owes its return only once \<open>Shutdown\<close> has been called; a server that is never
  shut down may serve for ever. The shutdown goroutine waits for \<open>ctx\<close>, the context of the first
  group.
\<close>

inductive owed_step :: "'x wrangler \<Rightarrow> 'x process \<Rightarrow> 'x process \<Rightarrow> bool" for lib where
  StartRuns: "process_exit p = None \<Longrightarrow> start_goroutine p = StartCalled \<Longrightarrow>
    owed_step lib p (start_runs lib p)"
| StartStops: "process_exit p = None \<Longrightarrow> start_goroutine p = StartWaits \<Longrightarrow> ctx_Done p \<Longrightarrow>
    owed_step lib p (start_returns None p)"
| ServerStarts: "process_exit p = None \<Longrightarrow> server_goroutine p = ServerCalled \<Longrightarrow>
    owed_step lib p (NewServer lib p)"
| ShutdownCalls: "process_exit p = None \<Longrightarrow> server_goroutine p = Serving srv l ShutdownWaits e \<Longrightarrow>
    ctx_Done p \<Longrightarrow> owed_step lib p (p\<lparr>server_goroutine := Serving srv l ShutdownCalled e\<rparr>)"
| ShutdownReturns: "process_exit p = None \<Longrightarrow> server_goroutine p = Serving srv l ShutdownCalled e \<Longrightarrow>
    owed_step lib p (p\<lparr>server_goroutine := Serving srv l (ShutdownReturned err) (first_error e err)\<rparr>)"
| ListenStops: "process_exit p = None \<Longrightarrow> server_goroutine p = Serving srv None sh e \<Longrightarrow>
    sh \<noteq> ShutdownWaits \<Longrightarrow>
    owed_step lib p
      (p\<lparr>server_goroutine := Serving srv (Some ErrServerClosed) sh (first_error e (Some ErrServerClosed))\<rparr>)"
| ServerStops: "process_exit p = None \<Longrightarrow>
    server_goroutine p = Serving srv (Some err) (ShutdownReturned r) e \<Longrightarrow>
    owed_step lib p (server_returns e p)"
| MainReturns: "process_exit p = None \<Longrightarrow> start_goroutine p = StartReturned r \<Longrightarrow>
    server_goroutine p = ServerReturned s \<Longrightarrow>
    owed_step lib p
      (p\<lparr>process_exit := Some (case group_err p of None \<Rightarrow> MainReturned | Some err \<Rightarrow> LogFatal err)\<rparr>)"

text \<open>
  What the process may do: what it owes, a signal, and a failure of \<open>ListenAndServe\<close>. The last two come
  from outside, at any time or never.
\<close>

inductive process_step :: "'x wrangler \<Rightarrow> 'x process \<Rightarrow> 'x process \<Rightarrow> bool" for lib where
  Owed: "owed_step lib p q \<Longrightarrow> process_step lib p q"
| Signal: "process_exit p = None \<Longrightarrow> \<not> ctx_Done p \<Longrightarrow> process_step lib p (p\<lparr>ctx_Done := True\<rparr>)"
| ListenFails: "process_exit p = None \<Longrightarrow> server_goroutine p = Serving srv None sh e \<Longrightarrow>
    err \<noteq> ErrServerClosed \<Longrightarrow>
    process_step lib p
      (p\<lparr>server_goroutine := Serving srv (Some err) sh (first_error e (Some err))\<rparr>)"

inductive_cases owed_stepE: "owed_step lib p q"
inductive_cases process_stepE: "process_step lib p q"

section \<open>What the process can do\<close>

text \<open>The states of the process reached from its start.\<close>

inductive process_runs :: "'x wrangler \<Rightarrow> 'x go_world \<Rightarrow> 'x process \<Rightarrow> bool" for lib w where
  ProcessStarts: "process_runs lib w (main_process lib w)"
| ProcessSteps: "process_runs lib w p \<Longrightarrow> process_step lib p q \<Longrightarrow> process_runs lib w q"

text \<open>
  A server that has returned has returned an error, which the first group holds; a start that
  has returned leaves the context cancelled.
\<close>

definition process_inv :: "'x process \<Rightarrow> bool" where
  "process_inv p \<longleftrightarrow>
     process_exit p \<noteq> Some MainReturned \<and>
     (\<forall>e. server_goroutine p = ServerReturned e \<longrightarrow> group_err p \<noteq> None) \<and>
     (\<forall>srv l sh e. server_goroutine p = Serving srv l sh e \<longrightarrow>
        (l \<noteq> None \<longrightarrow> e \<noteq> None) \<and> (sh \<noteq> ShutdownWaits \<longrightarrow> ctx_Done p)) \<and>
     (\<forall>e. start_goroutine p = StartReturned e \<longrightarrow> ctx_Done p) \<and>
     (group_err p \<noteq> None \<longrightarrow> ctx_Done p)"

lemma process_inv_start: "process_inv (main_process lib w)"
  by (simp add: process_inv_def main_process_def process_at_def split: prod.split option.split)

lemmas process_defs = group_return_def start_returns_def start_runs_def server_returns_def
  NewServer_def newServer_def first_error_def

lemma process_inv_owed: "owed_step lib p q \<Longrightarrow> process_inv p \<Longrightarrow> process_inv q"
  by (erule owed_step.cases)
    (auto simp: process_inv_def process_defs split: prod.splits option.splits)

lemma process_inv_step: "process_step lib p q \<Longrightarrow> process_inv p \<Longrightarrow> process_inv q"
proof (erule process_step.cases)
  show "process_inv q" if "process_inv p" "p = p'" "q = q'" "owed_step lib p' q'" for p' q'
    using that process_inv_owed by blast
qed (auto simp: process_inv_def first_error_def)

lemma process_inv_runs: "process_runs lib w p \<Longrightarrow> process_inv p"
  by (induction rule: process_runs.induct) (auto intro: process_inv_start process_inv_step)

text \<open>Every step uses up some of the work that is left.\<close>

definition start_rank :: "start_goroutine \<Rightarrow> nat" where
  "start_rank s = (case s of StartCalled \<Rightarrow> 2 | StartWaits \<Rightarrow> 1 | StartReturned e \<Rightarrow> 0)"

definition server_rank :: "server_goroutine \<Rightarrow> nat" where
  "server_rank s =
     (case s of
        ServerCalled \<Rightarrow> 5
      | Serving srv l sh e \<Rightarrow>
          1 + (if l = None then 1 else 0) +
          (case sh of ShutdownWaits \<Rightarrow> 2 | ShutdownCalled \<Rightarrow> 1 | ShutdownReturned r \<Rightarrow> 0)
      | ServerReturned e \<Rightarrow> 0)"

definition work_left :: "'x process \<Rightarrow> nat" where
  "work_left p =
     (if process_exit p \<noteq> None then 0
      else 1 + start_rank (start_goroutine p) + server_rank (server_goroutine p) +
        (if ctx_Done p then 0 else 1))"

lemmas work_defs = work_left_def start_rank_def server_rank_def

lemma owed_step_work: "owed_step lib p q \<Longrightarrow> work_left q < work_left p"
  by (erule owed_stepE)
    (auto simp: work_defs process_defs split: prod.splits option.splits)

lemma process_step_work: "process_step lib p q \<Longrightarrow> work_left q < work_left p"
  by (erule process_stepE) (erule owed_step_work, auto simp: work_defs)

lemma process_steps_work: "(process_step lib ^^ n) p q \<Longrightarrow> work_left q + n \<le> work_left p"
proof (induction n arbitrary: q)
  case 0
  then show ?case by simp
next
  case (Suc n)
  then obtain r where "(process_step lib ^^ n) p r" "process_step lib r q"
    by auto
  then show ?case
    using Suc.IH process_step_work by fastforce
qed

lemma process_runs_steps: "(process_step lib ^^ n) p q \<Longrightarrow> process_runs lib w p \<Longrightarrow> process_runs lib w q"
  by (induction n arbitrary: q) (auto intro: ProcessSteps)

lemma ctx_Done_owed: "owed_step lib p q \<Longrightarrow> ctx_Done p \<Longrightarrow> ctx_Done q"
  by (erule owed_stepE) (auto simp: process_defs split: prod.splits option.splits)

lemma ctx_Done_step: "process_step lib p q \<Longrightarrow> ctx_Done p \<Longrightarrow> ctx_Done q"
  by (erule process_stepE) (auto simp: ctx_Done_owed)

lemma ctx_Done_steps: "(process_step lib ^^ n) p q \<Longrightarrow> ctx_Done p \<Longrightarrow> ctx_Done q"
  by (induction n arbitrary: q) (auto intro: ctx_Done_step)

text \<open>A process whose context is cancelled owes a step until it has ended.\<close>

lemma process_progress:
  assumes "ctx_Done p" "process_exit p = None"
  shows "\<exists>q. owed_step lib p q"
proof (cases "server_goroutine p")
  case ServerCalled
  then show ?thesis using assms by (blast intro: ServerStarts)
next
  case (Serving srv l sh e)
  then show ?thesis
    using assms
    by (cases sh; cases l)
      (blast intro: ShutdownCalls ShutdownReturns ServerStops ListenStops)+
next
  case server: (ServerReturned s)
  show ?thesis
    using assms server
    by (cases "start_goroutine p") (blast intro: StartRuns StartStops MainReturns)+
qed

text \<open>
  C22. \<open>controllers.Start\<close> does its work in one order: it creates the four custom resource
  definitions, makes the controller factory and the six typed factories, registers the handlers
  of the three sources, the watch on images and the two handlers of imports, each with the
  controllers of its own kind, and starts all factories. If a call fails nothing after it is done,
  so no handler is registered before the definitions exist, and nothing is started halfway.
\<close>

theorem Start_in_order: "follows (start_script lib) w (Start lib w)"
  by (rule Start_follows)

text \<open>
  C21. Once its context is cancelled, by a signal or by an error, the process takes at most eight more
  steps, whatever its goroutines were doing, and it owes one until it has ended: it does not wait for
  anything from outside, such as another signal or a failure of the listener. It always ends through \<open>log.Fatal\<close>: \<open>main\<close>
  never returns, because \<open>ListenAndServe\<close> reports \<open>ErrServerClosed\<close> for an orderly
  shutdown and that error is passed up to \<open>main\<close>.
\<close>

theorem process_shutdown:
  assumes "process_runs lib w p" "ctx_Done p" "(process_step lib ^^ n) p q"
  shows "n \<le> 8 \<and> ((\<nexists>r. owed_step lib q r) \<longrightarrow> (\<exists>err. process_exit q = Some (LogFatal err)))"
proof (intro conjI impI)
  have "work_left p \<le> 8"
    using assms(2) by (auto simp: work_defs split: start_goroutine.split server_goroutine.split
        shutdown_goroutine.split)
  then show "n \<le> 8"
    using process_steps_work [OF assms(3)] by linarith
  have "process_inv q"
    by (rule process_inv_runs [OF process_runs_steps [OF assms(3,1)]])
  moreover have "ctx_Done q"
    by (rule ctx_Done_steps [OF assms(3,2)])
  ultimately show "\<exists>err. process_exit q = Some (LogFatal err)" if "\<nexists>r. owed_step lib q r"
    using that process_progress [of q lib]
    by (cases "process_exit q"; cases "the (process_exit q)") (auto simp: process_inv_def)
qed

text \<open>
  C32. If \<open>ListenAndServe\<close> fails while the controllers run, say because the port is taken,
  nothing happens: the only step the process can take is a signal from outside. The file server is
  gone, the controllers go on, and the images they create are to be downloaded from it.
\<close>

theorem server_failure_unnoticed:
  assumes "process_runs lib w p" "start_goroutine p = StartWaits" "\<not> ctx_Done p"
    and "server_goroutine p = Serving srv (Some err) sh e" "process_exit p = None"
  shows "process_step lib p q \<longleftrightarrow> q = p\<lparr>ctx_Done := True\<rparr>"
proof
  have "sh = ShutdownWaits"
    using process_inv_runs [OF assms(1)] assms(3,4) by (auto simp: process_inv_def)
  then show "q = p\<lparr>ctx_Done := True\<rparr>" if "process_step lib p q"
    using that assms(2-5) by (auto elim!: process_stepE owed_stepE)
  show "process_step lib p q" if "q = p\<lparr>ctx_Done := True\<rparr>"
    using that assms(3,5) by (auto intro: Signal)
qed

section \<open>A run\<close>

text \<open>A cluster that answers every call.\<close>

definition ex_wrangler :: "nat wrangler" where
  "ex_wrangler = \<lparr>wr_scheme = ex_scheme, wr_AddToScheme = (\<lambda>s x. (None, x)), wr_Getenv = (\<lambda>v x. ([], x)),
     wr_WithColumn = (\<lambda>c n p. c\<lparr>crd_Columns := crd_Columns c @ [(n, p)]\<rparr>),
     wr_NewFactoryFromClient = (\<lambda>x. (None, x)), wr_BatchCreateCRDs = (\<lambda>cs x. (None, x)),
     wr_NewSharedClientFactory = (\<lambda>x. (None, x)), wr_NewFactory = (\<lambda>f x. (None, x)),
     wr_start_All = (\<lambda>n fs x. (None, x)), wr_ClientConfig = (\<lambda>x. (None, x)),
     wr_Stat = (\<lambda>x. (None, x)), wr_Mkdir = (\<lambda>p x. (None, x))\<rparr>"

definition ex_start :: "nat go_world" where
  "ex_start = \<lparr>ext = 0, log = []\<rparr>"

lemma started_answered [simp]:
  "f (ext w) = (None, x) \<Longrightarrow> started ev f w = (None, w\<lparr>ext := x, log := log w @ [EvStart (ev True)]\<rparr>)"
  by (simp add: started_def effect_def)

lemma query_answered: "f (ext w) = (r, x) \<Longrightarrow> query f w = (r, w\<lparr>ext := x\<rparr>)"
  by (simp add: query_def)

lemma ex_Start: "\<exists>w'. Start ex_wrangler w = (None, w')"
  by (simp add: Start_def crd_Create_def Register_def newFactory_def RegisterVmwareController_def
      RegisterOvaController_def RegisterOpenstackController_def RegisterVMImportController_def
      if_ok_def query_answered ex_wrangler_def Let_def)

text \<open>The states of a run.\<close>

definition ex_process :: "bool \<Rightarrow> start_goroutine \<Rightarrow> server_goroutine \<Rightarrow> go_error option \<Rightarrow>
    process_exit option \<Rightarrow> nat go_world \<Rightarrow> nat process" where
  "ex_process d st sv e ex w = \<lparr>process_world = w, ctx_Done = d, start_goroutine = st, server_goroutine = sv,
     group_err = e, process_exit = ex\<rparr>"

lemma ex_main: "\<exists>w. main_process ex_wrangler ex_start = ex_process False StartCalled ServerCalled None None w"
  by (simp add: main_process_def main_init_def ex_AddToScheme query_answered ex_wrangler_def ex_start_def
      process_at_def ex_process_def)

lemma ex_start_step: "\<exists>v. process_step ex_wrangler (ex_process d StartCalled sv e None w)
    (ex_process d StartWaits sv e None v)"
proof -
  obtain v where "Start ex_wrangler w = (None, v)"
    using ex_Start by blast
  then have "start_runs ex_wrangler (ex_process d StartCalled sv e None w) = ex_process d StartWaits sv e None v"
    by (simp add: start_runs_def ex_process_def)
  then show ?thesis
    using Owed [OF StartRuns, of "ex_process d StartCalled sv e None w" ex_wrangler] by (auto simp: ex_process_def)
qed

lemma ex_server_step: "process_step ex_wrangler (ex_process d st ServerCalled e None w)
    (ex_process d st (newServer tmpDir) e None w)"
  using Owed [OF ServerStarts, of "ex_process d st ServerCalled e None w" ex_wrangler]
  by (simp add: NewServer_def createTempDir_def ex_wrangler_def query_def ex_process_def)

text \<open>The controllers run and the server listens; the port is taken.\<close>

abbreviation ex_settings :: http_server where
  "ex_settings \<equiv> \<lparr>http_Addr = CHR '':'' # show_int DefaultPort,
     http_ReadHeaderTimeout = 10 * 1000000000, http_Dir = tmpDir\<rparr>"

lemma ex_running:
  "\<exists>w. process_runs ex_wrangler ex_start (ex_process False StartWaits (newServer tmpDir) None None w)"
proof -
  obtain w where start: "process_runs ex_wrangler ex_start (ex_process False StartCalled ServerCalled None None w)"
    using ProcessStarts [of ex_wrangler ex_start] ex_main by auto
  then obtain v where "process_runs ex_wrangler ex_start (ex_process False StartWaits ServerCalled None None v)"
    using ex_start_step by (blast intro: ProcessSteps)
  then show ?thesis
    using ex_server_step by (blast intro: ProcessSteps)
qed

lemma ex_port_taken:
  "\<exists>w. process_runs ex_wrangler ex_start (ex_process False StartWaits
     (Serving ex_settings (Some (ErrExternal ''address already in use'')) ShutdownWaits
       (Some (ErrExternal ''address already in use''))) None None w)"
proof -
  obtain w where w: "process_runs ex_wrangler ex_start
      (ex_process False StartWaits (newServer tmpDir) None None w)"
    using ex_running by blast
  show ?thesis
    using ProcessSteps [OF w ListenFails [where err = "ErrExternal ''address already in use''"]]
    by (fastforce simp: ex_process_def newServer_def first_error_def ErrServerClosed_def)
qed

lemma server_failure_unnoticed_witness:
  "\<exists>p :: nat process. process_runs ex_wrangler ex_start p \<and> start_goroutine p = StartWaits \<and>
     (\<forall>q. process_step ex_wrangler p q \<longleftrightarrow> q = p\<lparr>ctx_Done := True\<rparr>)"
proof -
  obtain w where w: "process_runs ex_wrangler ex_start (ex_process False StartWaits
     (Serving ex_settings (Some (ErrExternal ''address already in use'')) ShutdownWaits
       (Some (ErrExternal ''address already in use''))) None None w)" (is "process_runs _ _ ?p")
    using ex_port_taken by blast
  have "process_step ex_wrangler ?p q \<longleftrightarrow> q = ?p\<lparr>ctx_Done := True\<rparr>" for q
    by (rule server_failure_unnoticed [OF w]) (simp_all add: ex_process_def)
  then show ?thesis
    using w by (intro exI [of _ ?p]) (simp add: ex_process_def)
qed

text \<open>From the signal to the end of the process.\<close>

lemma ex_shutdown:
  "process_step lib (ex_process False st sv e None w) (ex_process True st sv e None w)"
  "process_step lib (ex_process True StartWaits sv e None w) (ex_process True (StartReturned None) sv e None w)"
  "process_step lib (ex_process True st (Serving srv l ShutdownWaits e') e None w)
     (ex_process True st (Serving srv l ShutdownCalled e') e None w)"
  "process_step lib (ex_process True st (Serving srv None ShutdownCalled None) e None w)
     (ex_process True st (Serving srv (Some ErrServerClosed) ShutdownCalled (Some ErrServerClosed)) e None w)"
  "process_step lib (ex_process True st (Serving srv l ShutdownCalled (Some err)) e None w)
     (ex_process True st (Serving srv l (ShutdownReturned None) (Some err)) e None w)"
  "process_step lib (ex_process True st (Serving srv (Some x) (ShutdownReturned r) (Some err)) None None w)
     (ex_process True st (ServerReturned (Some err)) (Some err) None w)"
  "process_step lib (ex_process True (StartReturned s) (ServerReturned r) (Some err) None w)
     (ex_process True (StartReturned s) (ServerReturned r) (Some err) (Some (LogFatal err)) w)"
  using Signal [of "ex_process False st sv e None w" lib]
    Owed [OF StartStops, of "ex_process True StartWaits sv e None w" lib]
    Owed [OF ShutdownCalls, of "ex_process True st (Serving srv l ShutdownWaits e') e None w" srv l e' lib]
    Owed [OF ListenStops, of "ex_process True st (Serving srv None ShutdownCalled None) e None w" srv ShutdownCalled
      None lib]
    Owed [OF ShutdownReturns, of "ex_process True st (Serving srv l ShutdownCalled (Some err)) e None w" srv l
      "Some err" lib None]
    Owed [OF ServerStops, of "ex_process True st (Serving srv (Some x) (ShutdownReturned r) (Some err)) None None w"
      srv x r "Some err" lib]
    Owed [OF MainReturns, of "ex_process True (StartReturned s) (ServerReturned r) (Some err) None w" s r lib]
  by (simp_all add: ex_process_def process_defs)

lemma process_exited: "process_exit q = Some x \<Longrightarrow> \<not> owed_step lib q r"
  by (auto elim!: process_stepE owed_stepE)

lemma six_steps: "r a b \<Longrightarrow> r b c \<Longrightarrow> r c d \<Longrightarrow> r d e \<Longrightarrow> r e f \<Longrightarrow> r f g \<Longrightarrow> (r ^^ 6) a g"
  by (simp add: numeral_eq_Suc relcompp_apply) blast

lemma process_shutdown_witness:
  "\<exists>p q :: nat process. process_runs ex_wrangler ex_start p \<and> ctx_Done p \<and> process_exit p = None \<and>
     (process_step ex_wrangler ^^ 6) p q \<and> (6::nat) \<le> 8 \<and> (\<exists>err. process_exit q = Some (LogFatal err))"
proof -
  obtain w where run: "process_runs ex_wrangler ex_start
      (ex_process False StartWaits (newServer tmpDir) None None w)"
    using ex_running by blast
  let ?p = "ex_process True StartWaits (newServer tmpDir) None None w"
  let ?q = "ex_process True (StartReturned None) (ServerReturned (Some ErrServerClosed))
      (Some ErrServerClosed) (Some (LogFatal ErrServerClosed)) w"
  have p: "process_runs ex_wrangler ex_start ?p"
    by (rule ProcessSteps [OF run ex_shutdown(1)])
  have q: "(process_step ex_wrangler ^^ 6) ?p ?q"
    unfolding newServer_def
    by (rule six_steps [where r = "process_step ex_wrangler"], rule ex_shutdown(2), rule ex_shutdown(3),
      rule ex_shutdown(4), rule ex_shutdown(5), rule ex_shutdown(6), rule ex_shutdown(7))
  have "ctx_Done ?p" "\<nexists>r. owed_step ex_wrangler ?q r"
    by (simp_all add: ex_process_def process_exited)
  then have "(6::nat) \<le> 8 \<and> (\<exists>err. process_exit ?q = Some (LogFatal err))"
    using process_shutdown [OF p _ q] by blast
  moreover have "process_exit ?p = None"
    by (simp add: ex_process_def)
  ultimately show ?thesis
    using p q \<open>ctx_Done ?p\<close> by blast
qed

end
