(* ===== verification/OpenstackEnv.thy ===== *)
theory OpenstackEnv
  imports OpenstackClient
begin

text \<open>
  The helpers of \<open>pkg/source/openstack/client.go\<close> that read the access to an OpenStack cluster
  from the environment of the process, for the integration tests. The environment is a map.
\<close>

definition SetupOpenstackSecretFromEnv :: "(string \<rightharpoonup> string) \<Rightarrow> string \<Rightarrow> go_error + Secret" where
  "SetupOpenstackSecretFromEnv os_LookupEnv name =
     (let s = \<lparr>secret_Name = name, Data = Map.empty\<rparr>
      in case os_LookupEnv ''OS_USERNAME'' of
           None \<Rightarrow> Inl (Errorf ''no env variable OS_USERNAME specified'')
         | Some username \<Rightarrow>
         (case os_LookupEnv ''OS_PASSWORD'' of
           None \<Rightarrow> Inl (Errorf ''no env variable OS_PASSWORD specified'')
         | Some password \<Rightarrow>
         (case os_LookupEnv ''OS_PROJECT_NAME'' of
           None \<Rightarrow> Inl (Errorf ''no env variable OS_PROJECT_NAME specified'')
         | Some tenant \<Rightarrow>
         (case os_LookupEnv ''OS_USER_DOMAIN_NAME'' of
           None \<Rightarrow> Inl (Errorf ''no env variable OS_DOMAIN_NAME specified'')
         | Some domain \<Rightarrow>
             Inr (s\<lparr>Data := [''username'' \<mapsto> username, ''password'' \<mapsto> password,
               ''project_name'' \<mapsto> tenant, ''domain_name'' \<mapsto> domain]\<rparr>)))))"

definition SetupOpenstackSourceFromEnv :: "(string \<rightharpoonup> string) \<Rightarrow> string \<times> string \<times> go_error option" where
  "SetupOpenstackSourceFromEnv os_LookupEnv =
     (case os_LookupEnv ''OS_AUTH_URL'' of
        None \<Rightarrow> ([], [], Some (Errorf ''no env variable OS_AUTH_URL specified''))
      | Some endpoint \<Rightarrow>
          (case os_LookupEnv ''OS_REGION_NAME'' of
             None \<Rightarrow> (endpoint, [], Some (Errorf ''no env variable OS_AUTH_URL specified''))
           | Some region \<Rightarrow> (endpoint, region, None)))"

text \<open>A secret read from the environment has what a client of the cluster asks for.\<close>

lemma SetupOpenstackSecretFromEnv_connects:
  assumes "SetupOpenstackSecretFromEnv env name = Inr s"
  shows "openstack_NewClient_impl sdk endpoint region (Some s) options w =
    Some (openstack_connect sdk endpoint region None
      (the (env ''OS_USERNAME''), the (env ''OS_PASSWORD''), the (env ''OS_PROJECT_NAME''),
       the (env ''OS_USER_DOMAIN_NAME'')) options w)"
  using assms
  by (auto simp: SetupOpenstackSecretFromEnv_def openstack_NewClient_impl_def split: option.splits)

lemma SetupOpenstackSecretFromEnv_iff:
  "(\<exists>s. SetupOpenstackSecretFromEnv env name = Inr s) \<longleftrightarrow>
   {''OS_USERNAME'', ''OS_PASSWORD'', ''OS_PROJECT_NAME'', ''OS_USER_DOMAIN_NAME''} \<subseteq> dom env"
  by (auto simp: SetupOpenstackSecretFromEnv_def split: option.splits)

text \<open>The errors of two variables name another one.\<close>

lemma wrong_variable_named:
  "SetupOpenstackSecretFromEnv [''OS_USERNAME'' \<mapsto> u, ''OS_PASSWORD'' \<mapsto> p, ''OS_PROJECT_NAME'' \<mapsto> t,
     ''OS_DOMAIN_NAME'' \<mapsto> d] name = Inl (Errorf ''no env variable OS_DOMAIN_NAME specified'')"
  "SetupOpenstackSourceFromEnv [''OS_AUTH_URL'' \<mapsto> e] =
     (e, [], Some (Errorf ''no env variable OS_AUTH_URL specified''))"
  by (simp_all add: SetupOpenstackSecretFromEnv_def SetupOpenstackSourceFromEnv_def)

end
