(* ===== verification/Logging.thy ===== *)
theory Logging
  imports Prelude
begin

text \<open>
  The fields of a structured log entry, \<open>pkg/util/logrus.go\<close>. The entry is a map from keys to
  values of any type \<open>'v\<close>; \<open>str\<close> makes such a value of a string, and \<open>json.Marshal\<close> is a
  parameter, which may fail. The failure is logged and nothing else.
\<close>

fun FieldsToJSON ::
  "('v \<Rightarrow> go_error + string) \<Rightarrow> (string \<Rightarrow> 'v) \<Rightarrow> (string \<rightharpoonup> 'v) \<Rightarrow> string list \<Rightarrow> (string \<rightharpoonup> 'v)" where
  "FieldsToJSON json_Marshal str entry [] = entry"
| "FieldsToJSON json_Marshal str entry (k # ks) =
     (case entry k of
        Some v \<Rightarrow>
          (case json_Marshal v of
             Inl err \<Rightarrow> FieldsToJSON json_Marshal str entry ks
           | Inr vBytes \<Rightarrow> FieldsToJSON json_Marshal str (entry(k \<mapsto> str vBytes)) ks)
      | None \<Rightarrow> FieldsToJSON json_Marshal str entry ks)"

text \<open>What becomes of a field that is converted once.\<close>

definition json_field :: "('v \<Rightarrow> go_error + string) \<Rightarrow> (string \<Rightarrow> 'v) \<Rightarrow> 'v \<Rightarrow> 'v" where
  "json_field json_Marshal str v = (case json_Marshal v of Inl err \<Rightarrow> v | Inr s \<Rightarrow> str s)"

lemma FieldsToJSON_other: "k \<notin> set ks \<Longrightarrow> FieldsToJSON m str entry ks k = entry k"
  by (induction ks arbitrary: entry) (auto split: option.splits sum.splits)

lemma FieldsToJSON_dom [simp]: "dom (FieldsToJSON m str entry ks) = dom entry"
  by (induction ks arbitrary: entry) (auto split: option.splits sum.splits)

lemma FieldsToJSON_spec:
  "distinct ks \<Longrightarrow> FieldsToJSON m str entry ks =
     (\<lambda>k. if k \<in> set ks then map_option (json_field m str) (entry k) else entry k)"
proof (induction ks arbitrary: entry)
  case Nil
  then show ?case by simp
next
  case (Cons a ks)
  then show ?case
    by (auto simp: fun_eq_iff FieldsToJSON_other json_field_def split: option.splits sum.splits)
qed

end
