(* ===== verification/Memory.thy ===== *)
theory Memory
  imports Prelude
begin

text \<open>
  Memory with pointers and slices, and what a deep copy in it promises: the copy denotes the same
  value as the original, and it lives in memory of its own. The contract is the locale \<open>deep_copy\<close>;
  pointers, slices and structs of parts that keep the contract keep it too.
\<close>

section \<open>Memory\<close>

text \<open>The memory maps addresses to cells; \<open>brk\<close> is the first address that was never handed out.\<close>

record 'c heap =
  mem :: "nat \<rightharpoonup> 'c"
  brk :: nat

text \<open>A pointer, and a slice: nil, or the address of an array with offset and length.\<close>

type_synonym ptr = "nat option"

datatype slice = NilSlice | Slice nat nat nat

definition bounded :: "'c heap \<Rightarrow> bool" where
  "bounded h \<longleftrightarrow> dom (mem h) \<subseteq> {..<brk h}"

text \<open>\<open>new\<close> and \<open>make\<close> hand out an address, which is filled later.\<close>

definition reserve :: "'c heap \<Rightarrow> nat \<times> 'c heap" where
  "reserve h = (brk h, h\<lparr>brk := Suc (brk h)\<rparr>)"

definition fill :: "nat \<Rightarrow> 'c \<Rightarrow> 'c heap \<Rightarrow> 'c heap" where
  "fill a c h = h\<lparr>mem := (mem h)(a \<mapsto> c)\<rparr>"

text \<open>What a cell of one kind holds.\<close>

definition load :: "('c \<Rightarrow> bool) \<Rightarrow> ('c \<Rightarrow> 'x) \<Rightarrow> (nat \<rightharpoonup> 'c) \<Rightarrow> nat \<Rightarrow> 'x option" where
  "load is_kind content m a = Option.bind (m a) (\<lambda>c. if is_kind c then Some (content c) else None)"

section \<open>References: what they denote and how they are copied\<close>

text \<open>A value without references.\<close>

definition plain :: "(nat \<rightharpoonup> 'c) \<Rightarrow> 'x \<Rightarrow> 'x option" where
  "plain m x = Some x"

definition assign :: "'x \<Rightarrow> 'c heap \<Rightarrow> ('x \<times> 'c heap) option" where
  "assign x h = Some (x, h)"

definition view_ptr ::
  "('c \<Rightarrow> bool) \<Rightarrow> ('c \<Rightarrow> 'x) \<Rightarrow> ((nat \<rightharpoonup> 'c) \<Rightarrow> 'x \<Rightarrow> 'a option) \<Rightarrow> (nat \<rightharpoonup> 'c) \<Rightarrow> ptr \<Rightarrow> 'a option option"
  where
  "view_ptr is_kind content view m p =
     (case p of
        None \<Rightarrow> Some None
      | Some a \<Rightarrow> map_option Some (Option.bind (load is_kind content m a) (view m)))"

fun view_all :: "((nat \<rightharpoonup> 'c) \<Rightarrow> 'x \<Rightarrow> 'a option) \<Rightarrow> (nat \<rightharpoonup> 'c) \<Rightarrow> 'x list \<Rightarrow> 'a list option" where
  "view_all view m [] = Some []"
| "view_all view m (x # xs) =
     do {
       v \<leftarrow> view m x;
       vs \<leftarrow> view_all view m xs;
       Some (v # vs)
     }"

definition elements :: "('c \<Rightarrow> bool) \<Rightarrow> ('c \<Rightarrow> 'x list) \<Rightarrow> (nat \<rightharpoonup> 'c) \<Rightarrow> nat \<Rightarrow> nat \<Rightarrow> nat \<Rightarrow> 'x list option" where
  "elements is_kind content m a i n =
     Option.bind (load is_kind content m a)
       (\<lambda>xs. if i + n \<le> length xs then Some (take n (drop i xs)) else None)"

definition view_slice ::
  "('c \<Rightarrow> bool) \<Rightarrow> ('c \<Rightarrow> 'x list) \<Rightarrow> ((nat \<rightharpoonup> 'c) \<Rightarrow> 'x \<Rightarrow> 'a option) \<Rightarrow> (nat \<rightharpoonup> 'c) \<Rightarrow> slice \<Rightarrow> 'a list option"
  where
  "view_slice is_kind content view m s =
     (case s of
        NilSlice \<Rightarrow> Some []
      | Slice a i n \<Rightarrow> Option.bind (elements is_kind content m a i n) (view_all view m))"

text \<open>\<open>if in != nil { *out = new(T); in.DeepCopyInto(*out) }\<close>; with \<open>assign\<close> it is \<open>**out = **in\<close>.\<close>

definition copy_ptr ::
  "('x \<Rightarrow> 'c) \<Rightarrow> ('c \<Rightarrow> bool) \<Rightarrow> ('c \<Rightarrow> 'x) \<Rightarrow> ('x \<Rightarrow> 'c heap \<Rightarrow> ('x \<times> 'c heap) option) \<Rightarrow>
   ptr \<Rightarrow> 'c heap \<Rightarrow> (ptr \<times> 'c heap) option" where
  "copy_ptr kind is_kind content into p h =
     (case p of
        None \<Rightarrow> Some (None, h)
      | Some a \<Rightarrow>
          do {
            x \<leftarrow> load is_kind content (mem h) a;
            let (out, h) = reserve h;
            (y, h) \<leftarrow> into x h;
            Some (Some out, fill out (kind y) h)
          })"

fun copy_all :: "('x \<Rightarrow> 'c heap \<Rightarrow> ('x \<times> 'c heap) option) \<Rightarrow> 'x list \<Rightarrow> 'c heap \<Rightarrow> ('x list \<times> 'c heap) option" where
  "copy_all into [] h = Some ([], h)"
| "copy_all into (x # xs) h =
     do {
       (y, h) \<leftarrow> into x h;
       (ys, h) \<leftarrow> copy_all into xs h;
       Some (y # ys, h)
     }"

text \<open>
  \<open>if in != nil { *out = make([]T, len(*in)) ... }\<close>: the new array has just the elements of the slice.
  It is stored when they are copied; nothing refers to it before.
\<close>

definition copy_slice ::
  "('x list \<Rightarrow> 'c) \<Rightarrow> ('c \<Rightarrow> bool) \<Rightarrow> ('c \<Rightarrow> 'x list) \<Rightarrow> ('x \<Rightarrow> 'c heap \<Rightarrow> ('x \<times> 'c heap) option) \<Rightarrow>
   slice \<Rightarrow> 'c heap \<Rightarrow> (slice \<times> 'c heap) option" where
  "copy_slice kind is_kind content into s h =
     (case s of
        NilSlice \<Rightarrow> Some (NilSlice, h)
      | Slice a i n \<Rightarrow>
          do {
            xs \<leftarrow> elements is_kind content (mem h) a i n;
            let (out, h) = reserve h;
            (ys, h) \<leftarrow> copy_all into xs h;
            Some (Slice out 0 n, fill out (kind ys) h)
          })"

section \<open>The contract of a deep copy\<close>

text \<open>\<open>grown h c h'\<close>: the memory \<open>h'\<close> is \<open>h\<close> with the cells \<open>c\<close> at new addresses.\<close>

definition grown :: "'c heap \<Rightarrow> (nat \<rightharpoonup> 'c) \<Rightarrow> 'c heap \<Rightarrow> bool" where
  "grown h c h' \<longleftrightarrow> mem h' = mem h ++ c \<and> dom c \<subseteq> {brk h..<brk h'} \<and> brk h \<le> brk h'"

locale deep_copy =
  fixes view :: "(nat \<rightharpoonup> 'c) \<Rightarrow> 'x \<Rightarrow> 'a option"
    and into :: "'x \<Rightarrow> 'c heap \<Rightarrow> ('x \<times> 'c heap) option"
  assumes view_mono: "view m x = Some v \<Longrightarrow> m \<subseteq>\<^sub>m m' \<Longrightarrow> view m' x = Some v"
    and into_copies: "view (mem h) x = Some v \<Longrightarrow> bounded h \<Longrightarrow>
      \<exists>y c h'. into x h = Some (y, h') \<and> grown h c h' \<and> view c y = Some v"

lemma grown_refl: "grown h Map.empty h"
  by (simp add: grown_def)

lemma grown_trans: "grown h c h' \<Longrightarrow> grown h' c' h'' \<Longrightarrow> grown h (c ++ c') h''"
  by (fastforce simp: grown_def map_add_assoc)

lemma grown_bounded: "grown h c h' \<Longrightarrow> bounded h \<Longrightarrow> bounded h'"
  by (fastforce simp: grown_def bounded_def)

lemma grown_disjoint: "grown h c h' \<Longrightarrow> bounded h \<Longrightarrow> dom (mem h) \<inter> dom c = {}"
  by (fastforce simp: grown_def bounded_def)

lemma map_le_add: "dom a \<inter> dom b = {} \<Longrightarrow> a \<subseteq>\<^sub>m a ++ b"
  by (metis map_add_comm map_le_map_add)

lemma grown_le: "grown h c h' \<Longrightarrow> bounded h \<Longrightarrow> mem h \<subseteq>\<^sub>m mem h'"
  using grown_disjoint [of h c h'] map_le_add by (auto simp: grown_def)

lemma grown_parts:
  assumes "grown h c h'" "grown h' c' h''"
  shows "c \<subseteq>\<^sub>m c ++ c'" "c' \<subseteq>\<^sub>m c ++ c'"
proof -
  have "dom c \<inter> dom c' = {}"
    using assms by (fastforce simp: grown_def)
  then show "c \<subseteq>\<^sub>m c ++ c'" by (rule map_le_add)
qed (rule map_le_map_add)

lemma reserve_grown: "reserve h = (a, h') \<Longrightarrow> grown h Map.empty h' \<and> a = brk h \<and> brk h' = Suc a"
  by (auto simp: reserve_def grown_def)

lemma fill_grown:
  "grown (h\<lparr>brk := Suc (brk h)\<rparr>) c h' \<Longrightarrow> grown h (c(brk h \<mapsto> x)) (fill (brk h) x h')"
  by (auto simp: grown_def fill_def fun_eq_iff map_add_def)

section \<open>Deep copies from deep copies\<close>

lemma deep_copy_plain: "deep_copy plain assign"
  by unfold_locales (auto simp: plain_def assign_def intro: grown_refl)

lemma view_all_mono:
  assumes "deep_copy view into" "m \<subseteq>\<^sub>m m'"
  shows "view_all view m xs = Some vs \<Longrightarrow> view_all view m' xs = Some vs"
  by (induction xs arbitrary: vs) (auto dest: deep_copy.view_mono [OF assms(1) _ assms(2)]
      split: Option.bind_splits)

lemma load_mono: "load is_kind content m a = Some x \<Longrightarrow> m \<subseteq>\<^sub>m m' \<Longrightarrow> load is_kind content m' a = Some x"
  by (auto simp: load_def map_le_def dom_def split: Option.bind_splits)

lemma copy_all_copies:
  assumes "deep_copy view into"
  shows "view_all view (mem h) xs = Some vs \<Longrightarrow> bounded h \<Longrightarrow>
    \<exists>ys c h'. copy_all into xs h = Some (ys, h') \<and> grown h c h' \<and> view_all view c ys = Some vs \<and>
      length ys = length xs"
proof (induction xs arbitrary: h vs)
  case Nil
  then show ?case by (auto intro: grown_refl)
next
  case (Cons x xs)
  obtain v ws where v: "view (mem h) x = Some v" "view_all view (mem h) xs = Some ws" "vs = v # ws"
    using Cons.prems(1) by (auto split: Option.bind_splits)
  obtain y c h1 where y: "into x h = Some (y, h1)" "grown h c h1" "view c y = Some v"
    using deep_copy.into_copies [OF assms v(1) Cons.prems(2)] by blast
  have "view_all view (mem h1) xs = Some ws"
    using view_all_mono [OF assms grown_le [OF y(2) Cons.prems(2)] v(2)] .
  then obtain ys c' h2 where ys: "copy_all into xs h1 = Some (ys, h2)" "grown h1 c' h2"
      "view_all view c' ys = Some ws" "length ys = length xs"
    using Cons.IH grown_bounded [OF y(2) Cons.prems(2)] by blast
  note parts = grown_parts [OF y(2) ys(2)]
  have "view (c ++ c') y = Some v" "view_all view (c ++ c') ys = Some ws"
    using deep_copy.view_mono [OF assms y(3) parts(1)] view_all_mono [OF assms parts(2) ys(3)] by simp_all
  then show ?case
    using y(1) ys(1,4) v(3) grown_trans [OF y(2) ys(2)] by auto
qed

text \<open>A kind of cells: what is stored is read back.\<close>

definition cell_kind :: "('x \<Rightarrow> 'c) \<Rightarrow> ('c \<Rightarrow> bool) \<Rightarrow> ('c \<Rightarrow> 'x) \<Rightarrow> bool" where
  "cell_kind kind is_kind content \<longleftrightarrow> (\<forall>x. is_kind (kind x) \<and> content (kind x) = x)"

lemma load_stored: "cell_kind kind is_kind content \<Longrightarrow> load is_kind content (m(a \<mapsto> kind x)) a = Some x"
  by (simp add: load_def cell_kind_def)

lemma bounded_reserved: "bounded h \<Longrightarrow> bounded (h\<lparr>brk := Suc (brk h)\<rparr>)"
  by (auto simp: bounded_def)

lemma grown_new: "grown (h\<lparr>brk := Suc (brk h)\<rparr>) c h' \<Longrightarrow> c \<subseteq>\<^sub>m c(brk h \<mapsto> x)"
proof -
  assume "grown (h\<lparr>brk := Suc (brk h)\<rparr>) c h'"
  then have "brk h \<notin> dom c"
    by (auto simp: grown_def)
  then show ?thesis
    by (auto simp: map_le_def)
qed

lemma deep_copy_ptr:
  assumes "deep_copy view into" "cell_kind kind is_kind content"
  shows "deep_copy (view_ptr is_kind content view) (copy_ptr kind is_kind content into)"
proof
  fix m m' p v
  assume v: "view_ptr is_kind content view m p = Some v" and le: "m \<subseteq>\<^sub>m m'"
  show "view_ptr is_kind content view m' p = Some v"
    using v by (auto simp: view_ptr_def load_mono [OF _ le] deep_copy.view_mono [OF assms(1) _ le]
        split: option.splits Option.bind_splits)
next
  fix h p v
  assume v: "view_ptr is_kind content view (mem h) p = Some v" and h: "bounded h"
  show "\<exists>y c h'. copy_ptr kind is_kind content into p h = Some (y, h') \<and> grown h c h' \<and>
      view_ptr is_kind content view c y = Some v"
  proof (cases p)
    case None
    then show ?thesis
      using v by (auto simp: copy_ptr_def view_ptr_def intro: grown_refl)
  next
    case (Some a)
    then obtain x u where x: "load is_kind content (mem h) a = Some x" "view (mem h) x = Some u" "v = Some u"
      using v by (auto simp: view_ptr_def split: Option.bind_splits)
    let ?h = "h\<lparr>brk := Suc (brk h)\<rparr>"
    obtain y c h' where y: "into x ?h = Some (y, h')" "grown ?h c h'" "view c y = Some u"
      using deep_copy.into_copies [OF assms(1), of ?h x u] x(2) bounded_reserved [OF h] by auto
    have "view (c(brk h \<mapsto> kind y)) y = Some u"
      using deep_copy.view_mono [OF assms(1) y(3) grown_new [OF y(2)]] .
    then show ?thesis
      using Some x y(1) fill_grown [OF y(2)] load_stored [OF assms(2)]
      by (intro exI [of _ "Some (brk h)"] exI [of _ "c(brk h \<mapsto> kind y)"] exI [of _ "fill (brk h) (kind y) h'"])
        (simp add: copy_ptr_def view_ptr_def reserve_def)
  qed
qed

lemma deep_copy_slice:
  assumes "deep_copy view into" "cell_kind kind is_kind content"
  shows "deep_copy (view_slice is_kind content view) (copy_slice kind is_kind content into)"
proof
  fix m m' s v
  assume v: "view_slice is_kind content view m s = Some v" and le: "m \<subseteq>\<^sub>m m'"
  show "view_slice is_kind content view m' s = Some v"
    using v by (auto simp: view_slice_def elements_def load_mono [OF _ le] view_all_mono [OF assms(1) le]
        split: slice.splits Option.bind_splits if_splits)
next
  fix h s v
  assume v: "view_slice is_kind content view (mem h) s = Some v" and h: "bounded h"
  show "\<exists>y c h'. copy_slice kind is_kind content into s h = Some (y, h') \<and> grown h c h' \<and>
      view_slice is_kind content view c y = Some v"
  proof (cases s)
    case NilSlice
    then show ?thesis
      using v by (auto simp: copy_slice_def view_slice_def intro: grown_refl)
  next
    case (Slice a i n)
    then obtain xs where x: "elements is_kind content (mem h) a i n = Some xs" "view_all view (mem h) xs = Some v"
      using v by (auto simp: view_slice_def split: Option.bind_splits)
    then have n: "length xs = n"
      by (auto simp: elements_def split: Option.bind_splits if_splits)
    let ?h = "h\<lparr>brk := Suc (brk h)\<rparr>"
    obtain ys c h' where y: "copy_all into xs ?h = Some (ys, h')" "grown ?h c h'" "view_all view c ys = Some v"
        "length ys = length xs"
      using copy_all_copies [OF assms(1), of ?h xs v] x(2) bounded_reserved [OF h] by auto
    let ?c = "c(brk h \<mapsto> kind ys)"
    have "view_all view ?c ys = Some v"
      using view_all_mono [OF assms(1) grown_new [OF y(2)] y(3)] .
    moreover have "elements is_kind content ?c (brk h) 0 n = Some ys"
      using load_stored [OF assms(2)] y(4) n by (simp add: elements_def)
    ultimately show ?thesis
      using Slice x(1) y(1) fill_grown [OF y(2)]
      by (intro exI [of _ "Slice (brk h) 0 n"] exI [of _ ?c] exI [of _ "fill (brk h) (kind ys) h'"])
        (simp add: copy_slice_def view_slice_def reserve_def)
  qed
qed

text \<open>Two fields in turn, and the fields of a struct.\<close>

definition view_pair ::
  "((nat \<rightharpoonup> 'c) \<Rightarrow> 'x \<Rightarrow> 'a option) \<Rightarrow> ((nat \<rightharpoonup> 'c) \<Rightarrow> 'y \<Rightarrow> 'b option) \<Rightarrow> (nat \<rightharpoonup> 'c) \<Rightarrow> 'x \<times> 'y \<Rightarrow>
   ('a \<times> 'b) option" where
  "view_pair v1 v2 m p = do { a \<leftarrow> v1 m (fst p); b \<leftarrow> v2 m (snd p); Some (a, b) }"

definition copy_pair ::
  "('x \<Rightarrow> 'c heap \<Rightarrow> ('x \<times> 'c heap) option) \<Rightarrow> ('y \<Rightarrow> 'c heap \<Rightarrow> ('y \<times> 'c heap) option) \<Rightarrow>
   'x \<times> 'y \<Rightarrow> 'c heap \<Rightarrow> (('x \<times> 'y) \<times> 'c heap) option" where
  "copy_pair f g p h = do { (x, h) \<leftarrow> f (fst p) h; (y, h) \<leftarrow> g (snd p) h; Some ((x, y), h) }"

lemma deep_copy_pair:
  assumes "deep_copy v1 f" "deep_copy v2 g"
  shows "deep_copy (view_pair v1 v2) (copy_pair f g)"
proof
  fix m m' p v
  assume v: "view_pair v1 v2 m p = Some v" and le: "m \<subseteq>\<^sub>m m'"
  show "view_pair v1 v2 m' p = Some v"
    using v by (auto simp: view_pair_def deep_copy.view_mono [OF assms(1) _ le] deep_copy.view_mono [OF assms(2) _ le]
        split: Option.bind_splits)
next
  fix h p v
  assume v: "view_pair v1 v2 (mem h) p = Some v" and h: "bounded h"
  obtain a b where ab: "v1 (mem h) (fst p) = Some a" "v2 (mem h) (snd p) = Some b" "v = (a, b)"
    using v by (auto simp: view_pair_def split: Option.bind_splits)
  obtain x c h1 where x: "f (fst p) h = Some (x, h1)" "grown h c h1" "v1 c x = Some a"
    using deep_copy.into_copies [OF assms(1) ab(1) h] by blast
  have "v2 (mem h1) (snd p) = Some b"
    using deep_copy.view_mono [OF assms(2) ab(2) grown_le [OF x(2) h]] .
  then obtain y c' h2 where y: "g (snd p) h1 = Some (y, h2)" "grown h1 c' h2" "v2 c' y = Some b"
    using deep_copy.into_copies [OF assms(2)] grown_bounded [OF x(2) h] by blast
  note parts = grown_parts [OF x(2) y(2)]
  have "v1 (c ++ c') x = Some a" "v2 (c ++ c') y = Some b"
    using deep_copy.view_mono [OF assms(1) x(3) parts(1)] deep_copy.view_mono [OF assms(2) y(3) parts(2)] .
  then show "\<exists>y c h'. copy_pair f g p h = Some (y, h') \<and> grown h c h' \<and> view_pair v1 v2 c y = Some v"
    using x(1) y(1) ab(3) grown_trans [OF x(2) y(2)]
    by (intro exI [of _ "(x, y)"] exI [of _ "c ++ c'"] exI [of _ h2]) (simp add: copy_pair_def view_pair_def)
qed

text \<open>\<open>part\<close> are the references of a struct, \<open>put\<close> replaces them.\<close>

lemma deep_copy_struct:
  assumes "deep_copy view into"
    and "\<And>m s. view_s m s = map_option (build s) (view m (part s))"
    and "\<And>s h. into_s s h = map_option (\<lambda>(y, h). (put y s, h)) (into (part s) h)"
    and "\<And>y s. part (put y s) = y" "\<And>y s. build (put y s) = build s"
  shows "deep_copy view_s into_s"
proof
  fix m m' s v
  assume "view_s m s = Some v" and le: "m \<subseteq>\<^sub>m m'"
  then show "view_s m' s = Some v"
    by (auto simp: assms(2) deep_copy.view_mono [OF assms(1) _ le])
next
  fix h s v
  assume v: "view_s (mem h) s = Some v" and h: "bounded h"
  then obtain u where u: "view (mem h) (part s) = Some u" "v = build s u"
    by (auto simp: assms(2))
  then obtain y c h' where "into (part s) h = Some (y, h')" "grown h c h'" "view c y = Some u"
    using deep_copy.into_copies [OF assms(1) _ h] by blast
  then show "\<exists>y c h'. into_s s h = Some (y, h') \<and> grown h c h' \<and> view_s c y = Some v"
    by (intro exI [of _ "put y s"] exI [of _ c] exI [of _ h']) (simp add: assms u)
qed

section \<open>What a copied object keeps apart\<close>

text \<open>
  The copy of a struct behind a pointer: the new struct \<open>y\<close> has an address of its own, and denotes the
  value in cells of its own.
\<close>

lemma copy_ptr_isolates:
  assumes "deep_copy view into" "cell_kind kind is_kind content" "bounded h"
    and "view_ptr is_kind content view (mem h) p = Some (Some v)"
  shows "\<exists>b y c h'. copy_ptr kind is_kind content into p h = Some (Some b, h') \<and>
    mem h' = mem h ++ c(b \<mapsto> kind y) \<and> dom (mem h) \<inter> dom (c(b \<mapsto> kind y)) = {} \<and> b \<notin> dom c \<and>
    view c y = Some v"
proof -
  obtain a x where x: "p = Some a" "load is_kind content (mem h) a = Some x" "view (mem h) x = Some v"
    using assms(4) by (auto simp: view_ptr_def split: option.splits Option.bind_splits)
  let ?h = "h\<lparr>brk := Suc (brk h)\<rparr>"
  obtain y c h' where y: "into x ?h = Some (y, h')" "grown ?h c h'" "view c y = Some v"
    using deep_copy.into_copies [OF assms(1), of ?h x v] x(3) bounded_reserved [OF assms(3)] by auto
  have g: "grown h (c(brk h \<mapsto> kind y)) (fill (brk h) (kind y) h')"
    by (rule fill_grown [OF y(2)])
  then have "mem (fill (brk h) (kind y) h') = mem h ++ c(brk h \<mapsto> kind y)"
    "dom (mem h) \<inter> dom (c(brk h \<mapsto> kind y)) = {}"
    using grown_disjoint [OF g assms(3)] by (simp_all add: grown_def)
  moreover have "brk h \<notin> dom c"
    using y(2) by (auto simp: grown_def)
  ultimately show ?thesis
    using x y by (intro exI [of _ "brk h"] exI [of _ y] exI [of _ c] exI [of _ "fill (brk h) (kind y) h'"])
      (simp add: copy_ptr_def reserve_def)
qed

lemma view_ptr_at:
  "cell_kind kind is_kind content \<Longrightarrow> deep_copy view into \<Longrightarrow> view c y = Some v \<Longrightarrow> b \<notin> dom c \<Longrightarrow>
   c(b \<mapsto> kind y) \<subseteq>\<^sub>m m \<Longrightarrow> view_ptr is_kind content view m (Some b) = Some (Some v)"
proof -
  assume k: "cell_kind kind is_kind content" and d: "deep_copy view into" and v: "view c y = Some v"
    and b: "b \<notin> dom c" and le: "c(b \<mapsto> kind y) \<subseteq>\<^sub>m m"
  have "c \<subseteq>\<^sub>m c(b \<mapsto> kind y)"
    using b by (auto simp: map_le_def)
  then have "view m y = Some v"
    using deep_copy.view_mono [OF d v] le map_le_trans by blast
  moreover have "load is_kind content m b = Some y"
    using load_mono [OF load_stored [OF k] le] .
  ultimately show ?thesis
    by (simp add: view_ptr_def)
qed

end
