(* ===== verification/DeepCopy.thy ===== *)
theory DeepCopy
  imports ApiTypes Memory
begin

text \<open>
  The generated deep copies of \<open>zz_generated_deepcopy.go\<close>. A Go struct holds its optional fields and
  its slices as references; \<open>DeepCopyInto\<close> and \<open>DeepCopy\<close> allocate. The other theories treat the
  objects of the API as values. What justifies this is shown here: the copy that the handler of
  imports works on denotes the same value, and no assignment to it is seen by the object of the cache.

  The copies of \<open>ObjectMeta\<close> and \<open>ListMeta\<close> belong to another module: they are parameters, with types
  of their own for these structs (\<open>'m\<close>, \<open>'n\<close>) and for the cells they use (\<open>'k\<close>). \<open>DeepCopyInto\<close> maps
  the struct \<open>*in\<close> to the struct it leaves in \<open>*out\<close>.
\<close>

section \<open>Structs\<close>

record NetworkMapping_struct =
  nm_SourceNetwork :: string
  nm_DestinationNetwork :: string
  nm_NetworkInterfaceModel :: ptr

record DiskInfo_struct =
  di_Name :: string
  di_DiskSize :: int64
  di_DiskLocalPath :: string
  di_DiskRoute :: string
  di_VirtualMachineImage :: string
  di_DiskConditions :: slice
  di_BusType :: DiskBus

record ImportSpec_struct =
  is_SourceCluster :: ObjectReference
  is_VirtualMachineName :: string
  is_Folder :: string
  is_Mapping :: slice
  is_DefaultNetworkInterfaceModel :: ptr
  is_StorageClass :: string
  is_DefaultDiskBusType :: ptr
  is_ForcePowerOff :: ptr
  is_GracefulShutdownTimeoutSeconds :: int32
  is_SkipPreflightChecks :: ptr

record ImportStatus_struct =
  st_Status :: ImportStatus
  st_DiskImportStatus :: slice
  st_ImportConditions :: slice
  st_NewVirtualMachine :: string
  st_ImportedVirtualMachineName :: string

record 'm Import_struct =
  im_Kind :: string
  im_APIVersion :: string
  im_ObjectMeta :: 'm
  im_Spec :: ImportSpec_struct
  im_Status :: ImportStatus_struct

record SourceStatus_struct =
  ss_Status :: ClusterStatusT
  ss_Conditions :: slice

record VmwareSpec_struct =
  vs_EndpointAddress :: string
  vs_Datacenter :: string
  vs_Credentials :: SecretRef

record OvaOptions_struct =
  oo_HttpTimeoutSeconds :: ptr

record OvaSpec_struct =
  os_Url :: string
  os_Options :: OvaOptions_struct
  os_Credentials :: ptr

record OpenstackSpec_struct =
  ps_EndpointAddress :: string
  ps_Region :: string
  ps_Credentials :: SecretRef
  ps_Options :: OpenstackSourceOptions

text \<open>A source with the spec \<open>'s\<close>.\<close>

record ('m, 's) Source_struct =
  so_Kind :: string
  so_APIVersion :: string
  so_ObjectMeta :: 'm
  so_Spec :: 's
  so_Status :: SourceStatus_struct

record 'n List_struct =
  li_Kind :: string
  li_APIVersion :: string
  li_ListMeta :: 'n
  li_Items :: slice

text \<open>The cells: what a pointer points to, and the arrays of the slices.\<close>

datatype (discs_sels) ('k, 'm, 'n) cell =
    StringCell string
  | BoolCell bool
  | IntCell int64
  | DiskBusCell DiskBus
  | SecretReferenceCell SecretRef
  | ConditionArray "Condition list"
  | MappingArray "NetworkMapping_struct list"
  | DiskArray "DiskInfo_struct list"
  | ImportArray "'m Import_struct list"
  | VmwareArray "('m, VmwareSpec_struct) Source_struct list"
  | OvaArray "('m, OvaSpec_struct) Source_struct list"
  | OpenstackArray "('m, OpenstackSpec_struct) Source_struct list"
  | MappingCell NetworkMapping_struct
  | DiskCell DiskInfo_struct
  | ImportSpecCell ImportSpec_struct
  | ImportStatusCell ImportStatus_struct
  | ImportCell "'m Import_struct"
  | SourceStatusCell SourceStatus_struct
  | VmwareSpecCell VmwareSpec_struct
  | VmwareCell "('m, VmwareSpec_struct) Source_struct"
  | OvaOptionsCell OvaOptions_struct
  | OvaSpecCell OvaSpec_struct
  | OvaCell "('m, OvaSpec_struct) Source_struct"
  | OpenstackOptionsCell OpenstackSourceOptions
  | OpenstackSpecCell OpenstackSpec_struct
  | OpenstackCell "('m, OpenstackSpec_struct) Source_struct"
  | ListCell "'n List_struct"
  | MetaCell 'k

type_synonym ('k, 'm, 'n) memory = "nat \<rightharpoonup> ('k, 'm, 'n) cell"

type_synonym ('x, 'k, 'm, 'n) copier =
  "'x \<Rightarrow> ('k, 'm, 'n) cell heap \<Rightarrow> ('x \<times> ('k, 'm, 'n) cell heap) option"

type_synonym ('x, 'k, 'm, 'n, 'a) viewer = "('k, 'm, 'n) memory \<Rightarrow> 'x \<Rightarrow> 'a option"

lemma cell_kinds [simp]:
  "cell_kind StringCell is_StringCell un_StringCell" "cell_kind BoolCell is_BoolCell un_BoolCell"
  "cell_kind IntCell is_IntCell un_IntCell" "cell_kind DiskBusCell is_DiskBusCell un_DiskBusCell"
  "cell_kind SecretReferenceCell is_SecretReferenceCell un_SecretReferenceCell"
  "cell_kind ConditionArray is_ConditionArray un_ConditionArray"
  "cell_kind MappingArray is_MappingArray un_MappingArray" "cell_kind DiskArray is_DiskArray un_DiskArray"
  "cell_kind ImportArray is_ImportArray un_ImportArray" "cell_kind VmwareArray is_VmwareArray un_VmwareArray"
  "cell_kind OvaArray is_OvaArray un_OvaArray" "cell_kind OpenstackArray is_OpenstackArray un_OpenstackArray"
  "cell_kind MappingCell is_MappingCell un_MappingCell" "cell_kind DiskCell is_DiskCell un_DiskCell"
  "cell_kind ImportSpecCell is_ImportSpecCell un_ImportSpecCell"
  "cell_kind ImportStatusCell is_ImportStatusCell un_ImportStatusCell"
  "cell_kind ImportCell is_ImportCell un_ImportCell"
  "cell_kind SourceStatusCell is_SourceStatusCell un_SourceStatusCell"
  "cell_kind VmwareSpecCell is_VmwareSpecCell un_VmwareSpecCell" "cell_kind VmwareCell is_VmwareCell un_VmwareCell"
  "cell_kind OvaOptionsCell is_OvaOptionsCell un_OvaOptionsCell" "cell_kind OvaSpecCell is_OvaSpecCell un_OvaSpecCell"
  "cell_kind OvaCell is_OvaCell un_OvaCell"
  "cell_kind OpenstackOptionsCell is_OpenstackOptionsCell un_OpenstackOptionsCell"
  "cell_kind OpenstackSpecCell is_OpenstackSpecCell un_OpenstackSpecCell"
  "cell_kind OpenstackCell is_OpenstackCell un_OpenstackCell" "cell_kind ListCell is_ListCell un_ListCell"
  by (simp_all add: cell_kind_def)

section \<open>NetworkMapping and DiskInfo\<close>

text \<open>A struct is read in two steps: what its references denote, and the value with that put in.\<close>

definition mapping_value :: "NetworkMapping_struct \<Rightarrow> string option \<Rightarrow> NetworkMapping" where
  "mapping_value s model = \<lparr>SourceNetwork = nm_SourceNetwork s,
     DestinationNetwork = nm_DestinationNetwork s, NetworkInterfaceModel = model\<rparr>"

definition view_string :: "(ptr, 'k, 'm, 'n, string option) viewer" where
  "view_string = view_ptr is_StringCell un_StringCell plain"

definition copy_string :: "(ptr, 'k, 'm, 'n) copier" where
  "copy_string = copy_ptr StringCell is_StringCell un_StringCell assign"

definition view_mapping :: "(NetworkMapping_struct, 'k, 'm, 'n, NetworkMapping) viewer" where
  "view_mapping m s = map_option (mapping_value s) (view_string m (nm_NetworkInterfaceModel s))"

definition NetworkMapping_DeepCopyInto :: "(NetworkMapping_struct, 'k, 'm, 'n) copier" where
  "NetworkMapping_DeepCopyInto s h =
     do {
       (model, h) \<leftarrow> copy_string (nm_NetworkInterfaceModel s) h;
       Some (s\<lparr>nm_NetworkInterfaceModel := model\<rparr>, h)
     }"

definition NetworkMapping_DeepCopy :: "(ptr, 'k, 'm, 'n) copier" where
  "NetworkMapping_DeepCopy = copy_ptr MappingCell is_MappingCell un_MappingCell NetworkMapping_DeepCopyInto"

definition view_conditions :: "(slice, 'k, 'm, 'n, Condition list) viewer" where
  "view_conditions = view_slice is_ConditionArray un_ConditionArray plain"

definition copy_conditions :: "(slice, 'k, 'm, 'n) copier" where
  "copy_conditions = copy_slice ConditionArray is_ConditionArray un_ConditionArray assign"

definition disk_value :: "DiskInfo_struct \<Rightarrow> Condition list \<Rightarrow> DiskInfo" where
  "disk_value s conds = \<lparr>DiskName = di_Name s, DiskSize = di_DiskSize s, DiskLocalPath = di_DiskLocalPath s,
     DiskRoute = di_DiskRoute s, DiskImage = di_VirtualMachineImage s, DiskConditions = conds,
     BusType = di_BusType s\<rparr>"

definition view_disk :: "(DiskInfo_struct, 'k, 'm, 'n, DiskInfo) viewer" where
  "view_disk m s = map_option (disk_value s) (view_conditions m (di_DiskConditions s))"

definition DiskInfo_DeepCopyInto :: "(DiskInfo_struct, 'k, 'm, 'n) copier" where
  "DiskInfo_DeepCopyInto s h =
     do {
       (conds, h) \<leftarrow> copy_conditions (di_DiskConditions s) h;
       Some (s\<lparr>di_DiskConditions := conds\<rparr>, h)
     }"

definition DiskInfo_DeepCopy :: "(ptr, 'k, 'm, 'n) copier" where
  "DiskInfo_DeepCopy = copy_ptr DiskCell is_DiskCell un_DiskCell DiskInfo_DeepCopyInto"

lemma deep_copy_string: "deep_copy view_string copy_string"
  unfolding view_string_def copy_string_def by (rule deep_copy_ptr [OF deep_copy_plain]) simp

lemma deep_copy_conditions: "deep_copy view_conditions copy_conditions"
  unfolding view_conditions_def copy_conditions_def by (rule deep_copy_slice [OF deep_copy_plain]) simp

interpretation mapping_copy: deep_copy view_mapping NetworkMapping_DeepCopyInto
  by (rule deep_copy_struct [OF deep_copy_string view_mapping_def,
        where put = "\<lambda>y s. s\<lparr>nm_NetworkInterfaceModel := y\<rparr>"])
    (auto simp: mapping_value_def NetworkMapping_DeepCopyInto_def split: Option.bind_split)

interpretation disk_copy: deep_copy view_disk DiskInfo_DeepCopyInto
  by (rule deep_copy_struct [OF deep_copy_conditions view_disk_def,
        where put = "\<lambda>y s. s\<lparr>di_DiskConditions := y\<rparr>"])
    (auto simp: disk_value_def DiskInfo_DeepCopyInto_def split: Option.bind_split)

section \<open>VirtualMachineImport\<close>

definition spec_refs :: "ImportSpec_struct \<Rightarrow> slice \<times> ptr \<times> ptr \<times> ptr \<times> ptr" where
  "spec_refs s = (is_Mapping s, is_DefaultNetworkInterfaceModel s, is_DefaultDiskBusType s,
     is_ForcePowerOff s, is_SkipPreflightChecks s)"

definition spec_value :: "ImportSpec_struct \<Rightarrow>
   NetworkMapping list \<times> string option \<times> DiskBus option \<times> bool option \<times> bool option \<Rightarrow>
   VirtualMachineImportSpec" where
  "spec_value s v = (case v of (mapping, model, bus, force, skip) \<Rightarrow>
     \<lparr>SourceCluster = is_SourceCluster s, VirtualMachineName = is_VirtualMachineName s,
      Folder = is_Folder s, Mapping = mapping, DefaultNetworkInterfaceModel = model,
      StorageClassName = is_StorageClass s, DefaultDiskBusType = bus, ForcePowerOff = force,
      GracefulShutdownTimeoutSeconds = is_GracefulShutdownTimeoutSeconds s, SkipPreflight = skip\<rparr>)"

definition view_mappings :: "(slice, 'k, 'm, 'n, NetworkMapping list) viewer" where
  "view_mappings = view_slice is_MappingArray un_MappingArray view_mapping"

definition copy_mappings :: "(slice, 'k, 'm, 'n) copier" where
  "copy_mappings = copy_slice MappingArray is_MappingArray un_MappingArray NetworkMapping_DeepCopyInto"

definition view_bus :: "(ptr, 'k, 'm, 'n, DiskBus option) viewer" where
  "view_bus = view_ptr is_DiskBusCell un_DiskBusCell plain"

definition copy_bus :: "(ptr, 'k, 'm, 'n) copier" where
  "copy_bus = copy_ptr DiskBusCell is_DiskBusCell un_DiskBusCell assign"

definition view_bool :: "(ptr, 'k, 'm, 'n, bool option) viewer" where
  "view_bool = view_ptr is_BoolCell un_BoolCell plain"

definition copy_bool :: "(ptr, 'k, 'm, 'n) copier" where
  "copy_bool = copy_ptr BoolCell is_BoolCell un_BoolCell assign"

definition view_spec :: "(ImportSpec_struct, 'k, 'm, 'n, VirtualMachineImportSpec) viewer" where
  "view_spec m s = map_option (spec_value s)
     (view_pair view_mappings (view_pair view_string (view_pair view_bus (view_pair view_bool view_bool)))
        m (spec_refs s))"

definition VirtualMachineImportSpec_DeepCopyInto :: "(ImportSpec_struct, 'k, 'm, 'n) copier" where
  "VirtualMachineImportSpec_DeepCopyInto s h =
     do {
       (mapping, h) \<leftarrow> copy_mappings (is_Mapping s) h;
       (model, h) \<leftarrow> copy_string (is_DefaultNetworkInterfaceModel s) h;
       (bus, h) \<leftarrow> copy_bus (is_DefaultDiskBusType s) h;
       (force, h) \<leftarrow> copy_bool (is_ForcePowerOff s) h;
       (skip, h) \<leftarrow> copy_bool (is_SkipPreflightChecks s) h;
       Some (s\<lparr>is_Mapping := mapping, is_DefaultNetworkInterfaceModel := model,
               is_DefaultDiskBusType := bus, is_ForcePowerOff := force, is_SkipPreflightChecks := skip\<rparr>, h)
     }"

definition VirtualMachineImportSpec_DeepCopy :: "(ptr, 'k, 'm, 'n) copier" where
  "VirtualMachineImportSpec_DeepCopy =
     copy_ptr ImportSpecCell is_ImportSpecCell un_ImportSpecCell VirtualMachineImportSpec_DeepCopyInto"

lemma deep_copy_parts:
  "deep_copy view_mappings copy_mappings" "deep_copy view_bus copy_bus" "deep_copy view_bool copy_bool"
  unfolding view_mappings_def copy_mappings_def view_bus_def copy_bus_def view_bool_def copy_bool_def
  by (rule deep_copy_slice deep_copy_ptr, rule mapping_copy.deep_copy_axioms deep_copy_plain, simp)+

interpretation spec_copy: deep_copy view_spec VirtualMachineImportSpec_DeepCopyInto
  by (rule deep_copy_struct [OF deep_copy_pair [OF deep_copy_parts(1) deep_copy_pair [OF deep_copy_string
        deep_copy_pair [OF deep_copy_parts(2) deep_copy_pair [OF deep_copy_parts(3) deep_copy_parts(3)]]]] view_spec_def,
        where put = "\<lambda>(mapping, model, bus, force, skip) s. s\<lparr>is_Mapping := mapping,
          is_DefaultNetworkInterfaceModel := model, is_DefaultDiskBusType := bus, is_ForcePowerOff := force,
          is_SkipPreflightChecks := skip\<rparr>"])
    (auto simp: spec_refs_def spec_value_def copy_pair_def VirtualMachineImportSpec_DeepCopyInto_def
      split: Option.bind_split)

definition status_value ::
  "ImportStatus_struct \<Rightarrow> DiskInfo list \<times> Condition list \<Rightarrow> VirtualMachineImportStatus" where
  "status_value s v =
     \<lparr>Status = st_Status s, DiskImportStatus = fst v, ImportConditions = snd v,
      NewVirtualMachine = st_NewVirtualMachine s,
      ImportedVirtualMachineName = st_ImportedVirtualMachineName s\<rparr>"

definition view_disks :: "(slice, 'k, 'm, 'n, DiskInfo list) viewer" where
  "view_disks = view_slice is_DiskArray un_DiskArray view_disk"

definition copy_disks :: "(slice, 'k, 'm, 'n) copier" where
  "copy_disks = copy_slice DiskArray is_DiskArray un_DiskArray DiskInfo_DeepCopyInto"

definition view_status :: "(ImportStatus_struct, 'k, 'm, 'n, VirtualMachineImportStatus) viewer" where
  "view_status m s = map_option (status_value s)
     (view_pair view_disks view_conditions m (st_DiskImportStatus s, st_ImportConditions s))"

definition VirtualMachineImportStatus_DeepCopyInto :: "(ImportStatus_struct, 'k, 'm, 'n) copier" where
  "VirtualMachineImportStatus_DeepCopyInto s h =
     do {
       (disks, h) \<leftarrow> copy_disks (st_DiskImportStatus s) h;
       (conds, h) \<leftarrow> copy_conditions (st_ImportConditions s) h;
       Some (s\<lparr>st_DiskImportStatus := disks, st_ImportConditions := conds\<rparr>, h)
     }"

definition VirtualMachineImportStatus_DeepCopy :: "(ptr, 'k, 'm, 'n) copier" where
  "VirtualMachineImportStatus_DeepCopy =
     copy_ptr ImportStatusCell is_ImportStatusCell un_ImportStatusCell VirtualMachineImportStatus_DeepCopyInto"

lemma deep_copy_disks: "deep_copy view_disks copy_disks"
  unfolding view_disks_def copy_disks_def by (rule deep_copy_slice [OF disk_copy.deep_copy_axioms]) simp

interpretation status_copy: deep_copy view_status VirtualMachineImportStatus_DeepCopyInto
  by (rule deep_copy_struct [OF deep_copy_pair [OF deep_copy_disks deep_copy_conditions] view_status_def,
        where put = "\<lambda>(disks, conds) s. s\<lparr>st_DiskImportStatus := disks, st_ImportConditions := conds\<rparr>"])
    (auto simp: status_value_def copy_pair_def VirtualMachineImportStatus_DeepCopyInto_def
      split: Option.bind_split)

definition import_value ::
  "'m Import_struct \<Rightarrow> ObjectMeta \<times> VirtualMachineImportSpec \<times> VirtualMachineImportStatus \<Rightarrow>
   VirtualMachineImport" where
  "import_value s v = (case v of (meta, spec, status) \<Rightarrow>
     \<lparr>vm_Kind = im_Kind s, vm_APIVersion = im_APIVersion s, vm_Meta = meta, vm_Spec = spec, vm_Status = status\<rparr>)"

definition view_import ::
  "('m, 'k, 'm, 'n, ObjectMeta) viewer \<Rightarrow> ('m Import_struct, 'k, 'm, 'n, VirtualMachineImport) viewer" where
  "view_import view_meta m s = map_option (import_value s)
     (view_pair view_meta (view_pair view_spec view_status) m (im_ObjectMeta s, im_Spec s, im_Status s))"

definition VirtualMachineImport_DeepCopyInto ::
  "('m, 'k, 'm, 'n) copier \<Rightarrow> ('m Import_struct, 'k, 'm, 'n) copier" where
  "VirtualMachineImport_DeepCopyInto copy_meta s h =
     do {
       (meta, h) \<leftarrow> copy_meta (im_ObjectMeta s) h;
       (spec, h) \<leftarrow> VirtualMachineImportSpec_DeepCopyInto (im_Spec s) h;
       (status, h) \<leftarrow> VirtualMachineImportStatus_DeepCopyInto (im_Status s) h;
       Some (s\<lparr>im_ObjectMeta := meta, im_Spec := spec, im_Status := status\<rparr>, h)
     }"

definition VirtualMachineImport_DeepCopy :: "('m, 'k, 'm, 'n) copier \<Rightarrow> (ptr, 'k, 'm, 'n) copier" where
  "VirtualMachineImport_DeepCopy copy_meta =
     copy_ptr ImportCell is_ImportCell un_ImportCell (VirtualMachineImport_DeepCopyInto copy_meta)"

lemma deep_copy_import:
  assumes "deep_copy view_meta copy_meta"
  shows "deep_copy (view_import view_meta) (VirtualMachineImport_DeepCopyInto copy_meta)"
  by (rule deep_copy_struct [OF deep_copy_pair [OF assms deep_copy_pair [OF spec_copy.deep_copy_axioms
        status_copy.deep_copy_axioms]] view_import_def,
        where put = "\<lambda>(meta, spec, status) s. s\<lparr>im_ObjectMeta := meta, im_Spec := spec, im_Status := status\<rparr>"])
    (auto simp: import_value_def copy_pair_def VirtualMachineImport_DeepCopyInto_def split: Option.bind_split)

section \<open>The sources\<close>

definition source_status_value :: "SourceStatus_struct \<Rightarrow> Condition list \<Rightarrow> SourceStatus" where
  "source_status_value s conds = \<lparr>source_Status = ss_Status s, source_Conditions = conds\<rparr>"

definition view_source_status :: "(SourceStatus_struct, 'k, 'm, 'n, SourceStatus) viewer" where
  "view_source_status m s = map_option (source_status_value s) (view_conditions m (ss_Conditions s))"

text \<open>The status structs of the three sources have the same shape, and the same copy.\<close>

definition VmwareSourceStatus_DeepCopyInto :: "(SourceStatus_struct, 'k, 'm, 'n) copier" where
  "VmwareSourceStatus_DeepCopyInto s h =
     do { (conds, h) \<leftarrow> copy_conditions (ss_Conditions s) h; Some (s\<lparr>ss_Conditions := conds\<rparr>, h) }"

definition OvaSourceStatus_DeepCopyInto :: "(SourceStatus_struct, 'k, 'm, 'n) copier" where
  "OvaSourceStatus_DeepCopyInto s h =
     do { (conds, h) \<leftarrow> copy_conditions (ss_Conditions s) h; Some (s\<lparr>ss_Conditions := conds\<rparr>, h) }"

definition OpenstackSourceStatus_DeepCopyInto :: "(SourceStatus_struct, 'k, 'm, 'n) copier" where
  "OpenstackSourceStatus_DeepCopyInto s h =
     do { (conds, h) \<leftarrow> copy_conditions (ss_Conditions s) h; Some (s\<lparr>ss_Conditions := conds\<rparr>, h) }"

definition VmwareSourceStatus_DeepCopy :: "(ptr, 'k, 'm, 'n) copier" where
  "VmwareSourceStatus_DeepCopy =
     copy_ptr SourceStatusCell is_SourceStatusCell un_SourceStatusCell VmwareSourceStatus_DeepCopyInto"

definition OvaSourceStatus_DeepCopy :: "(ptr, 'k, 'm, 'n) copier" where
  "OvaSourceStatus_DeepCopy =
     copy_ptr SourceStatusCell is_SourceStatusCell un_SourceStatusCell OvaSourceStatus_DeepCopyInto"

definition OpenstackSourceStatus_DeepCopy :: "(ptr, 'k, 'm, 'n) copier" where
  "OpenstackSourceStatus_DeepCopy =
     copy_ptr SourceStatusCell is_SourceStatusCell un_SourceStatusCell OpenstackSourceStatus_DeepCopyInto"

lemma same_status_copy:
  "OvaSourceStatus_DeepCopyInto = VmwareSourceStatus_DeepCopyInto"
  "OpenstackSourceStatus_DeepCopyInto = VmwareSourceStatus_DeepCopyInto"
  by (simp_all add: fun_eq_iff VmwareSourceStatus_DeepCopyInto_def OvaSourceStatus_DeepCopyInto_def
      OpenstackSourceStatus_DeepCopyInto_def)

interpretation source_status_copy: deep_copy view_source_status VmwareSourceStatus_DeepCopyInto
  by (rule deep_copy_struct [OF deep_copy_conditions view_source_status_def,
        where put = "\<lambda>y s. s\<lparr>ss_Conditions := y\<rparr>"])
    (auto simp: source_status_value_def VmwareSourceStatus_DeepCopyInto_def split: Option.bind_split)

text \<open>The specs of vSphere and OpenStack hold no references; that of an archive has two.\<close>

definition VmwareSourceSpec_DeepCopyInto :: "(VmwareSpec_struct, 'k, 'm, 'n) copier" where
  "VmwareSourceSpec_DeepCopyInto s h = Some (s\<lparr>vs_Credentials := vs_Credentials s\<rparr>, h)"

definition VmwareSourceSpec_DeepCopy :: "(ptr, 'k, 'm, 'n) copier" where
  "VmwareSourceSpec_DeepCopy =
     copy_ptr VmwareSpecCell is_VmwareSpecCell un_VmwareSpecCell VmwareSourceSpec_DeepCopyInto"

definition OpenstackSourceOptions_DeepCopyInto :: "(OpenstackSourceOptions, 'k, 'm, 'n) copier" where
  "OpenstackSourceOptions_DeepCopyInto s h = Some (s, h)"

definition OpenstackSourceOptions_DeepCopy :: "(ptr, 'k, 'm, 'n) copier" where
  "OpenstackSourceOptions_DeepCopy =
     copy_ptr OpenstackOptionsCell is_OpenstackOptionsCell un_OpenstackOptionsCell
       OpenstackSourceOptions_DeepCopyInto"

definition OpenstackSourceSpec_DeepCopyInto :: "(OpenstackSpec_struct, 'k, 'm, 'n) copier" where
  "OpenstackSourceSpec_DeepCopyInto s h =
     Some (s\<lparr>ps_Credentials := ps_Credentials s, ps_Options := ps_Options s\<rparr>, h)"

definition OpenstackSourceSpec_DeepCopy :: "(ptr, 'k, 'm, 'n) copier" where
  "OpenstackSourceSpec_DeepCopy =
     copy_ptr OpenstackSpecCell is_OpenstackSpecCell un_OpenstackSpecCell OpenstackSourceSpec_DeepCopyInto"

lemma plain_specs [simp]:
  "VmwareSourceSpec_DeepCopyInto = assign" "OpenstackSourceOptions_DeepCopyInto = assign"
  "OpenstackSourceSpec_DeepCopyInto = assign"
  by (simp_all add: fun_eq_iff assign_def VmwareSourceSpec_DeepCopyInto_def
      OpenstackSourceOptions_DeepCopyInto_def OpenstackSourceSpec_DeepCopyInto_def)

definition view_int :: "(ptr, 'k, 'm, 'n, int64 option) viewer" where
  "view_int = view_ptr is_IntCell un_IntCell plain"

definition copy_int :: "(ptr, 'k, 'm, 'n) copier" where
  "copy_int = copy_ptr IntCell is_IntCell un_IntCell assign"

definition view_secret_reference :: "(ptr, 'k, 'm, 'n, SecretRef option) viewer" where
  "view_secret_reference = view_ptr is_SecretReferenceCell un_SecretReferenceCell plain"

definition copy_secret_reference :: "(ptr, 'k, 'm, 'n) copier" where
  "copy_secret_reference = copy_ptr SecretReferenceCell is_SecretReferenceCell un_SecretReferenceCell assign"

definition ova_options_value :: "OvaOptions_struct \<Rightarrow> int64 option \<Rightarrow> OvaSourceOptions" where
  "ova_options_value s timeout = \<lparr>HttpTimeoutSeconds = timeout\<rparr>"

definition view_ova_options :: "(OvaOptions_struct, 'k, 'm, 'n, OvaSourceOptions) viewer" where
  "view_ova_options m s = map_option (ova_options_value s) (view_int m (oo_HttpTimeoutSeconds s))"

definition OvaSourceOptions_DeepCopyInto :: "(OvaOptions_struct, 'k, 'm, 'n) copier" where
  "OvaSourceOptions_DeepCopyInto s h =
     do { (timeout, h) \<leftarrow> copy_int (oo_HttpTimeoutSeconds s) h; Some (s\<lparr>oo_HttpTimeoutSeconds := timeout\<rparr>, h) }"

definition OvaSourceOptions_DeepCopy :: "(ptr, 'k, 'm, 'n) copier" where
  "OvaSourceOptions_DeepCopy =
     copy_ptr OvaOptionsCell is_OvaOptionsCell un_OvaOptionsCell OvaSourceOptions_DeepCopyInto"

text \<open>The spec of an archive denotes its address, its options and its credentials.\<close>

definition ova_spec_value ::
  "OvaSpec_struct \<Rightarrow> OvaSourceOptions \<times> SecretRef option \<Rightarrow> string \<times> OvaSourceOptions \<times> SecretRef option"
  where
  "ova_spec_value s v = (os_Url s, v)"

definition view_ova_spec ::
  "(OvaSpec_struct, 'k, 'm, 'n, string \<times> OvaSourceOptions \<times> SecretRef option) viewer" where
  "view_ova_spec m s = map_option (ova_spec_value s)
     (view_pair view_ova_options view_secret_reference m (os_Options s, os_Credentials s))"

definition OvaSourceSpec_DeepCopyInto :: "(OvaSpec_struct, 'k, 'm, 'n) copier" where
  "OvaSourceSpec_DeepCopyInto s h =
     do {
       (options, h) \<leftarrow> OvaSourceOptions_DeepCopyInto (os_Options s) h;
       (credentials, h) \<leftarrow> copy_secret_reference (os_Credentials s) h;
       Some (s\<lparr>os_Options := options, os_Credentials := credentials\<rparr>, h)
     }"

definition OvaSourceSpec_DeepCopy :: "(ptr, 'k, 'm, 'n) copier" where
  "OvaSourceSpec_DeepCopy = copy_ptr OvaSpecCell is_OvaSpecCell un_OvaSpecCell OvaSourceSpec_DeepCopyInto"

lemma deep_copy_ova_parts: "deep_copy view_int copy_int" "deep_copy view_secret_reference copy_secret_reference"
  unfolding view_int_def copy_int_def view_secret_reference_def copy_secret_reference_def
  by (rule deep_copy_ptr [OF deep_copy_plain], simp)+

interpretation ova_options_copy: deep_copy view_ova_options OvaSourceOptions_DeepCopyInto
  by (rule deep_copy_struct [OF deep_copy_ova_parts(1) view_ova_options_def,
        where put = "\<lambda>y s. s\<lparr>oo_HttpTimeoutSeconds := y\<rparr>"])
    (auto simp: ova_options_value_def OvaSourceOptions_DeepCopyInto_def split: Option.bind_split)

interpretation ova_spec_copy: deep_copy view_ova_spec OvaSourceSpec_DeepCopyInto
  by (rule deep_copy_struct [OF deep_copy_pair [OF ova_options_copy.deep_copy_axioms deep_copy_ova_parts(2)]
        view_ova_spec_def, where put = "\<lambda>(options, credentials) s. s\<lparr>os_Options := options, os_Credentials := credentials\<rparr>"])
    (auto simp: ova_spec_value_def copy_pair_def OvaSourceSpec_DeepCopyInto_def split: Option.bind_split)

text \<open>The source objects.\<close>

definition vmware_value :: "('m, VmwareSpec_struct) Source_struct \<Rightarrow> ObjectMeta \<times> SourceStatus \<Rightarrow> VmwareSource" where
  "vmware_value s v =
     \<lparr>vmware_Kind = so_Kind s, vmware_APIVersion = so_APIVersion s, vmware_Meta = fst v,
      vmware_Endpoint = vs_EndpointAddress (so_Spec s),
      vmware_Datacenter = vs_Datacenter (so_Spec s), vmware_Credentials = vs_Credentials (so_Spec s),
      vmware_Status = snd v\<rparr>"

definition view_vmware ::
  "('m, 'k, 'm, 'n, ObjectMeta) viewer \<Rightarrow> (('m, VmwareSpec_struct) Source_struct, 'k, 'm, 'n, VmwareSource) viewer"
  where
  "view_vmware view_meta m s = map_option (vmware_value s)
     (view_pair view_meta view_source_status m (so_ObjectMeta s, so_Status s))"

definition VmwareSource_DeepCopyInto ::
  "('m, 'k, 'm, 'n) copier \<Rightarrow> (('m, VmwareSpec_struct) Source_struct, 'k, 'm, 'n) copier" where
  "VmwareSource_DeepCopyInto copy_meta s h =
     do {
       (meta, h) \<leftarrow> copy_meta (so_ObjectMeta s) h;
       (status, h) \<leftarrow> VmwareSourceStatus_DeepCopyInto (so_Status s) h;
       Some (s\<lparr>so_ObjectMeta := meta, so_Status := status\<rparr>, h)
     }"

definition openstack_value ::
  "('m, OpenstackSpec_struct) Source_struct \<Rightarrow> ObjectMeta \<times> SourceStatus \<Rightarrow> OpenstackSource" where
  "openstack_value s v =
     \<lparr>openstack_Kind = so_Kind s, openstack_APIVersion = so_APIVersion s, openstack_Meta = fst v,
      openstack_Endpoint = ps_EndpointAddress (so_Spec s),
      openstack_Region = ps_Region (so_Spec s), openstack_Credentials = ps_Credentials (so_Spec s),
      openstack_Options = ps_Options (so_Spec s), openstack_Status = snd v\<rparr>"

definition view_openstack ::
  "('m, 'k, 'm, 'n, ObjectMeta) viewer \<Rightarrow>
   (('m, OpenstackSpec_struct) Source_struct, 'k, 'm, 'n, OpenstackSource) viewer" where
  "view_openstack view_meta m s = map_option (openstack_value s)
     (view_pair view_meta view_source_status m (so_ObjectMeta s, so_Status s))"

definition OpenstackSource_DeepCopyInto ::
  "('m, 'k, 'm, 'n) copier \<Rightarrow> (('m, OpenstackSpec_struct) Source_struct, 'k, 'm, 'n) copier" where
  "OpenstackSource_DeepCopyInto copy_meta s h =
     do {
       (meta, h) \<leftarrow> copy_meta (so_ObjectMeta s) h;
       (status, h) \<leftarrow> OpenstackSourceStatus_DeepCopyInto (so_Status s) h;
       Some (s\<lparr>so_ObjectMeta := meta, so_Status := status\<rparr>, h)
     }"

definition ova_value ::
  "('m, OvaSpec_struct) Source_struct \<Rightarrow>
   ObjectMeta \<times> (string \<times> OvaSourceOptions \<times> SecretRef option) \<times> SourceStatus \<Rightarrow> OvaSource" where
  "ova_value s v = (case v of (meta, (url, options, credentials), status) \<Rightarrow>
     \<lparr>ova_Kind = so_Kind s, ova_APIVersion = so_APIVersion s, ova_Meta = meta, ova_Url = url, ova_Options = options,
      ova_Credentials = credentials, ova_Status = status\<rparr>)"

definition view_ova ::
  "('m, 'k, 'm, 'n, ObjectMeta) viewer \<Rightarrow> (('m, OvaSpec_struct) Source_struct, 'k, 'm, 'n, OvaSource) viewer"
  where
  "view_ova view_meta m s = map_option (ova_value s)
     (view_pair view_meta (view_pair view_ova_spec view_source_status) m (so_ObjectMeta s, so_Spec s, so_Status s))"

definition OvaSource_DeepCopyInto ::
  "('m, 'k, 'm, 'n) copier \<Rightarrow> (('m, OvaSpec_struct) Source_struct, 'k, 'm, 'n) copier" where
  "OvaSource_DeepCopyInto copy_meta s h =
     do {
       (meta, h) \<leftarrow> copy_meta (so_ObjectMeta s) h;
       (spec, h) \<leftarrow> OvaSourceSpec_DeepCopyInto (so_Spec s) h;
       (status, h) \<leftarrow> OvaSourceStatus_DeepCopyInto (so_Status s) h;
       Some (s\<lparr>so_ObjectMeta := meta, so_Spec := spec, so_Status := status\<rparr>, h)
     }"

definition VmwareSource_DeepCopy :: "('m, 'k, 'm, 'n) copier \<Rightarrow> (ptr, 'k, 'm, 'n) copier" where
  "VmwareSource_DeepCopy copy_meta =
     copy_ptr VmwareCell is_VmwareCell un_VmwareCell (VmwareSource_DeepCopyInto copy_meta)"

definition OvaSource_DeepCopy :: "('m, 'k, 'm, 'n) copier \<Rightarrow> (ptr, 'k, 'm, 'n) copier" where
  "OvaSource_DeepCopy copy_meta = copy_ptr OvaCell is_OvaCell un_OvaCell (OvaSource_DeepCopyInto copy_meta)"

definition OpenstackSource_DeepCopy :: "('m, 'k, 'm, 'n) copier \<Rightarrow> (ptr, 'k, 'm, 'n) copier" where
  "OpenstackSource_DeepCopy copy_meta =
     copy_ptr OpenstackCell is_OpenstackCell un_OpenstackCell (OpenstackSource_DeepCopyInto copy_meta)"

lemma deep_copy_sources:
  assumes "deep_copy view_meta copy_meta"
  shows "deep_copy (view_vmware view_meta) (VmwareSource_DeepCopyInto copy_meta)"
    and "deep_copy (view_openstack view_meta) (OpenstackSource_DeepCopyInto copy_meta)"
    and "deep_copy (view_ova view_meta) (OvaSource_DeepCopyInto copy_meta)"
proof -
  note status = source_status_copy.deep_copy_axioms
  let ?put = "\<lambda>(meta, status) s. s\<lparr>so_ObjectMeta := meta, so_Status := status\<rparr>"
  show "deep_copy (view_vmware view_meta) (VmwareSource_DeepCopyInto copy_meta)"
    by (rule deep_copy_struct [OF deep_copy_pair [OF assms status] view_vmware_def, where put = ?put])
      (auto simp: vmware_value_def copy_pair_def VmwareSource_DeepCopyInto_def split: Option.bind_split)
  show "deep_copy (view_openstack view_meta) (OpenstackSource_DeepCopyInto copy_meta)"
    by (rule deep_copy_struct [OF deep_copy_pair [OF assms status] view_openstack_def, where put = ?put])
      (auto simp: openstack_value_def copy_pair_def OpenstackSource_DeepCopyInto_def same_status_copy
        split: Option.bind_split)
  show "deep_copy (view_ova view_meta) (OvaSource_DeepCopyInto copy_meta)"
    by (rule deep_copy_struct [OF deep_copy_pair [OF assms deep_copy_pair [OF ova_spec_copy.deep_copy_axioms status]]
          view_ova_def, where put = "\<lambda>(meta, spec, status) s. s\<lparr>so_ObjectMeta := meta, so_Spec := spec, so_Status := status\<rparr>"])
      (auto simp: ova_value_def copy_pair_def OvaSource_DeepCopyInto_def same_status_copy split: Option.bind_split)
qed

section \<open>Lists and \<open>runtime.Object\<close>\<close>

text \<open>The four list types differ in their items. The value of a list, with list metadata \<open>'l\<close>.\<close>

record ('l, 'a) ApiList =
  list_Kind :: string
  list_APIVersion :: string
  ListMeta :: 'l
  Items :: "'a list"

definition list_value :: "'n List_struct \<Rightarrow> 'l \<times> 'a list \<Rightarrow> ('l, 'a) ApiList" where
  "list_value s v =
     \<lparr>list_Kind = li_Kind s, list_APIVersion = li_APIVersion s, ListMeta = fst v, Items = snd v\<rparr>"

definition view_list ::
  "('n, 'k, 'm, 'n, 'l) viewer \<Rightarrow> (slice, 'k, 'm, 'n, 'a list) viewer \<Rightarrow>
   ('n List_struct, 'k, 'm, 'n, ('l, 'a) ApiList) viewer" where
  "view_list view_lm view_items m s =
     map_option (list_value s) (view_pair view_lm view_items m (li_ListMeta s, li_Items s))"

definition copy_list ::
  "('n, 'k, 'm, 'n) copier \<Rightarrow> (slice, 'k, 'm, 'n) copier \<Rightarrow> ('n List_struct, 'k, 'm, 'n) copier" where
  "copy_list copy_lm copy_items s h =
     do {
       (meta, h) \<leftarrow> copy_lm (li_ListMeta s) h;
       (items, h) \<leftarrow> copy_items (li_Items s) h;
       Some (s\<lparr>li_ListMeta := meta, li_Items := items\<rparr>, h)
     }"

definition VmwareSourceList_DeepCopyInto ::
  "('m, 'k, 'm, 'n) copier \<Rightarrow> ('n, 'k, 'm, 'n) copier \<Rightarrow> ('n List_struct, 'k, 'm, 'n) copier" where
  "VmwareSourceList_DeepCopyInto copy_meta copy_lm = copy_list copy_lm
     (copy_slice VmwareArray is_VmwareArray un_VmwareArray (VmwareSource_DeepCopyInto copy_meta))"

definition OvaSourceList_DeepCopyInto ::
  "('m, 'k, 'm, 'n) copier \<Rightarrow> ('n, 'k, 'm, 'n) copier \<Rightarrow> ('n List_struct, 'k, 'm, 'n) copier" where
  "OvaSourceList_DeepCopyInto copy_meta copy_lm = copy_list copy_lm
     (copy_slice OvaArray is_OvaArray un_OvaArray (OvaSource_DeepCopyInto copy_meta))"

definition OpenstackSourceList_DeepCopyInto ::
  "('m, 'k, 'm, 'n) copier \<Rightarrow> ('n, 'k, 'm, 'n) copier \<Rightarrow> ('n List_struct, 'k, 'm, 'n) copier" where
  "OpenstackSourceList_DeepCopyInto copy_meta copy_lm = copy_list copy_lm
     (copy_slice OpenstackArray is_OpenstackArray un_OpenstackArray (OpenstackSource_DeepCopyInto copy_meta))"

definition VirtualMachineImportList_DeepCopyInto ::
  "('m, 'k, 'm, 'n) copier \<Rightarrow> ('n, 'k, 'm, 'n) copier \<Rightarrow> ('n List_struct, 'k, 'm, 'n) copier" where
  "VirtualMachineImportList_DeepCopyInto copy_meta copy_lm = copy_list copy_lm
     (copy_slice ImportArray is_ImportArray un_ImportArray (VirtualMachineImport_DeepCopyInto copy_meta))"

definition VmwareSourceList_DeepCopy ::
  "('m, 'k, 'm, 'n) copier \<Rightarrow> ('n, 'k, 'm, 'n) copier \<Rightarrow> (ptr, 'k, 'm, 'n) copier" where
  "VmwareSourceList_DeepCopy copy_meta copy_lm =
     copy_ptr ListCell is_ListCell un_ListCell (VmwareSourceList_DeepCopyInto copy_meta copy_lm)"

definition OvaSourceList_DeepCopy ::
  "('m, 'k, 'm, 'n) copier \<Rightarrow> ('n, 'k, 'm, 'n) copier \<Rightarrow> (ptr, 'k, 'm, 'n) copier" where
  "OvaSourceList_DeepCopy copy_meta copy_lm =
     copy_ptr ListCell is_ListCell un_ListCell (OvaSourceList_DeepCopyInto copy_meta copy_lm)"

definition OpenstackSourceList_DeepCopy ::
  "('m, 'k, 'm, 'n) copier \<Rightarrow> ('n, 'k, 'm, 'n) copier \<Rightarrow> (ptr, 'k, 'm, 'n) copier" where
  "OpenstackSourceList_DeepCopy copy_meta copy_lm =
     copy_ptr ListCell is_ListCell un_ListCell (OpenstackSourceList_DeepCopyInto copy_meta copy_lm)"

definition VirtualMachineImportList_DeepCopy ::
  "('m, 'k, 'm, 'n) copier \<Rightarrow> ('n, 'k, 'm, 'n) copier \<Rightarrow> (ptr, 'k, 'm, 'n) copier" where
  "VirtualMachineImportList_DeepCopy copy_meta copy_lm =
     copy_ptr ListCell is_ListCell un_ListCell (VirtualMachineImportList_DeepCopyInto copy_meta copy_lm)"

lemma deep_copy_list:
  assumes "deep_copy view_lm copy_lm" "deep_copy view_items copy_items"
  shows "deep_copy (view_list view_lm view_items) (copy_list copy_lm copy_items)"
  by (rule deep_copy_struct [OF deep_copy_pair [OF assms] view_list_def,
        where put = "\<lambda>(meta, items) s. s\<lparr>li_ListMeta := meta, li_Items := items\<rparr>"])
    (auto simp: list_value_def copy_pair_def copy_list_def split: Option.bind_split)

lemma deep_copy_lists:
  assumes "deep_copy view_meta copy_meta" "deep_copy view_lm copy_lm"
  shows "deep_copy (view_list view_lm (view_slice is_VmwareArray un_VmwareArray (view_vmware view_meta)))
      (VmwareSourceList_DeepCopyInto copy_meta copy_lm)"
    and "deep_copy (view_list view_lm (view_slice is_OvaArray un_OvaArray (view_ova view_meta)))
      (OvaSourceList_DeepCopyInto copy_meta copy_lm)"
    and "deep_copy (view_list view_lm (view_slice is_OpenstackArray un_OpenstackArray (view_openstack view_meta)))
      (OpenstackSourceList_DeepCopyInto copy_meta copy_lm)"
    and "deep_copy (view_list view_lm (view_slice is_ImportArray un_ImportArray (view_import view_meta)))
      (VirtualMachineImportList_DeepCopyInto copy_meta copy_lm)"
  unfolding VmwareSourceList_DeepCopyInto_def OvaSourceList_DeepCopyInto_def
    OpenstackSourceList_DeepCopyInto_def VirtualMachineImportList_DeepCopyInto_def
  by (rule deep_copy_list [OF assms(2)], rule deep_copy_slice,
      rule deep_copy_sources [OF assms(1)] deep_copy_import [OF assms(1)], simp)+

text \<open>
  A value of the interface \<open>runtime.Object\<close>: the nil interface, or a pointer with its type. The methods
  \<open>DeepCopyObject\<close> return the copy only if it is not nil.
\<close>

datatype runtime_Object = NilObject | ObjectOf string ptr

definition copy_object :: "string \<Rightarrow> (ptr, 'k, 'm, 'n) copier \<Rightarrow> ptr \<Rightarrow> ('k, 'm, 'n) cell heap \<Rightarrow>
   (runtime_Object \<times> ('k, 'm, 'n) cell heap) option" where
  "copy_object kind copy p h =
     do {
       (c, h) \<leftarrow> copy p h;
       Some (if c \<noteq> None then ObjectOf kind c else NilObject, h)
     }"

definition VmwareSource_DeepCopyObject where
  "VmwareSource_DeepCopyObject copy_meta = copy_object ''VmwareSource'' (VmwareSource_DeepCopy copy_meta)"

definition OvaSource_DeepCopyObject where
  "OvaSource_DeepCopyObject copy_meta = copy_object ''OvaSource'' (OvaSource_DeepCopy copy_meta)"

definition OpenstackSource_DeepCopyObject where
  "OpenstackSource_DeepCopyObject copy_meta = copy_object ''OpenstackSource'' (OpenstackSource_DeepCopy copy_meta)"

definition VirtualMachineImport_DeepCopyObject where
  "VirtualMachineImport_DeepCopyObject copy_meta =
     copy_object ''VirtualMachineImport'' (VirtualMachineImport_DeepCopy copy_meta)"

definition VmwareSourceList_DeepCopyObject where
  "VmwareSourceList_DeepCopyObject copy_meta copy_lm =
     copy_object ''VmwareSourceList'' (VmwareSourceList_DeepCopy copy_meta copy_lm)"

definition OvaSourceList_DeepCopyObject where
  "OvaSourceList_DeepCopyObject copy_meta copy_lm =
     copy_object ''OvaSourceList'' (OvaSourceList_DeepCopy copy_meta copy_lm)"

definition OpenstackSourceList_DeepCopyObject where
  "OpenstackSourceList_DeepCopyObject copy_meta copy_lm =
     copy_object ''OpenstackSourceList'' (OpenstackSourceList_DeepCopy copy_meta copy_lm)"

definition VirtualMachineImportList_DeepCopyObject where
  "VirtualMachineImportList_DeepCopyObject copy_meta copy_lm =
     copy_object ''VirtualMachineImportList'' (VirtualMachineImportList_DeepCopy copy_meta copy_lm)"

text \<open>No interface that is not nil holds a nil pointer.\<close>

lemma copy_object_nil:
  "copy_object kind (copy_ptr mk is_mk un_mk into) p h = Some (r, h') \<Longrightarrow>
   (r = NilObject \<longleftrightarrow> p = None) \<and> (\<forall>k. r \<noteq> ObjectOf k None)"
  by (auto simp: copy_object_def copy_ptr_def split: option.splits Option.bind_splits if_splits prod.splits)

end
