(* ===== verification/SliceUpdates.thy ===== *)
theory SliceUpdates
  imports DeepCopy Conditions
begin

text \<open>
  Updates of slices in memory: Go's \<open>append\<close>, and the functions of \<open>pkg/util/conditions.go\<close> as they
  work on the arrays: \<open>AddOrUpdateCondition\<close> changes the elements in place. The locale
  \<open>conditions_update\<close> says what such an update promises: the slice it returns denotes the value that the
  function on lists computes, and it changes no cells but those of the slice and new ones.
\<close>

section \<open>What an update may change\<close>

definition slice_cells :: "slice \<Rightarrow> nat set" where
  "slice_cells s = (case s of NilSlice \<Rightarrow> {} | Slice a k n \<Rightarrow> {a})"

lemma slice_cells_simps [simp]: "slice_cells NilSlice = {}" "slice_cells (Slice a k n) = {a}"
  by (simp_all add: slice_cells_def)

definition changes :: "'c heap \<Rightarrow> nat set \<Rightarrow> 'c heap \<Rightarrow> bool" where
  "changes h A h' \<longleftrightarrow> bounded h' \<and> brk h \<le> brk h' \<and> (\<forall>a. a < brk h \<longrightarrow> a \<notin> A \<longrightarrow> mem h' a = mem h a)"

text \<open>Cells of a set or new ones.\<close>

definition own_or_new :: "'c heap \<Rightarrow> nat set \<Rightarrow> 'c heap \<Rightarrow> nat set \<Rightarrow> bool" where
  "own_or_new h A h' B \<longleftrightarrow> B \<subseteq> A \<union> {brk h..<brk h'}"

lemma changes_refl: "bounded h \<Longrightarrow> changes h A h"
  by (simp add: changes_def)

lemma changes_trans:
  "changes h A h' \<Longrightarrow> changes h' B h'' \<Longrightarrow> own_or_new h A h' B \<Longrightarrow> changes h A h''"
proof -
  assume c: "changes h A h'" "changes h' B h''" and b: "own_or_new h A h' B"
  have "mem h'' a = mem h a" if "a < brk h" "a \<notin> A" for a
  proof -
    have "a \<notin> B" "a < brk h'"
      using b c(1) that by (auto simp: own_or_new_def changes_def)
    then show ?thesis
      using c that by (simp add: changes_def)
  qed
  then show ?thesis
    using c by (simp add: changes_def)
qed

lemma own_or_new_trans:
  "own_or_new h A h' B \<Longrightarrow> own_or_new h' B h'' C \<Longrightarrow> brk h \<le> brk h' \<Longrightarrow> brk h' \<le> brk h'' \<Longrightarrow>
   own_or_new h A h'' C"
  by (fastforce simp: own_or_new_def)

lemma own_or_new_refl: "own_or_new h A h' A"
  by (simp add: own_or_new_def)

lemma changes_brk: "changes h A h' \<Longrightarrow> brk h \<le> brk h'"
  by (simp add: changes_def)

lemma changes_bounded: "changes h A h' \<Longrightarrow> bounded h'"
  by (simp add: changes_def)

lemma fill_brk [simp]: "brk (fill a c h) = brk h" "mem (fill a c h) = (mem h)(a \<mapsto> c)"
  by (simp_all add: fill_def)

lemma fill_changes: "bounded h \<Longrightarrow> a < brk h \<Longrightarrow> a \<in> A \<Longrightarrow> changes h A (fill a c h)"
  by (auto simp: changes_def bounded_def)

lemma fill_new_changes:
  "bounded h \<Longrightarrow> changes h A (fill (brk h) c (h\<lparr>brk := Suc (brk h)\<rparr>))"
  by (auto simp: changes_def bounded_def)

lemma bounded_dom: "bounded h \<Longrightarrow> mem h a = Some c \<Longrightarrow> a < brk h"
  by (auto simp: bounded_def)

section \<open>\<open>append\<close>\<close>

text \<open>
  A slice with room in its array grows in place, over what lies behind it. One without gets a new array,
  in which the runtime may leave spare room: \<open>spare\<close> is its content for each length.
\<close>

definition go_append ::
  "('x list \<Rightarrow> 'c) \<Rightarrow> ('c \<Rightarrow> bool) \<Rightarrow> ('c \<Rightarrow> 'x list) \<Rightarrow> (nat \<Rightarrow> 'x list) \<Rightarrow>
   slice \<Rightarrow> 'x \<Rightarrow> 'c heap \<Rightarrow> (slice \<times> 'c heap) option" where
  "go_append kind is_kind content spare s x h =
     (case s of
        NilSlice \<Rightarrow> (let (out, h) = reserve h in Some (Slice out 0 1, fill out (kind (x # spare 1)) h))
      | Slice a k n \<Rightarrow>
          do {
            xs \<leftarrow> load is_kind content (mem h) a;
            if k + n < length xs then Some (Slice a k (Suc n), fill a (kind (xs[k + n := x])) h)
            else if k + n = length xs then
              (let (out, h) = reserve h
               in Some (Slice out 0 (Suc n), fill out (kind (drop k xs @ x # spare (Suc n))) h))
            else None
          })"

definition slice_items ::
  "('c \<Rightarrow> bool) \<Rightarrow> ('c \<Rightarrow> 'x list) \<Rightarrow> (nat \<rightharpoonup> 'c) \<Rightarrow> slice \<Rightarrow> 'x list option" where
  "slice_items is_kind content m s =
     (case s of NilSlice \<Rightarrow> Some [] | Slice a k n \<Rightarrow> elements is_kind content m a k n)"

lemma slice_items_local:
  "(\<And>a. a \<in> slice_cells s \<Longrightarrow> m' a = m a) \<Longrightarrow> slice_items is_kind content m' s = slice_items is_kind content m s"
  by (cases s) (auto simp: slice_items_def elements_def load_def)

lemma elements_SomeD:
  "elements is_kind content m a k n = Some xs \<Longrightarrow>
   \<exists>ys. load is_kind content m a = Some ys \<and> k + n \<le> length ys \<and> xs = take n (drop k ys)"
  by (auto simp: elements_def split: Option.bind_splits if_splits)

lemma load_dom: "load is_kind content m a = Some x \<Longrightarrow> \<exists>c. m a = Some c"
  by (auto simp: load_def split: Option.bind_splits)

lemma slice_items_cells:
  "slice_items is_kind content (mem h) s = Some xs \<Longrightarrow> bounded h \<Longrightarrow> a \<in> slice_cells s \<Longrightarrow> a < brk h"
  by (cases s) (auto simp: slice_items_def dest!: elements_SomeD load_dom intro: bounded_dom)

lemma take_update_Suc: "k + n < length ys \<Longrightarrow> take (Suc n) (drop k (ys[k + n := x])) = take n (drop k ys) @ [x]"
  by (simp add: take_Suc_conv_app_nth drop_update_swap)

lemma go_append_spec:
  assumes "cell_kind kind is_kind content" "bounded h" "slice_items is_kind content (mem h) s = Some xs"
  shows "\<exists>s' h'. go_append kind is_kind content spare s x h = Some (s', h') \<and>
    slice_items is_kind content (mem h') s' = Some (xs @ [x]) \<and>
    changes h (slice_cells s) h' \<and> own_or_new h (slice_cells s) h' (slice_cells s') \<and> s' \<noteq> NilSlice"
proof (cases s)
  case NilSlice
  let ?h = "fill (brk h) (kind (x # spare 1)) (h\<lparr>brk := Suc (brk h)\<rparr>)"
  have "load is_kind content (mem ?h) (brk h) = Some (x # spare 1)"
    using load_stored [OF assms(1)] by simp
  then show ?thesis
    using NilSlice assms(3) fill_new_changes [OF assms(2)]
    by (simp add: go_append_def reserve_def slice_items_def elements_def own_or_new_def)
next
  case (Slice a k n)
  then obtain ys where ys: "load is_kind content (mem h) a = Some ys" "k + n \<le> length ys" "xs = take n (drop k ys)"
    using assms(3) by (auto simp: slice_items_def dest: elements_SomeD)
  then have a: "a < brk h"
    using load_dom bounded_dom [OF assms(2)] by metis
  show ?thesis
  proof (cases "k + n < length ys")
    case True
    let ?h = "fill a (kind (ys[k + n := x])) h"
    have "load is_kind content (mem ?h) a = Some (ys[k + n := x])"
      using load_stored [OF assms(1)] by simp
    then show ?thesis
      using Slice ys True fill_changes [OF assms(2) a]
      by (simp add: go_append_def slice_items_def elements_def own_or_new_def take_update_Suc)
  next
    case False
    let ?h = "fill (brk h) (kind (drop k ys @ x # spare (Suc n))) (h\<lparr>brk := Suc (brk h)\<rparr>)"
    have take_spare: "k + n = length ys \<Longrightarrow>
        take (Suc n) (drop k ys @ x # spare (Suc n)) = drop k ys @ [x]"
      by (simp add: Suc_diff_le)
    have "load is_kind content (mem ?h) (brk h) = Some (drop k ys @ x # spare (Suc n))"
      using load_stored [OF assms(1)] by simp
    then show ?thesis
      using Slice ys False fill_new_changes [OF assms(2)] take_spare
      by (simp add: go_append_def reserve_def slice_items_def elements_def own_or_new_def)
  qed
qed

section \<open>Conditions in memory\<close>

text \<open>The spare room of new arrays.\<close>

record runtime =
  spare_conditions :: "nat \<Rightarrow> Condition list"
  spare_disks :: "nat \<Rightarrow> DiskInfo_struct list"

type_synonym ('k, 'm, 'n) update = "slice \<Rightarrow> ('k, 'm, 'n) cell heap \<Rightarrow> (slice \<times> ('k, 'm, 'n) cell heap) option"

definition append_condition :: "runtime \<Rightarrow> Condition \<Rightarrow> ('k, 'm, 'n) update" where
  "append_condition rt c s = go_append ConditionArray is_ConditionArray un_ConditionArray (spare_conditions rt) s c"

text \<open>The loop over pointers to the elements writes them in place.\<close>

definition AddOrUpdateCondition_mem :: "runtime \<Rightarrow> Condition \<Rightarrow> ('k, 'm, 'n) update" where
  "AddOrUpdateCondition_mem rt newCond s h =
     (case s of
        NilSlice \<Rightarrow> append_condition rt newCond s h
      | Slice a k n \<Rightarrow>
          do {
            cs \<leftarrow> elements is_ConditionArray un_ConditionArray (mem h) a k n;
            xs \<leftarrow> load is_ConditionArray un_ConditionArray (mem h) a;
            let found = list_ex (\<lambda>v. cond_Type v = cond_Type newCond) cs;
            let h = fill a (ConditionArray (take k xs @ map (overwrite newCond) cs @ drop (k + n) xs)) h;
            if \<not> found then append_condition rt newCond s h else Some (s, h)
          })"

fun MergeConditions_mem :: "runtime \<Rightarrow> Condition list \<Rightarrow> ('k, 'm, 'n) update" where
  "MergeConditions_mem rt [] s h = Some (s, h)"
| "MergeConditions_mem rt (v # vs) s h =
     do {
       (s, h) \<leftarrow> AddOrUpdateCondition_mem rt v s h;
       MergeConditions_mem rt vs s h
     }"

text \<open>\<open>RemoveCondition\<close> appends what it keeps to a slice that is nil at first.\<close>

fun keep_conditions :: "runtime \<Rightarrow> Cond \<Rightarrow> ConditionStatus \<Rightarrow> Condition list \<Rightarrow> ('k, 'm, 'n) update" where
  "keep_conditions rt c st [] s h = Some (s, h)"
| "keep_conditions rt c st (v # vs) s h =
     (if cond_Type v \<noteq> c \<or> cond_Status v \<noteq> st
      then do { (s, h) \<leftarrow> append_condition rt v s h; keep_conditions rt c st vs s h }
      else keep_conditions rt c st vs s h)"

definition RemoveCondition_mem :: "runtime \<Rightarrow> Cond \<Rightarrow> ConditionStatus \<Rightarrow> ('k, 'm, 'n) update" where
  "RemoveCondition_mem rt c st s h =
     do {
       cs \<leftarrow> slice_items is_ConditionArray un_ConditionArray (mem h) s;
       keep_conditions rt c st cs NilSlice h
     }"

section \<open>The contract of an update\<close>

lemma view_conditions_items: "view_conditions m s = slice_items is_ConditionArray un_ConditionArray m s"
proof -
  have "view_all plain m xs = Some xs" for xs :: "Condition list"
    by (induction xs) (simp_all add: plain_def)
  then show ?thesis
    by (auto simp: view_conditions_def view_slice_def slice_items_def split: slice.split Option.bind_split)
qed

locale conditions_update =
  fixes upd :: "('k, 'm, 'n) update" and f :: "Condition list \<Rightarrow> Condition list"
  assumes update_spec: "bounded h \<Longrightarrow> view_conditions (mem h) s = Some cs \<Longrightarrow>
    \<exists>s' h'. upd s h = Some (s', h') \<and> view_conditions (mem h') s' = Some (f cs) \<and>
      changes h (slice_cells s) h' \<and> own_or_new h (slice_cells s) h' (slice_cells s')"

lemma conditions_update_comp:
  fixes u v :: "('a, 'b, 'c) update"
  assumes "conditions_update u f" "conditions_update v g"
  shows "conditions_update (\<lambda>s h. Option.bind (u s h) (\<lambda>(s, h). v s h)) (g \<circ> f)"
proof
  fix h :: "('a, 'b, 'c) cell heap" and s cs
  assume h: "bounded h" and cs: "view_conditions (mem h) s = Some cs"
  obtain s1 h1 where 1: "u s h = Some (s1, h1)" "view_conditions (mem h1) s1 = Some (f cs)"
      "changes h (slice_cells s) h1" "own_or_new h (slice_cells s) h1 (slice_cells s1)"
    using conditions_update.update_spec [OF assms(1) h cs] by blast
  obtain s2 h2 where 2: "v s1 h1 = Some (s2, h2)" "view_conditions (mem h2) s2 = Some (g (f cs))"
      "changes h1 (slice_cells s1) h2" "own_or_new h1 (slice_cells s1) h2 (slice_cells s2)"
    using conditions_update.update_spec [OF assms(2) changes_bounded [OF 1(3)] 1(2)] by blast
  show "\<exists>s' h'. Option.bind (u s h) (\<lambda>(s, h). v s h) = Some (s', h') \<and>
      view_conditions (mem h') s' = Some ((g \<circ> f) cs) \<and>
      changes h (slice_cells s) h' \<and> own_or_new h (slice_cells s) h' (slice_cells s')"
    using 1 2 changes_trans [OF 1(3) 2(3) 1(4)]
      own_or_new_trans [OF 1(4) 2(4) changes_brk [OF 1(3)] changes_brk [OF 2(3)]] by simp
qed

interpretation append_mem: conditions_update "append_condition rt c" "\<lambda>cs. cs @ [c]" for rt c
  using go_append_spec [OF cell_kinds(6)]
  by unfold_locales (fastforce simp: append_condition_def view_conditions_items)

lemma overwrite_in_place:
  assumes "bounded h" "elements is_ConditionArray un_ConditionArray (mem h) a k n = Some cs"
    and "load is_ConditionArray un_ConditionArray (mem h) a = Some xs"
    and "h' = fill a (ConditionArray (take k xs @ map g cs @ drop (k + n) xs)) h"
  shows "view_conditions (mem h') (Slice a k n) = Some (map g cs) \<and> changes h {a} h'"
proof -
  have cs: "k + n \<le> length xs" "cs = take n (drop k xs)"
    using elements_SomeD [OF assms(2)] assms(3) by auto
  have "a < brk h"
    using load_dom [OF assms(3)] bounded_dom [OF assms(1)] by blast
  then show ?thesis
    using cs fill_changes [OF assms(1)]
    by (simp add: assms(4) view_conditions_items slice_items_def elements_def load_stored)
qed

interpretation add_mem: conditions_update "AddOrUpdateCondition_mem rt c" "\<lambda>cs. AddOrUpdateCondition cs c" for rt c
proof
  fix h :: "('a, 'b, 'c) cell heap" and s cs
  assume h: "bounded h" and cs: "view_conditions (mem h) s = Some cs"
  show "\<exists>s' h'. AddOrUpdateCondition_mem rt c s h = Some (s', h') \<and>
      view_conditions (mem h') s' = Some (AddOrUpdateCondition cs c) \<and>
      changes h (slice_cells s) h' \<and> own_or_new h (slice_cells s) h' (slice_cells s')"
  proof (cases s)
    case NilSlice
    then show ?thesis
      using append_mem.update_spec [OF h cs] cs
      by (simp add: AddOrUpdateCondition_mem_def AddOrUpdateCondition_def view_conditions_items slice_items_def)
  next
    case (Slice a k n)
    then have el: "elements is_ConditionArray un_ConditionArray (mem h) a k n = Some cs"
      using cs by (simp add: view_conditions_items slice_items_def)
    then obtain xs where xs: "load is_ConditionArray un_ConditionArray (mem h) a = Some xs"
      using elements_SomeD by blast
    define h1 where "h1 = fill a (ConditionArray (take k xs @ map (overwrite c) cs @ drop (k + n) xs)) h"
    note place = overwrite_in_place [OF h el xs h1_def]
    show ?thesis
    proof (cases "list_ex (\<lambda>v. cond_Type v = cond_Type c) cs")
      case True
      then show ?thesis
        using Slice el xs place
        by (simp add: AddOrUpdateCondition_mem_def AddOrUpdateCondition_def own_or_new_refl flip: h1_def)
    next
      case False
      obtain s2 h2 where 2: "append_condition rt c s h1 = Some (s2, h2)"
          "view_conditions (mem h2) s2 = Some (map (overwrite c) cs @ [c])"
          "changes h1 (slice_cells s) h2" "own_or_new h1 (slice_cells s) h2 (slice_cells s2)"
        using append_mem.update_spec [OF changes_bounded, of h "{a}" h1 s] place Slice by blast
      then show ?thesis
        using Slice el xs False changes_trans [of h "{a}" h1 "{a}" h2] place
          own_or_new_trans [of h "{a}" h1 "{a}" h2 "slice_cells s2"] changes_brk
        by (auto simp: AddOrUpdateCondition_mem_def AddOrUpdateCondition_def own_or_new_refl simp flip: h1_def)
    qed
  qed
qed

lemma merge_conditions_update: "conditions_update (MergeConditions_mem rt new) (\<lambda>cs. MergeConditions cs new)"
proof (induction new)
  case Nil
  show ?case
    by unfold_locales (auto intro: changes_refl own_or_new_refl)
next
  case (Cons v vs)
  show ?case
    using conditions_update_comp [OF add_mem.conditions_update_axioms Cons.IH, of rt v]
    by (simp add: comp_def fun_eq_iff)
qed

interpretation merge_mem: conditions_update "MergeConditions_mem rt new" "\<lambda>cs. MergeConditions cs new" for rt new
  by (rule merge_conditions_update)

lemma keep_conditions_update: "conditions_update (keep_conditions rt c st vs) (\<lambda>cs. cs @ RemoveCondition vs c st)"
proof (induction vs)
  case Nil
  show ?case
    by unfold_locales (auto intro: changes_refl own_or_new_refl)
next
  case (Cons v vs)
  show ?case
    using conditions_update_comp [OF append_mem.conditions_update_axioms Cons.IH, of rt v] Cons.IH
    by (simp add: comp_def)
qed

interpretation remove_mem: conditions_update "RemoveCondition_mem rt c st" "\<lambda>cs. RemoveCondition cs c st" for rt c st
proof
  fix h :: "('a, 'b, 'c) cell heap" and s cs
  assume h: "bounded h" and cs: "view_conditions (mem h) s = Some cs"
  obtain s1 h1 where "keep_conditions rt c st cs NilSlice h = Some (s1, h1)"
      "view_conditions (mem h1) s1 = Some (RemoveCondition cs c st)"
      "changes h {} h1" "own_or_new h {} h1 (slice_cells s1)"
    using conditions_update.update_spec [OF keep_conditions_update h, of NilSlice "[]" rt c st cs]
    by (auto simp: view_conditions_items slice_items_def)
  then show "\<exists>s' h'. RemoveCondition_mem rt c st s h = Some (s', h') \<and>
      view_conditions (mem h') s' = Some (RemoveCondition cs c st) \<and>
      changes h (slice_cells s) h' \<and> own_or_new h (slice_cells s) h' (slice_cells s')"
    using cs by (auto simp: RemoveCondition_mem_def view_conditions_items changes_def own_or_new_def)
qed

end
