(* ===== verification/CopyIsolation.thy ===== *)
theory CopyIsolation
  imports SliceUpdates
begin

text \<open>
  Why the handler of imports can be modelled on values. It works on \<open>vmi.DeepCopy()\<close>
  (\<open>virtualmachine.go\<close>, line 121) and assigns to the copy in place: to fields of its status, to the
  conditions of the import and of its disks, and to the elements of its disk slice, to which the clients
  also append. Here these assignments are done in memory: the copy lives in cells of its own, it always
  denotes the value the model computes, and the memory that was there before stays as it was.
\<close>

section \<open>Assignments in memory\<close>

definition import_at ::
  "('m, 'k, 'm, 'n, ObjectMeta) viewer \<Rightarrow> ('k, 'm, 'n) memory \<Rightarrow> ptr \<Rightarrow> VirtualMachineImport \<Rightarrow> bool" where
  "import_at view_meta m p v \<longleftrightarrow>
     view_ptr is_ImportCell un_ImportCell (view_import view_meta) m p = Some (Some v)"

text \<open>
  The assignments of the controller and of the clients: \<open>vm.Status.Status = s\<close>,
  \<open>vm.Status.ImportedVirtualMachineName = n\<close>, the updates of the import's conditions, the appends of disks,
  \<open>vm.Status.DiskImportStatus[i] = d\<close> for an element \<open>d\<close> of a deep copy of the status with a new image name,
  the new name and path of a disk, and the updates and removals of a disk's conditions.
\<close>

datatype assignment =
    AssignStatus ImportStatus
  | AssignImportedName string
  | MergeImportConditions "Condition list"
  | AppendDisk DiskInfo
  | AssignDiskImage nat string
  | AssignDiskFile nat string string
  | MergeDiskConditions nat "Condition list"
  | RemoveDiskCondition nat Cond ConditionStatus

type_synonym ('k, 'm, 'n) memory_step = "('k, 'm, 'n) cell heap \<Rightarrow> ('k, 'm, 'n) cell heap option"

definition assign_field ::
  "(ImportStatus_struct \<Rightarrow> ('k, 'm, 'n) cell heap \<Rightarrow> (ImportStatus_struct \<times> ('k, 'm, 'n) cell heap) option) \<Rightarrow>
   ptr \<Rightarrow> ('k, 'm, 'n) memory_step" where
  "assign_field f p h =
     do {
       b \<leftarrow> p;
       s \<leftarrow> load is_ImportCell un_ImportCell (mem h) b;
       (st, h) \<leftarrow> f (im_Status s) h;
       Some (fill b (ImportCell (s\<lparr>im_Status := st\<rparr>)) h)
     }"

definition assign_element ::
  "nat \<Rightarrow> (DiskInfo_struct \<Rightarrow> ('k, 'm, 'n) cell heap \<Rightarrow> (DiskInfo_struct \<times> ('k, 'm, 'n) cell heap) option) \<Rightarrow>
   ptr \<Rightarrow> ('k, 'm, 'n) memory_step" where
  "assign_element i f p h =
     do {
       b \<leftarrow> p;
       s \<leftarrow> load is_ImportCell un_ImportCell (mem h) b;
       (case st_DiskImportStatus (im_Status s) of
          NilSlice \<Rightarrow> None
        | Slice a k n \<Rightarrow>
            do {
              ds \<leftarrow> elements is_DiskArray un_DiskArray (mem h) a k n;
              if i < length ds then
                do {
                  (d, h) \<leftarrow> f (ds ! i) h;
                  xs \<leftarrow> load is_DiskArray un_DiskArray (mem h) a;
                  Some (fill a (DiskArray (xs[k + i := d])) h)
                }
              else None
            })
     }"

definition update_import_conditions ::
  "('k, 'm, 'n) update \<Rightarrow> ImportStatus_struct \<Rightarrow> ('k, 'm, 'n) cell heap \<Rightarrow>
   (ImportStatus_struct \<times> ('k, 'm, 'n) cell heap) option" where
  "update_import_conditions u st h =
     do { (s, h) \<leftarrow> u (st_ImportConditions st) h; Some (st\<lparr>st_ImportConditions := s\<rparr>, h) }"

definition update_disk_conditions ::
  "('k, 'm, 'n) update \<Rightarrow> DiskInfo_struct \<Rightarrow> ('k, 'm, 'n) cell heap \<Rightarrow>
   (DiskInfo_struct \<times> ('k, 'm, 'n) cell heap) option" where
  "update_disk_conditions u d h =
     do { (s, h) \<leftarrow> u (di_DiskConditions d) h; Some (d\<lparr>di_DiskConditions := s\<rparr>, h) }"

text \<open>A disk as the clients make it: without conditions.\<close>

definition new_disk_struct :: "DiskInfo \<Rightarrow> DiskInfo_struct" where
  "new_disk_struct d = \<lparr>di_Name = DiskName d, di_DiskSize = DiskSize d, di_DiskLocalPath = DiskLocalPath d,
     di_DiskRoute = DiskRoute d, di_VirtualMachineImage = DiskImage d, di_DiskConditions = NilSlice,
     di_BusType = BusType d\<rparr>"

definition append_disk ::
  "runtime \<Rightarrow> DiskInfo_struct \<Rightarrow> ImportStatus_struct \<Rightarrow> ('k, 'm, 'n) cell heap \<Rightarrow>
   (ImportStatus_struct \<times> ('k, 'm, 'n) cell heap) option" where
  "append_disk rt d st h =
     do {
       (s, h) \<leftarrow> go_append DiskArray is_DiskArray un_DiskArray (spare_disks rt) (st_DiskImportStatus st) d h;
       Some (st\<lparr>st_DiskImportStatus := s\<rparr>, h)
     }"

text \<open>The element of the copied status: what \<open>status := vm.Status.DeepCopy()\<close> makes of element \<open>i\<close>.\<close>

definition copied_with_image ::
  "string \<Rightarrow> DiskInfo_struct \<Rightarrow> ('k, 'm, 'n) cell heap \<Rightarrow> (DiskInfo_struct \<times> ('k, 'm, 'n) cell heap) option" where
  "copied_with_image n d h =
     do { (d, h) \<leftarrow> DiskInfo_DeepCopyInto d h; Some (d\<lparr>di_VirtualMachineImage := n\<rparr>, h) }"

fun assign_in_memory :: "runtime \<Rightarrow> assignment \<Rightarrow> ptr \<Rightarrow> ('k, 'm, 'n) memory_step" where
  "assign_in_memory rt (AssignStatus s) = assign_field (\<lambda>st h. Some (st\<lparr>st_Status := s\<rparr>, h))"
| "assign_in_memory rt (AssignImportedName n) =
     assign_field (\<lambda>st h. Some (st\<lparr>st_ImportedVirtualMachineName := n\<rparr>, h))"
| "assign_in_memory rt (MergeImportConditions cs) =
     assign_field (update_import_conditions (MergeConditions_mem rt cs))"
| "assign_in_memory rt (AppendDisk d) = assign_field (append_disk rt (new_disk_struct d))"
| "assign_in_memory rt (AssignDiskImage i n) = assign_element i (copied_with_image n)"
| "assign_in_memory rt (AssignDiskFile i n path) =
     assign_element i (\<lambda>d h. Some (d\<lparr>di_Name := n, di_DiskLocalPath := path\<rparr>, h))"
| "assign_in_memory rt (MergeDiskConditions i cs) =
     assign_element i (update_disk_conditions (MergeConditions_mem rt cs))"
| "assign_in_memory rt (RemoveDiskCondition i c st) =
     assign_element i (update_disk_conditions (RemoveCondition_mem rt c st))"

fun assign_all :: "runtime \<Rightarrow> assignment list \<Rightarrow> ptr \<Rightarrow> ('k, 'm, 'n) memory_step" where
  "assign_all rt [] p h = Some h"
| "assign_all rt (x # xs) p h = Option.bind (assign_in_memory rt x p h) (assign_all rt xs p)"

text \<open>The same on values, as in the other theories.\<close>

definition update_disk :: "nat \<Rightarrow> (DiskInfo \<Rightarrow> DiskInfo) \<Rightarrow> VirtualMachineImport \<Rightarrow> VirtualMachineImport" where
  "update_disk i g vm = set_Disks ((disks_of vm)[i := g (disks_of vm ! i)]) vm"

fun assign_value :: "assignment \<Rightarrow> VirtualMachineImport \<Rightarrow> VirtualMachineImport" where
  "assign_value (AssignStatus s) vm = set_Status s vm"
| "assign_value (AssignImportedName n) vm = set_ImportedName n vm"
| "assign_value (MergeImportConditions cs) vm = set_Conds (MergeConditions (conds_of vm) cs) vm"
| "assign_value (AppendDisk d) vm = set_Disks (disks_of vm @ [d]) vm"
| "assign_value (AssignDiskImage i n) vm = update_disk i (\<lambda>d. d\<lparr>DiskImage := n\<rparr>) vm"
| "assign_value (AssignDiskFile i n path) vm =
     update_disk i (\<lambda>d. d\<lparr>DiskName := n, DiskLocalPath := path\<rparr>) vm"
| "assign_value (MergeDiskConditions i cs) vm =
     update_disk i (\<lambda>d. d\<lparr>DiskConditions := MergeConditions (DiskConditions d) cs\<rparr>) vm"
| "assign_value (RemoveDiskCondition i c st) vm =
     update_disk i (\<lambda>d. d\<lparr>DiskConditions := RemoveCondition (DiskConditions d) c st\<rparr>) vm"

text \<open>Indices in range, for the object as it is when the assignment is made; new disks without conditions.\<close>

fun in_range :: "assignment \<Rightarrow> VirtualMachineImport \<Rightarrow> bool" where
  "in_range (AppendDisk d) vm \<longleftrightarrow> DiskConditions d = []"
| "in_range (AssignDiskImage i n) vm \<longleftrightarrow> i < length (disks_of vm)"
| "in_range (AssignDiskFile i n path) vm \<longleftrightarrow> i < length (disks_of vm)"
| "in_range (MergeDiskConditions i cs) vm \<longleftrightarrow> i < length (disks_of vm)"
| "in_range (RemoveDiskCondition i c st) vm \<longleftrightarrow> i < length (disks_of vm)"
| "in_range x vm \<longleftrightarrow> True"

fun all_in_range :: "assignment list \<Rightarrow> VirtualMachineImport \<Rightarrow> bool" where
  "all_in_range [] vm \<longleftrightarrow> True"
| "all_in_range (x # xs) vm \<longleftrightarrow> in_range x vm \<and> all_in_range xs (assign_value x vm)"

section \<open>An object that owns its cells\<close>

text \<open>
  The cells an object can change, by part: its struct, its array of disks, its conditions, and the
  conditions of each disk. They are apart from each other and from the memory \<open>m0\<close>, which holds the
  rest of the object and everything else.
\<close>

datatype part = RootPart | DisksPart | ConditionsPart | DiskPart nat

fun parts :: "nat \<Rightarrow> 'm Import_struct \<Rightarrow> DiskInfo_struct list \<Rightarrow> part \<Rightarrow> nat set" where
  "parts b s ds RootPart = {b}"
| "parts b s ds DisksPart = slice_cells (st_DiskImportStatus (im_Status s))"
| "parts b s ds ConditionsPart = slice_cells (st_ImportConditions (im_Status s))"
| "parts b s ds (DiskPart i) = (if i < length ds then slice_cells (di_DiskConditions (ds ! i)) else {})"

definition apart :: "('p \<Rightarrow> nat set) \<Rightarrow> bool" where
  "apart f \<longleftrightarrow> (\<forall>p q. p \<noteq> q \<longrightarrow> f p \<inter> f q = {})"

definition owned ::
  "('m, 'k, 'm, 'n, ObjectMeta) viewer \<Rightarrow> ('k, 'm, 'n) memory \<Rightarrow> nat \<Rightarrow> ('k, 'm, 'n) cell heap \<Rightarrow>
   VirtualMachineImport \<Rightarrow> 'm Import_struct \<Rightarrow> DiskInfo_struct list \<Rightarrow> bool" where
  "owned view_meta m0 b h v s ds \<longleftrightarrow>
     bounded h \<and> mem h b = Some (ImportCell s) \<and>
     slice_items is_DiskArray un_DiskArray (mem h) (st_DiskImportStatus (im_Status s)) = Some ds \<and>
     apart (parts b s ds) \<and> m0 \<subseteq>\<^sub>m mem h \<and> (\<forall>p. parts b s ds p \<inter> dom m0 = {}) \<and>
     view_meta m0 (im_ObjectMeta s) = Some (vm_Meta v) \<and> view_spec m0 (im_Spec s) = Some (vm_Spec v) \<and>
     view_conditions (mem h) (st_ImportConditions (im_Status s)) = Some (conds_of v) \<and>
     view_all view_disk (mem h) ds = Some (disks_of v) \<and>
     vm_Kind v = im_Kind s \<and> vm_APIVersion v = im_APIVersion s \<and> status_of v = st_Status (im_Status s) \<and>
     NewVirtualMachine (vm_Status v) = st_NewVirtualMachine (im_Status s) \<and>
     imported_name v = st_ImportedVirtualMachineName (im_Status s)"

definition owns ::
  "('m, 'k, 'm, 'n, ObjectMeta) viewer \<Rightarrow> ('k, 'm, 'n) memory \<Rightarrow> nat \<Rightarrow> ('k, 'm, 'n) cell heap \<Rightarrow>
   VirtualMachineImport \<Rightarrow> bool" where
  "owns view_meta m0 b h v \<longleftrightarrow> (\<exists>s ds. owned view_meta m0 b h v s ds)"

lemma ownedD:
  assumes "owned view_meta m0 b h v s ds"
  shows "bounded h" "mem h b = Some (ImportCell s)"
    "slice_items is_DiskArray un_DiskArray (mem h) (st_DiskImportStatus (im_Status s)) = Some ds"
    "apart (parts b s ds)" "m0 \<subseteq>\<^sub>m mem h" "parts b s ds p \<inter> dom m0 = {}"
    "view_conditions (mem h) (st_ImportConditions (im_Status s)) = Some (conds_of v)"
    "view_all view_disk (mem h) ds = Some (disks_of v)"
  using assms unfolding owned_def by blast+

lemma view_all_iff:
  "view_all f m xs = Some vs \<longleftrightarrow>
   length xs = length vs \<and> (\<forall>i < length xs. f m (xs ! i) = Some (vs ! i))"
proof (induction xs arbitrary: vs)
  case Nil
  then show ?case by auto
next
  case (Cons x xs)
  show ?case
  proof (cases vs)
    case (Cons w ws)
    then show ?thesis
      using Cons.IH [of ws] by (auto simp: All_less_Suc2 split: Option.bind_split)
  qed (simp split: Option.bind_splits)
qed

lemma view_conditions_local:
  "(\<And>a. a \<in> slice_cells s \<Longrightarrow> m' a = m a) \<Longrightarrow> view_conditions m' s = view_conditions m s"
  unfolding view_conditions_items by (rule slice_items_local)

lemma view_disk_local:
  "(\<And>a. a \<in> slice_cells (di_DiskConditions d) \<Longrightarrow> m' a = m a) \<Longrightarrow> view_disk m' d = view_disk m d"
  by (simp add: view_disk_def view_conditions_local [of "di_DiskConditions d" m' m])

lemma view_disk_conditions: "view_disk m d = Some v \<longleftrightarrow>
    (\<exists>cs. view_conditions m (di_DiskConditions d) = Some cs \<and> v = disk_value d cs)"
  by (auto simp: view_disk_def)

lemma rest_below: "m0 \<subseteq>\<^sub>m mem h \<Longrightarrow> bounded h \<Longrightarrow> dom m0 \<subseteq> {..<brk h}"
  unfolding bounded_def by (rule subset_trans [OF map_le_implies_dom_le])

text \<open>All parts are cells of the memory.\<close>

lemma parts_below:
  assumes "owned view_meta m0 b h v s ds"
  shows "parts b s ds p \<subseteq> {..<brk h}"
proof -
  note o = ownedD [OF assms]
  have conds: "slice_cells sl \<subseteq> {..<brk h}" if "view_conditions (mem h) sl = Some cs" for sl cs
    using slice_items_cells [OF that [unfolded view_conditions_items] o(1)] by blast
  show ?thesis
  proof (cases p)
    case RootPart
    then show ?thesis using bounded_dom [OF o(1,2)] by simp
  next
    case DisksPart
    then show ?thesis using slice_items_cells [OF o(3,1)] by auto
  next
    case ConditionsPart
    then show ?thesis using conds [OF o(7)] by simp
  next
    case (DiskPart i)
    then show ?thesis
      using o(8) conds by (auto simp: view_all_iff view_disk_conditions) blast
  qed
qed

text \<open>A change in one part leaves the others and the rest of the memory alone.\<close>

lemma changes_frame:
  assumes "owned view_meta m0 b h v s ds" "changes h A h'" "A \<subseteq> parts b s ds p"
  shows "q \<noteq> p \<Longrightarrow> a \<in> parts b s ds q \<Longrightarrow> mem h' a = mem h a" and "m0 \<subseteq>\<^sub>m mem h'"
proof -
  note o = ownedD [OF assms(1)]
  show "mem h' a = mem h a" if "q \<noteq> p" "a \<in> parts b s ds q"
  proof -
    have "a \<notin> A"
      using o(4) that assms(3) unfolding apart_def by blast
    moreover have "a < brk h"
      using parts_below [OF assms(1), of q] that(2) by blast
    ultimately show ?thesis
      using assms(2) by (simp add: changes_def)
  qed
  show "m0 \<subseteq>\<^sub>m mem h'"
    unfolding map_le_def
  proof
    fix a
    assume a: "a \<in> dom m0"
    then have "mem h a = m0 a"
      using o(5) by (auto simp: map_le_def)
    moreover have "a \<notin> A" "a < brk h"
      using a o(6) [of p] assms(3) rest_below [OF o(5,1)] by auto
    ultimately show "m0 a = mem h' a"
      using assms(2) by (simp add: changes_def)
  qed
qed

lemma apart_update:
  assumes "apart f" "\<And>q. q \<noteq> p \<Longrightarrow> f' q = f q" "own_or_new h (f p) h' (f' p)" "\<And>q. f q \<subseteq> {..<brk h}"
  shows "apart f'"
proof -
  have "f' p \<inter> f' q = {}" if "q \<noteq> p" for q
    using assms(1,3) assms(2) [OF that] assms(4) [of q] that unfolding apart_def own_or_new_def by fastforce
  then show ?thesis
    using assms(1,2) unfolding apart_def by (metis inf_commute)
qed

lemma parts_rest:
  assumes "owned view_meta m0 b h v s ds" "\<And>q. q \<noteq> p \<Longrightarrow> f' q = parts b s ds q"
    and "own_or_new h (parts b s ds p) h' (f' p)"
  shows "apart f'" "f' q \<inter> dom m0 = {}"
proof -
  note o = ownedD [OF assms(1)]
  show "apart f'"
    by (rule apart_update [OF o(4) assms(2,3) parts_below [OF assms(1)]])
  show "f' q \<inter> dom m0 = {}"
  proof (cases "q = p")
    case True
    then show ?thesis
      using assms(3) o(6) [of p] rest_below [OF o(5,1)] unfolding own_or_new_def by fastforce
  next
    case False
    then show ?thesis
      using assms(2) [OF False] o(6) [of q] by simp
  qed
qed

text \<open>A new status in the struct, after a change in one other part.\<close>

lemma owned_field:
  assumes "owned view_meta m0 b h v s ds" "f (im_Status s) h = Some (st, h1)"
    and "changes h (parts b s ds p) h1" "p \<noteq> RootPart"
    and "slice_items is_DiskArray un_DiskArray (mem h1) (st_DiskImportStatus st) = Some ds'"
    and "view_conditions (mem h1) (st_ImportConditions st) = Some (conds_of v')"
    and "view_all view_disk (mem h1) ds' = Some (disks_of v')"
    and "\<And>q. q \<noteq> p \<Longrightarrow> parts b (s\<lparr>im_Status := st\<rparr>) ds' q = parts b s ds q"
    and "own_or_new h (parts b s ds p) h1 (parts b (s\<lparr>im_Status := st\<rparr>) ds' p)"
    and "vm_Kind v' = vm_Kind v" "vm_APIVersion v' = vm_APIVersion v" "vm_Meta v' = vm_Meta v"
      "vm_Spec v' = vm_Spec v" "status_of v' = st_Status st"
      "NewVirtualMachine (vm_Status v') = st_NewVirtualMachine st"
      "imported_name v' = st_ImportedVirtualMachineName st"
  shows "\<exists>h'. assign_field f (Some b) h = Some h' \<and> owns view_meta m0 b h' v'"
proof -
  note o = ownedD [OF assms(1)]
  let ?s = "s\<lparr>im_Status := st\<rparr>"
  let ?h = "fill b (ImportCell ?s) h1"
  note rest = parts_rest [OF assms(1,8,9)]
  have b: "b < brk h1"
    using parts_below [OF assms(1), of RootPart] changes_brk [OF assms(3)] by simp
  have same: "mem ?h a = mem h1 a" if "a \<in> parts b ?s ds' q" "q \<noteq> RootPart" for a q
    using rest(1) that unfolding apart_def by (metis disjoint_iff fill_brk(2) fun_upd_other parts.simps(1) singletonI)
  have root: "b \<notin> dom m0"
    using o(6) [of RootPart] by simp
  have le: "m0 \<subseteq>\<^sub>m mem ?h"
    using changes_frame(2) [OF assms(1,3) subset_refl] root by (auto simp: map_le_def)
  have disks: "view_disk (mem ?h) (ds' ! i) = view_disk (mem h1) (ds' ! i)" if "i < length ds'" for i
    by (rule view_disk_local, rule same [of _ "DiskPart i"]) (use that in simp_all)
  have "view_all view_disk (mem ?h) ds' = Some (disks_of v')"
    using assms(7) disks by (simp add: view_all_iff)
  moreover have "slice_items is_DiskArray un_DiskArray (mem ?h) (st_DiskImportStatus st) = Some ds'"
    using slice_items_local [of "st_DiskImportStatus st" "mem ?h" "mem h1" is_DiskArray un_DiskArray]
      same [of _ DisksPart] assms(5) by simp
  moreover have "view_conditions (mem ?h) (st_ImportConditions st) = Some (conds_of v')"
    using view_conditions_local [of "st_ImportConditions st" "mem ?h" "mem h1"] same [of _ ConditionsPart] assms(6)
    by simp
  moreover have "bounded ?h"
    using changes_bounded [OF assms(3)] b by (auto simp: bounded_def)
  ultimately have "owned view_meta m0 b ?h v' ?s ds'"
    using assms(1,10-) rest le unfolding owned_def by simp
  moreover have "assign_field f (Some b) h = Some ?h"
    using o(2) assms(2) by (simp add: assign_field_def load_def)
  ultimately show ?thesis
    unfolding owns_def by blast
qed

text \<open>A new element of the disks, after a change in its conditions.\<close>

lemma owned_element:
  assumes "owned view_meta m0 b h v s ds" "i < length ds" "f (ds ! i) h = Some (d, h1)"
    and "changes h (slice_cells (di_DiskConditions (ds ! i))) h1"
    and "view_disk (mem h1) d = Some (g (disks_of v ! i))"
    and "own_or_new h (slice_cells (di_DiskConditions (ds ! i))) h1 (slice_cells (di_DiskConditions d))"
  shows "\<exists>h'. assign_element i f (Some b) h = Some h' \<and> owns view_meta m0 b h' (update_disk i g v)"
proof -
  note o = ownedD [OF assms(1)]
  let ?ds = "ds[i := d]"
  obtain a k n where sl: "st_DiskImportStatus (im_Status s) = Slice a k n"
    using o(3) assms(2) by (cases "st_DiskImportStatus (im_Status s)") (auto simp: slice_items_def)
  then have el: "elements is_DiskArray un_DiskArray (mem h) a k n = Some ds"
    using o(3) by (simp add: slice_items_def)
  have part: "slice_cells (di_DiskConditions (ds ! i)) = parts b s ds (DiskPart i)"
    using assms(2) by simp
  have ch: "changes h (parts b s ds (DiskPart i)) h1"
    using assms(4) part by simp
  note frame = changes_frame [OF assms(1) ch subset_refl]
  have a: "mem h1 a = mem h a"
    using frame(1) [of DisksPart a] sl by simp
  obtain xs where xs: "load is_DiskArray un_DiskArray (mem h) a = Some xs" "k + n \<le> length xs" "ds = take n (drop k xs)"
    using elements_SomeD [OF el] by blast
  then have xs1: "load is_DiskArray un_DiskArray (mem h1) a = Some xs"
    using a by (simp add: load_def)
  let ?h = "fill a (DiskArray (xs[k + i := d])) h1"
  have other: "parts b s ?ds q = parts b s ds q" if "q \<noteq> DiskPart i" for q
    using that by (cases q) auto
  have own: "own_or_new h (parts b s ds (DiskPart i)) h1 (parts b s ?ds (DiskPart i))"
    using assms(2,6) by simp
  note rest = parts_rest [OF assms(1) other own]
  have below: "a < brk h1"
    using parts_below [OF assms(1), of DisksPart] sl changes_brk [OF ch] by simp
  have same: "mem ?h c = mem h1 c" if "c \<in> parts b s ?ds q" "q \<noteq> DisksPart" for c q
  proof -
    have "c \<noteq> a"
      using rest(1) that sl unfolding apart_def
      by (metis disjoint_iff parts.simps(2) singletonI slice_cells_simps(2))
    then show ?thesis by simp
  qed
  have "a \<notin> dom m0"
    using o(6) [of DisksPart] sl by simp
  then have le: "m0 \<subseteq>\<^sub>m mem ?h"
    using frame(2) by (auto simp: map_le_def)
  have len: "length ds = length (disks_of v)"
    using o(8) by (simp add: view_all_iff)
  have disk: "view_disk (mem ?h) (?ds ! j) = Some (disks_of (update_disk i g v) ! j)" if "j < length ds" for j
  proof -
    have "view_disk (mem ?h) (?ds ! j) = view_disk (mem h1) (?ds ! j)"
      by (rule view_disk_local, rule same [of _ "DiskPart j"]) (use that in simp_all)
    also have "\<dots> = Some (disks_of (update_disk i g v) ! j)"
    proof (cases "j = i")
      case True
      then show ?thesis
        using assms(2,5) len by (simp add: update_disk_def)
    next
      case False
      have "view_disk (mem h1) (ds ! j) = view_disk (mem h) (ds ! j)"
        by (rule view_disk_local, rule frame(1) [of "DiskPart j"]) (use that False in simp_all)
      then show ?thesis
        using o(8) that False by (simp add: view_all_iff update_disk_def)
    qed
    finally show ?thesis .
  qed
  have root: "mem ?h b = Some (ImportCell s)"
    using same [of b RootPart] frame(1) [of RootPart b] o(2) by simp
  have conds: "view_conditions (mem ?h) (st_ImportConditions (im_Status s)) = Some (conds_of v)"
  proof -
    have "view_conditions (mem ?h) (st_ImportConditions (im_Status s)) =
        view_conditions (mem h1) (st_ImportConditions (im_Status s))"
      by (rule view_conditions_local, rule same [of _ ConditionsPart]) simp_all
    also have "\<dots> = view_conditions (mem h) (st_ImportConditions (im_Status s))"
      by (rule view_conditions_local, rule frame(1) [of ConditionsPart]) simp_all
    finally show ?thesis using o(7) by simp
  qed
  have "take n (drop k (xs[k + i := d])) = ?ds"
    using xs(2,3) by (simp add: drop_update_swap take_update_swap)
  then have "slice_items is_DiskArray un_DiskArray (mem ?h) (Slice a k n) = Some ?ds"
    using xs(2) by (simp add: slice_items_def elements_def load_def)
  moreover have "bounded ?h"
    using changes_bounded [OF ch] below by (auto simp: bounded_def)
  moreover have "view_all view_disk (mem ?h) ?ds = Some (disks_of (update_disk i g v))"
    using disk len by (simp add: view_all_iff update_disk_def)
  ultimately have "owned view_meta m0 b ?h (update_disk i g v) s ?ds"
    using assms(1) rest le root conds sl unfolding owned_def by (simp add: update_disk_def set_Disks_def)
  moreover have "load is_ImportCell un_ImportCell (mem h) b = Some s"
    using o(2) by (simp add: load_def)
  then have "assign_element i f (Some b) h = Some ?h"
    using sl el assms(2,3) xs1 by (simp add: assign_element_def)
  ultimately show ?thesis
    unfolding owns_def by blast
qed

section \<open>Assignments to an object that owns its cells\<close>

text \<open>The copy of conditions is an update that keeps them.\<close>

lemma copy_all_assign: "copy_all assign xs h = Some (xs, h)"
  by (induction xs) (simp_all add: assign_def)

lemma copy_conditions_update: "conditions_update copy_conditions (\<lambda>cs. cs)"
proof
  fix h :: "('a, 'b, 'c) cell heap" and s cs
  assume h: "bounded h" and cs: "view_conditions (mem h) s = Some cs"
  show "\<exists>s' h'. copy_conditions s h = Some (s', h') \<and> view_conditions (mem h') s' = Some cs \<and>
      changes h (slice_cells s) h' \<and> own_or_new h (slice_cells s) h' (slice_cells s')"
  proof (cases s)
    case NilSlice
    then show ?thesis
      using cs changes_refl [OF h] by (simp add: copy_conditions_def copy_slice_def own_or_new_def)
  next
    case (Slice a k n)
    then have el: "elements is_ConditionArray un_ConditionArray (mem h) a k n = Some cs"
      using cs by (simp add: view_conditions_items slice_items_def)
    let ?h = "fill (brk h) (ConditionArray cs) (h\<lparr>brk := Suc (brk h)\<rparr>)"
    have "length cs = n"
      using elements_SomeD [OF el] by auto
    then have "view_conditions (mem ?h) (Slice (brk h) 0 n) = Some cs"
      by (simp add: view_conditions_items slice_items_def elements_def load_def)
    then show ?thesis
      using Slice el fill_new_changes [OF h]
      by (simp add: copy_conditions_def copy_slice_def copy_all_assign reserve_def own_or_new_def)
  qed
qed

interpretation copy_mem: conditions_update copy_conditions "\<lambda>cs. cs"
  by (rule copy_conditions_update)

lemma owns_status:
  assumes "owns view_meta m0 b h v"
    and "\<And>st. st_DiskImportStatus (g st) = st_DiskImportStatus st"
    and "\<And>st. st_ImportConditions (g st) = st_ImportConditions st"
    and "\<And>st ds cs. status_value (g st) (ds, cs) = f (status_value st (ds, cs))"
    and "v' = v\<lparr>vm_Status := f (vm_Status v)\<rparr>"
  shows "\<exists>h'. assign_field (\<lambda>st h. Some (g st, h)) (Some b) h = Some h' \<and> owns view_meta m0 b h' v'"
proof -
  obtain s ds where o: "owned view_meta m0 b h v s ds"
    using assms(1) unfolding owns_def by blast
  have "vm_Status v = status_value (im_Status s) (disks_of v, conds_of v)"
    using o by (simp add: owned_def status_value_def)
  then have st: "vm_Status v' = status_value (g (im_Status s)) (disks_of v, conds_of v)"
    by (simp add: assms(4,5))
  have rest: "vm_Kind v' = im_Kind s" "vm_APIVersion v' = im_APIVersion s" "vm_Meta v' = vm_Meta v"
      "vm_Spec v' = vm_Spec v" "vm_Kind v = im_Kind s" "vm_APIVersion v = im_APIVersion s"
    using o assms(5) by (simp_all add: owned_def)
  have parts: "parts b (s\<lparr>im_Status := g (im_Status s)\<rparr>) ds q = parts b s ds q" for q
    by (cases q) (simp_all add: assms(2,3))
  show ?thesis
    by (rule owned_field [OF o, where p = ConditionsPart and ds' = ds and st = "g (im_Status s)" and ?h1.0 = h])
      (use ownedD [OF o] in \<open>simp_all add: st rest parts changes_refl own_or_new_refl assms(2,3) status_value_def
         del: parts.simps\<close>)
qed

lemma owns_import_conditions:
  assumes "owns view_meta m0 b h v" "conditions_update u f"
  shows "\<exists>h'. assign_field (update_import_conditions u) (Some b) h = Some h' \<and>
    owns view_meta m0 b h' (set_Conds (f (conds_of v)) v)"
proof -
  obtain s ds where o: "owned view_meta m0 b h v s ds"
    using assms(1) unfolding owns_def by blast
  note d = ownedD [OF o]
  obtain sl h1 where u: "u (st_ImportConditions (im_Status s)) h = Some (sl, h1)"
      "view_conditions (mem h1) sl = Some (f (conds_of v))"
      "changes h (parts b s ds ConditionsPart) h1" "own_or_new h (parts b s ds ConditionsPart) h1 (slice_cells sl)"
    using conditions_update.update_spec [OF assms(2) d(1,7)] by auto
  note frame = changes_frame(1) [OF o u(3) subset_refl]
  have items: "slice_items is_DiskArray un_DiskArray (mem h1) (st_DiskImportStatus (im_Status s)) = Some ds"
    using slice_items_local [of "st_DiskImportStatus (im_Status s)" "mem h1" "mem h" is_DiskArray un_DiskArray]
      frame [of DisksPart] d(3) by simp
  have "view_disk (mem h1) (ds ! i) = view_disk (mem h) (ds ! i)" if "i < length ds" for i
    by (rule view_disk_local, rule frame [of "DiskPart i"]) (use that in simp_all)
  then have disks: "view_all view_disk (mem h1) ds = Some (disks_of v)"
    using d(8) by (simp add: view_all_iff)
  have other: "parts b (s\<lparr>im_Status := (im_Status s)\<lparr>st_ImportConditions := sl\<rparr>\<rparr>) ds q = parts b s ds q"
    if "q \<noteq> ConditionsPart" for q
    using that by (cases q) simp_all
  show ?thesis
    by (rule owned_field [OF o, where p = ConditionsPart and ds' = ds
          and st = "(im_Status s)\<lparr>st_ImportConditions := sl\<rparr>" and ?h1.0 = h1])
      (use o u items disks other in \<open>simp_all add: update_import_conditions_def set_Conds_def owned_def\<close>)
qed

lemma owns_append_disk:
  assumes "owns view_meta m0 b h v" "DiskConditions d = []"
  shows "\<exists>h'. assign_field (append_disk rt (new_disk_struct d)) (Some b) h = Some h' \<and>
    owns view_meta m0 b h' (set_Disks (disks_of v @ [d]) v)"
proof -
  obtain s ds where o: "owned view_meta m0 b h v s ds"
    using assms(1) unfolding owns_def by blast
  note e = ownedD [OF o]
  obtain sl h1 where a: "go_append DiskArray is_DiskArray un_DiskArray (spare_disks rt)
        (st_DiskImportStatus (im_Status s)) (new_disk_struct d) h = Some (sl, h1)"
      "slice_items is_DiskArray un_DiskArray (mem h1) sl = Some (ds @ [new_disk_struct d])"
      "changes h (parts b s ds DisksPart) h1" "own_or_new h (parts b s ds DisksPart) h1 (slice_cells sl)"
    using go_append_spec [OF cell_kinds(8) e(1,3)] by fastforce
  note frame = changes_frame(1) [OF o a(3) subset_refl]
  have "view_disk (mem h1) (ds ! i) = view_disk (mem h) (ds ! i)" if "i < length ds" for i
    by (rule view_disk_local, rule frame [of "DiskPart i"]) (use that in simp_all)
  moreover have "view_disk (mem h1) (new_disk_struct d) = Some d"
    using assms(2) by (simp add: view_disk_def new_disk_struct_def view_conditions_items slice_items_def disk_value_def)
  ultimately have disks: "view_all view_disk (mem h1) (ds @ [new_disk_struct d]) = Some (disks_of v @ [d])"
    using e(8) by (auto simp: view_all_iff nth_append less_Suc_eq)
  have conds: "view_conditions (mem h1) (st_ImportConditions (im_Status s)) = Some (conds_of v)"
    using view_conditions_local [of "st_ImportConditions (im_Status s)" "mem h1" "mem h"]
      frame [of ConditionsPart] e(7) by simp
  have other: "parts b (s\<lparr>im_Status := (im_Status s)\<lparr>st_DiskImportStatus := sl\<rparr>\<rparr>) (ds @ [new_disk_struct d]) q =
      parts b s ds q" if "q \<noteq> DisksPart" for q
    using that by (cases q) (auto simp: nth_append new_disk_struct_def less_Suc_eq)
  show ?thesis
    by (rule owned_field [OF o, where p = DisksPart and ds' = "ds @ [new_disk_struct d]"
          and st = "(im_Status s)\<lparr>st_DiskImportStatus := sl\<rparr>" and ?h1.0 = h1])
      (use o a disks conds other in \<open>simp_all add: append_disk_def set_Disks_def owned_def\<close>)
qed

text \<open>An element is replaced by one that has updated conditions and other fields that refer to nothing.\<close>

lemma owns_disk_update:
  assumes "owns view_meta m0 b h v" "i < length (disks_of v)" "conditions_update u f"
    and "\<And>d h. F d h = map_option (\<lambda>(s, h). (G (d\<lparr>di_DiskConditions := s\<rparr>), h)) (u (di_DiskConditions d) h)"
    and "\<And>d. di_DiskConditions (G d) = di_DiskConditions d"
    and "\<And>d s cs. disk_value (G (d\<lparr>di_DiskConditions := s\<rparr>)) (f cs) = g (disk_value d cs)"
  shows "\<exists>h'. assign_element i F (Some b) h = Some h' \<and> owns view_meta m0 b h' (update_disk i g v)"
proof -
  obtain s ds where o: "owned view_meta m0 b h v s ds"
    using assms(1) unfolding owns_def by blast
  have i: "i < length ds" "view_disk (mem h) (ds ! i) = Some (disks_of v ! i)"
    using ownedD(8) [OF o] assms(2) by (simp_all add: view_all_iff)
  then obtain cs where cs: "view_conditions (mem h) (di_DiskConditions (ds ! i)) = Some cs"
      "disks_of v ! i = disk_value (ds ! i) cs"
    by (auto simp: view_disk_conditions)
  obtain sl h1 where u: "u (di_DiskConditions (ds ! i)) h = Some (sl, h1)"
      "view_conditions (mem h1) sl = Some (f cs)"
      "changes h (slice_cells (di_DiskConditions (ds ! i))) h1"
      "own_or_new h (slice_cells (di_DiskConditions (ds ! i))) h1 (slice_cells sl)"
    using conditions_update.update_spec [OF assms(3) ownedD(1) [OF o] cs(1)] by blast
  let ?d = "G ((ds ! i)\<lparr>di_DiskConditions := sl\<rparr>)"
  have f: "F (ds ! i) h = Some (?d, h1)"
    by (simp add: assms(4) u(1))
  have conds: "di_DiskConditions ?d = sl"
    by (simp add: assms(5))
  have view: "view_disk (mem h1) ?d = Some (g (disks_of v ! i))"
    using u(2) conds cs(2) assms(6) by (simp add: view_disk_conditions)
  have own: "own_or_new h (slice_cells (di_DiskConditions (ds ! i))) h1 (slice_cells (di_DiskConditions ?d))"
    using u(4) by (simp only: conds)
  show ?thesis
    by (rule owned_element [where f = F and g = g and d = ?d and ?h1.0 = h1, OF o i(1) f u(3) view own])
qed

lemma no_update: "conditions_update (\<lambda>s h. Some (s, h)) (\<lambda>cs. cs)"
  by unfold_locales (auto intro: changes_refl own_or_new_refl)

lemma owns_assign:
  assumes "owns view_meta m0 b h v" "in_range x v"
  shows "\<exists>h'. assign_in_memory rt x (Some b) h = Some h' \<and> owns view_meta m0 b h' (assign_value x v)"
proof (cases x)
  case (AssignStatus s)
  then show ?thesis
    using owns_status [OF assms(1), where g = "\<lambda>st. st\<lparr>st_Status := s\<rparr>" and f = "\<lambda>st. st\<lparr>Status := s\<rparr>"]
    by (simp add: status_value_def set_Status_def)
next
  case (AssignImportedName n)
  then show ?thesis
    using owns_status [OF assms(1), where g = "\<lambda>st. st\<lparr>st_ImportedVirtualMachineName := n\<rparr>"
        and f = "\<lambda>st. st\<lparr>ImportedVirtualMachineName := n\<rparr>"]
    by (simp add: status_value_def set_ImportedName_def)
next
  case (MergeImportConditions cs)
  then show ?thesis
    using owns_import_conditions [OF assms(1) merge_mem.conditions_update_axioms] by simp
next
  case (AppendDisk d)
  then show ?thesis
    using owns_append_disk [OF assms(1)] assms(2) by simp
next
  case (AssignDiskImage i n)
  then show ?thesis
    using owns_disk_update [where i = i and u = copy_conditions and f = "\<lambda>cs. cs" and F = "copied_with_image n"
        and G = "\<lambda>d. d\<lparr>di_VirtualMachineImage := n\<rparr>" and g = "\<lambda>d. d\<lparr>DiskImage := n\<rparr>",
        OF assms(1) _ copy_mem.conditions_update_axioms] assms(2)
    by (auto simp: copied_with_image_def DiskInfo_DeepCopyInto_def disk_value_def split: Option.bind_split)
next
  case (AssignDiskFile i n path)
  then show ?thesis
    using owns_disk_update [where i = i and u = "\<lambda>s h. Some (s, h)" and f = "\<lambda>cs. cs"
        and F = "\<lambda>d h. Some (d\<lparr>di_Name := n, di_DiskLocalPath := path\<rparr>, h)"
        and G = "\<lambda>d. d\<lparr>di_Name := n, di_DiskLocalPath := path\<rparr>"
        and g = "\<lambda>d. d\<lparr>DiskName := n, DiskLocalPath := path\<rparr>", OF assms(1) _ no_update] assms(2)
    by (simp add: disk_value_def)
next
  case (MergeDiskConditions i cs)
  then show ?thesis
    using owns_disk_update [where i = i and u = "MergeConditions_mem rt cs" and f = "\<lambda>c. MergeConditions c cs"
        and F = "update_disk_conditions (MergeConditions_mem rt cs)" and G = "\<lambda>d. d"
        and g = "\<lambda>d. d\<lparr>DiskConditions := MergeConditions (DiskConditions d) cs\<rparr>",
        OF assms(1) _ merge_mem.conditions_update_axioms] assms(2)
    by (auto simp: update_disk_conditions_def disk_value_def split: Option.bind_split)
next
  case (RemoveDiskCondition i c st)
  then show ?thesis
    using owns_disk_update [where i = i and u = "RemoveCondition_mem rt c st" and f = "\<lambda>cs. RemoveCondition cs c st"
        and F = "update_disk_conditions (RemoveCondition_mem rt c st)" and G = "\<lambda>d. d"
        and g = "\<lambda>d. d\<lparr>DiskConditions := RemoveCondition (DiskConditions d) c st\<rparr>",
        OF assms(1) _ remove_mem.conditions_update_axioms] assms(2)
    by (auto simp: update_disk_conditions_def disk_value_def split: Option.bind_split)
qed

lemma owns_assign_all:
  "owns view_meta m0 b h v \<Longrightarrow> all_in_range xs v \<Longrightarrow>
   \<exists>h'. assign_all rt xs (Some b) h = Some h' \<and> owns view_meta m0 b h' (fold assign_value xs v)"
proof (induction xs arbitrary: h v)
  case Nil
  then show ?case by simp
next
  case (Cons x xs)
  then obtain h1 where "assign_in_memory rt x (Some b) h = Some h1" "owns view_meta m0 b h1 (assign_value x v)"
    using owns_assign by fastforce
  then show ?case
    using Cons by simp
qed

section \<open>The copy owns its cells\<close>

lemma copy_conditions_cells:
  "copy_conditions s h = Some (s', h') \<Longrightarrow> brk h \<le> brk h' \<and> slice_cells s' \<subseteq> {brk h..<brk h'}"
  by (cases s) (auto simp: copy_conditions_def copy_slice_def copy_all_assign reserve_def split: Option.bind_splits)

definition disk_cells :: "DiskInfo_struct \<Rightarrow> nat set" where
  "disk_cells d = slice_cells (di_DiskConditions d)"

lemma DiskInfo_cells:
  "DiskInfo_DeepCopyInto d h = Some (d', h') \<Longrightarrow> brk h \<le> brk h' \<and> disk_cells d' \<subseteq> {brk h..<brk h'}"
  by (auto simp: DiskInfo_DeepCopyInto_def disk_cells_def split: Option.bind_splits dest!: copy_conditions_cells)

lemma copy_all_length: "copy_all into xs h = Some (ys, h') \<Longrightarrow> length ys = length xs"
  by (induction xs arbitrary: h ys) (auto split: Option.bind_splits)

text \<open>Every copied disk has cells of its own.\<close>

lemma copy_all_cells:
  "copy_all DiskInfo_DeepCopyInto xs h = Some (ys, h') \<Longrightarrow>
   brk h \<le> brk h' \<and> (\<forall>y \<in> set ys. disk_cells y \<subseteq> {brk h..<brk h'}) \<and>
   (\<forall>i j. i < j \<longrightarrow> j < length ys \<longrightarrow> disk_cells (ys ! i) \<inter> disk_cells (ys ! j) = {})"
proof (induction xs arbitrary: h ys)
  case Nil
  then show ?case by simp
next
  case (Cons x xs)
  obtain y h1 ws where y: "DiskInfo_DeepCopyInto x h = Some (y, h1)"
      "copy_all DiskInfo_DeepCopyInto xs h1 = Some (ws, h')" "ys = y # ws"
    using Cons.prems by (auto split: Option.bind_splits)
  note head = DiskInfo_cells [OF y(1)] and tail = Cons.IH [OF y(2)]
  have "disk_cells y \<inter> disk_cells w = {}" if "w \<in> set ws" for w
    using head tail that by fastforce
  then have "disk_cells (ys ! i) \<inter> disk_cells (ys ! j) = {}" if "i < j" "j < length ys" for i j
    using tail that y(3) by (cases i; cases j) auto
  moreover have "\<forall>z \<in> set ys. disk_cells z \<subseteq> {brk h..<brk h'}"
    using head tail y(3) by fastforce
  ultimately show ?case
    using head tail by auto
qed

text \<open>The disks of a copy: the new array first, then what its elements refer to.\<close>

lemma copy_disks_cells:
  assumes "copy_disks s h = Some (s', h')"
  shows "\<exists>ys. slice_items is_DiskArray un_DiskArray (mem h') s' = Some ys \<and> slice_cells s' \<subseteq> {brk h} \<and>
    (slice_cells s' \<subseteq> {..<brk h'}) \<and> (\<forall>y \<in> set ys. disk_cells y \<subseteq> {Suc (brk h)..<brk h'}) \<and>
    (\<forall>i j. i < j \<longrightarrow> j < length ys \<longrightarrow> disk_cells (ys ! i) \<inter> disk_cells (ys ! j) = {})"
proof (cases s)
  case NilSlice
  then show ?thesis
    using assms by (simp add: copy_disks_def copy_slice_def slice_items_def)
next
  case (Slice a k n)
  let ?h = "h\<lparr>brk := Suc (brk h)\<rparr>"
  obtain xs ys h1 where x: "elements is_DiskArray un_DiskArray (mem h) a k n = Some xs"
      "copy_all DiskInfo_DeepCopyInto xs ?h = Some (ys, h1)"
      "s' = Slice (brk h) 0 n" "h' = fill (brk h) (DiskArray ys) h1"
    using assms Slice by (auto simp: copy_disks_def copy_slice_def reserve_def split: Option.bind_splits)
  have "length ys = length xs"
    using copy_all_length [OF x(2)] .
  then have "length ys = n"
    using elements_SomeD [OF x(1)] by auto
  then have "slice_items is_DiskArray un_DiskArray (mem h') s' = Some ys"
    using x(3,4) by (simp add: slice_items_def elements_def load_def)
  then show ?thesis
    using copy_all_cells [OF x(2)] x(3,4) by auto
qed

text \<open>The parts of a copy are apart: its struct, its disks, their conditions, its conditions.\<close>

fun blocks :: "nat \<Rightarrow> nat \<Rightarrow> nat \<Rightarrow> part \<Rightarrow> nat set" where
  "blocks b d e RootPart = {b}"
| "blocks b d e DisksPart = {d} \<inter> {..<e}"
| "blocks b d e ConditionsPart = {e..}"
| "blocks b d e (DiskPart i) = {Suc d..<e}"

lemma blocks_apart:
  "b < d \<Longrightarrow> d \<le> e \<Longrightarrow> p \<noteq> q \<Longrightarrow> (\<nexists>i j. p = DiskPart i \<and> q = DiskPart j) \<Longrightarrow> blocks b d e p \<inter> blocks b d e q = {}"
  by (cases p; cases q) auto

lemma copied_apart:
  assumes "b < d" "d \<le> e" "slice_cells (st_DiskImportStatus (im_Status s)) \<subseteq> {d} \<inter> {..<e}"
    and "\<forall>y \<in> set ys. disk_cells y \<subseteq> {Suc d..<e}" "slice_cells (st_ImportConditions (im_Status s)) \<subseteq> {e..}"
    and "\<forall>i j. i < j \<longrightarrow> j < length ys \<longrightarrow> disk_cells (ys ! i) \<inter> disk_cells (ys ! j) = {}"
  shows "parts b s ys p \<subseteq> blocks b d e p" "apart (parts b s ys)"
proof -
  have inside: "parts b s ys p \<subseteq> blocks b d e p" for p
    using assms(3-5) by (cases p) (auto simp: disk_cells_def subset_iff)
  show "parts b s ys p \<subseteq> blocks b d e p"
    by (rule inside)
  have "parts b s ys p \<inter> parts b s ys q = {}" if "p \<noteq> q" for p q
  proof (cases "\<exists>i j. p = DiskPart i \<and> q = DiskPart j")
    case True
    then obtain i j where "p = DiskPart i" "q = DiskPart j" "i < j \<or> j < i"
      using \<open>p \<noteq> q\<close> by (metis nat_neq_iff)
    then show ?thesis
      using assms(6) by (auto simp flip: disk_cells_def)
  next
    case False
    then show ?thesis
      using blocks_apart [OF assms(1,2) \<open>p \<noteq> q\<close>] inside [of p] inside [of q] by blast
  qed
  then show "apart (parts b s ys)"
    by (simp add: apart_def)
qed

lemma grown_part: "grown h c h' \<Longrightarrow> c \<subseteq>\<^sub>m mem h'"
  by (simp add: grown_def map_le_map_add)

lemma grown_brk: "grown h c h' \<Longrightarrow> brk h \<le> brk h'"
  by (simp add: grown_def)

lemma grown_view:
  "deep_copy view into \<Longrightarrow> grown h c h' \<Longrightarrow> view c y = Some v \<Longrightarrow> mem h' \<subseteq>\<^sub>m m \<Longrightarrow> view m y = Some v"
  by (meson deep_copy.view_mono grown_part map_le_trans)

lemma slice_items_mono:
  assumes "slice_items is_kind content m s = Some xs" "m \<subseteq>\<^sub>m m'"
  shows "slice_items is_kind content m' s = Some xs"
proof (cases s)
  case (Slice a k n)
  then obtain ys where "load is_kind content m a = Some ys" "k + n \<le> length ys" "xs = take n (drop k ys)"
    using assms(1) elements_SomeD [of is_kind content m a k n xs] by (auto simp: slice_items_def)
  then show ?thesis
    using Slice load_mono [OF _ assms(2), of is_kind content a ys] by (simp add: slice_items_def elements_def)
qed (use assms(1) in \<open>simp add: slice_items_def\<close>)

lemma view_disks_items:
  "view_disks m s = Some vs \<Longrightarrow> slice_items is_DiskArray un_DiskArray m s = Some ds \<Longrightarrow> view_all view_disk m ds = Some vs"
  by (auto simp: view_disks_def view_slice_def slice_items_def split: slice.splits)

text \<open>A status that was just copied, and what it refers to: the cells of its disks end at \<open>e\<close>.\<close>

definition new_status ::
  "('k, 'm, 'n) cell heap \<Rightarrow> ImportStatus_struct \<Rightarrow> ('k, 'm, 'n) cell heap \<Rightarrow> DiskInfo_struct list \<Rightarrow> nat \<Rightarrow> bool" where
  "new_status h st h' ds e \<longleftrightarrow> brk h \<le> e \<and> e \<le> brk h' \<and>
     slice_items is_DiskArray un_DiskArray (mem h') (st_DiskImportStatus st) = Some ds \<and>
     slice_cells (st_DiskImportStatus st) \<subseteq> {brk h} \<inter> {..<e} \<and>
     (\<forall>y \<in> set ds. disk_cells y \<subseteq> {Suc (brk h)..<e}) \<and> slice_cells (st_ImportConditions st) \<subseteq> {e..} \<and>
     (\<forall>i j. i < j \<longrightarrow> j < length ds \<longrightarrow> disk_cells (ds ! i) \<inter> disk_cells (ds ! j) = {})"

lemma copied_status:
  assumes "bounded h" "view_status (mem h) st = Some v"
  shows "\<exists>st' c h' ds e. VirtualMachineImportStatus_DeepCopyInto st h = Some (st', h') \<and> grown h c h' \<and>
    view_status c st' = Some v \<and> new_status h st' h' ds e"
proof -
  obtain st' c h' where c: "VirtualMachineImportStatus_DeepCopyInto st h = Some (st', h')" "grown h c h'"
      "view_status c st' = Some v"
    using status_copy.into_copies [OF assms(2,1)] by blast
  then obtain disks h1 conds where d: "copy_disks (st_DiskImportStatus st) h = Some (disks, h1)"
      "copy_conditions (st_ImportConditions st) h1 = Some (conds, h')"
      "st_DiskImportStatus st' = disks" "st_ImportConditions st' = conds"
    by (auto simp: VirtualMachineImportStatus_DeepCopyInto_def split: Option.bind_splits)
  have "view_disks (mem h) (st_DiskImportStatus st) \<noteq> None" "view_conditions (mem h) (st_ImportConditions st) \<noteq> None"
    using assms(2) by (auto simp: view_status_def view_pair_def split: Option.bind_splits)
  then obtain cd where cd: "grown h cd h1"
    using deep_copy.into_copies [OF deep_copy_disks _ assms(1)] d(1) by fastforce
  have "view_conditions (mem h1) (st_ImportConditions st) \<noteq> None"
    using \<open>view_conditions (mem h) (st_ImportConditions st) \<noteq> None\<close>
      deep_copy.view_mono [OF deep_copy_conditions _ grown_le [OF cd assms(1)]] by blast
  then obtain cc where cc: "grown h1 cc h'"
    using deep_copy.into_copies [OF deep_copy_conditions _ grown_bounded [OF cd assms(1)]] d(2) by fastforce
  obtain ds where ds: "slice_items is_DiskArray un_DiskArray (mem h1) disks = Some ds" "slice_cells disks \<subseteq> {brk h}"
      "slice_cells disks \<subseteq> {..<brk h1}" "\<forall>y \<in> set ds. disk_cells y \<subseteq> {Suc (brk h)..<brk h1}"
      "\<forall>i j. i < j \<longrightarrow> j < length ds \<longrightarrow> disk_cells (ds ! i) \<inter> disk_cells (ds ! j) = {}"
    using copy_disks_cells [OF d(1)] by blast
  have "slice_items is_DiskArray un_DiskArray (mem h') disks = Some ds"
    using slice_items_mono [OF ds(1) grown_le [OF cc grown_bounded [OF cd assms(1)]]] .
  moreover have "slice_cells conds \<subseteq> {brk h1..}"
    using copy_conditions_cells [OF d(2)] by auto
  ultimately show ?thesis
    using c ds d(3,4) grown_brk [OF cd] grown_brk [OF cc]
    by (intro exI [of _ st'] exI [of _ c] exI [of _ h'] exI [of _ ds] exI [of _ "brk h1"]) (simp add: new_status_def)
qed

lemma view_import_parts:
  "view_import view_meta m s = Some v \<Longrightarrow>
   view_meta m (im_ObjectMeta s) = Some (vm_Meta v) \<and> view_spec m (im_Spec s) = Some (vm_Spec v) \<and>
   view_status m (im_Status s) = Some (vm_Status v) \<and> vm_Kind v = im_Kind s \<and> vm_APIVersion v = im_APIVersion s"
  by (auto simp: view_import_def import_value_def view_pair_def split: Option.bind_splits)

lemma view_status_parts:
  "view_status m s = Some v \<Longrightarrow>
   view_disks m (st_DiskImportStatus s) = Some (DiskImportStatus v) \<and>
   view_conditions m (st_ImportConditions s) = Some (ImportConditions v) \<and> Status v = st_Status s \<and>
   NewVirtualMachine v = st_NewVirtualMachine s \<and> ImportedVirtualMachineName v = st_ImportedVirtualMachineName s"
  by (auto simp: view_status_def status_value_def view_pair_def split: Option.bind_splits)

lemma DeepCopy_owns:
  assumes "deep_copy view_meta copy_meta" "bounded h"
    and "mem h p = Some (ImportCell s)" "view_import view_meta (mem h) s = Some v"
  shows "\<exists>m0 b h'. VirtualMachineImport_DeepCopy copy_meta (Some p) h = Some (Some b, h') \<and>
    owns view_meta m0 b h' v \<and> mem h \<subseteq>\<^sub>m m0"
proof -
  let ?b = "brk h" and ?h = "h\<lparr>brk := Suc (brk h)\<rparr>"
  have v: "view_meta (mem h) (im_ObjectMeta s) = Some (vm_Meta v)" "view_spec (mem h) (im_Spec s) = Some (vm_Spec v)"
      "view_status (mem h) (im_Status s) = Some (vm_Status v)"
    and fixed: "vm_Kind v = im_Kind s" "vm_APIVersion v = im_APIVersion s"
    using view_import_parts [OF assms(4)] by simp_all
  have h: "bounded ?h"
    by (rule bounded_reserved [OF assms(2)])
  obtain meta cm h2 where meta: "copy_meta (im_ObjectMeta s) ?h = Some (meta, h2)" "grown ?h cm h2"
      "view_meta cm meta = Some (vm_Meta v)"
    using deep_copy.into_copies [OF assms(1), of ?h] v(1) h by fastforce
  have h2: "bounded h2" "mem h \<subseteq>\<^sub>m mem h2"
    using grown_bounded [OF meta(2) h] grown_le [OF meta(2) h] by simp_all
  obtain spec cs h3 where spec: "VirtualMachineImportSpec_DeepCopyInto (im_Spec s) h2 = Some (spec, h3)"
      "grown h2 cs h3" "view_spec cs spec = Some (vm_Spec v)"
    using spec_copy.into_copies [OF spec_copy.view_mono [OF v(2) h2(2)] h2(1)] by blast
  have h3: "bounded h3" "mem h2 \<subseteq>\<^sub>m mem h3" "mem h \<subseteq>\<^sub>m mem h3"
    using grown_bounded [OF spec(2) h2(1)] grown_le [OF spec(2) h2(1)]
      map_le_trans [OF h2(2) grown_le [OF spec(2) h2(1)]] .
  obtain st c h4 ds e where st: "VirtualMachineImportStatus_DeepCopyInto (im_Status s) h3 = Some (st, h4)"
      "grown h3 c h4" "view_status c st = Some (vm_Status v)" "new_status h3 st h4 ds e"
    using copied_status [OF h3(1) status_copy.view_mono [OF v(3) h3(3)]] by blast
  let ?s = "s\<lparr>im_ObjectMeta := meta, im_Spec := spec, im_Status := st\<rparr>"
  let ?h5 = "fill ?b (ImportCell ?s) h4"
  have copy: "VirtualMachineImport_DeepCopy copy_meta (Some p) h = Some (Some ?b, ?h5)"
    using assms(3) meta(1) spec(1) st(1)
    by (simp add: VirtualMachineImport_DeepCopy_def copy_ptr_def load_def reserve_def
        VirtualMachineImport_DeepCopyInto_def)
  have b: "?b < brk h3" "?b < brk h4"
    using grown_brk [OF meta(2)] grown_brk [OF spec(2)] grown_brk [OF st(2)] by simp_all
  have g: "grown ?h (cm ++ cs ++ c) h4"
    by (rule grown_trans [OF grown_trans [OF meta(2) spec(2)] st(2)])
  then have "?b \<notin> dom (mem h4)"
    using assms(2) by (fastforce simp: grown_def bounded_def)
  then have up: "mem h4 \<subseteq>\<^sub>m mem ?h5"
    by (auto simp: map_le_def)
  have up3: "mem h3 \<subseteq>\<^sub>m mem h4" "mem h3 \<subseteq>\<^sub>m mem ?h5"
    using grown_le [OF st(2) h3(1)] map_le_trans [OF grown_le [OF st(2) h3(1)] up] .
  have new: "brk h3 \<le> e" "slice_items is_DiskArray un_DiskArray (mem h4) (st_DiskImportStatus st) = Some ds"
    using st(4) by (simp_all add: new_status_def)
  have parts: "parts ?b ?s ds q \<subseteq> blocks ?b (brk h3) e q" "apart (parts ?b ?s ds)" for q
    by (rule copied_apart [OF b(1) new(1)]; use st(4) in \<open>simp add: new_status_def\<close>)+
  have fresh: "parts ?b ?s ds q \<inter> dom (mem h3) = {}" for q
  proof -
    have "?b \<notin> dom (mem h3)"
      using \<open>?b \<notin> dom (mem h4)\<close> map_le_implies_dom_le [OF up3(1)] by blast
    moreover have "blocks ?b (brk h3) e q \<subseteq> insert ?b {brk h3..}"
      using new(1) by (cases q) auto
    ultimately show ?thesis
      using parts(1) [of q] h3(1) unfolding bounded_def by fastforce
  qed
  have "view_status (mem ?h5) st = Some (vm_Status v)"
    by (rule grown_view [OF status_copy.deep_copy_axioms st(2,3) up])
  then have view: "view_disks (mem ?h5) (st_DiskImportStatus st) = Some (disks_of v)"
      "view_conditions (mem ?h5) (st_ImportConditions st) = Some (conds_of v)" "status_of v = st_Status st"
      "NewVirtualMachine (vm_Status v) = st_NewVirtualMachine st" "imported_name v = st_ImportedVirtualMachineName st"
    by (blast dest: view_status_parts)+
  have items: "slice_items is_DiskArray un_DiskArray (mem ?h5) (st_DiskImportStatus st) = Some ds"
    using slice_items_mono [OF new(2) up] .
  have "view_meta (mem h3) meta = Some (vm_Meta v)" "view_spec (mem h3) spec = Some (vm_Spec v)"
    using grown_view [OF assms(1) meta(2,3) h3(2)] grown_view [OF spec_copy.deep_copy_axioms spec(2,3)] by simp_all
  moreover have "bounded ?h5"
    using grown_bounded [OF g h] b(2) by (auto simp: bounded_def)
  ultimately have "owned view_meta (mem h3) ?b ?h5 v ?s ds"
    using fixed view items view_disks_items [OF view(1) items] parts(2) fresh up3(2)
    unfolding owned_def by simp
  then show ?thesis
    using copy h3(3) unfolding owns_def by blast
qed

lemma owns_reads:
  assumes "deep_copy view_meta copy_meta" "owns view_meta m0 b h v"
  shows "import_at view_meta (mem h) (Some b) v"
proof -
  obtain s ds where o: "owned view_meta m0 b h v s ds"
    using assms(2) unfolding owns_def by blast
  note d = ownedD [OF o]
  have "view_meta (mem h) (im_ObjectMeta s) = Some (vm_Meta v)" "view_spec (mem h) (im_Spec s) = Some (vm_Spec v)"
    using o deep_copy.view_mono [OF assms(1) _ d(5)] spec_copy.view_mono [OF _ d(5)] by (simp_all add: owned_def)
  moreover have "view_disks (mem h) (st_DiskImportStatus (im_Status s)) = Some (disks_of v)"
    using d(3,8) by (auto simp: view_disks_def view_slice_def slice_items_def split: slice.splits)
  ultimately have "view_import view_meta (mem h) s = Some v"
    using o d(7) by (simp add: view_import_def view_pair_def view_status_def owned_def import_value_def status_value_def)
  then show ?thesis
    using d(2) by (simp add: import_at_def view_ptr_def load_def)
qed

text \<open>Any copied object is readable in memory of its own, whatever becomes of the rest.\<close>

lemma import_copy_isolated:
  assumes "deep_copy view_meta copy_meta" "bounded h" "import_at view_meta (mem h) p v"
  shows "\<exists>q c h'. VirtualMachineImport_DeepCopy copy_meta p h = Some (q, h') \<and>
    mem h' = mem h ++ c \<and> dom (mem h) \<inter> dom c = {} \<and>
    (\<forall>m. mem h \<subseteq>\<^sub>m m \<longrightarrow> import_at view_meta m p v) \<and> (\<forall>m. c \<subseteq>\<^sub>m m \<longrightarrow> import_at view_meta m q v)"
proof -
  note import_copy = deep_copy_import [OF assms(1)]
  obtain b y c h' where y: "VirtualMachineImport_DeepCopy copy_meta p h = Some (Some b, h')"
      "mem h' = mem h ++ c(b \<mapsto> ImportCell y)" "dom (mem h) \<inter> dom (c(b \<mapsto> ImportCell y)) = {}" "b \<notin> dom c"
      "view_import view_meta c y = Some v"
    using copy_ptr_isolates [OF import_copy cell_kinds(17) assms(2) assms(3) [unfolded import_at_def]]
    by (elim exE conjE) (rule that [unfolded VirtualMachineImport_DeepCopy_def])
  have "import_at view_meta m p v" if "mem h \<subseteq>\<^sub>m m" for m
    using deep_copy.view_mono [OF deep_copy_ptr [OF import_copy cell_kinds(17)] assms(3) [unfolded import_at_def] that]
    by (simp add: import_at_def)
  moreover have "import_at view_meta m (Some b) v" if "c(b \<mapsto> ImportCell y) \<subseteq>\<^sub>m m" for m
    using view_ptr_at [OF cell_kinds(17) import_copy y(5,4) that] by (simp add: import_at_def)
  ultimately show ?thesis
    by (intro exI [of _ "Some b"] exI [of _ "c(b \<mapsto> ImportCell y)"] exI [of _ h'] conjI allI impI y(1-3))
qed

section \<open>An import in memory\<close>

definition ex_struct :: "ObjectMeta Import_struct" where
  "ex_struct = \<lparr>im_Kind = ''VirtualMachineImport'', im_APIVersion = [], im_ObjectMeta = empty_meta,
     im_Spec = \<lparr>is_SourceCluster = \<lparr>ref_APIVersion = [], ref_Kind = [], ref_Namespace = [], ref_Name = []\<rparr>,
       is_VirtualMachineName = ''box'', is_Folder = [], is_Mapping = Slice 3 0 1,
       is_DefaultNetworkInterfaceModel = None, is_StorageClass = [], is_DefaultDiskBusType = None,
       is_ForcePowerOff = Some 5, is_GracefulShutdownTimeoutSeconds = 0, is_SkipPreflightChecks = None\<rparr>,
     im_Status = \<lparr>st_Status = DisksExported, st_DiskImportStatus = Slice 1 0 1, st_ImportConditions = NilSlice,
       st_NewVirtualMachine = [], st_ImportedVirtualMachineName = ''box''\<rparr>\<rparr>"

definition ex_condition :: Condition where
  "ex_condition = \<lparr>cond_Type = VirtualMachineImageSubmitted, cond_Status = ConditionFalse, LastUpdateTime = [],
     LastTransitionTime = [], Reason = [], Message = []\<rparr>"

text \<open>The array of conditions has one more element than the slice of the disk.\<close>

definition ex_memory :: "(unit, ObjectMeta, unit) cell heap" where
  "ex_memory = \<lparr>mem = [0 \<mapsto> ImportCell ex_struct,
     1 \<mapsto> DiskArray [\<lparr>di_Name = ''a.img'', di_DiskSize = 0, di_DiskLocalPath = [], di_DiskRoute = [],
       di_VirtualMachineImage = [], di_DiskConditions = Slice 2 0 1, di_BusType = DiskBusUnset\<rparr>],
     2 \<mapsto> ConditionArray [ex_condition, ex_condition],
     3 \<mapsto> MappingArray [\<lparr>nm_SourceNetwork = ''n'', nm_DestinationNetwork = ''d'', nm_NetworkInterfaceModel = Some 4\<rparr>],
     4 \<mapsto> StringCell ''e1000'', 5 \<mapsto> BoolCell True], brk = 6\<rparr>"

definition ex_value :: VirtualMachineImport where
  "ex_value = \<lparr>vm_Kind = ''VirtualMachineImport'', vm_APIVersion = [], vm_Meta = empty_meta,
     vm_Spec = \<lparr>SourceCluster = \<lparr>ref_APIVersion = [], ref_Kind = [], ref_Namespace = [], ref_Name = []\<rparr>,
       VirtualMachineName = ''box'', Folder = [],
       Mapping = [\<lparr>SourceNetwork = ''n'', DestinationNetwork = ''d'', NetworkInterfaceModel = Some ''e1000''\<rparr>],
       DefaultNetworkInterfaceModel = None, StorageClassName = [], DefaultDiskBusType = None,
       ForcePowerOff = Some True, GracefulShutdownTimeoutSeconds = 0, SkipPreflight = None\<rparr>,
     vm_Status = \<lparr>Status = DisksExported, DiskImportStatus = [\<lparr>DiskName = ''a.img'', DiskSize = 0,
         DiskLocalPath = [], DiskRoute = [], DiskImage = [], DiskConditions = [ex_condition], BusType = DiskBusUnset\<rparr>],
       ImportConditions = [], NewVirtualMachine = [], ImportedVirtualMachineName = ''box''\<rparr>\<rparr>"

lemma ex_cells:
  "load is_ImportCell un_ImportCell (mem ex_memory) 0 = Some ex_struct"
  "load is_StringCell un_StringCell (mem ex_memory) 4 = Some ''e1000''"
  "load is_BoolCell un_BoolCell (mem ex_memory) 5 = Some True"
  "elements is_MappingArray un_MappingArray (mem ex_memory) 3 0 1 =
     Some [\<lparr>nm_SourceNetwork = ''n'', nm_DestinationNetwork = ''d'', nm_NetworkInterfaceModel = Some 4\<rparr>]"
  "elements is_DiskArray un_DiskArray (mem ex_memory) 1 0 1 =
     Some [\<lparr>di_Name = ''a.img'', di_DiskSize = 0, di_DiskLocalPath = [], di_DiskRoute = [],
       di_VirtualMachineImage = [], di_DiskConditions = Slice 2 0 1, di_BusType = DiskBusUnset\<rparr>]"
  "elements is_ConditionArray un_ConditionArray (mem ex_memory) 2 0 1 = Some [ex_condition]"
  by (simp_all add: ex_memory_def load_def elements_def)

lemma ex_spec_view: "view_spec (mem ex_memory) (im_Spec ex_struct) = Some (vm_Spec ex_value)"
  by (simp add: view_spec_def view_pair_def spec_refs_def ex_struct_def spec_value_def view_mappings_def
      view_slice_def ex_cells view_mapping_def view_string_def view_ptr_def plain_def view_bus_def view_bool_def
      mapping_value_def ex_value_def del: One_nat_def)

lemma ex_status_view: "view_status (mem ex_memory) (im_Status ex_struct) = Some (vm_Status ex_value)"
  by (simp add: view_status_def view_pair_def ex_struct_def status_value_def view_disks_def
      view_slice_def ex_cells view_disk_def view_conditions_items slice_items_def disk_value_def ex_value_def del: One_nat_def)

lemma ex_value_at: "import_at plain (mem ex_memory) (Some 0) ex_value"
  by (simp add: import_at_def view_ptr_def ex_cells view_import_def view_pair_def ex_spec_view ex_status_view
      plain_def import_value_def) (simp add: ex_struct_def ex_value_def)

lemma ex_bounded: "bounded ex_memory"
  by (auto simp: bounded_def ex_memory_def)

text \<open>
  C7. The copy and the assignments of a handler never reach the object of the cache: \<open>DeepCopy\<close> returns an
  import that denotes the same value and can be read from cells that were free before, without any cell
  of the original, be it of the metadata, the spec, the disks or a condition list. After any sequence of the
  assignments of the controller and of the clients to that copy, done in memory - the status, the name, the
  conditions merged and overwritten in place or removed, the disks appended, renamed or given an image -
  the copy denotes the value that the same updates yield on values, every cell that was there before
  \<open>DeepCopy\<close> has its old content, and the original denotes what it did.
\<close>

theorem assignments_stay_in_copy:
  assumes "deep_copy view_meta copy_meta" "bounded h" "import_at view_meta (mem h) p v" "all_in_range xs v"
  shows "\<exists>q h1 h2. VirtualMachineImport_DeepCopy copy_meta p h = Some (q, h1) \<and>
    import_at view_meta (mem h1 |` (- dom (mem h))) q v \<and>
    assign_all rt xs q h1 = Some h2 \<and> import_at view_meta (mem h2) q (fold assign_value xs v) \<and>
    mem h \<subseteq>\<^sub>m mem h2 \<and> import_at view_meta (mem h2) p v"
proof -
  obtain x s where x: "p = Some x" "mem h x = Some (ImportCell s)" "view_import view_meta (mem h) s = Some v"
    using assms(3) by (auto simp: import_at_def view_ptr_def load_def is_ImportCell_def
        split: option.splits Option.bind_splits if_splits)
  obtain m0 b h1 where copy: "VirtualMachineImport_DeepCopy copy_meta p h = Some (Some b, h1)"
      "owns view_meta m0 b h1 v" "mem h \<subseteq>\<^sub>m m0"
    using DeepCopy_owns [OF assms(1,2) x(2,3)] x(1) by blast
  obtain c where c: "mem h1 = mem h ++ c" "dom (mem h) \<inter> dom c = {}"
      "\<forall>m. mem h \<subseteq>\<^sub>m m \<longrightarrow> import_at view_meta m p v" "\<forall>m. c \<subseteq>\<^sub>m m \<longrightarrow> import_at view_meta m (Some b) v"
    using import_copy_isolated [OF assms(1-3)] copy(1) by auto
  have "c \<subseteq>\<^sub>m mem h1 |` (- dom (mem h))"
    using c(1,2) by (auto simp: map_le_def restrict_map_def map_add_def split: option.split)
  then have new: "import_at view_meta (mem h1 |` (- dom (mem h))) (Some b) v"
    using c(4) by blast
  obtain h2 where h2: "assign_all rt xs (Some b) h1 = Some h2" "owns view_meta m0 b h2 (fold assign_value xs v)"
    using owns_assign_all [OF copy(2) assms(4)] by blast
  have "mem h \<subseteq>\<^sub>m mem h2"
    using map_le_trans [OF copy(3)] h2(2) unfolding owns_def owned_def by blast
  then show ?thesis
    using copy(1) new h2(1) owns_reads [OF assms(1) h2(2)] c(3) by blast
qed

definition ex_assignments :: "assignment list" where
  "ex_assignments =
     [AppendDisk \<lparr>DiskName = ''b.img'', DiskSize = 0, DiskLocalPath = [], DiskRoute = [], DiskImage = [],
        DiskConditions = [], BusType = DiskBusUnset\<rparr>,
      AssignDiskImage 0 ''image-1'', MergeDiskConditions 0 [ex_condition\<lparr>cond_Status := ConditionTrue\<rparr>],
      MergeImportConditions [ex_condition], AssignStatus DiskImagesSubmitted,
      AssignDiskFile 1 ''c.img'' ''/tmp'', RemoveDiskCondition 0 VirtualMachineImageSubmitted ConditionTrue]"

theorem assignments_stay_in_copy_witness:
  "\<exists>q h1 h2. VirtualMachineImport_DeepCopy assign (Some 0) ex_memory = Some (q, h1) \<and>
    import_at plain (mem h1 |` (- dom (mem ex_memory))) q ex_value \<and>
    assign_all \<lparr>spare_conditions = (\<lambda>n. []), spare_disks = (\<lambda>n. [])\<rparr> ex_assignments q h1 = Some h2 \<and>
    import_at plain (mem h2) q (fold assign_value ex_assignments ex_value) \<and>
    mem ex_memory \<subseteq>\<^sub>m mem h2 \<and> import_at plain (mem h2) (Some 0) ex_value"
  by (rule assignments_stay_in_copy [OF deep_copy_plain ex_bounded ex_value_at])
    (simp add: ex_assignments_def ex_value_def update_disk_def set_Disks_def set_Conds_def set_Status_def)

text \<open>
  With a copy of the struct only, \<open>*out = *in\<close>, the arrays are shared: a condition merged into a disk of
  the copy changes the disk of the original too, as \<open>AddOrUpdateCondition\<close> overwrites it in place.
\<close>

lemma shallow_copy_leaks:
  "\<exists>h2. assign_all rt [MergeDiskConditions 0 [ex_condition\<lparr>cond_Status := ConditionTrue\<rparr>]] (Some 6)
       (fill 6 (ImportCell ex_struct) ex_memory) = Some h2 \<and>
     \<not> import_at plain (mem h2) (Some 0) ex_value"
proof -
  let ?c = "ex_condition\<lparr>cond_Status := ConditionTrue\<rparr>"
  let ?d = "\<lparr>di_Name = ''a.img'', di_DiskSize = 0, di_DiskLocalPath = [], di_DiskRoute = [],
       di_VirtualMachineImage = [], di_DiskConditions = Slice 2 0 1, di_BusType = DiskBusUnset\<rparr>"
  let ?h = "fill 1 (DiskArray [?d]) (fill 2 (ConditionArray [?c, ex_condition])
      (fill 6 (ImportCell ex_struct) ex_memory))"
  have "assign_all rt [MergeDiskConditions 0 [?c]] (Some 6) (fill 6 (ImportCell ex_struct) ex_memory) = Some ?h"
    by (simp add: assign_element_def load_def elements_def ex_memory_def ex_struct_def update_disk_conditions_def
        AddOrUpdateCondition_mem_def overwrite_def ex_condition_def)
  moreover have "\<not> import_at plain (mem ?h) (Some 0) ex_value"
  proof
    assume "import_at plain (mem ?h) (Some 0) ex_value"
    then have "view_import plain (mem ?h) ex_struct = Some ex_value"
      by (auto simp: import_at_def view_ptr_def load_def ex_memory_def split: Option.bind_splits)
    then have "view_status (mem ?h) (im_Status ex_struct) = Some (vm_Status ex_value)"
      by (blast dest: view_import_parts)
    then show False
      by (simp add: view_status_def view_pair_def ex_struct_def status_value_def view_disks_def load_def elements_def
          view_slice_def view_disk_def view_conditions_items slice_items_def disk_value_def ex_value_def ex_condition_def)
  qed
  ultimately show ?thesis by blast
qed

end
