(* ===== verification/ResourceHandlers.thy ===== *)
theory ResourceHandlers
  imports GeneratedTypes
begin

text \<open>
  The handlers of the generated controllers, \<open>pkg/generated/controllers\<close>: a status handler
  computes the new status of an object and writes it when it changed; a generating handler also
  computes the objects the resource stands for, hands them to the apply library, and remembers
  the resource version it did that for. The four generated files are one text over four types:
  the text is modelled once, over a record of the accessors of the type, and each file is an
  instance of it.

  The API client, the conditions, the clock, and the apply library are parameters. A handler
  gets a pointer to the copy \<open>sync\<close> made of the cached object and may change it: it returns
  the object as well. The comparison \<open>equality.Semantic.DeepEqual\<close> does not tell a nil slice
  from an empty one, and neither do the lists of the model: it is equality. The map \<open>seen\<close> is a
  \<open>sync.Map\<close>, as different keys are handled at the same time; the handlers of one key run one
  after another, and touch the entry of that key only.
\<close>

section \<open>Parameters\<close>

text \<open>What the code uses of an API type: its metadata, status and type metadata (API version, kind).\<close>

record ('o, 's) api_type =
  at_zero :: 'o
  at_Meta :: "'o \<Rightarrow> ObjectMeta"
  at_set_Meta :: "ObjectMeta \<Rightarrow> 'o \<Rightarrow> 'o"
  at_Status :: "'o \<Rightarrow> 's"
  at_set_Status :: "'s \<Rightarrow> 'o \<Rightarrow> 'o"
  at_set_TypeMeta :: "string \<times> string \<Rightarrow> 'o \<Rightarrow> 'o"

text \<open>
  \<open>SetError\<close> and \<open>LastUpdated\<close> find the conditions of a status by reflection, and panic
  on a status without them.
\<close>

record ('s, 'x) handler_lib =
  names :: apimachinery
  IsConflict :: "go_error option \<Rightarrow> bool"
  SetError :: "string \<Rightarrow> 's \<Rightarrow> string \<Rightarrow> go_error option \<Rightarrow> 's option"
  LastUpdated :: "string \<Rightarrow> 's \<Rightarrow> string \<Rightarrow> 's option"
  Now_RFC3339 :: "('x, string) call"
  kv_RSplit :: "string \<Rightarrow> string \<Rightarrow> string \<times> string"

text \<open>A change of the cluster: a status is written, objects are applied for an object or, when it
  is gone, for its key.\<close>

datatype ('o, 'c) handler_event =
    StatusWritten 'o bool
  | ObjectsApplied 'o "'c list" bool
  | ObjectsRemoved string 'o bool

type_synonym ('o, 'c, 'x) handler_world = "('x, ('o, 'c) handler_event) world"

text \<open>\<open>'t\<close> is the state a handler keeps of its own.\<close>

type_synonym ('o, 's, 'c, 't, 'x) status_handler =
  "'o \<Rightarrow> 's \<Rightarrow> 't \<Rightarrow> ('o, 'c, 'x) handler_world \<Rightarrow>
   (('o \<times> 's \<times> go_error option) \<times> 't \<times> ('o, 'c, 'x) handler_world) option"

type_synonym ('o, 'c, 't, 'x) object_handler =
  "string \<Rightarrow> 'o option \<Rightarrow> 't \<Rightarrow> ('o, 'c, 'x) handler_world \<Rightarrow>
   (('o option \<times> go_error option) \<times> 't \<times> ('o, 'c, 'x) handler_world) option"

record ('o, 'x) resource_controller =
  rc_UpdateStatus :: "'o \<Rightarrow> ('x, go_error + 'o) call"
  rc_GroupVersionKind :: GroupVersionKind

section \<open>The status handler\<close>

record ('o, 's, 'c, 't, 'x) statusHandler =
  sh_client :: "('o, 'x) resource_controller"
  sh_condition :: string
  sh_handler :: "('o, 's, 'c, 't, 'x) status_handler"

definition set_condition_error ::
  "('s, 'x) handler_lib \<Rightarrow> string \<Rightarrow> 's \<Rightarrow> go_error option \<Rightarrow> 's option" where
  "set_condition_error lib condition status err =
     (if condition \<noteq> [] then
        if IsConflict lib err then SetError lib condition status [] None
        else SetError lib condition status [] err
      else Some status)"

definition stamp ::
  "('s, 'x) handler_lib \<Rightarrow> string \<Rightarrow> 's \<Rightarrow> ('o, 'c, 'x) handler_world \<Rightarrow>
   ('s \<times> ('o, 'c, 'x) handler_world) option" where
  "stamp lib condition status w =
     (if condition \<noteq> [] then
        let (now, w) = query (Now_RFC3339 lib) w
        in map_option (\<lambda>status. (status, w)) (LastUpdated lib condition status now)
      else Some (status, w))"

definition update_status ::
  "('o, 's) api_type \<Rightarrow> ('o, 'x) resource_controller \<Rightarrow> 'o \<Rightarrow> 's \<Rightarrow> go_error option \<Rightarrow>
   ('o, 'c, 'x) handler_world \<Rightarrow> ('o \<times> go_error option) \<times> ('o, 'c, 'x) handler_world" where
  "update_status tp client obj newStatus err w =
     (let obj = at_set_Status tp newStatus obj
      in case effect (\<lambda>r. StatusWritten obj (\<not> isl r)) (rc_UpdateStatus client obj) w of
           (Inl newErr, w) \<Rightarrow> ((obj, if err = None then Some newErr else err), w)
         | (Inr newObj, w) \<Rightarrow> ((newObj, err), w))"

definition statusHandler_sync ::
  "('o, 's) api_type \<Rightarrow> ('s, 'x) handler_lib \<Rightarrow> ('o, 's, 'c, 't, 'x) statusHandler \<Rightarrow>
   ('o, 'c, 't, 'x) object_handler" where
  "statusHandler_sync tp lib a key obj t w =
     (case obj of
        None \<Rightarrow> Some ((None, None), t, w)
      | Some obj \<Rightarrow>
          do {
            let origStatus = at_Status tp obj;
            ((obj, newStatus, err), t, w) \<leftarrow> sh_handler a obj (at_Status tp obj) t w;
            let newStatus = (if err \<noteq> None then origStatus else newStatus);
            newStatus \<leftarrow> set_condition_error lib (sh_condition a) newStatus err;
            if origStatus \<noteq> newStatus then do {
              (newStatus, w) \<leftarrow> stamp lib (sh_condition a) newStatus w;
              let ((obj, err), w) = update_status tp (sh_client a) obj newStatus err w;
              Some ((Some obj, err), t, w)
            } else Some ((Some obj, err), t, w)
          })"

section \<open>The generating handler\<close>

record GeneratingHandlerOptions =
  UniqueApplyForResourceVersion :: bool

text \<open>
  \<open>gh_apply\<close> is \<open>ConfigureApplyForObject(apply, obj, opts).WithOwner(obj).WithSetID(name).ApplyObjects(objs)\<close>
  at an owner, a set id and the objects; the options other than the one below are read by the
  library only. The field \<open>seen\<close> changes: it is the state of the handler, from the key of an object
  to a resource version.
\<close>

record ('o, 's, 'c, 'x) generatingHandler =
  gh_handler :: "'o \<Rightarrow> 's \<Rightarrow> ('x, ('o \<times> 'c list \<times> 's \<times> go_error option) option) call"
  gh_apply :: "'o \<Rightarrow> string \<Rightarrow> 'c list \<Rightarrow> ('x, go_error option) call"
  gh_opts :: GeneratingHandlerOptions
  gh_gvk :: GroupVersionKind
  gh_name :: string

type_synonym seen_map = "string \<rightharpoonup> string"

definition isNewResourceVersion ::
  "('o, 's) api_type \<Rightarrow> ('o, 's, 'c, 'x) generatingHandler \<Rightarrow> 'o \<Rightarrow> seen_map \<Rightarrow> bool" where
  "isNewResourceVersion tp a obj seen \<longleftrightarrow>
     (if \<not> UniqueApplyForResourceVersion (gh_opts a) then True
      else let key = Namespace (at_Meta tp obj) @ ''/'' @ Name (at_Meta tp obj)
           in case seen key of None \<Rightarrow> True | Some previous \<Rightarrow> previous \<noteq> ResourceVersion (at_Meta tp obj))"

definition storeResourceVersion ::
  "('o, 's) api_type \<Rightarrow> ('o, 's, 'c, 'x) generatingHandler \<Rightarrow> 'o \<Rightarrow> seen_map \<Rightarrow> seen_map" where
  "storeResourceVersion tp a obj seen =
     (if \<not> UniqueApplyForResourceVersion (gh_opts a) then seen
      else let key = Namespace (at_Meta tp obj) @ ''/'' @ Name (at_Meta tp obj)
           in seen(key \<mapsto> ResourceVersion (at_Meta tp obj)))"

definition generatingHandler_Handle ::
  "('o, 's) api_type \<Rightarrow> ('o, 's, 'c, 'x) generatingHandler \<Rightarrow> ('o, 's, 'c, seen_map, 'x) status_handler"
  where
  "generatingHandler_Handle tp a obj status seen w =
     (if DeletionTimestamp (at_Meta tp obj) \<noteq> None then Some ((obj, status, None), seen, w)
      else case query (gh_handler a obj status) w of
        (None, w) \<Rightarrow> None
      | (Some (obj, objs, newStatus, Some err), w) \<Rightarrow> Some ((obj, newStatus, Some err), seen, w)
      | (Some (obj, objs, newStatus, None), w) \<Rightarrow>
          if \<not> isNewResourceVersion tp a obj seen then Some ((obj, newStatus, None), seen, w)
          else (case effect (\<lambda>err. ObjectsApplied obj objs (err = None)) (gh_apply a obj (gh_name a) objs) w of
                  (Some err, w) \<Rightarrow> Some ((obj, newStatus, Some err), seen, w)
                | (None, w) \<Rightarrow> Some ((obj, newStatus, None), storeResourceVersion tp a obj seen, w)))"

text \<open>The object of a key that is gone: its name, namespace and kind are all that is known.\<close>

definition gone_object ::
  "('o, 's) api_type \<Rightarrow> ('s, 'x) handler_lib \<Rightarrow> GroupVersionKind \<Rightarrow> string \<Rightarrow> 'o" where
  "gone_object tp lib gvk key =
     (let obj = at_zero tp;
          (namespace, name) = kv_RSplit lib key ''/'';
          obj = at_set_Meta tp ((at_Meta tp obj)\<lparr>Namespace := namespace, Name := name\<rparr>) obj
      in at_set_TypeMeta tp (ToAPIVersionAndKind (names lib) gvk) obj)"

definition generatingHandler_Remove ::
  "('o, 's) api_type \<Rightarrow> ('s, 'x) handler_lib \<Rightarrow> ('o, 's, 'c, 'x) generatingHandler \<Rightarrow>
   ('o, 'c, seen_map, 'x) object_handler" where
  "generatingHandler_Remove tp lib a key obj seen w =
     (case obj of
        Some obj \<Rightarrow> Some ((Some obj, None), seen, w)
      | None \<Rightarrow>
          let obj = gone_object tp lib (gh_gvk a) key;
              seen = (if UniqueApplyForResourceVersion (gh_opts a) then seen(key := None) else seen);
              (err, w) = effect (\<lambda>err. ObjectsRemoved key obj (err = None)) (gh_apply a obj (gh_name a) []) w
          in Some ((None, err), seen, w))"

section \<open>Registration\<close>

text \<open>The handlers a registration adds to the controller, by name, in the order of the calls.\<close>

definition RegisterStatusHandler ::
  "('o, 's) api_type \<Rightarrow> ('s, 'x) handler_lib \<Rightarrow> ('o, 'x) resource_controller \<Rightarrow> string \<Rightarrow> string \<Rightarrow>
   ('o, 's, 'c, 't, 'x) status_handler \<Rightarrow> (string \<times> ('o, 'c, 't, 'x) object_handler) list" where
  "RegisterStatusHandler tp lib controller condition name handler =
     (let statusHandler = \<lparr>sh_client = controller, sh_condition = condition, sh_handler = handler\<rparr>
      in [(name, statusHandler_sync tp lib statusHandler)])"

definition RegisterGeneratingHandler ::
  "('o, 's) api_type \<Rightarrow> ('s, 'x) handler_lib \<Rightarrow> ('o, 'x) resource_controller \<Rightarrow>
   ('o \<Rightarrow> string \<Rightarrow> 'c list \<Rightarrow> ('x, go_error option) call) \<Rightarrow> string \<Rightarrow> string \<Rightarrow>
   ('o \<Rightarrow> 's \<Rightarrow> ('x, ('o \<times> 'c list \<times> 's \<times> go_error option) option) call) \<Rightarrow>
   GeneratingHandlerOptions option \<Rightarrow> (string \<times> ('o, 'c, seen_map, 'x) object_handler) list" where
  "RegisterGeneratingHandler tp lib controller apply condition name handler opts =
     (let statusHandler = \<lparr>gh_handler = handler, gh_apply = apply,
            gh_opts = (case opts of Some opts \<Rightarrow> opts | None \<Rightarrow> \<lparr>UniqueApplyForResourceVersion = False\<rparr>),
            gh_gvk = rc_GroupVersionKind controller, gh_name = name\<rparr>
      in (name, generatingHandler_Remove tp lib statusHandler) #
         RegisterStatusHandler tp lib controller condition name (generatingHandler_Handle tp statusHandler))"

end
