(* ===== verification/HandlerHistory.thy ===== *)
theory HandlerHistory
  imports ResourceHandlers
begin

text \<open>
  What the handlers of \<open>ResourceHandlers\<close> do over time: the runs of the handlers a
  registration adds, in any order, on any keys and objects, with the cluster changing in between;
  the record \<open>seen\<close> as a history variable of the log; and the effect of one \<open>sync\<close>.
\<close>

section \<open>One \<open>sync\<close>\<close>

lemma stamp_log: "stamp lib condition s w = Some (s', w') \<Longrightarrow> log w' = log w"
  by (auto simp: stamp_def dest: query_log split: if_splits prod.splits)

lemma update_status_cases:
  assumes "update_status tp client obj s err w = ((obj', err'), w')"
  shows "\<exists>ok. log w' = log w @ [StatusWritten (at_set_Status tp s obj) ok] \<and>
      (err' = None \<longleftrightarrow> err = None \<and> ok) \<and> (err \<noteq> None \<longrightarrow> err' = err)"
proof -
  obtain r v where e: "effect (\<lambda>r. StatusWritten (at_set_Status tp s obj) (\<not> isl r))
      (rc_UpdateStatus client (at_set_Status tp s obj)) w = (r, v)"
    by fastforce
  show ?thesis
    using assms effect_log [OF e]
    by (cases r) (auto simp: update_status_def e Let_def split: if_splits)
qed

lemma sync_cases:
  assumes "statusHandler_sync tp lib a key (Some obj) t w = Some (res, t', w')"
  obtains (run) obj1 s1 err1 v s2 where
    "sh_handler a obj (at_Status tp obj) t w = Some ((obj1, s1, err1), t', v)"
    "set_condition_error lib (sh_condition a) (if err1 \<noteq> None then at_Status tp obj else s1) err1 = Some s2"
    "at_Status tp obj = s2 \<and> res = (Some obj1, err1) \<and> w' = v \<or>
     (\<exists>s3 u obj' err. at_Status tp obj \<noteq> s2 \<and> stamp lib (sh_condition a) s2 v = Some (s3, u) \<and>
       update_status tp (sh_client a) obj1 s3 err1 u = ((obj', err), w') \<and> res = (Some obj', err))"
proof (cases "sh_handler a obj (at_Status tp obj) t w")
  case None
  then show thesis
    using assms by (simp add: statusHandler_sync_def)
next
  case (Some hr)
  obtain obj1 s1 err1 t1 v where hr: "hr = ((obj1, s1, err1), t1, v)"
    by (cases hr) auto
  show thesis
  proof (cases "set_condition_error lib (sh_condition a) (if err1 \<noteq> None then at_Status tp obj else s1) err1")
    case None
    then show thesis
      using assms Some hr by (simp add: statusHandler_sync_def Let_def)
  next
    case s2: (Some s2)
    have "(if at_Status tp obj \<noteq> s2 then stamp lib (sh_condition a) s2 v \<bind>
        (\<lambda>(s3, u). let ((obj', err), u') = update_status tp (sh_client a) obj1 s3 err1 u
          in Some ((Some obj', err), t1, u'))
      else Some ((Some obj1, err1), t1, v)) = Some (res, t', w')"
      using assms Some s2 by (simp add: hr statusHandler_sync_def Let_def)
    then show thesis
      using run [OF _ s2] Some hr
      by (auto simp: Let_def split: Option.bind_splits prod.splits if_splits)
  qed
qed

section \<open>Laws of the accessors\<close>

locale api_laws =
  fixes tp :: "('o, 's) api_type"
  assumes status_of_set: "at_Status tp (at_set_Status tp s obj) = s"
    and meta_set_status: "at_Meta tp (at_set_Status tp s obj) = at_Meta tp obj"
    and meta_of_set: "at_Meta tp (at_set_Meta tp m obj) = m"
    and meta_set_type: "at_Meta tp (at_set_TypeMeta tp v obj) = at_Meta tp obj"
begin

text \<open>
  A \<open>sync\<close> writes at most one status, of an object with the metadata the handler left, and
  returns the error of the handler, or of the write when the handler had none.
\<close>

lemma sync_writes_once:
  assumes "statusHandler_sync tp lib a key (Some obj) t w = Some ((obj', err), t', w')"
    and "sh_handler a obj (at_Status tp obj) t w = Some ((obj1, s1, err1), t', v)"
  shows "(log w' = log v \<and> err = err1) \<or>
    (\<exists>o2 ok. log w' = log v @ [StatusWritten o2 ok] \<and> at_Meta tp o2 = at_Meta tp obj1 \<and>
       err1 \<in> {None, err} \<and> (err = None \<longleftrightarrow> err1 = None \<and> ok))"
  using assms(1)
proof (cases rule: sync_cases)
  case (run obj2 s2 err2 v' s)
  then show ?thesis
    using assms(2) by (cases err1) (auto simp: meta_set_status dest!: stamp_log update_status_cases)
qed

text \<open>
  Without a condition the write happens exactly when the handler succeeded with another status
  than the object had, and it writes that status.
\<close>

lemma sync_without_condition:
  assumes "statusHandler_sync tp lib a key (Some obj) t w = Some ((obj', err), t', w')"
    and "sh_handler a obj (at_Status tp obj) t w = Some ((obj1, s1, err1), t', v)" "sh_condition a = []"
  shows "(if err1 = None \<and> s1 \<noteq> at_Status tp obj
      then \<exists>ok o2. log w' = log v @ [StatusWritten o2 ok] \<and> at_Status tp o2 = s1
      else log w' = log v)"
  using assms(1)
proof (cases rule: sync_cases)
  case (run obj2 s2 err2 v' s)
  then show ?thesis
    using assms(2,3) update_status_cases [of tp "sh_client a" obj1 s1 err1 v]
    by (auto simp: set_condition_error_def stamp_def status_of_set split: if_splits)
qed

lemma gone_object_meta:
  "Namespace (at_Meta tp (gone_object tp lib gvk key)) = fst (kv_RSplit lib key ''/'')"
  "Name (at_Meta tp (gone_object tp lib gvk key)) = snd (kv_RSplit lib key ''/'')"
  by (simp_all add: gone_object_def meta_of_set meta_set_type Let_def split: prod.split)

end

section \<open>Runs\<close>

text \<open>
  The handlers of a registration run one after another; between two of them the outside changes
  as it likes.
\<close>

inductive handler_runs ::
  "(string \<times> ('o, 'c, 't, 'x) object_handler) list \<Rightarrow> 't \<Rightarrow> 't \<Rightarrow> ('o, 'c, 'x) handler_world \<Rightarrow> bool"
  for hs :: "(string \<times> ('o, 'c, 't, 'x) object_handler) list" and init :: 't where
  RunsStart: "log w = [] \<Longrightarrow> handler_runs hs init init w"
| RunsHandler: "handler_runs hs init t w \<Longrightarrow> (name, h) \<in> set hs \<Longrightarrow>
    h key obj t w = Some (res, t', w') \<Longrightarrow> handler_runs hs init t' w'"
| RunsOutside: "handler_runs hs init t w \<Longrightarrow> handler_runs hs init t (w\<lparr>ext := x\<rparr>)"

section \<open>The versions that were applied\<close>

definition object_key :: "('o, 's) api_type \<Rightarrow> 'o \<Rightarrow> string" where
  "object_key tp obj = Namespace (at_Meta tp obj) @ ''/'' @ Name (at_Meta tp obj)"

definition object_version :: "('o, 's) api_type \<Rightarrow> 'o \<Rightarrow> string" where
  "object_version tp obj = ResourceVersion (at_Meta tp obj)"

lemma isNewResourceVersion_iff:
  "isNewResourceVersion tp a obj seen \<longleftrightarrow>
     (UniqueApplyForResourceVersion (gh_opts a) \<longrightarrow> seen (object_key tp obj) \<noteq> Some (object_version tp obj))"
  by (auto simp: isNewResourceVersion_def object_key_def object_version_def split: option.split)

lemma storeResourceVersion_eq:
  "storeResourceVersion tp a obj seen =
     (if UniqueApplyForResourceVersion (gh_opts a) then seen(object_key tp obj \<mapsto> object_version tp obj) else seen)"
  by (simp add: storeResourceVersion_def object_key_def object_version_def)

text \<open>What a log says of each key: the version of the last successful apply since the key was last gone.\<close>

fun note_event :: "('o, 's) api_type \<Rightarrow> ('o, 'c) handler_event \<Rightarrow> seen_map \<Rightarrow> seen_map" where
  "note_event tp (StatusWritten obj ok) m = m"
| "note_event tp (ObjectsApplied obj objs ok) m = (if ok then m(object_key tp obj \<mapsto> object_version tp obj) else m)"
| "note_event tp (ObjectsRemoved key obj ok) m = m(key := None)"

definition applied_versions :: "('o, 's) api_type \<Rightarrow> ('o, 'c) handler_event list \<Rightarrow> seen_map" where
  "applied_versions tp es = fold (note_event tp) es Map.empty"

text \<open>Nothing is applied for the version that was applied last.\<close>

fun fresh_from :: "('o, 's) api_type \<Rightarrow> seen_map \<Rightarrow> ('o, 'c) handler_event list \<Rightarrow> bool" where
  "fresh_from tp m [] \<longleftrightarrow> True"
| "fresh_from tp m (e # es) \<longleftrightarrow>
     (case e of ObjectsApplied obj objs ok \<Rightarrow> m (object_key tp obj) \<noteq> Some (object_version tp obj) | _ \<Rightarrow> True) \<and>
     fresh_from tp (note_event tp e m) es"

lemma fresh_from_append:
  "fresh_from tp m (es @ fs) \<longleftrightarrow> fresh_from tp m es \<and> fresh_from tp (fold (note_event tp) es m) fs"
  by (induction es arbitrary: m) auto

text \<open>The invariant of a handler with \<open>UniqueApplyForResourceVersion\<close>.\<close>

definition seen_inv :: "('o, 's) api_type \<Rightarrow> seen_map \<Rightarrow> ('o, 'c) handler_event list \<Rightarrow> bool" where
  "seen_inv tp seen es \<longleftrightarrow> seen = applied_versions tp es \<and> fresh_from tp Map.empty es"

lemma seen_inv_written: "seen_inv tp seen (es @ [StatusWritten obj ok]) \<longleftrightarrow> seen_inv tp seen es"
  by (simp add: seen_inv_def applied_versions_def fresh_from_append)

lemma seen_inv_removed: "seen_inv tp seen es \<Longrightarrow> seen_inv tp (seen(key := None)) (es @ [ObjectsRemoved key obj ok])"
  by (simp add: seen_inv_def applied_versions_def fresh_from_append)

lemma seen_inv_applied:
  "seen_inv tp seen es \<Longrightarrow> seen (object_key tp obj) \<noteq> Some (object_version tp obj) \<Longrightarrow>
   seen_inv tp (if ok then seen(object_key tp obj \<mapsto> object_version tp obj) else seen)
     (es @ [ObjectsApplied obj objs ok])"
  by (simp add: seen_inv_def applied_versions_def fresh_from_append)

lemma Handle_seen_inv:
  assumes "generatingHandler_Handle tp a obj status seen w = Some (res, seen', w')"
    and "UniqueApplyForResourceVersion (gh_opts a)" "seen_inv tp seen (log w)"
  shows "seen_inv tp seen' (log w')"
proof -
  obtain r v where q: "query (gh_handler a obj status) w = (r, v)"
    by fastforce
  have v: "log v = log w"
    by (rule query_log [OF q])
  show ?thesis
  proof (cases "DeletionTimestamp (at_Meta tp obj) \<noteq> None \<or>
      (\<exists>obj' objs s err. r = Some (obj', objs, s, err) \<and> (err \<noteq> None \<or> \<not> isNewResourceVersion tp a obj' seen))")
    case True
    then have "seen' = seen \<and> log w' = log w"
      using assms(1) v by (auto simp: generatingHandler_Handle_def q split: if_splits option.splits)
    then show ?thesis
      using assms(3) by simp
  next
    case False
    then obtain obj' objs s where r: "r = Some (obj', objs, s, None)"
      and new: "isNewResourceVersion tp a obj' seen" and alive: "DeletionTimestamp (at_Meta tp obj) = None"
      using assms(1) by (cases r) (auto simp: generatingHandler_Handle_def q)
    obtain e u where e: "effect (\<lambda>err. ObjectsApplied obj' objs (err = None)) (gh_apply a obj' (gh_name a) objs) v = (e, u)"
      by fastforce
    have "seen' = (if e = None then seen(object_key tp obj' \<mapsto> object_version tp obj') else seen)" "w' = u"
      using assms(1,2) alive r new
      by (auto simp: generatingHandler_Handle_def q e storeResourceVersion_eq split: option.splits)
    then show ?thesis
      using seen_inv_applied [OF assms(3), of obj' "e = None" objs] new assms(2) effect_log [OF e] v
      by (simp add: isNewResourceVersion_iff)
  qed
qed

lemma Remove_seen_inv:
  assumes "generatingHandler_Remove tp lib a key obj seen w = Some (res, seen', w')"
    and "UniqueApplyForResourceVersion (gh_opts a)" "seen_inv tp seen (log w)"
  shows "seen_inv tp seen' (log w')"
  using assms
  by (auto simp: generatingHandler_Remove_def Let_def split: option.splits prod.splits
      dest!: effect_log intro: seen_inv_removed)

text \<open>A status handler that keeps the invariant keeps it in a \<open>sync\<close>.\<close>

lemma sync_seen_inv:
  assumes "statusHandler_sync tp lib a key obj seen w = Some (res, seen', w')"
    and "\<And>obj s res v. sh_handler a obj s seen w = Some (res, seen', v) \<Longrightarrow> seen_inv tp seen' (log v)"
    and "seen_inv tp seen (log w)"
  shows "seen_inv tp seen' (log w')"
proof (cases obj)
  case None
  then show ?thesis
    using assms(1,3) by (simp add: statusHandler_sync_def)
next
  case (Some obj)
  from assms(1) [unfolded Some] show ?thesis
  proof (cases rule: sync_cases)
    case (run obj1 s1 err1 v s2)
    then show ?thesis
      using assms(2) [OF run(1)]
      by (auto simp: seen_inv_written dest!: stamp_log update_status_cases)
  qed
qed

text \<open>The two handlers of a generating registration keep the invariant.\<close>

lemma registered_seen_inv:
  assumes "(name', h) \<in> set (RegisterGeneratingHandler tp lib controller apply condition name handler (Some opts))"
    and "h key obj seen w = Some (res, seen', w')"
    and "UniqueApplyForResourceVersion opts" "seen_inv tp seen (log w)"
  shows "seen_inv tp seen' (log w')"
proof -
  define a where "a = \<lparr>gh_handler = handler, gh_apply = apply, gh_opts = opts,
      gh_gvk = rc_GroupVersionKind controller, gh_name = name\<rparr>"
  have unique: "UniqueApplyForResourceVersion (gh_opts a)"
    by (simp add: a_def assms(3))
  consider (remove) "h = generatingHandler_Remove tp lib a"
    | (sync) "h = statusHandler_sync tp lib \<lparr>sh_client = controller, sh_condition = condition,
        sh_handler = generatingHandler_Handle tp a\<rparr>"
    using assms(1) by (auto simp: RegisterGeneratingHandler_def RegisterStatusHandler_def a_def Let_def)
  then show ?thesis
  proof cases
    case remove
    then show ?thesis
      using Remove_seen_inv [OF _ unique assms(4)] assms(2) by blast
  next
    case sync
    show ?thesis
      by (rule sync_seen_inv [OF assms(2) [unfolded sync] _ assms(4)])
        (simp add: Handle_seen_inv [OF _ unique assms(4)])
  qed
qed

lemma generating_runs:
  assumes "handler_runs (RegisterGeneratingHandler tp lib controller apply condition name handler (Some opts))
      Map.empty seen w"
    and "UniqueApplyForResourceVersion opts"
  shows "seen_inv tp seen (log w)"
  using assms(1)
proof (induction rule: handler_runs.induct)
  case (RunsStart w)
  then show ?case
    by (simp add: seen_inv_def applied_versions_def)
next
  case (RunsHandler t w name' h key obj res t' w')
  then show ?case
    by (blast intro: registered_seen_inv assms(2))
next
  case (RunsOutside t w x)
  then show ?case
    by simp
qed

text \<open>A version stays the last one applied until the key is gone or another version is applied.\<close>

definition releases :: "('o, 's) api_type \<Rightarrow> string \<Rightarrow> string \<Rightarrow> ('o, 'c) handler_event \<Rightarrow> bool" where
  "releases tp key version e \<longleftrightarrow>
     (case e of
        StatusWritten obj ok \<Rightarrow> False
      | ObjectsApplied obj objs ok \<Rightarrow> ok \<and> object_key tp obj = key \<and> object_version tp obj \<noteq> version
      | ObjectsRemoved key' obj ok \<Rightarrow> key' = key)"

lemma version_kept:
  assumes "m key = Some version" "\<forall>e \<in> set es. \<not> releases tp key version e"
  shows "fold (note_event tp) es m key = Some version"
  using assms
proof (induction es arbitrary: m)
  case Nil
  then show ?case by simp
next
  case (Cons e es)
  then have "note_event tp e m key = Some version"
    by (cases e) (auto simp: releases_def)
  then show ?case
    using Cons by simp
qed

lemma applied_again:
  assumes "fresh_from tp m (es @ ObjectsApplied o1 cs1 True # fs @ ObjectsApplied o2 cs2 ok # gs)"
    and "object_key tp o2 = object_key tp o1" "object_version tp o2 = object_version tp o1"
  shows "\<exists>e \<in> set fs. releases tp (object_key tp o1) (object_version tp o1) e"
proof (rule ccontr)
  assume "\<not> ?thesis"
  then have "fold (note_event tp) fs ((fold (note_event tp) es m)(object_key tp o1 \<mapsto> object_version tp o1))
      (object_key tp o1) = Some (object_version tp o1)"
    by (intro version_kept) auto
  then show False
    using assms by (simp add: fresh_from_append)
qed

text \<open>
  C39. A generating handler that is registered with \<open>UniqueApplyForResourceVersion\<close> hands the
  objects of a resource to the apply library once for each resource version, in whatever order its
  two handlers run and whatever they are given: when it did so successfully and does it again for the same
  key and version, the key was gone or another version was applied in between. A failed apply
  does not count, so it is tried again.
\<close>

theorem generating_applies_once:
  assumes "handler_runs (RegisterGeneratingHandler tp lib controller apply condition name handler (Some opts))
      Map.empty seen w"
    and "UniqueApplyForResourceVersion opts"
    and "log w = es @ ObjectsApplied o1 cs1 True # fs @ ObjectsApplied o2 cs2 ok # gs"
    and "object_key tp o2 = object_key tp o1" "object_version tp o2 = object_version tp o1"
  shows "\<exists>e \<in> set fs. releases tp (object_key tp o1) (object_version tp o1) e"
  using applied_again generating_runs [OF assms(1,2)] assms(3-5) unfolding seen_inv_def by metis

end
