(* ===== verification/GeneratedHandlers.thy ===== *)
theory GeneratedHandlers
  imports HandlerHistory
begin

text \<open>
  The four files of \<open>pkg/generated/controllers/migration.harvesterhci.io/v1beta1\<close> that hold
  handlers: \<open>openstacksource.go\<close>, \<open>ovasource.go\<close>, \<open>virtualmachineimport.go\<close> and
  \<open>vmwaresource.go\<close>. Each is the text of \<open>ResourceHandlers\<close> at its own type, whose
  accessors satisfy the laws of \<open>HandlerHistory\<close>.
\<close>

section \<open>The types\<close>

text \<open>\<open>&v1beta1.T{}\<close>, and the accessors of its embedded structs.\<close>

definition zero_SourceStatus :: SourceStatus where
  "zero_SourceStatus = \<lparr>source_Status = ClusterStatusOther [], source_Conditions = []\<rparr>"

definition zero_OpenstackSource :: OpenstackSource where
  "zero_OpenstackSource = \<lparr>openstack_Kind = [], openstack_APIVersion = [], openstack_Meta = empty_meta,
     openstack_Endpoint = [], openstack_Region = [],
     openstack_Credentials = \<lparr>secretref_Namespace = [], secretref_Name = []\<rparr>,
     openstack_Options = \<lparr>UploadImageRetryCount = 0, UploadImageRetryDelay = 0\<rparr>,
     openstack_Status = zero_SourceStatus\<rparr>"

definition zero_OvaSource :: OvaSource where
  "zero_OvaSource = \<lparr>ova_Kind = [], ova_APIVersion = [], ova_Meta = empty_meta, ova_Url = [],
     ova_Options = \<lparr>HttpTimeoutSeconds = None\<rparr>, ova_Credentials = None, ova_Status = zero_SourceStatus\<rparr>"

definition zero_VirtualMachineImport :: VirtualMachineImport where
  "zero_VirtualMachineImport = \<lparr>vm_Kind = [], vm_APIVersion = [], vm_Meta = empty_meta,
     vm_Spec = \<lparr>SourceCluster = \<lparr>ref_APIVersion = [], ref_Kind = [], ref_Namespace = [], ref_Name = []\<rparr>,
       VirtualMachineName = [], Folder = [], Mapping = [], DefaultNetworkInterfaceModel = None,
       StorageClassName = [], DefaultDiskBusType = None, ForcePowerOff = None,
       GracefulShutdownTimeoutSeconds = 0, SkipPreflight = None\<rparr>,
     vm_Status = \<lparr>Status = StatusUnset, DiskImportStatus = [], ImportConditions = [],
       NewVirtualMachine = [], ImportedVirtualMachineName = []\<rparr>\<rparr>"

definition zero_VmwareSource :: VmwareSource where
  "zero_VmwareSource = \<lparr>vmware_Kind = [], vmware_APIVersion = [], vmware_Meta = empty_meta,
     vmware_Endpoint = [], vmware_Datacenter = [],
     vmware_Credentials = \<lparr>secretref_Namespace = [], secretref_Name = []\<rparr>,
     vmware_Status = zero_SourceStatus\<rparr>"

definition openstack_type :: "(OpenstackSource, SourceStatus) api_type" where
  "openstack_type = \<lparr>at_zero = zero_OpenstackSource, at_Meta = openstack_Meta,
     at_set_Meta = (\<lambda>m obj. obj\<lparr>openstack_Meta := m\<rparr>), at_Status = openstack_Status,
     at_set_Status = (\<lambda>s obj. obj\<lparr>openstack_Status := s\<rparr>),
     at_set_TypeMeta = (\<lambda>(v, k) obj. obj\<lparr>openstack_APIVersion := v, openstack_Kind := k\<rparr>)\<rparr>"

definition ova_type :: "(OvaSource, SourceStatus) api_type" where
  "ova_type = \<lparr>at_zero = zero_OvaSource, at_Meta = ova_Meta,
     at_set_Meta = (\<lambda>m obj. obj\<lparr>ova_Meta := m\<rparr>), at_Status = ova_Status,
     at_set_Status = (\<lambda>s obj. obj\<lparr>ova_Status := s\<rparr>),
     at_set_TypeMeta = (\<lambda>(v, k) obj. obj\<lparr>ova_APIVersion := v, ova_Kind := k\<rparr>)\<rparr>"

definition import_type :: "(VirtualMachineImport, VirtualMachineImportStatus) api_type" where
  "import_type = \<lparr>at_zero = zero_VirtualMachineImport, at_Meta = vm_Meta,
     at_set_Meta = (\<lambda>m obj. obj\<lparr>vm_Meta := m\<rparr>), at_Status = vm_Status,
     at_set_Status = (\<lambda>s obj. obj\<lparr>vm_Status := s\<rparr>),
     at_set_TypeMeta = (\<lambda>(v, k) obj. obj\<lparr>vm_APIVersion := v, vm_Kind := k\<rparr>)\<rparr>"

definition vmware_type :: "(VmwareSource, SourceStatus) api_type" where
  "vmware_type = \<lparr>at_zero = zero_VmwareSource, at_Meta = vmware_Meta,
     at_set_Meta = (\<lambda>m obj. obj\<lparr>vmware_Meta := m\<rparr>), at_Status = vmware_Status,
     at_set_Status = (\<lambda>s obj. obj\<lparr>vmware_Status := s\<rparr>),
     at_set_TypeMeta = (\<lambda>(v, k) obj. obj\<lparr>vmware_APIVersion := v, vmware_Kind := k\<rparr>)\<rparr>"

interpretation openstack_api: api_laws openstack_type
  by unfold_locales (simp_all add: openstack_type_def split: prod.split)

interpretation ova_api: api_laws ova_type
  by unfold_locales (simp_all add: ova_type_def split: prod.split)

interpretation import_api: api_laws import_type
  by unfold_locales (simp_all add: import_type_def split: prod.split)

interpretation vmware_api: api_laws vmware_type
  by unfold_locales (simp_all add: vmware_type_def split: prod.split)

section \<open>openstacksource.go\<close>

definition openstackSourceStatusHandler_sync ::
  "(SourceStatus, 'x) handler_lib \<Rightarrow> (OpenstackSource, SourceStatus, 'c, 't, 'x) statusHandler \<Rightarrow>
   (OpenstackSource, 'c, 't, 'x) object_handler" where
  "openstackSourceStatusHandler_sync = statusHandler_sync openstack_type"

definition openstackSource_isNewResourceVersion ::
  "(OpenstackSource, SourceStatus, 'c, 'x) generatingHandler \<Rightarrow> OpenstackSource \<Rightarrow> seen_map \<Rightarrow> bool" where
  "openstackSource_isNewResourceVersion = isNewResourceVersion openstack_type"

definition openstackSource_storeResourceVersion ::
  "(OpenstackSource, SourceStatus, 'c, 'x) generatingHandler \<Rightarrow> OpenstackSource \<Rightarrow> seen_map \<Rightarrow> seen_map" where
  "openstackSource_storeResourceVersion = storeResourceVersion openstack_type"

definition openstackSourceGeneratingHandler_Handle ::
  "(OpenstackSource, SourceStatus, 'c, 'x) generatingHandler \<Rightarrow>
   (OpenstackSource, SourceStatus, 'c, seen_map, 'x) status_handler" where
  "openstackSourceGeneratingHandler_Handle = generatingHandler_Handle openstack_type"

definition openstackSourceGeneratingHandler_Remove ::
  "(SourceStatus, 'x) handler_lib \<Rightarrow> (OpenstackSource, SourceStatus, 'c, 'x) generatingHandler \<Rightarrow>
   (OpenstackSource, 'c, seen_map, 'x) object_handler" where
  "openstackSourceGeneratingHandler_Remove = generatingHandler_Remove openstack_type"

definition RegisterOpenstackSourceStatusHandler ::
  "(SourceStatus, 'x) handler_lib \<Rightarrow> (OpenstackSource, 'x) resource_controller \<Rightarrow> string \<Rightarrow> string \<Rightarrow>
   (OpenstackSource, SourceStatus, 'c, 't, 'x) status_handler \<Rightarrow>
   (string \<times> (OpenstackSource, 'c, 't, 'x) object_handler) list" where
  "RegisterOpenstackSourceStatusHandler = RegisterStatusHandler openstack_type"

definition RegisterOpenstackSourceGeneratingHandler ::
  "(SourceStatus, 'x) handler_lib \<Rightarrow> (OpenstackSource, 'x) resource_controller \<Rightarrow>
   (OpenstackSource \<Rightarrow> string \<Rightarrow> 'c list \<Rightarrow> ('x, go_error option) call) \<Rightarrow> string \<Rightarrow> string \<Rightarrow>
   (OpenstackSource \<Rightarrow> SourceStatus \<Rightarrow> ('x, (OpenstackSource \<times> 'c list \<times> SourceStatus \<times> go_error option) option) call) \<Rightarrow>
   GeneratingHandlerOptions option \<Rightarrow>
   (string \<times> (OpenstackSource, 'c, seen_map, 'x) object_handler) list" where
  "RegisterOpenstackSourceGeneratingHandler = RegisterGeneratingHandler openstack_type"

section \<open>ovasource.go\<close>

definition ovaSourceStatusHandler_sync ::
  "(SourceStatus, 'x) handler_lib \<Rightarrow> (OvaSource, SourceStatus, 'c, 't, 'x) statusHandler \<Rightarrow>
   (OvaSource, 'c, 't, 'x) object_handler" where
  "ovaSourceStatusHandler_sync = statusHandler_sync ova_type"

definition ovaSource_isNewResourceVersion ::
  "(OvaSource, SourceStatus, 'c, 'x) generatingHandler \<Rightarrow> OvaSource \<Rightarrow> seen_map \<Rightarrow> bool" where
  "ovaSource_isNewResourceVersion = isNewResourceVersion ova_type"

definition ovaSource_storeResourceVersion ::
  "(OvaSource, SourceStatus, 'c, 'x) generatingHandler \<Rightarrow> OvaSource \<Rightarrow> seen_map \<Rightarrow> seen_map" where
  "ovaSource_storeResourceVersion = storeResourceVersion ova_type"

definition ovaSourceGeneratingHandler_Handle ::
  "(OvaSource, SourceStatus, 'c, 'x) generatingHandler \<Rightarrow>
   (OvaSource, SourceStatus, 'c, seen_map, 'x) status_handler" where
  "ovaSourceGeneratingHandler_Handle = generatingHandler_Handle ova_type"

definition ovaSourceGeneratingHandler_Remove ::
  "(SourceStatus, 'x) handler_lib \<Rightarrow> (OvaSource, SourceStatus, 'c, 'x) generatingHandler \<Rightarrow>
   (OvaSource, 'c, seen_map, 'x) object_handler" where
  "ovaSourceGeneratingHandler_Remove = generatingHandler_Remove ova_type"

definition RegisterOvaSourceStatusHandler ::
  "(SourceStatus, 'x) handler_lib \<Rightarrow> (OvaSource, 'x) resource_controller \<Rightarrow> string \<Rightarrow> string \<Rightarrow>
   (OvaSource, SourceStatus, 'c, 't, 'x) status_handler \<Rightarrow>
   (string \<times> (OvaSource, 'c, 't, 'x) object_handler) list" where
  "RegisterOvaSourceStatusHandler = RegisterStatusHandler ova_type"

definition RegisterOvaSourceGeneratingHandler ::
  "(SourceStatus, 'x) handler_lib \<Rightarrow> (OvaSource, 'x) resource_controller \<Rightarrow>
   (OvaSource \<Rightarrow> string \<Rightarrow> 'c list \<Rightarrow> ('x, go_error option) call) \<Rightarrow> string \<Rightarrow> string \<Rightarrow>
   (OvaSource \<Rightarrow> SourceStatus \<Rightarrow> ('x, (OvaSource \<times> 'c list \<times> SourceStatus \<times> go_error option) option) call) \<Rightarrow>
   GeneratingHandlerOptions option \<Rightarrow>
   (string \<times> (OvaSource, 'c, seen_map, 'x) object_handler) list" where
  "RegisterOvaSourceGeneratingHandler = RegisterGeneratingHandler ova_type"

section \<open>virtualmachineimport.go\<close>

definition virtualMachineImportStatusHandler_sync ::
  "(VirtualMachineImportStatus, 'x) handler_lib \<Rightarrow> (VirtualMachineImport, VirtualMachineImportStatus, 'c, 't, 'x) statusHandler \<Rightarrow>
   (VirtualMachineImport, 'c, 't, 'x) object_handler" where
  "virtualMachineImportStatusHandler_sync = statusHandler_sync import_type"

definition virtualMachineImport_isNewResourceVersion ::
  "(VirtualMachineImport, VirtualMachineImportStatus, 'c, 'x) generatingHandler \<Rightarrow> VirtualMachineImport \<Rightarrow> seen_map \<Rightarrow> bool" where
  "virtualMachineImport_isNewResourceVersion = isNewResourceVersion import_type"

definition virtualMachineImport_storeResourceVersion ::
  "(VirtualMachineImport, VirtualMachineImportStatus, 'c, 'x) generatingHandler \<Rightarrow> VirtualMachineImport \<Rightarrow> seen_map \<Rightarrow> seen_map" where
  "virtualMachineImport_storeResourceVersion = storeResourceVersion import_type"

definition virtualMachineImportGeneratingHandler_Handle ::
  "(VirtualMachineImport, VirtualMachineImportStatus, 'c, 'x) generatingHandler \<Rightarrow>
   (VirtualMachineImport, VirtualMachineImportStatus, 'c, seen_map, 'x) status_handler" where
  "virtualMachineImportGeneratingHandler_Handle = generatingHandler_Handle import_type"

definition virtualMachineImportGeneratingHandler_Remove ::
  "(VirtualMachineImportStatus, 'x) handler_lib \<Rightarrow> (VirtualMachineImport, VirtualMachineImportStatus, 'c, 'x) generatingHandler \<Rightarrow>
   (VirtualMachineImport, 'c, seen_map, 'x) object_handler" where
  "virtualMachineImportGeneratingHandler_Remove = generatingHandler_Remove import_type"

definition RegisterVirtualMachineImportStatusHandler ::
  "(VirtualMachineImportStatus, 'x) handler_lib \<Rightarrow> (VirtualMachineImport, 'x) resource_controller \<Rightarrow> string \<Rightarrow> string \<Rightarrow>
   (VirtualMachineImport, VirtualMachineImportStatus, 'c, 't, 'x) status_handler \<Rightarrow>
   (string \<times> (VirtualMachineImport, 'c, 't, 'x) object_handler) list" where
  "RegisterVirtualMachineImportStatusHandler = RegisterStatusHandler import_type"

definition RegisterVirtualMachineImportGeneratingHandler ::
  "(VirtualMachineImportStatus, 'x) handler_lib \<Rightarrow> (VirtualMachineImport, 'x) resource_controller \<Rightarrow>
   (VirtualMachineImport \<Rightarrow> string \<Rightarrow> 'c list \<Rightarrow> ('x, go_error option) call) \<Rightarrow> string \<Rightarrow> string \<Rightarrow>
   (VirtualMachineImport \<Rightarrow> VirtualMachineImportStatus \<Rightarrow> ('x, (VirtualMachineImport \<times> 'c list \<times> VirtualMachineImportStatus \<times> go_error option) option) call) \<Rightarrow>
   GeneratingHandlerOptions option \<Rightarrow>
   (string \<times> (VirtualMachineImport, 'c, seen_map, 'x) object_handler) list" where
  "RegisterVirtualMachineImportGeneratingHandler = RegisterGeneratingHandler import_type"

section \<open>vmwaresource.go\<close>

definition vmwareSourceStatusHandler_sync ::
  "(SourceStatus, 'x) handler_lib \<Rightarrow> (VmwareSource, SourceStatus, 'c, 't, 'x) statusHandler \<Rightarrow>
   (VmwareSource, 'c, 't, 'x) object_handler" where
  "vmwareSourceStatusHandler_sync = statusHandler_sync vmware_type"

definition vmwareSource_isNewResourceVersion ::
  "(VmwareSource, SourceStatus, 'c, 'x) generatingHandler \<Rightarrow> VmwareSource \<Rightarrow> seen_map \<Rightarrow> bool" where
  "vmwareSource_isNewResourceVersion = isNewResourceVersion vmware_type"

definition vmwareSource_storeResourceVersion ::
  "(VmwareSource, SourceStatus, 'c, 'x) generatingHandler \<Rightarrow> VmwareSource \<Rightarrow> seen_map \<Rightarrow> seen_map" where
  "vmwareSource_storeResourceVersion = storeResourceVersion vmware_type"

definition vmwareSourceGeneratingHandler_Handle ::
  "(VmwareSource, SourceStatus, 'c, 'x) generatingHandler \<Rightarrow>
   (VmwareSource, SourceStatus, 'c, seen_map, 'x) status_handler" where
  "vmwareSourceGeneratingHandler_Handle = generatingHandler_Handle vmware_type"

definition vmwareSourceGeneratingHandler_Remove ::
  "(SourceStatus, 'x) handler_lib \<Rightarrow> (VmwareSource, SourceStatus, 'c, 'x) generatingHandler \<Rightarrow>
   (VmwareSource, 'c, seen_map, 'x) object_handler" where
  "vmwareSourceGeneratingHandler_Remove = generatingHandler_Remove vmware_type"

definition RegisterVmwareSourceStatusHandler ::
  "(SourceStatus, 'x) handler_lib \<Rightarrow> (VmwareSource, 'x) resource_controller \<Rightarrow> string \<Rightarrow> string \<Rightarrow>
   (VmwareSource, SourceStatus, 'c, 't, 'x) status_handler \<Rightarrow>
   (string \<times> (VmwareSource, 'c, 't, 'x) object_handler) list" where
  "RegisterVmwareSourceStatusHandler = RegisterStatusHandler vmware_type"

definition RegisterVmwareSourceGeneratingHandler ::
  "(SourceStatus, 'x) handler_lib \<Rightarrow> (VmwareSource, 'x) resource_controller \<Rightarrow>
   (VmwareSource \<Rightarrow> string \<Rightarrow> 'c list \<Rightarrow> ('x, go_error option) call) \<Rightarrow> string \<Rightarrow> string \<Rightarrow>
   (VmwareSource \<Rightarrow> SourceStatus \<Rightarrow> ('x, (VmwareSource \<times> 'c list \<times> SourceStatus \<times> go_error option) option) call) \<Rightarrow>
   GeneratingHandlerOptions option \<Rightarrow>
   (string \<times> (VmwareSource, 'c, seen_map, 'x) object_handler) list" where
  "RegisterVmwareSourceGeneratingHandler = RegisterGeneratingHandler vmware_type"

section \<open>A run\<close>

text \<open>
  A handler that generates one object, a cluster that accepts it, and a resource that is seen at
  version 1, at version 1 again, at version 2, and in a stale cache at version 1.
\<close>

definition ex_names :: apimachinery where
  "ex_names = \<lparr>WithKind = (\<lambda>gv k. \<lparr>gvk_Group = gv_Group gv, gvk_Version = gv_Version gv, gvk_Kind = k\<rparr>),
     ToAPIVersionAndKind = (\<lambda>gvk. (gvk_Group gvk @ ''/'' @ gvk_Version gvk, gvk_Kind gvk)),
     to_GroupKind = (\<lambda>gvk. \<lparr>gk_Group = gvk_Group gvk, gk_Kind = gvk_Kind gvk\<rparr>),
     WithResource = (\<lambda>gv r. \<lparr>gvr_Group = gv_Group gv, gvr_Version = gv_Version gv, gvr_Resource = r\<rparr>),
     to_GroupResource = (\<lambda>gvr. \<lparr>gr_Group = gvr_Group gvr, gr_Resource = gvr_Resource gvr\<rparr>)\<rparr>"

definition ex_handler_lib :: "(SourceStatus, nat) handler_lib" where
  "ex_handler_lib = \<lparr>names = ex_names, IsConflict = (\<lambda>e. False),
     SetError = (\<lambda>c s r e. Some s), LastUpdated = (\<lambda>c s now. Some s),
     Now_RFC3339 = (\<lambda>x. (''2026-01-01T00:00:00Z'', x)), kv_RSplit = (\<lambda>s sep. (''default'', ''src''))\<rparr>"

definition ex_controller :: "(VmwareSource, nat) resource_controller" where
  "ex_controller = \<lparr>rc_UpdateStatus = (\<lambda>obj x. (Inr obj, x)),
     rc_GroupVersionKind = WithKind ex_names SchemeGroupVersion ''VmwareSource''\<rparr>"

definition ex_vmware :: "string \<Rightarrow> VmwareSource" where
  "ex_vmware version = zero_VmwareSource\<lparr>vmware_Meta :=
     empty_meta\<lparr>Namespace := ''default'', Name := ''src'', ResourceVersion := version\<rparr>\<rparr>"

definition ex_generating :: "(string \<times> (VmwareSource, nat, seen_map, nat) object_handler) list" where
  "ex_generating = RegisterVmwareSourceGeneratingHandler ex_handler_lib ex_controller
     (\<lambda>obj setID objs x. (None, x)) [] ''generate'' (\<lambda>obj s x. (Some (obj, [7], s, None), x))
     (Some \<lparr>UniqueApplyForResourceVersion = True\<rparr>)"

definition ex_version_world :: "string list \<Rightarrow> (VmwareSource, nat, nat) handler_world" where
  "ex_version_world vs = \<lparr>ext = 0, log = map (\<lambda>v. ObjectsApplied (ex_vmware v) [7] True) vs\<rparr>"

lemmas ex_generating_defs = ex_generating_def RegisterVmwareSourceGeneratingHandler_def
  RegisterGeneratingHandler_def RegisterStatusHandler_def statusHandler_sync_def
  generatingHandler_Handle_def isNewResourceVersion_def storeResourceVersion_def
  set_condition_error_def ex_version_world_def

lemma ex_vmware_meta: "at_Meta vmware_type (ex_vmware v) =
    empty_meta\<lparr>Namespace := ''default'', Name := ''src'', ResourceVersion := v\<rparr>"
  "DeletionTimestamp (vmware_Meta (ex_vmware v)) = None"
  by (simp_all add: vmware_type_def ex_vmware_def empty_meta_def)

text \<open>A version that is applied, and one that is not.\<close>

lemma ex_applies:
  "handler_runs ex_generating Map.empty [''default/src'' \<mapsto> u] (ex_version_world vs) \<Longrightarrow> u \<noteq> v \<Longrightarrow>
   handler_runs ex_generating Map.empty [''default/src'' \<mapsto> v] (ex_version_world (vs @ [v]))"
  by (erule RunsHandler [where key = "''default/src''" and obj = "Some (ex_vmware v)" and name = "''generate''"
        and h = "snd (ex_generating ! 1)"])
    (simp_all add: ex_generating_defs ex_vmware_meta query_def effect_def empty_meta_def Let_def)

lemma ex_first_apply:
  "handler_runs ex_generating Map.empty [''default/src'' \<mapsto> v] (ex_version_world [v])"
  by (rule RunsHandler [where key = "''default/src''" and obj = "Some (ex_vmware v)" and name = "''generate''"
        and h = "snd (ex_generating ! 1)", OF RunsStart [of "ex_version_world []"]])
    (simp_all add: ex_generating_defs ex_vmware_meta query_def effect_def empty_meta_def Let_def)

lemma generating_applies_once_witness:
  "handler_runs ex_generating Map.empty [''default/src'' \<mapsto> ''1''] (ex_version_world [''1'', ''2'', ''1'']) \<and>
   (\<exists>e \<in> set [ObjectsApplied (ex_vmware ''2'') [7::nat] True].
      releases vmware_type (object_key vmware_type (ex_vmware ''1'')) (object_version vmware_type (ex_vmware ''1'')) e)"
proof -
  have run: "handler_runs ex_generating Map.empty [''default/src'' \<mapsto> ''1''] (ex_version_world [''1'', ''2'', ''1''])"
    using ex_applies [OF ex_applies [OF ex_first_apply, of "''1''" "''2''"], of "''1''"] by simp
  show ?thesis
    using run generating_applies_once [OF run [unfolded ex_generating_def RegisterVmwareSourceGeneratingHandler_def],
        where es = "[]" and gs = "[]" and ok = True and ?cs1.0 = "[7]" and ?cs2.0 = "[7]" and ?o1.0 = "ex_vmware ''1''"
          and ?o2.0 = "ex_vmware ''1''"]
    by (simp add: ex_version_world_def)
qed

end
