(* ===== verification/Spec2Isabelle.thy ===== *)
theory Spec2Isabelle
  imports Program SourceControllers ClientExamples Cooperation SourceCache Startup OpenstackEnv Logging
    CopyIsolation GeneratedHandlers
begin

text \<open>
  A verification library for the vm-import-controller: the Kubernetes controller that imports virtual
  machines from vSphere, OpenStack and OVA archives into a Harvester cluster.

  \<^bold>\<open>The program.\<close> The import controller
  (\<open>pkg/controllers/migration/virtualmachine.go\<close> and \<open>helper.go\<close>) drives each
  VirtualMachineImport object through a state machine kept in its status: preflight checks, sanitizing, shutdown
  and export of the source machine, creation of the disk images, following their import, creation of the
  KubeVirt machine, release of the images. It talks to the source through the interface VirtualMachineOperations
  with three implementations (\<open>pkg/source/vmware\<close>, \<open>pkg/source/ova\<close>,
  \<open>pkg/source/openstack\<close>), and to the target cluster through typed clients. Three small controllers
  (\<open>vmware.go\<close>, \<open>ova.go\<close>, \<open>openstack.go\<close>) check the source objects.
  \<open>main\<close> runs the controllers next to the file server from which the cluster downloads the exported
  images (\<open>main.go\<close>, \<open>pkg/controllers\<close>, \<open>pkg/crd\<close>,
  \<open>pkg/server\<close>).

  \<^bold>\<open>How the code is modelled.\<close> Structs are records, enumerations are datatypes, Go's errors
  are values of \<open>go_error\<close>, fallible functions return a sum or an optional error, and a panic (a
  nil dereference, an index out of range, a failed type assertion) is \<open>None\<close>. Integers keep their
  width as words where the code computes with them. The outside world is a record with an arbitrary state and a
  log: \<open>query\<close> asks it without a trace, \<open>effect\<close> and \<open>notify\<close> add the
  event they cause. Every function of the SDKs, of the operating system and of the cluster is a field of a
  record (\<open>virtualMachineHandler\<close>, \<open>system\<close>, \<open>vsphere\<close>,
  \<open>ova_sdk\<close>, \<open>openstack_sdk\<close>) and stays arbitrary: it may answer anything, and
  differently each time. Objects are values, and the deep copy a handler makes is implicit; CopyIsolation
  justifies this.

  \<^bold>\<open>Theories and sources.\<close>
    \<^item> Prelude, GoStd: optional results, the world and its log (\<open>emits\<close>), and the functions of Go's
      standard library that the code calls (strings, filepath, strconv).
    \<^item> ApiTypes, Sources: \<open>pkg/apis\<close>, the import and source objects with their accessors. The locale
      \<open>source_resource\<close> is Go's SourceInterface, interpreted on the three sources and on their sum.
    \<^item> Memory, DeepCopy: the generated deep copies of \<open>pkg/apis\<close> over a memory with pointers and slices; the
      locale \<open>deep_copy\<close> is their contract, interpreted on the structs. SliceUpdates: \<open>append\<close> and the
      functions of \<open>pkg/util/conditions.go\<close> on the arrays of that memory; the locale \<open>conditions_update\<close> is
      their contract. CopyIsolation: what the controller and the clients assign to a deep copy, in memory.
    \<^item> GeneratedTypes: the scheme, the constructors and the typed controllers and factory that the code
      generator declares. ResourceHandlers: the handlers of \<open>pkg/generated/controllers\<close>, whose four files
      are one text over the accessors of a type; the locale \<open>api_laws\<close> of HandlerHistory states what the
      accessors keep and is interpreted on the four types in GeneratedHandlers.
    \<^item> Conditions, StorageClasses, TempFiles: \<open>pkg/util\<close> and the file helpers of \<open>pkg/source\<close>. The locale
      \<open>condition_store\<close> states condition lists as a store and is interpreted on the code's functions.
    \<^item> VMSpec, NetworkMaps: \<open>pkg/source/helper.go\<close> and \<open>network.go\<close>. Logging: \<open>pkg/util/logrus.go\<close>.
    \<^item> Wiring, Events, Hypervisor: what the start registers, the events, the SDKs, the conversion of
      \<open>pkg/qemu\<close>.
    \<^item> Startup: the start of the process, the registration of the handlers, and the goroutines of \<open>main\<close>
      and of the file server as a step relation in which their steps interleave. The steps that the process
      owes (\<open>owed_step\<close>) are apart from a signal and a failure of the listener, which may never come.
    \<^item> Operations: VirtualMachineOperations as a record of functions, its contract as the locale
      \<open>vm_operations\<close>, and the handler of the import controller; a handler whose three constructors build
      clients that keep the contract is the locale \<open>import_handler\<close>.
    \<^item> ImportSource, ImportExport, ImportImages, ImportVM, ImportController: the import controller, in the
      order of its states; DiskStatus has the verdict over the disks.
    \<^item> VmwareClient, VmwareMachine, VmwareExport: \<open>pkg/source/vmware/client.go\<close>.
    \<^item> OvaEnvelope, OvaClient, OvaContract: \<open>pkg/source/ova/client.go\<close>.
    \<^item> OpenstackClient, OpenstackEnv, OpenstackExport, OpenstackContract: \<open>pkg/source/openstack/client.go\<close>.
    \<^item> SourceControllers: the controllers of the sources. SourceCache: the same controllers over the objects
      of the cluster and of the informer's cache, which they change in place, and the watch between the two.
    \<^item> Program: the handler linked to the three clients, as the interpretation \<open>program\<close> of \<open>import_handler\<close>.
    \<^item> ServedImages, ImportCompletion: how the files of an import come and go, and how an import ends.
    \<^item> Example, ExampleRun, ClientExamples, Cooperation: a world in which an import runs from start to end, and variants
      in which it fails; the witnesses of the properties are evaluated there.

  \<^bold>\<open>What is shown.\<close> ImportSpec is the abstract specification: \<open>import_step\<close>,
  the state machine over import objects; \<open>licensed\<close>, the calls one reconciliation may make;
  \<open>requested\<close>, the objects it may create. ImportRefinement proves that the code keeps to them.
  ImportInvariants derives what holds in every history (\<open>runs\<close>: any interleaving of reconciliations
  of possibly stale objects with edits of the specification), ImportProgress the wake-ups and the well-founded
  order of the writes, ImportProperties validation, forced power-off and the endings. ServedImages follows a
  disk through three parts of the program: the export of a client writes its file, the controller requests an
  image from the address of that file, the cleanup removes it; the locale \<open>vm_operations\<close> states
  what each client contributes. ImportCompletion shows that in a cooperative world every import ends
  (\<open>cluster_cooperates\<close>, \<open>source_cooperates\<close>), Startup that the start has one order
  and that the shutdown ends, and CopyIsolation that a deep copy lives in cells of its own, and that assignments
  to it, in place or by append, are what the model says and stay invisible to the original. SourceCache shows
  how a verdict on a source is lost. HandlerHistory shows what one status handler writes, and that the versions
  a generating handler has seen are a function of its log. The theories of the clients prove the contract and
  what is specific to each source: checksums before conversion, cleanup on every path, unique names, parsers
  that read back what is printed. A statement \<open>emits P w m\<close> says that, if \<open>m\<close> returns,
  all events it added to the log satisfy P; it says nothing about the events before a panic. Where a panic can
  happen is the subject of properties of its own.

  \<^bold>\<open>Bounds.\<close> No definition uses fuel: the loops range over lists, and the loop that waits for an
  uploaded image counts down its retry count, which the options of the source make positive.

  \<^bold>\<open>Assumptions about other code.\<close> The OpenStack SDK returns a non-nil result whenever it
  returns no error; a map of Go is iterated in an order given by a parameter (\<open>map_order\<close>), of
  which only one property assumes that it is a permutation. Error texts are kept, except for the printed machine
  object in the error of a failed machine creation. A status update answers with an error or with some object,
  both chosen by the cluster. The check of label names (\<open>IsDNS1123Label\<close>) is arbitrary; the
  property about served images assumes that it accepts no slash. Of \<open>errgroup\<close> and
  \<open>net/http\<close> the steps of the process take only what their documentation says, quoted in Startup;
  SourceCache takes from the documentation of the informers that a handler is given the object of the cache and
  not a copy, and it assumes that a write which fails leaves the object of the cluster alone and that a watch
  delivers an object whose resource version is new; a new list of the informer and a restart of the process are not among its steps. An
  opened manifest of an archive is read without an error of its reader, apart from a line that is too long. The
  deep copies of ObjectMeta and ListMeta, which another module defines, keep the contract
  \<open>deep_copy\<close>.

  \<^bold>\<open>Not modelled.\<close> The log entries that the code writes (only the conversion of their fields
  is); how net/http serves a file; the exit of the process on a second signal; the code generators; the vSphere
  and OpenStack fixtures of the tests.
\<close>

section \<open>The program\<close>

text \<open>
  The properties of this theory are about the program put together: the handler of the import
  controller with the three clients of the source tree (\<open>link\<close>), in an arbitrary world.
\<close>

abbreviation reconcile ::
  "'x virtualMachineHandler \<Rightarrow> VirtualMachineImport \<Rightarrow> 'x go_world \<Rightarrow>
   ((VirtualMachineImport option \<times> go_error option) \<times> 'x go_world) option" where
  "reconcile h vm w \<equiv> OnVirtualMachineChange h (Some vm) w"

section \<open>Safety\<close>

text \<open>
  C1. The controller refines its specification: every call by which one reconciliation of an
  import changes something outside the program is licensed for the object it has read. The
  status is written only along the steps of the state machine, images are created only for
  disks not yet submitted, the source machine is shut down, powered off and exported only when
  its conditions call for it, the machine that is created carries the disks of the import, and
  so on (\<open>ImportSpec\<close>).
\<close>

theorem program_refines_import_spec:
  "emits (licensed vm) w (reconcile (link h sys vs oa os) vm w)"
  by (rule program.OnVirtualMachineChange_licensed)

text \<open>What one write may change.\<close>

fun faithful_write :: "VirtualMachineImport \<Rightarrow> event \<Rightarrow> bool" where
  "faithful_write vm (EvUpdateStatus vm') \<longleftrightarrow>
     status_edge (status_of vm) (status_of vm') \<and>
     vm_Spec vm' = vm_Spec vm \<and> vm_Meta vm' = vm_Meta vm \<and>
     {c. has_cond c vm} \<subseteq> {c. has_cond c vm'}"
| "faithful_write vm ev \<longleftrightarrow> True"

lemma licensed_faithful: "licensed vm ev \<Longrightarrow> faithful_write vm ev"
  by (cases ev) (auto simp: import_step_edge import_step_frame import_step_mono)

text \<open>
  C4. Every status write follows an edge of the status graph, leaves the specification and the
  metadata of the import alone and takes back no condition of the import.
\<close>

theorem program_status_protocol:
  "emits (faithful_write vm) w (reconcile (link h sys vs oa os) vm w)"
  by (rule emits_mono [OF program.OnVirtualMachineChange_licensed licensed_faithful])

text \<open>
  C2. In every history that starts from a fresh import, with any interleaving of stale reads and
  of edits to the specification, each written object satisfies the invariant: the conditions tell
  a consistent story of shutdown, power-off and export; whenever images are submitted, followed or
  done, the export is recorded and every disk is submitted; when the images are ready or the machine
  exists, every disk is ready and none failed; and past validation the name is lower case.
\<close>

theorem program_invariant:
  "runs (link h sys vs oa os) vm \<Longrightarrow> conditions_inv vm \<and> status_inv vm"
  using program.runs_conditions program.runs_status by blast

theorem program_invariant_witness:
  "conditions_inv ex9 \<and> status_inv ex9 \<and> status_of ex9 = VirtualMachineRunning"
  using program_invariant [OF ex_runs(10) [unfolded ex_program_def]] by (simp add: ex9_def)

text \<open>
  C5. The disks are exported at most once: once an import records a finished export, good or
  bad, no later reconciliation of it calls the export of the source client again.
\<close>

theorem program_exports_once:
  assumes "later (link h sys vs oa os) vm v"
    and "has_cond VirtualMachineExported vm \<or> has_cond VirtualMachineExportFailed vm"
  shows "\<not> calls (link h sys vs oa os) v (EvExport u)"
  using program.later_mono [OF assms(1)] assms(2) program.calls_licensed
  by (fastforce simp: export_enabled_def)

theorem program_exports_once_witness:
  "\<not> calls ex_program ex6 (EvExport ex4)"
  using program_exports_once [OF ex_later(1) [unfolded ex_program_def]]
  by (simp add: ex_program_def ex5_def)

text \<open>
  C9. Images are created at most once per import: from the first object on in which all disks are
  submitted, no reconciliation creates an image, whatever fails and however often the failed images
  are resubmitted.
\<close>

theorem program_creates_images_once:
  assumes "runs (link h sys vs oa os) vm" "has_images vm" "later (link h sys vs oa os) vm v"
  shows "\<not> calls (link h sys vs oa os) v (EvImageCreate img)"
proof -
  have "settled_images vm"
    using program.runs_status [OF assms(1)] assms(2)
    by (simp add: status_inv_def settled_images_def)
  then have "settled_images v"
    by (rule program.later_settled [OF assms(3)])
  then show ?thesis
    using settled_no_create program.calls_licensed by blast
qed

theorem program_creates_images_once_witness:
  "\<not> calls ex_program ex8_again (EvImageCreate ex_new_image)"
  using program_creates_images_once [OF ex_runs(11) [unfolded ex_program_def] _
      ex_later(2) [unfolded ex_program_def]]
  by (simp add: ex_program_def has_images_def ex7_failed_def)

text \<open>
  C30. A resubmission cannot succeed once its image is gone. It deletes the failed image but keeps
  the disk's record of a submitted image, so no later reconciliation creates one; and as long
  as the target cluster reports the recorded image of some unfinished disk as missing, every
  reconciliation of an import that follows its images ends in an error and writes nothing.
\<close>

theorem program_resubmission_stuck:
  assumes "status_of vm = DiskImagesSubmitted" "DeletionTimestamp (vm_Meta vm) = None"
    and "d \<in> set (disks_of vm)" "\<not> disk_has VirtualMachineImageReady d"
    and "\<And>x. \<exists>e x'. vmi_Get h (vm_Namespace vm) (DiskImage d) x = (Inl e, x')"
  shows "\<exists>r e w'. reconcile (link h sys vs oa os) vm w = Some ((r, Some e), w') \<and> log w' = log w"
proof -
  have "vmi_Get (link h sys vs oa os) = vmi_Get h"
    by (simp add: link_def)
  then show ?thesis
    using follow_lost [of "link h sys vs oa os" vm d w, OF _ assms(4,3)] assms(1,2,5)
    by (simp add: OnVirtualMachineChange_def reconcile_status_def)
qed

theorem program_resubmission_stuck_witness:
  "\<exists>r e w'. reconcile ex_lost_program ex6 (ex_world 2 []) = Some ((r, Some e), w') \<and>
     log w' = log (ex_world 2 [])"
  unfolding ex_lost_program_def
  by (rule program_resubmission_stuck [where d = "ex_disk_with [VirtualMachineImageSubmitted]"])
    (simp_all add: ex_disk_with_def)

text \<open>A machine KubeVirt can run: every disk has its volume, every interface its network.\<close>

definition well_formed :: "VirtualMachine \<Rightarrow> bool" where
  "well_formed v \<longleftrightarrow>
     map disk_Name (Disks (kv_Spec v)) = map vol_Name (Volumes (kv_Spec v)) \<and>
     distinct (map vol_Name (Volumes (kv_Spec v))) \<and>
     map BootOrder (Disks (kv_Spec v)) = map (\<lambda>i. word_of_nat (Suc i)) [0..<length (Disks (kv_Spec v))] \<and>
     map if_Name (Interfaces (kv_Spec v)) = map net_Name (Networks (kv_Spec v)) \<and>
     distinct (map net_Name (Networks (kv_Spec v))) \<and> Networks (kv_Spec v) \<noteq> []"

fun well_formed_create :: "VirtualMachineImport \<Rightarrow> event \<Rightarrow> bool" where
  "well_formed_create vm (EvVMCreate v) \<longleftrightarrow>
     well_formed v \<and> map ClaimName (Volumes (kv_Spec v)) = map DiskImage (disks_of vm) \<and>
     map disk_Bus (Disks (kv_Spec v)) = map BusType (disks_of vm) \<and>
     Name (kv_Meta v) = imported_name vm \<and> Labels (kv_Meta v) labelImported = Some ''true''"
| "well_formed_create vm ev \<longleftrightarrow> True"

lemma licensed_well_formed: "licensed vm ev \<Longrightarrow> well_formed_create vm ev"
proof (cases ev)
  case (EvVMCreate v)
  assume "licensed vm ev"
  then have "machine_for vm v" using EvVMCreate by simp
  moreover from this have "volumes_loop 0 (disks_of vm) = (Volumes (kv_Spec v), Disks (kv_Spec v))"
    by (simp add: machine_for_def)
  ultimately show ?thesis
    using EvVMCreate distinct_volume_names [of 0 "disks_of vm"] volumes_loop_shape [of 0 "disks_of vm"]
    by (auto simp: machine_for_def well_formed_def)
qed simp_all

text \<open>
  C11. Every machine the controller creates is well formed: each disk has a volume of the same name and
  these names are different, the boot order counts from 1, each interface has a network of the same
  name and these names are different; its volumes claim the images of the disks of the import in
  order, with their buses, and it carries the name and the label of the import.
\<close>

theorem program_machines_well_formed:
  "emits (well_formed_create vm) w (reconcile (link h sys vs oa os) vm w)"
  by (rule emits_mono [OF program.OnVirtualMachineChange_licensed licensed_well_formed])

text \<open>
  C16. A running source machine is only powered off by force when the import asks for it, or when the
  graceful shutdown has run longer than the timeout of the import by the clock of the controller.
\<close>

theorem program_power_off_due:
  "emits (power_off_due (link h sys vs oa os) vm) w (reconcile (link h sys vs oa os) vm w)"
  by (rule program.OnVirtualMachineChange_power_off)

text \<open>
  C8. Nothing is created twice: the controller creates an image only for an unsubmitted disk of which
  the cluster holds no image, with the contents the import asks for (the storage class of the import
  and the backend that class stands for, if it names one); a volume claim only for an image with a
  backing image and a claim reported as not found; and the machine only when the lookup yields no
  machine that carries the label of an import.
\<close>

theorem program_creates_missing:
  "emits (requested (link h sys vs oa os) vm) w (reconcile (link h sys vs oa os) vm w)"
  by (rule program.OnVirtualMachineChange_requested)

text \<open>
  C10. An import is declared valid only when it names the API version of the sources, its source
  exists and is ready, no source network is mapped twice, every destination network is well formed and
  found, and the storage class, if it names one, exists.
\<close>

theorem program_validates:
  "emits (validated (link h sys vs oa os) vm) w (reconcile (link h sys vs oa os) vm w)"
  by (rule program.OnVirtualMachineChange_validated)

text \<open>
  C6. What the cluster is told to download is there. In every history of an import, an image is
  requested only for a disk of the import, from the address of the controller's file server under the
  name of the disk; and an earlier reconciliation of the same import has written the file of that name
  into the directory the server serves, by a conversion or a download that succeeded. The only
  exception is a disk whose file in the archive has no name of its own, for which the name is
  just the extension.
\<close>

theorem program_images_served:
  assumes "runs (link h sys vs oa os) vm" "calls (link h sys vs oa os) vm (EvImageCreate img)"
    and "\<And>s. IsDNS1123Label h s = [] \<Longrightarrow> CHR ''/'' \<notin> set s"
  shows "\<exists>d \<in> set (disks_of vm). served (link h sys vs oa os) vm d \<and>
    URL img = ''http://'' @ server_Address (svcAddress h) @ '':'' @ show_int DefaultPort @ ''/'' @ DiskName d"
proof -
  have same: "IsDNS1123Label (link h sys vs oa os) = IsDNS1123Label h"
    "svcAddress (link h sys vs oa os) = svcAddress h"
    by (simp_all add: link_def)
  have "requested (link h sys vs oa os) vm (EvImageCreate img)"
    using assms(2) program.OnVirtualMachineChange_requested
    unfolding calls_def emits_def by (fastforce simp: list_all_iff)
  then obtain d where d: "d \<in> set (disks_of vm)" "image_request (link h sys vs oa os) vm d img"
    by auto
  have "licensed vm (EvImageCreate img)"
    using assms(2) by (rule program.calls_licensed)
  then have "has_cond VirtualMachineExported vm"
    using program.runs_status [OF assms(1)] by (auto simp: status_inv_def)
  then have "served (link h sys vs oa os) vm d"
    using program.runs_served [OF assms(1) _ _ d(1)] assms(3) by (simp add: same)
  then show ?thesis
    using program.image_request_URL [OF d(2)] d(1) by (auto simp: same)
qed

theorem program_images_served_witness:
  "\<exists>d \<in> set (disks_of ex5). served ex_program ex5 d \<and>
     URL ex_new_image = ''http://'' @ server_Address (svcAddress ex_handler) @ '':'' @ show_int DefaultPort @
       ''/'' @ DiskName d"
proof -
  have "calls ex_program ex5 (EvImageCreate ex_new_image)"
    using ex_write6 [of 0 "[]"] unfolding calls_def by fastforce
  then show ?thesis
    unfolding ex_program_def
    by (rule program_images_served [OF ex_runs(6) [unfolded ex_program_def]])
      (simp add: ex_handler_def split: if_splits)
qed

text \<open>
  C13. The files of an import go with it: when a reconciliation or the removal of an import calls
  the cleanup of the source client, it calls it for this import, and the file of every disk of the
  import is asked to be removed from the directory of the file server.
\<close>

theorem program_files_removed:
  assumes "reconcile (link h sys vs oa os) vm w = Some (r, w') \<or>
      OnVirtualMachineRemove (link h sys vs oa os) (Some vm) w = Some (r, w')"
    and "log w' = log w @ es" "EvCleanup u \<in> set es"
  shows "u = vm \<and> (\<forall>d \<in> set (disks_of vm). EvFileRemove (filepath_Join [TempDir, DiskName d]) \<in> set es)"
proof -
  have "cleans_files vm es"
    using assms(1,2) program.OnVirtualMachineChange_files program.OnVirtualMachineRemove_files by blast
  moreover have "u = vm"
    using assms(1)
  proof
    assume "reconcile (link h sys vs oa os) vm w = Some (r, w')"
    then have "list_all (licensed vm) es"
      using emitsD [OF program.OnVirtualMachineChange_licensed] assms(2) by fastforce
    then show ?thesis
      using assms(3) by (auto simp: list_all_iff)
  next
    assume "OnVirtualMachineRemove (link h sys vs oa os) (Some vm) w = Some (r, w')"
    then have "finalCleanup (link h sys vs oa os) vm w = Some (r, w')"
      by (simp add: OnVirtualMachineRemove_def)
    then have "list_all (only_cleanup vm) es"
      using emitsD [OF program.finalCleanup_only] assms(2) by fastforce
    then show ?thesis
      using assms(3) by (auto simp: list_all_iff)
  qed
  ultimately show ?thesis
    using assms(3) by (auto simp: cleans_files_def image_paths_def)
qed

theorem program_files_removed_witness:
  "EvFileRemove (filepath_Join [TempDir, ''box-box-disk1.img'']) \<in> set ex_finish_log"
proof -
  have "ex9 = ex9 \<and> (\<forall>d \<in> set (disks_of ex9). EvFileRemove (filepath_Join [TempDir, DiskName d]) \<in> set ex_finish_log)"
    by (rule program_files_removed [OF disjI1 [OF ex_finish [of "[]", unfolded ex_program_def]]])
      (simp_all add: ex_finish_log_def)
  then show ?thesis
    by (simp add: ex_disk_with_def ex_disk_def)
qed

section \<open>Endings\<close>

text \<open>
  C12. A successful reconciliation of a running import takes the import out of the owners of the image
  of every disk, in order, before anything is cleaned up, and changes nothing else in the cluster.
\<close>

theorem program_releases_images:
  assumes "reconcile (link h sys vs oa os) vm w = Some ((r, None), w')"
    and "status_of vm = VirtualMachineRunning" "DeletionTimestamp (vm_Meta vm) = None"
  shows "\<exists>imgs es. log w' = log w @ map (\<lambda>img. EvImageUpdate (released vm img)) imgs @ es \<and>
    list_all2 (\<lambda>d img. \<exists>x x'. vmi_Get h (vm_Namespace vm) (DiskImage d) x = (Inr img, x')) (disks_of vm) imgs \<and>
    list_all (only_cleanup vm) es"
proof -
  have "finishImport (link h sys vs oa os) vm w = Some ((r, None), w')"
    using assms by (simp add: OnVirtualMachineChange_def reconcile_status_def)
  moreover have "vmi_Get (link h sys vs oa os) = vmi_Get h"
    by (simp add: link_def)
  ultimately show ?thesis
    using program.finishImport_spec [of h sys vs oa os vm w r w'] by (simp only:)
qed

theorem program_releases_images_witness:
  "\<exists>imgs es. log (ex_world 0 ex_finish_log) = log (ex_world 0 []) @ map (\<lambda>img. EvImageUpdate (released ex9 img)) imgs @ es \<and>
    list_all2 (\<lambda>d img. \<exists>x x'. vmi_Get ex_handler (vm_Namespace ex9) (DiskImage d) x = (Inr img, x')) (disks_of ex9) imgs \<and>
    list_all (only_cleanup ex9) es"
  by (rule program_releases_images [OF ex_finish [of "[]", simplified, unfolded ex_program_def]]) simp_all

text \<open>
  A removed import is cleaned up by its source client and nothing else happens: the handler never
  returns an error, and calls nothing that changes the cluster or the source.
\<close>

theorem program_remove:
  "case OnVirtualMachineRemove (link h sys vs oa os) (Some vm) w of
     None \<Rightarrow> True
   | Some (r, w') \<Rightarrow> r = (None, None) \<and> (\<exists>es. log w' = log w @ es \<and> list_all (only_cleanup vm) es)"
proof (cases "OnVirtualMachineRemove (link h sys vs oa os) (Some vm) w")
  case (Some p)
  then obtain r w' where f: "p = (r, w')" "finalCleanup (link h sys vs oa os) vm w = Some (r, w')"
    by (cases p) (simp add: OnVirtualMachineRemove_def)
  show ?thesis
    using Some f(1) program.finalCleanup_result [OF f(2)] emitsD [OF program.finalCleanup_only f(2)]
    by simp
qed simp

text \<open>
  C33. A source that disappears after the import was validated stops the program: the sentinel error of
  the client construction comes with a nil import, and the handler dereferences it.
\<close>

theorem program_lost_source_panics:
  assumes "status_of vm = VirtualMachineImportValid" "DeletionTimestamp (vm_Meta vm) = None"
    and "generateSource (link h sys vs oa os) vm w = (Inl e, w')"
  shows "reconcile (link h sys vs oa os) vm w = None"
  using assms(1,2) sanitize_lost_source [OF assms(3)]
  by (simp add: OnVirtualMachineChange_def reconcile_status_def)

theorem program_lost_source_panics_witness:
  "reconcile ex_program (ex_lost_source ex1) (ex_world 0 []) = None"
  unfolding ex_program_def
  by (rule program_lost_source_panics [OF _ _ ex_lost_source [unfolded ex_program_def]])
    (simp_all add: ex_lost_source_def ex1_def)

text \<open>
  The watch on images leads back: when an image is created for an import whose kind is known, its
  events enqueue that import, under its own namespace and name.
\<close>

theorem program_watch_returns:
  assumes "strings_EqualFold (vm_Kind vm) ''virtualmachineimport''"
  shows "emits (\<lambda>ev. \<forall>img. ev = EvImageCreate img \<longrightarrow> ReconcileVMI (Some img) = [(vm_Namespace vm, vm_Name vm)]) w
    (reconcile (link h sys vs oa os) vm w)"
proof (rule emits_mono [OF program.OnVirtualMachineChange_requested], clarify)
  fix img
  assume "requested (link h sys vs oa os) vm (EvImageCreate img)"
  then obtain d sc where "img = submitted_image (link h sys vs oa os) vm d sc"
    by (auto simp: image_request_def split: if_splits)
  then show "ReconcileVMI (Some img) = [(vm_Namespace vm, vm_Name vm)]"
    using assms by (simp add: ReconcileVMI_def submitted_image_meta)
qed

theorem program_watch_returns_witness:
  "ReconcileVMI (Some ex_new_image) = [(vm_Namespace ex5, vm_Name ex5)]"
proof -
  have "strings_EqualFold (vm_Kind ex5) ''virtualmachineimport''" by code_simp
  then show ?thesis
    using emitsD [OF program_watch_returns ex_write6 [where m = 0 and es = "[]", unfolded ex_program_def]]
    by auto
qed

section \<open>Liveness\<close>

text \<open>
  C3. An import that meets no obstacle is completed. When the source is ready and its client does
  what it is asked for an import named \<open>n\<close>, and the cluster accepts every object and imports the
  images, eight reconciliations, each of the object the one before has written, take a fresh import
  to the created machine, with all disks imported; and as soon as the cluster reports that machine
  as ready, the ninth declares the import running.
\<close>

theorem program_completes:
  assumes "cluster_cooperates (link h sys vs oa os) vm" "source_cooperates (link h sys vs oa os) vm n supported"
    and "DeletionTimestamp (vm_Meta vm) = None" "fresh vm"
  shows "\<exists>v u. rounds (link h sys vs oa os) 8 vm w = Some (v, u) \<and>
    status_of v = VirtualMachineCreated \<and> imported_name v = n \<and> vm_Spec v = vm_Spec vm \<and>
    disks_of v \<noteq> [] \<and> list_all disk_clean (disks_of v) \<and>
    (\<forall>m x. kubevirt_Get h (vm_Namespace vm) n (ext u) = (Inr m, x) \<and> kv_Ready m \<longrightarrow>
       (\<exists>u'. rounds (link h sys vs oa os) 9 vm w = Some (set_Status VirtualMachineRunning v, u')))"
proof -
  have "kubevirt_Get (link h sys vs oa os) = kubevirt_Get h"
    by (simp add: link_def)
  then show ?thesis
    using program.import_completes [OF assms, of w]
    by (simp only: at_status_def same_import_def) blast
qed

theorem program_completes_witness:
  "\<exists>v u. rounds ex_happy 8 ex_import (ex_world 0 []) = Some (v, u) \<and>
    status_of v = VirtualMachineCreated \<and> imported_name v = ''box'' \<and> vm_Spec v = vm_Spec ex_import \<and>
    disks_of v \<noteq> [] \<and> list_all disk_clean (disks_of v) \<and>
    (\<forall>m x. kubevirt_Get ex_handler (vm_Namespace ex_import) ''box'' (ext u) = (Inr m, x) \<and> kv_Ready m \<longrightarrow>
       (\<exists>u'. rounds ex_happy 9 ex_import (ex_world 0 []) = Some (set_Status VirtualMachineRunning v, u')))"
  using program_completes [OF ex_happy_cluster [unfolded ex_happy_def] ex_happy_source [unfolded ex_happy_def] _ ex_fresh,
      where w = "ex_world 0 []"]
  by (simp add: ex_happy_def)

text \<open>
  C14. No import is left behind: a reconciliation without an error of an import that is neither
  finished nor waiting for its images writes a changed object or asks to be called again.
\<close>

theorem program_wakes_up:
  assumes "reconcile (link h sys vs oa os) vm w = Some ((r, None), w')"
    and "DeletionTimestamp (vm_Meta vm) = None"
    and "status_of vm \<in> {StatusUnset, VirtualMachineImportValid, SourceReady, DisksExported,
      DiskImagesFailed, DiskImagesReady, VirtualMachineCreated}"
  shows "\<exists>es. log w' = log w @ es \<and> list_ex (wakes vm) es"
proof -
  have "signals (wakes vm) w (reconcile_status (link h sys vs oa os) vm w)"
    by (rule program.reconcile_wakes [OF assms(3)])
  then show ?thesis
    using assms(1,2) by (simp add: OnVirtualMachineChange_def signals_def)
qed

theorem program_wakes_up_witness:
  "\<exists>es. log (ex_world 0 [EvUpdateStatus ex1]) = log (ex_world 0 []) @ es \<and> list_ex (wakes ex_import) es"
  by (rule program_wakes_up [OF ex_write1 [where es = "[]", simplified, unfolded ex_program_def]]) simp_all

text \<open>
  C15. The controller cannot keep changing an import for ever: the writes that change an import,
  resubmissions of failed images apart, decrease a well-founded order.
\<close>

theorem program_writes_terminate:
  "wf {(vm', vm). writes (link h sys vs oa os) vm vm' \<and> vm' \<noteq> vm \<and> status_of vm \<noteq> DiskImagesFailed}"
proof (rule wf_subset [OF wf_ahead], clarify)
  fix vm' vm
  assume "writes (link h sys vs oa os) vm vm'" "vm' \<noteq> vm" "status_of vm \<noteq> DiskImagesFailed"
  then show "(vm', vm) \<in> ahead"
    using program.writes_import_step import_step_ahead by blast
qed

end
